(* ===== verification/Prelude.thy ===== *)
theory Prelude
  imports Main "HOL-Library.Char_ord" "HOL-Library.List_Lexorder" "HOL-Library.Word"
begin

text \<open>
  Shared vocabulary of the development: the Go data the program uses everywhere (byte strings,
  string maps, fixed-width integers, durations, errors, format messages) and the functions of
  Go's own library on them (\<open>strings\<close>, \<open>strconv.Itoa\<close>, \<open>sort.Strings\<close>), with the generic
  lemmas the component theories reuse. A Go string is a byte string, so it is a \<open>string\<close> whose
  \<open>char\<close>s are bytes. A Go map is an association list; only the binding found by \<open>map_of\<close>
  counts, and Go's unspecified iteration order is the order of the list.
\<close>

named_theorems wrap_simps \<open>reading fixed-width integers that did not overflow\<close>

type_synonym gomap = "(string \<times> string) list"
type_synonym duration = int
type_synonym gotime = int

section \<open>Fixed-width integers\<close>

text \<open>
  \<open>int32\<close> and \<open>int64\<close> values are integers kept in range by \<open>wrap32\<close> and \<open>wrap64\<close> after every
  operation that can leave it, as Go's two's complement arithmetic does. A \<open>time.Duration\<close> is an
  \<open>int64\<close> count of nanoseconds; a \<open>time.Time\<close> is its distance from the epoch in nanoseconds.
\<close>

definition wrap32 :: "int \<Rightarrow> int" where
  "wrap32 x = (x + 2 ^ 31) mod 2 ^ 32 - 2 ^ 31"

definition wrap64 :: "int \<Rightarrow> int" where
  "wrap64 x = (x + 2 ^ 63) mod 2 ^ 64 - 2 ^ 63"

abbreviation maxInt64 :: int where "maxInt64 \<equiv> 2 ^ 63 - 1"
abbreviation minInt64 :: int where "minInt64 \<equiv> - (2 ^ 63)"
abbreviation maxInt32 :: int where "maxInt32 \<equiv> 2 ^ 31 - 1"

lemma wrap32_id [wrap_simps]: "- (2 ^ 31) \<le> x \<Longrightarrow> x < 2 ^ 31 \<Longrightarrow> wrap32 x = x"
  unfolding wrap32_def by (subst mod_pos_pos_trivial) auto

lemma wrap64_id [wrap_simps]: "- (2 ^ 63) \<le> x \<Longrightarrow> x < 2 ^ 63 \<Longrightarrow> wrap64 x = x"
  unfolding wrap64_def by (subst mod_pos_pos_trivial) auto

lemma wrap32_range: "- (2 ^ 31) \<le> wrap32 x \<and> wrap32 x < 2 ^ 31"
proof -
  have "0 \<le> (x + 2 ^ 31) mod 2 ^ 32" and "(x + 2 ^ 31) mod 2 ^ 32 < 2 ^ 32" by simp_all
  then show ?thesis unfolding wrap32_def by (simp add: algebra_simps)
qed

lemma wrap64_range: "- (2 ^ 63) \<le> wrap64 x \<and> wrap64 x < 2 ^ 63"
proof -
  have "0 \<le> (x + 2 ^ 63) mod 2 ^ 64" and "(x + 2 ^ 63) mod 2 ^ 64 < 2 ^ 64" by simp_all
  then show ?thesis unfolding wrap64_def by (simp add: algebra_simps)
qed

section \<open>Durations and times\<close>

abbreviation millisecond :: duration where "millisecond \<equiv> 1000000"
abbreviation second :: duration where "second \<equiv> 1000000000"
abbreviation minute :: duration where "minute \<equiv> 60000000000"

text \<open>\<open>t.Sub(u)\<close> saturates at the ends of \<open>int64\<close>; \<open>t.Add(d)\<close> does not wrap.\<close>

definition time_Sub :: "gotime \<Rightarrow> gotime \<Rightarrow> duration" where
  "time_Sub t u = max minInt64 (min maxInt64 (t - u))"

lemma time_Sub_id [wrap_simps]:
  "minInt64 \<le> t - u \<Longrightarrow> t - u \<le> maxInt64 \<Longrightarrow> time_Sub t u = t - u"
  by (simp add: time_Sub_def)

lemma time_Sub_mono: "t \<le> t' \<Longrightarrow> time_Sub t u \<le> time_Sub t' u"
  by (auto simp: time_Sub_def)

text \<open>
  \<open>d.Round(time.Second)\<close>: to the nearest multiple, halves away from zero. The result is only
  ever printed here.
\<close>

definition dur_Round :: "duration \<Rightarrow> duration \<Rightarrow> duration" where
  "dur_Round d m =
     (if m \<le> 0 then d
      else let r = \<bar>d\<bar> mod m; a = (if r + r < m then \<bar>d\<bar> - r else \<bar>d\<bar> + (m - r))
           in max minInt64 (min maxInt64 (sgn d * a)))"

section \<open>Errors and format messages\<close>

text \<open>
  Errors of the Kubernetes API carry a reason the program tests (\<open>apierrors.IsNotFound\<close>,
  \<open>apierrors.IsAlreadyExists\<close>). An error made by \<open>fmt.Errorf\<close> and a message passed to a
  \<open>fmt\<close>-style function are kept as the format string and its arguments, the arguments the
  source passes; the text they print is not computed.
\<close>

datatype apierr = NotFound | AlreadyExists | OtherStatus string

datatype goerr =
    Errorf string "fmt_arg list"
  | ApiError apierr
  | ExtError string
  | Aggregate "goerr list"
and fmt_arg =
    AStr string
  | AInt int
  | ADur duration
  | ATime gotime
  | AErr goerr
  | AMsg string "fmt_arg list"

datatype message = Msg string "fmt_arg list"

fun msg_arg :: "message \<Rightarrow> fmt_arg" where
  "msg_arg (Msg f as) = AMsg f as"

text \<open>A result is an error or a value; \<open>map_res\<close> acts on the value.\<close>

fun map_res :: "('a \<Rightarrow> 'b) \<Rightarrow> 'e + 'a \<Rightarrow> 'e + 'b" where
  "map_res f (Inl e) = Inl e"
| "map_res f (Inr x) = Inr (f x)"

lemma map_res_comp [simp]: "map_res f (map_res g r) = map_res (\<lambda>x. f (g x)) r"
  by (cases r) simp_all

lemma map_res_Inr: "map_res f r = Inr y \<longleftrightarrow> (\<exists>x. r = Inr x \<and> y = f x)"
  by (cases r) auto

lemma map_res_Inl: "map_res f r = Inl e \<longleftrightarrow> r = Inl e"
  by (cases r) auto

section \<open>Maps\<close>

text \<open>\<open>m[k]\<close> on a \<open>map[string]string\<close>: the zero value when the key is absent.\<close>

definition mget :: "gomap \<Rightarrow> string \<Rightarrow> string" where
  "mget m k = (case map_of m k of None \<Rightarrow> [] | Some v \<Rightarrow> v)"

text \<open>\<open>m[k] = v\<close>.\<close>

fun mput :: "string \<Rightarrow> 'a \<Rightarrow> (string \<times> 'a) list \<Rightarrow> (string \<times> 'a) list" where
  "mput k v [] = [(k, v)]"
| "mput k v ((k', v') # m) = (if k = k' then (k, v) # m else (k', v') # mput k v m)"

lemma map_of_mput [simp]: "map_of (mput k v m) = (map_of m)(k \<mapsto> v)"
  by (induction m rule: mput.induct) auto

lemma mput_keys: "fst ` set (mput k v m) = insert k (fst ` set m)"
  by (induction k v m rule: mput.induct) auto

lemma distinct_mput: "distinct (map fst m) \<Longrightarrow> distinct (map fst (mput k v m))"
proof (induction k v m rule: mput.induct)
  case (2 k v k' v' m)
  then show ?case using mput_keys [of k v m] by auto
qed simp

lemma mget_mput: "mget (mput k v m) k' = (if k' = k then v else mget m k')"
  by (simp add: mget_def)

lemma mget_Nil [simp]: "mget [] k = []"
  by (simp add: mget_def)

section \<open>Strings\<close>

text \<open>
  \<open>strings.ToLower\<close> on the ASCII letters; bytes from \<open>0x80\<close> up (the encodings of the other
  letters) are left as they are.
\<close>

definition ToLowerByte :: "char \<Rightarrow> char" where
  "ToLowerByte c = (let n = (of_char c :: nat) in if 65 \<le> n \<and> n \<le> 90 then char_of (n + 32) else c)"

definition ToLower :: "string \<Rightarrow> string" where
  "ToLower = map ToLowerByte"

lemma ToLowerByte_idem [simp]: "ToLowerByte (ToLowerByte c) = ToLowerByte c"
  by (auto simp: ToLowerByte_def Let_def)

lemma ToLower_idem [simp]: "ToLower (ToLower s) = ToLower s"
  by (simp add: ToLower_def)

lemma ToLower_eq_Nil [simp]: "ToLower s = [] \<longleftrightarrow> s = []"
  by (simp add: ToLower_def)

text \<open>\<open>strings.TrimRight(s, cutset)\<close> for a cutset of ASCII characters.\<close>

definition TrimRight :: "string \<Rightarrow> string \<Rightarrow> string" where
  "TrimRight s cs = rev (dropWhile (\<lambda>c. c \<in> set cs) (rev s))"

lemma TrimRight_last: "TrimRight s cs \<noteq> [] \<Longrightarrow> last (TrimRight s cs) \<notin> set cs"
  unfolding TrimRight_def
  by (metis hd_dropWhile last_rev rev_is_Nil_conv)

lemma TrimRight_idem [simp]: "TrimRight (TrimRight s cs) cs = TrimRight s cs"
  by (simp add: TrimRight_def)

text \<open>\<open>strings.HasPrefix\<close>, \<open>strings.Contains\<close> and \<open>strings.Join\<close>.\<close>

fun HasPrefix :: "string \<Rightarrow> string \<Rightarrow> bool" where
  "HasPrefix s [] = True"
| "HasPrefix [] (p # ps) = False"
| "HasPrefix (c # s) (p # ps) = (c = p \<and> HasPrefix s ps)"

lemma HasPrefix_iff: "HasPrefix s p \<longleftrightarrow> (\<exists>t. s = p @ t)"
  by (induction s p rule: HasPrefix.induct) auto

lemma HasPrefix_append [simp]: "HasPrefix (p @ t) p"
  by (auto simp: HasPrefix_iff)

fun Contains :: "string \<Rightarrow> string \<Rightarrow> bool" where
  "Contains [] sub = (sub = [])"
| "Contains (c # s) sub = (HasPrefix (c # s) sub \<or> Contains s sub)"

lemma Contains_iff: "Contains s sub \<longleftrightarrow> (\<exists>a b. s = a @ sub @ b)"
proof (induction s)
  case (Cons c s)
  show ?case
  proof
    assume "Contains (c # s) sub"
    then show "\<exists>a b. c # s = a @ sub @ b"
      using Cons by (metis Contains.simps(2) HasPrefix_iff append.left_neutral append_Cons)
  next
    assume "\<exists>a b. c # s = a @ sub @ b"
    then obtain a b where ab: "c # s = a @ sub @ b" by blast
    show "Contains (c # s) sub"
    proof (cases a)
      case Nil
      then have "HasPrefix (c # s) sub" using ab by (auto simp: HasPrefix_iff)
      then show ?thesis by simp
    next
      case (Cons x xs)
      then show ?thesis using ab \<open>Contains s sub \<longleftrightarrow> _\<close> by auto
    qed
  qed
qed auto

fun Join :: "string list \<Rightarrow> string \<Rightarrow> string" where
  "Join [] sep = []"
| "Join [x] sep = x"
| "Join (x # y # xs) sep = x @ sep @ Join (y # xs) sep"

text \<open>
  \<open>strings.TrimSpace(s) == ""\<close>: the string is a sequence of encoded white-space runes, the six
  ASCII ones and the rest of Unicode's \<open>White_Space\<close> in UTF-8.
\<close>

definition asciiSpace :: "char \<Rightarrow> bool" where
  "asciiSpace c \<longleftrightarrow> (of_char c :: nat) \<in> {9, 10, 11, 12, 13, 32}"

fun TrimSpaceEmpty :: "string \<Rightarrow> bool" where
  "TrimSpaceEmpty [] = True"
| "TrimSpaceEmpty (a # s) =
     (if asciiSpace a then TrimSpaceEmpty s
      else case s of
        [] \<Rightarrow> False
      | b # s' \<Rightarrow>
          if ((of_char a :: nat), of_char b) \<in> {(0xC2, 0x85 :: nat), (0xC2, 0xA0)} then TrimSpaceEmpty s'
          else (case s' of
             [] \<Rightarrow> False
           | c # s'' \<Rightarrow>
               let x = (of_char a :: nat); y = (of_char b :: nat); z = (of_char c :: nat)
               in if (x, y, z) \<in> {(0xE1, 0x9A, 0x80), (0xE2, 0x81, 0x9F), (0xE3, 0x80, 0x80)}
                     \<or> (x = 0xE2 \<and> y = 0x80 \<and> (0x80 \<le> z \<and> z \<le> 0x8A \<or> z \<in> {0xA8, 0xA9, 0xAF}))
                  then TrimSpaceEmpty s'' else False))"

section \<open>Decimal numbers\<close>

text \<open>\<open>%d\<close> of \<open>fmt\<close>.\<close>

definition digit :: "nat \<Rightarrow> char" where
  "digit n = char_of (48 + n)"

fun utoa :: "nat \<Rightarrow> string" where
  "utoa n = (if n < 10 then [digit n] else utoa (n div 10) @ [digit (n mod 10)])"

declare utoa.simps [simp del]

definition itoa :: "int \<Rightarrow> string" where
  "itoa i = (if i < 0 then CHR ''-'' # utoa (nat (- i)) else utoa (nat i))"

lemma of_char_digit: "n < 10 \<Longrightarrow> (of_char (digit n) :: nat) = 48 + n"
  unfolding digit_def of_char_of by (rule mod_less) simp

lemma digit_inj: "m < 10 \<Longrightarrow> n < 10 \<Longrightarrow> digit m = digit n \<Longrightarrow> m = n"
  using of_char_digit [of m] of_char_digit [of n] by (metis add_left_cancel)

lemma utoa_not_Nil [simp]: "utoa n \<noteq> []"
  by (subst utoa.simps) simp

lemma utoa_inj: "utoa m = utoa n \<Longrightarrow> m = n"
proof (induction m arbitrary: n rule: less_induct)
  case (less m)
  show ?case
  proof (cases "m < 10 \<or> n < 10")
    case True
    then show ?thesis
      using less.prems utoa.simps [of m] utoa.simps [of n] utoa_not_Nil [of "n div 10"]
        utoa_not_Nil [of "m div 10"]
      by (auto simp del: utoa_not_Nil split: if_splits dest: digit_inj)
  next
    case False
    then have "utoa (m div 10) = utoa (n div 10) \<and> digit (m mod 10) = digit (n mod 10)"
      using less.prems utoa.simps [of m] utoa.simps [of n] by simp
    then have "m div 10 = n div 10" and "m mod 10 = n mod 10"
      using less.IH [of "m div 10" "n div 10"] False digit_inj [of "m mod 10" "n mod 10"] by auto
    then show ?thesis by (metis div_mult_mod_eq)
  qed
qed

lemma utoa_digits: "c \<in> set (utoa n) \<Longrightarrow> \<exists>d<10. c = digit d"
proof (induction n rule: less_induct)
  case (less n)
  from less.prems have "c \<in> set (if n < 10 then [digit n] else utoa (n div 10) @ [digit (n mod 10)])"
    by (simp only: utoa.simps [of n, symmetric])
  then show ?case
    using less.IH [of "n div 10"] by (auto split: if_splits intro: exI [of _ "n mod 10"])
qed

lemma digit_not_minus: "d < 10 \<Longrightarrow> digit d \<noteq> CHR ''-''"
  using of_char_digit [of d] by auto

lemma utoa_hd: "hd (utoa n) \<noteq> CHR ''-''"
proof -
  obtain d where "d < 10" "hd (utoa n) = digit d"
    using utoa_digits [of "hd (utoa n)" n] by auto
  then show ?thesis using digit_not_minus by simp
qed

lemma itoa_inj: "itoa i = itoa j \<Longrightarrow> i = j"
proof -
  assume eq: "itoa i = itoa j"
  have "(i < 0) = (j < 0)"
    using eq utoa_hd [of "nat i"] utoa_hd [of "nat j"]
    by (cases "i < 0"; cases "j < 0") (auto simp: itoa_def dest: arg_cong [where f = hd])
  then show ?thesis
    using eq utoa_inj by (fastforce simp: itoa_def split: if_splits)
qed

lemma length_utoa: "n < 10 ^ Suc k \<Longrightarrow> length (utoa n) \<le> Suc k"
proof (induction k arbitrary: n)
  case 0
  then show ?case by (subst utoa.simps) simp
next
  case (Suc k)
  then have "length (utoa (n div 10)) \<le> Suc k" by (simp add: Suc.IH less_mult_imp_div_less mult.commute)
  then show ?case by (subst utoa.simps) simp
qed

lemma length_itoa32: "- (2 ^ 31) \<le> i \<Longrightarrow> i < 2 ^ 31 \<Longrightarrow> length (itoa i) \<le> 11"
  using length_utoa [of "nat i" 9] length_utoa [of "nat (- i)" 9]
  by (cases "i < 0") (auto simp: itoa_def nat_less_iff)

lemma length_itoa32_nonneg: "0 \<le> i \<Longrightarrow> i < 2 ^ 31 \<Longrightarrow> length (itoa i) \<le> 10"
  using length_utoa [of "nat i" 9] by (simp add: itoa_def nat_less_iff)

end
