(* ===== verification/ApiTypes.thy ===== *)
theory ApiTypes
  imports Prelude
begin

text \<open>
  The API group \<^verbatim>\<open>artifacts.kargops.dev/v1alpha1\<close> (\<^verbatim>\<open>src/api/v1alpha1\<close>): the \<open>Artifact\<close> and
  \<open>ArtifactClass\<close> objects, their condition and state vocabulary, the defaulting accessors and the
  admission rules the CRD markers declare. A pointer is an \<open>option\<close>; a field of an open string type
  (\<open>DeletionPolicy\<close>, \<open>ManagementPolicy\<close>, \<open>DriftPolicy\<close>, \<open>HTTPAuthType\<close>) stays a string, so that
  values outside the declared constants are values of the model too.
\<close>

section \<open>Constants\<close>

definition ArtifactFinalizer :: string where
  "ArtifactFinalizer = ''artifacts.kargops.dev/finalizer''"
definition RetryAnnotation :: string where
  "RetryAnnotation = ''artifacts.kargops.dev/retry''"

definition DeletionPolicyOrphan :: string where "DeletionPolicyOrphan = ''Orphan''"
definition DeletionPolicyDelete :: string where "DeletionPolicyDelete = ''Delete''"
definition ManagementPolicyFull :: string where "ManagementPolicyFull = ''Full''"
definition ManagementPolicyObserve :: string where "ManagementPolicyObserve = ''Observe''"

definition DriftPolicyWarn :: string where "DriftPolicyWarn = ''Warn''"
definition DriftPolicyIgnore :: string where "DriftPolicyIgnore = ''Ignore''"
definition DriftPolicyRegenerate :: string where "DriftPolicyRegenerate = ''Regenerate''"

definition DefaultStampMetadataKey :: string where
  "DefaultStampMetadataKey = ''artifact-spec-hash''"
definition DefaultOCIStampAnnotation :: string where
  "DefaultOCIStampAnnotation = ''dev.kargops.artifacts.spec-hash''"

text \<open>
  Condition types (the first three are \<open>fluxmeta\<close>'s), condition reasons and state names. Each is
  one constant of a Go \<open>const\<close> block of strings, so each block is a \<open>datatype\<close> here, with the string
  it stands for given by \<open>CondType_str\<close>, \<open>Reason_str\<close> and \<open>State_str\<close>.
\<close>

datatype CondType =
    ReadyCondition | ReconcilingCondition | StalledCondition
  | ArtifactInStoreCondition | ArtifactDriftedCondition | GeneratorSucceededCondition
  | DeletingCondition

fun CondType_str :: "CondType \<Rightarrow> string" where
  "CondType_str ReadyCondition = ''Ready''"
| "CondType_str ReconcilingCondition = ''Reconciling''"
| "CondType_str StalledCondition = ''Stalled''"
| "CondType_str ArtifactInStoreCondition = ''ArtifactInStore''"
| "CondType_str ArtifactDriftedCondition = ''ArtifactDrifted''"
| "CondType_str GeneratorSucceededCondition = ''GeneratorSucceeded''"
| "CondType_str DeletingCondition = ''Deleting''"

datatype Reason =
    ReasonArtifactAvailable | ReasonArtifactMissing | ReasonGenerating | ReasonAwaitingArtifact
  | ReasonBackoffPending | ReasonGeneratorFailed | ReasonGeneratorSucceeded
  | ReasonSucceededWithoutArtifact | ReasonContentDrifted | ReasonStatusUnrecognized
  | ReasonProgressDeadlineExceeded | ReasonFailureBudgetExhausted | ReasonKeyConflict
  | ReasonGeneratorNotConfigured | ReasonStoreUnavailable | ReasonStoreDeleteFailed
  | ReasonClassNotFound | ReasonTemplateError | ReasonExpired | ReasonSuspended | ReasonDeleting

fun Reason_str :: "Reason \<Rightarrow> string" where
  "Reason_str ReasonArtifactAvailable = ''ArtifactAvailable''"
| "Reason_str ReasonArtifactMissing = ''ArtifactMissing''"
| "Reason_str ReasonGenerating = ''Generating''"
| "Reason_str ReasonAwaitingArtifact = ''AwaitingArtifact''"
| "Reason_str ReasonBackoffPending = ''BackoffPending''"
| "Reason_str ReasonGeneratorFailed = ''GeneratorFailed''"
| "Reason_str ReasonGeneratorSucceeded = ''GeneratorSucceeded''"
| "Reason_str ReasonSucceededWithoutArtifact = ''SucceededWithoutArtifact''"
| "Reason_str ReasonContentDrifted = ''ContentDrifted''"
| "Reason_str ReasonStatusUnrecognized = ''GeneratorStatusUnrecognized''"
| "Reason_str ReasonProgressDeadlineExceeded = ''ProgressDeadlineExceeded''"
| "Reason_str ReasonFailureBudgetExhausted = ''FailureBudgetExhausted''"
| "Reason_str ReasonKeyConflict = ''KeyConflict''"
| "Reason_str ReasonGeneratorNotConfigured = ''GeneratorNotConfigured''"
| "Reason_str ReasonStoreUnavailable = ''StoreUnavailable''"
| "Reason_str ReasonStoreDeleteFailed = ''StoreDeleteFailed''"
| "Reason_str ReasonClassNotFound = ''ClassNotFound''"
| "Reason_str ReasonTemplateError = ''TemplateError''"
| "Reason_str ReasonExpired = ''Expired''"
| "Reason_str ReasonSuspended = ''Suspended''"
| "Reason_str ReasonDeleting = ''Deleting''"

text \<open>\<open>StateUnset\<close> is the empty string a new object's \<open>status.state\<close> holds.\<close>

datatype State =
    StateUnset | StatePending | StateGenerating | StateAwaitingArtifact | StateReady
  | StateMissing | StateDegraded | StateExpired | StateSuspended | StateKeyConflict
  | StateDeleting

fun State_str :: "State \<Rightarrow> string" where
  "State_str StateUnset = ''''"
| "State_str StatePending = ''Pending''"
| "State_str StateGenerating = ''Generating''"
| "State_str StateAwaitingArtifact = ''AwaitingArtifact''"
| "State_str StateReady = ''Ready''"
| "State_str StateMissing = ''Missing''"
| "State_str StateDegraded = ''Degraded''"
| "State_str StateExpired = ''Expired''"
| "State_str StateSuspended = ''Suspended''"
| "State_str StateKeyConflict = ''KeyConflict''"
| "State_str StateDeleting = ''Deleting''"

text \<open>Distinct constants are distinct strings, so working on the constants loses nothing.\<close>

lemma CondType_str_inj: "CondType_str a = CondType_str b \<Longrightarrow> a = b"
  by (cases a; cases b; simp)

lemma State_str_inj: "State_str a = State_str b \<Longrightarrow> a = b"
  by (cases a; cases b; simp)

lemma Reason_str_inj: "Reason_str a = Reason_str b \<Longrightarrow> a = b"
  by (cases a; simp; cases b; simp)

section \<open>Artifact\<close>

datatype CondStatus = CondTrue | CondFalse | CondUnknown

record Condition =
  cType :: CondType
  cStatus :: CondStatus
  cReason :: Reason
  cMessage :: message
  cLastTransition :: gotime

record ArtifactSpec =
  ClassRef :: string
  Identity :: gomap
  Params :: gomap
  Interval :: duration
  Suspend :: bool
  TTL :: "duration option"
  DeleteAfter :: "duration option"
  DeletionPolicy :: string
  ManagementPolicy :: string

record GeneratorReference =
  refAPIVersion :: string
  refKind :: string
  refName :: string
  refNamespace :: string

record ArtifactStatus =
  ObservedGeneration :: int
  SpecHash :: string
  Key :: string
  Digest :: string
  State :: State
  Attempts :: int
  FailedAttempts :: int
  LastFailureTime :: "gotime option"
  LastFailureMessage :: "message option"
  GeneratorRef :: "GeneratorReference option"
  GeneratorSucceededAt :: "gotime option"
  LastVerifiedTime :: "gotime option"
  RetryToken :: string
  Conditions :: "Condition list"

text \<open>
  An empty \<open>lastFailureMessage\<close> is \<open>None\<close>. The object metadata the controller reads or writes:
\<close>

record ObjectMeta =
  Name :: string
  Namespace :: string
  UID :: string
  Generation :: int
  CreationTimestamp :: gotime
  DeletionTimestamp :: "gotime option"
  Finalizers :: "string list"
  Annotations :: gomap

record Artifact =
  Meta :: ObjectMeta
  Spec :: ArtifactSpec
  Status :: ArtifactStatus

definition ObserveOnly :: "Artifact \<Rightarrow> bool" where
  "ObserveOnly a \<longleftrightarrow> ManagementPolicy (Spec a) = ManagementPolicyObserve"

definition GetInterval :: "Artifact \<Rightarrow> duration" where
  "GetInterval a = (if Interval (Spec a) \<le> 0 then minute else Interval (Spec a))"

lemma GetInterval_pos: "0 < GetInterval a"
  by (simp add: GetInterval_def)

text \<open>
  The validation markers: enumerations and size bounds on create, the two cross-field rules for
  sensors, and immutability of \<open>classRef\<close> and \<open>identity\<close> on update.
\<close>

definition spec_admitted :: "ArtifactSpec \<Rightarrow> bool" where
  "spec_admitted s \<longleftrightarrow>
     1 \<le> length (Identity s) \<and> length (Identity s) \<le> 64
   \<and> DeletionPolicy s \<in> {DeletionPolicyOrphan, DeletionPolicyDelete}
   \<and> ManagementPolicy s \<in> {ManagementPolicyFull, ManagementPolicyObserve}
   \<and> \<not> (ManagementPolicy s = ManagementPolicyObserve \<and> DeleteAfter s \<noteq> None)
   \<and> \<not> (ManagementPolicy s = ManagementPolicyObserve \<and> DeletionPolicy s = DeletionPolicyDelete)"

definition spec_update_admitted :: "ArtifactSpec \<Rightarrow> ArtifactSpec \<Rightarrow> bool" where
  "spec_update_admitted old new \<longleftrightarrow>
     spec_admitted new \<and> ClassRef new = ClassRef old \<and> Identity new = Identity old"

section \<open>ArtifactClass\<close>

record S3StoreSpec =
  s3Bucket :: string
  s3Region :: string
  s3Endpoint :: string
  s3UsePathStyle :: bool
  s3StampMetadataKey :: string

record OCIStoreSpec =
  ociRepository :: string
  ociInsecure :: bool
  ociStampAnnotation :: string

record HTTPRequestSpec =
  reqMethod :: string
  reqURL :: string
  reqHeaders :: gomap

record HTTPAuthSpec =
  authType :: string
  authSecretRef :: "string option"
  TokenKey :: string
  UsernameKey :: string
  PasswordKey :: string
  HeaderName :: string
  authRegion :: string
  authService :: string
  TokenURL :: string
  ClientIDKey :: string
  ClientSecretKey :: string
  Scopes :: "string list"

record HTTPStoreSpec =
  httpObserve :: HTTPRequestSpec
  httpDelete :: "HTTPRequestSpec option"
  httpExists :: string
  httpDigest :: string
  httpStamp :: string
  httpStampKey :: string
  httpAuth :: "HTTPAuthSpec option"
  httpTimeout :: "duration option"

record AMIStoreSpec =
  amiRegion :: string
  amiOwner :: string
  amiStampTagKey :: string
  amiDeleteSnapshots :: bool

record RepoManagerStoreSpec =
  rmBaseURL :: string
  rmRepository :: string
  rmSecretRef :: "string option"
  rmStampPropertyKey :: string
  rmTimeout :: "duration option"

record StoreSpec =
  Driver :: string
  spKeyTemplate :: string
  S3 :: "S3StoreSpec option"
  OCI :: "OCIStoreSpec option"
  HTTP :: "HTTPStoreSpec option"
  AMI :: "AMIStoreSpec option"
  RepoManager :: "RepoManagerStoreSpec option"
  Fake :: "unit option"

text \<open>\<open>Template\<close> is the raw JSON of the \<open>runtime.RawExtension\<close>.\<close>

record GeneratorSpec =
  Template :: string
  SucceededWhen :: string
  FailedWhen :: string
  InProgressWhen :: string
  gsProgressDeadline :: "duration option"

record BackoffSpec =
  MaxAttempts :: int
  InitialDelay :: duration
  MaxDelay :: duration

record ArtifactClassSpec =
  Store :: StoreSpec
  Generator :: "GeneratorSpec option"
  Backoff :: "BackoffSpec option"
  Drift :: "string option"
  VerificationGracePeriod :: duration

record ArtifactClass =
  className :: string
  classSpec :: ArtifactClassSpec

definition EffectiveBackoff :: "ArtifactClass \<Rightarrow> int \<times> duration \<times> duration" where
  "EffectiveBackoff c =
     (case Backoff (classSpec c) of
        None \<Rightarrow> (5, 30 * second, 32 * minute)
      | Some b \<Rightarrow>
          (if 0 < MaxAttempts b then MaxAttempts b else 5,
           if 0 < InitialDelay b then InitialDelay b else 30 * second,
           if 0 < MaxDelay b then MaxDelay b else 32 * minute))"

definition GracePeriod :: "ArtifactClass \<Rightarrow> duration" where
  "GracePeriod c =
     (if 0 < VerificationGracePeriod (classSpec c) then VerificationGracePeriod (classSpec c)
      else 2 * minute)"

definition KeyTemplate :: "ArtifactClass \<Rightarrow> string" where
  "KeyTemplate c =
     (let st = Store (classSpec c)
      in if spKeyTemplate st \<noteq> [] then spKeyTemplate st
         else if Driver st = ''oci'' then ''{{ .SpecHex }}''
         else ''{{ .SpecHash }}'')"

text \<open>\<open>p != nil && p.F != ""\<close> reads a string field through a pointer that may be nil.\<close>

definition set_in :: "'a option \<Rightarrow> ('a \<Rightarrow> string) \<Rightarrow> string" where
  "set_in p f = (case p of None \<Rightarrow> [] | Some x \<Rightarrow> f x)"

definition StampMetadataKey :: "ArtifactClass \<Rightarrow> string" where
  "StampMetadataKey c =
     (let st = Store (classSpec c)
      in if set_in (S3 st) s3StampMetadataKey \<noteq> []
           then ToLower (set_in (S3 st) s3StampMetadataKey)
         else if set_in (RepoManager st) rmStampPropertyKey \<noteq> []
           then ToLower (set_in (RepoManager st) rmStampPropertyKey)
         else if set_in (AMI st) amiStampTagKey \<noteq> []
           then ToLower (set_in (AMI st) amiStampTagKey)
         else if set_in (OCI st) ociStampAnnotation \<noteq> []
           then ToLower (set_in (OCI st) ociStampAnnotation)
         else if Driver st = ''oci'' then DefaultOCIStampAnnotation
         else DefaultStampMetadataKey)"

definition ProgressDeadline :: "ArtifactClass \<Rightarrow> duration" where
  "ProgressDeadline c =
     (case Generator (classSpec c) of
        None \<Rightarrow> 0
      | Some g \<Rightarrow> (case gsProgressDeadline g of None \<Rightarrow> 0 | Some d \<Rightarrow> d))"

text \<open>The field \<open>Drift\<close> is the policy of the optional \<open>DriftSpec\<close>; an unset policy is Warn.\<close>

definition DriftPolicy :: "ArtifactClass \<Rightarrow> string" where
  "DriftPolicy c =
     (case Drift (classSpec c) of
        None \<Rightarrow> DriftPolicyWarn
      | Some p \<Rightarrow> if p \<noteq> [] then p else DriftPolicyWarn)"

section \<open>Facts about the accessors\<close>

lemma EffectiveBackoff_pos:
  "EffectiveBackoff c = (m, i, d) \<Longrightarrow> 0 < m \<and> 0 < i \<and> 0 < d"
  by (auto simp: EffectiveBackoff_def split: option.splits if_splits)

lemma GracePeriod_pos: "0 < GracePeriod c"
  by (simp add: GracePeriod_def)

lemma KeyTemplate_not_Nil: "KeyTemplate c \<noteq> []"
  by (simp add: KeyTemplate_def Let_def)

text \<open>The stamp key a class verifies against is never empty and already lower case.\<close>

lemma StampMetadataKey_lower: "ToLower (StampMetadataKey c) = StampMetadataKey c"
proof -
  have "ToLower DefaultStampMetadataKey = DefaultStampMetadataKey"
    by (simp add: DefaultStampMetadataKey_def ToLower_def ToLowerByte_def)
  moreover have "ToLower DefaultOCIStampAnnotation = DefaultOCIStampAnnotation"
    by (simp add: DefaultOCIStampAnnotation_def ToLower_def ToLowerByte_def)
  ultimately show ?thesis by (simp add: StampMetadataKey_def Let_def)
qed

lemma StampMetadataKey_not_Nil: "StampMetadataKey c \<noteq> []"
  by (simp add: StampMetadataKey_def Let_def DefaultStampMetadataKey_def
      DefaultOCIStampAnnotation_def)

end
