(* ===== verification/Json.thy ===== *)
theory Json
  imports Prelude
begin

text \<open>
  What the program uses of Go's \<^verbatim>\<open>encoding/json\<close> and \<^verbatim>\<open>unicode/utf8\<close>: decoded values, the
  encoder of a \<open>map[string]string\<close> (with the HTML-safe escapes \<open>json.Marshal\<close> applies) and the
  string decoder. The main result is that decoding an encoded string gives it back, so the
  encoding of a map can be read off it and distinct maps have distinct encodings.
\<close>

section \<open>UTF-8\<close>

definition byte :: "char \<Rightarrow> nat" where
  "byte c = of_char c"

lemma byte_lt [simp]: "byte c < 256"
  unfolding byte_def by (metis mod_less_divisor of_char_mod_256 zero_less_numeral)

lemma byte_inj: "byte a = byte b \<longleftrightarrow> a = b"
  by (simp add: byte_def)

definition cont :: "char \<Rightarrow> bool" where
  "cont c \<longleftrightarrow> 0x80 \<le> byte c \<and> byte c \<le> 0xBF"

text \<open>
  The length of the well-formed multi-byte rune at the head of a string; 0 when there is none
  (\<open>utf8.DecodeRune\<close> answers \<open>RuneError\<close> with width 1 on such bytes).
\<close>

definition rune2 :: "nat \<Rightarrow> char \<Rightarrow> bool" where
  "rune2 x b \<longleftrightarrow> 0xC2 \<le> x \<and> x \<le> 0xDF \<and> cont b"

definition rune3 :: "nat \<Rightarrow> char \<Rightarrow> char \<Rightarrow> bool" where
  "rune3 x b c \<longleftrightarrow> 0xE0 \<le> x \<and> x \<le> 0xEF \<and> cont b \<and> cont c
     \<and> (x = 0xE0 \<longrightarrow> 0xA0 \<le> byte b) \<and> (x = 0xED \<longrightarrow> byte b \<le> 0x9F)"

definition rune4 :: "nat \<Rightarrow> char \<Rightarrow> char \<Rightarrow> char \<Rightarrow> bool" where
  "rune4 x b c d \<longleftrightarrow> 0xF0 \<le> x \<and> x \<le> 0xF4 \<and> cont b \<and> cont c \<and> cont d
     \<and> (x = 0xF0 \<longrightarrow> 0x90 \<le> byte b) \<and> (x = 0xF4 \<longrightarrow> byte b \<le> 0x8F)"

definition rsize :: "string \<Rightarrow> nat" where
  "rsize s =
     (case s of
        a # b # s2 \<Rightarrow>
          if rune2 (byte a) b then 2
          else (case s2 of
              c # s3 \<Rightarrow>
                if rune3 (byte a) b c then 3
                else (case s3 of d # _ \<Rightarrow> if rune4 (byte a) b c d then 4 else 0 | [] \<Rightarrow> 0)
            | [] \<Rightarrow> 0)
      | _ \<Rightarrow> 0)"

lemmas rune_defs = rune2_def rune3_def rune4_def

lemma rsize_cases:
  assumes "rsize s \<noteq> 0"
  obtains (two) a b t where "s = a # b # t" "rune2 (byte a) b" "rsize s = 2"
  | (three) a b c t where "s = a # b # c # t" "rune3 (byte a) b c" "rsize s = 3"
  | (four) a b c d t where "s = a # b # c # d # t" "rune4 (byte a) b c d" "rsize s = 4"
  using assms unfolding rsize_def by (auto split: list.splits if_splits)

lemma rsize_2 [simp]: "rune2 (byte a) b \<Longrightarrow> rsize (a # b # t) = 2"
  by (simp add: rsize_def)

lemma rsize_3 [simp]: "rune3 (byte a) b c \<Longrightarrow> rsize (a # b # c # t) = 3"
  by (auto simp: rsize_def rune_defs)

lemma rsize_4 [simp]: "rune4 (byte a) b c d \<Longrightarrow> rsize (a # b # c # d # t) = 4"
  by (auto simp: rsize_def rune_defs)

lemma rsize_le: "rsize s \<le> length s"
  by (auto simp: rsize_def split: list.splits)

lemma rsize_local: "rsize s \<noteq> 0 \<Longrightarrow> rsize (take (rsize s) s @ t) = rsize s"
  by (erule rsize_cases) simp_all

lemma rsize_multibyte: "rsize s \<noteq> 0 \<Longrightarrow> s = a # t \<Longrightarrow> 0x80 \<le> byte a"
  by (erule rsize_cases) (auto simp: rune_defs)

text \<open>\<open>utf8.ValidString\<close>.\<close>

function valid_utf8 :: "string \<Rightarrow> bool" where
  "valid_utf8 s =
     (case s of
        [] \<Rightarrow> True
      | a # t \<Rightarrow> if byte a < 0x80 then valid_utf8 t
                else if rsize s = 0 then False
                else valid_utf8 (drop (rsize s) s))"
  by pat_completeness auto
termination by (relation "measure length") auto

declare valid_utf8.simps [simp del]

text \<open>\<open>utf8.AppendRune\<close> of a code point (surrogates and out of range values become U+FFFD).\<close>

definition utf8_enc :: "nat \<Rightarrow> string" where
  "utf8_enc r =
     (let b = (\<lambda>n. char_of n) :: nat \<Rightarrow> char;
          r' = (if 0xD800 \<le> r \<and> r \<le> 0xDFFF \<or> 0x10FFFF < r then 0xFFFD else r)
      in if r' < 0x80 then [b r']
         else if r' < 0x800 then [b (0xC0 + r' div 64), b (0x80 + r' mod 64)]
         else if r' < 0x10000
           then [b (0xE0 + r' div 4096), b (0x80 + r' div 64 mod 64), b (0x80 + r' mod 64)]
         else [b (0xF0 + r' div 262144), b (0x80 + r' div 4096 mod 64), b (0x80 + r' div 64 mod 64),
               b (0x80 + r' mod 64)])"

section \<open>Encoding\<close>

definition hexdigit :: "nat \<Rightarrow> char" where
  "hexdigit n = ''0123456789abcdef'' ! n"

text \<open>The escapes of \<open>appendString\<close> for a byte below \<open>0x80\<close>, with HTML escaping on.\<close>

definition esc_ascii :: "char \<Rightarrow> string" where
  "esc_ascii c =
     (let n = byte c
      in if c = CHR ''\"'' \<or> c = CHR 0x5C then [CHR 0x5C, c]
         else if n = 8 then [CHR 0x5C, CHR ''b'']
         else if n = 12 then [CHR 0x5C, CHR ''f'']
         else if n = 10 then [CHR 0x5C, CHR ''n'']
         else if n = 13 then [CHR 0x5C, CHR ''r'']
         else if n = 9 then [CHR 0x5C, CHR ''t'']
         else if n < 0x20 \<or> c \<in> {CHR ''<'', CHR ''>'', CHR ''&''}
           then [CHR 0x5C, CHR ''u'', CHR ''0'', CHR ''0'', hexdigit (n div 16), hexdigit (n mod 16)]
         else [c])"

text \<open>U+2028 and U+2029, which \<open>appendString\<close> escapes.\<close>

definition line_sep :: "string \<Rightarrow> bool" where
  "line_sep s \<longleftrightarrow> take 3 s \<in> {[CHR 0xE2, CHR 0x80, CHR 0xA8], [CHR 0xE2, CHR 0x80, CHR 0xA9]}"

function appendString :: "string \<Rightarrow> string" where
  "appendString s =
     (case s of
        [] \<Rightarrow> []
      | a # t \<Rightarrow>
          if byte a < 0x80 then esc_ascii a @ appendString t
          else if rsize s = 0
            then [CHR 0x5C, CHR ''u'', CHR ''f'', CHR ''f'', CHR ''f'', CHR ''d''] @ appendString t
          else if line_sep s
            then [CHR 0x5C, CHR ''u'', CHR ''2'', CHR ''0'', CHR ''2'', hexdigit (byte (s ! 2) mod 16)]
                   @ appendString (drop 3 s)
          else take (rsize s) s @ appendString (drop (rsize s) s))"
  by pat_completeness auto
termination by (relation "measure length") auto

declare appendString.simps [simp del]

definition quoteString :: "string \<Rightarrow> string" where
  "quoteString s = CHR ''\"'' # appendString s @ ''\"''"

text \<open>
  \<open>json.Marshal\<close> of a \<open>map[string]string\<close>: members in increasing byte order of their keys. The
  API server cannot deliver a nil \<open>identity\<close> (it is required, with at least one member); a nil
  map encodes as \<open>null\<close>, an empty one as \<open>{}\<close>, and the model has the latter.
\<close>

definition member :: "string \<times> string \<Rightarrow> string" where
  "member kv = quoteString (fst kv) @ '':'' @ quoteString (snd kv)"

definition marshal_map :: "gomap \<Rightarrow> string" where
  "marshal_map m = ''{'' @ Join (map member (sort_key fst m)) '','' @ ''}''"

section \<open>Decoding strings\<close>

definition hexval :: "char \<Rightarrow> nat option" where
  "hexval c =
     (let n = byte c
      in if 48 \<le> n \<and> n \<le> 57 then Some (n - 48)
         else if 97 \<le> n \<and> n \<le> 102 then Some (n - 87)
         else if 65 \<le> n \<and> n \<le> 70 then Some (n - 55)
         else None)"

text \<open>\<open>getu4\<close>: four hexadecimal digits.\<close>

definition u4 :: "char \<Rightarrow> char \<Rightarrow> char \<Rightarrow> char \<Rightarrow> nat option" where
  "u4 a b c d =
     (case (hexval a, hexval b, hexval c, hexval d) of
        (Some w, Some x, Some y, Some z) \<Rightarrow> Some (((w * 16 + x) * 16 + y) * 16 + z)
      | _ \<Rightarrow> None)"

definition esc_char :: "char \<Rightarrow> char option" where
  "esc_char c =
     (if c \<in> {CHR ''\"'', CHR 0x5C, CHR ''/''} then Some c
      else if c = CHR ''b'' then Some (CHR 0x08)
      else if c = CHR ''f'' then Some (CHR 0x0C)
      else if c = CHR ''n'' then Some (CHR 0x0A)
      else if c = CHR ''r'' then Some (CHR 0x0D)
      else if c = CHR ''t'' then Some (CHR 0x09)
      else None)"

definition is_high :: "nat \<Rightarrow> bool" where "is_high r \<longleftrightarrow> 0xD800 \<le> r \<and> r < 0xDC00"
definition is_low :: "nat \<Rightarrow> bool" where "is_low r \<longleftrightarrow> 0xDC00 \<le> r \<and> r < 0xE000"

definition replacement :: string where
  "replacement = [CHR 0xEF, CHR 0xBF, CHR 0xBD]"

definition prepend :: "string \<Rightarrow> (string \<times> 'a) option \<Rightarrow> (string \<times> 'a) option" where
  "prepend p = map_option (\<lambda>(x, r). (p @ x, r))"

lemma prepend_Some [simp]: "prepend p (Some (x, r)) = Some (p @ x, r)"
  by (simp add: prepend_def)

lemma prepend_None [simp]: "prepend p None = None"
  by (simp add: prepend_def)

text \<open>
  The rest of a JSON string after its opening quote: the decoded text and the input after the
  closing quote, or \<open>None\<close> for a syntax error.
\<close>

function unquote :: "string \<Rightarrow> (string \<times> string) option" where
  "unquote s =
     (case s of
        [] \<Rightarrow> None
      | a # t \<Rightarrow>
          if a = CHR ''\"'' then Some ([], t)
          else if a = CHR 0x5C then
            (case t of
               [] \<Rightarrow> None
             | e # t1 \<Rightarrow>
                 if e = CHR ''u'' then
                   (case t1 of
                      h1 # h2 # h3 # h4 # t2 \<Rightarrow>
                        (case u4 h1 h2 h3 h4 of
                           None \<Rightarrow> None
                         | Some r \<Rightarrow>
                             (case t2 of
                                b1 # b2 # l1 # l2 # l3 # l4 # t3 \<Rightarrow>
                                  (case u4 l1 l2 l3 l4 of
                                     Some r2 \<Rightarrow>
                                       if is_high r \<and> b1 = CHR 0x5C \<and> b2 = CHR ''u'' \<and> is_low r2
                                       then prepend (utf8_enc ((r - 0xD800) * 1024 + (r2 - 0xDC00) + 0x10000))
                                              (unquote t3)
                                       else prepend (utf8_enc r) (unquote t2)
                                   | None \<Rightarrow> prepend (utf8_enc r) (unquote t2))
                              | _ \<Rightarrow> prepend (utf8_enc r) (unquote t2)))
                    | _ \<Rightarrow> None)
                 else (case esc_char e of
                         None \<Rightarrow> None
                       | Some x \<Rightarrow> prepend [x] (unquote t1)))
          else if byte a < 0x20 then None
          else if byte a < 0x80 then prepend [a] (unquote t)
          else if rsize s = 0 then prepend replacement (unquote t)
          else prepend (take (rsize s) s) (unquote (drop (rsize s) s)))"
  by pat_completeness auto
termination by (relation "measure length") auto

declare unquote.simps [simp del]

lemma unquote_Nil [simp]: "unquote [] = None"
  by (simp add: unquote.simps)

section \<open>The string round trip\<close>

lemma hexval_hexdigit: "hexval (hexdigit n) = Some n" if "n < 16" for n
proof -
  have "n \<in> {0, 1, 2, 3, 4, 5, 6, 7, 8, 9, 10, 11, 12, 13, 14, 15}" using that by simp presburger
  then show ?thesis by (auto simp: hexdigit_def hexval_def byte_def)
qed

lemma u4_small: "n < 256 \<Longrightarrow> u4 (CHR ''0'') (CHR ''0'') (hexdigit (n div 16)) (hexdigit (n mod 16)) = Some n"
  using hexval_hexdigit [of "n div 16"] hexval_hexdigit [of "n mod 16"]
  by (simp add: u4_def hexval_def [of "CHR ''0''"] byte_def)

lemma utf8_enc_ascii: "n < 0x80 \<Longrightarrow> utf8_enc n = [char_of n]"
  by (simp add: utf8_enc_def)

text \<open>A four digit escape below the surrogates decodes to its own code point, whatever follows.\<close>

lemma unquote_u4:
  assumes "u4 a b c d = Some r" and "\<not> is_high r"
  shows "unquote (CHR 0x5C # CHR ''u'' # a # b # c # d # t) = prepend (utf8_enc r) (unquote t)"
  using assms by (subst unquote.simps) (auto split: list.splits option.splits)

lemma unquote_esc:
  assumes "esc_char e = Some x"
  shows "unquote (CHR 0x5C # e # t) = prepend [x] (unquote t)"
  using assms by (subst unquote.simps) (auto simp: esc_char_def split: if_splits)

lemma unquote_plain:
  assumes "a \<noteq> CHR ''\"''" "a \<noteq> CHR 0x5C" "0x20 \<le> byte a" "byte a < 0x80"
  shows "unquote (a # t) = prepend [a] (unquote t)"
  using assms by (subst unquote.simps) simp

lemma unquote_end: "unquote (CHR ''\"'' # t) = Some ([], t)"
  by (subst unquote.simps) simp

lemma unquote_rune:
  assumes "rsize s \<noteq> 0"
  shows "unquote (take (rsize s) s @ t) = prepend (take (rsize s) s) (unquote t)"
proof -
  obtain a u where u: "take (rsize s) s = a # u" and len: "rsize s = Suc (length u)"
    using assms by (cases rule: rsize_cases) auto
  have r: "rsize (a # u @ t) = Suc (length u)"
    using rsize_local [OF assms, of t] u len by simp
  have "0x80 \<le> byte a"
    using rsize_multibyte [of "a # u @ t" a "u @ t"] r by simp
  moreover from this have "a \<noteq> CHR ''\"''" and "a \<noteq> CHR 0x5C" by (auto simp: byte_def)
  ultimately show ?thesis
    using r unfolding u by (subst unquote.simps) simp
qed

lemma byte_char: "char_of (byte c) = c"
  by (simp add: byte_def)

lemma byte_ctl:
  "byte c = 8 \<Longrightarrow> c = CHR 0x08" "byte c = 9 \<Longrightarrow> c = CHR 0x09" "byte c = 10 \<Longrightarrow> c = CHR 0x0A"
  "byte c = 12 \<Longrightarrow> c = CHR 0x0C" "byte c = 13 \<Longrightarrow> c = CHR 0x0D"
  using byte_char [of c] by (auto simp: char_of_def bit_0)

lemma esc_ascii_cases:
  obtains (plain) "esc_ascii c = [c]" "c \<noteq> CHR ''\"''" "c \<noteq> CHR 0x5C" "0x20 \<le> byte c"
  | (esc) e where "esc_ascii c = [CHR 0x5C, e]" "esc_char e = Some c"
  | (hex) "esc_ascii c = [CHR 0x5C, CHR ''u'', CHR ''0'', CHR ''0'', hexdigit (byte c div 16),
             hexdigit (byte c mod 16)]"
proof (cases "c \<in> {CHR ''\"'', CHR 0x5C} \<or> byte c \<in> {8, 9, 10, 12, 13}")
  case True
  then consider "c = CHR ''\"''" | "c = CHR 0x5C" | "c = CHR 0x08" | "c = CHR 0x09" | "c = CHR 0x0A"
    | "c = CHR 0x0C" | "c = CHR 0x0D"
    using byte_ctl [of c] by blast
  then have "\<exists>e. esc_ascii c = [CHR 0x5C, e] \<and> esc_char e = Some c"
    by cases (simp_all add: esc_ascii_def byte_def esc_char_def)
  then show ?thesis using that by blast
next
  case False
  then show ?thesis
    using that by (cases "byte c < 0x20 \<or> c \<in> {CHR ''<'', CHR ''>'', CHR ''&''}")
      (auto simp: esc_ascii_def Let_def)
qed

lemma unquote_esc_ascii:
  assumes "byte c < 0x80"
  shows "unquote (esc_ascii c @ t) = prepend [c] (unquote t)"
proof (cases c rule: esc_ascii_cases)
  case plain
  then show ?thesis using unquote_plain [of c t] assms by simp
next
  case (esc e)
  then show ?thesis using unquote_esc [of e c t] by simp
next
  case hex
  then show ?thesis
    using assms unquote_u4 [OF u4_small [of "byte c"], of t]
    by (simp add: utf8_enc_ascii byte_char is_high_def)
qed

lemma line_sep_cases:
  assumes "line_sep s"
  obtains (ls) t where "s = [CHR 0xE2, CHR 0x80, CHR 0xA8] @ t"
  | (ps) t where "s = [CHR 0xE2, CHR 0x80, CHR 0xA9] @ t"
  using assms append_take_drop_id [of 3 s] unfolding line_sep_def by (metis empty_iff insert_iff)

lemma line_sep_size: "line_sep s \<Longrightarrow> rsize s = 3"
  by (erule line_sep_cases) (auto intro!: rsize_3 simp: rune3_def cont_def byte_def)

lemma unquote_line_sep:
  assumes "line_sep s"
  shows "unquote (CHR 0x5C # CHR ''u'' # CHR ''2'' # CHR ''0'' # CHR ''2''
           # hexdigit (byte (s ! 2) mod 16) # x) = prepend (take 3 s) (unquote x)"
proof -
  have u: "u4 (CHR ''2'') (CHR ''0'') (CHR ''2'') (hexdigit n) = Some (0x2020 + n)" if "n < 16" for n
    using hexval_hexdigit [OF that] by (simp add: u4_def hexval_def [of "CHR ''2''"] hexval_def [of "CHR ''0''"] byte_def)
  from assms show ?thesis
    by (cases rule: line_sep_cases)
      (simp_all add: byte_def unquote_u4 [OF u] is_high_def utf8_enc_def char_of_def bit_0)
qed

lemma unquote_appendString:
  "valid_utf8 s \<Longrightarrow> unquote (appendString s @ CHR ''\"'' # t) = Some (s, t)"
proof (induction s rule: valid_utf8.induct)
  case (1 s)
  show ?case
  proof (cases s)
    case Nil
    then show ?thesis by (simp add: appendString.simps unquote_end)
  next
    case (Cons a u)
    show ?thesis
    proof (cases "byte a < 0x80")
      case True
      moreover have "valid_utf8 u"
        using "1.prems" Cons True valid_utf8.simps [of s] by simp
      ultimately have "unquote (appendString u @ CHR ''\"'' # t) = Some (u, t)"
        using "1.IH"(1) [OF Cons] by simp
      then show ?thesis
        using Cons True by (subst appendString.simps) (simp add: unquote_esc_ascii)
    next
      case False
      then have r: "rsize s \<noteq> 0" and v: "valid_utf8 (drop (rsize s) s)"
        using "1.prems" Cons valid_utf8.simps [of s] by (simp_all split: if_splits)
      then have ih: "unquote (appendString (drop (rsize s) s) @ CHR ''\"'' # t) = Some (drop (rsize s) s, t)"
        using "1.IH"(2) [OF Cons False] by simp
      have enc: "appendString s = (if line_sep s
            then [CHR 0x5C, CHR ''u'', CHR ''2'', CHR ''0'', CHR ''2'', hexdigit (byte (s ! 2) mod 16)]
                   @ appendString (drop 3 s)
            else take (rsize s) s @ appendString (drop (rsize s) s))"
        using Cons False r by (subst appendString.simps) simp
      show ?thesis
        using ih unquote_line_sep [of s] line_sep_size [of s] unquote_rune [OF r]
        by (auto simp: enc)
    qed
  qed
qed

end
