(* ===== verification/Hash.thy ===== *)
theory Hash
  imports Json "HOL-Library.Multiset"
begin

text \<open>
  Package \<^verbatim>\<open>internal/hash\<close>: the content address of an identity. \<open>Canonical\<close> is SHA-256 over the
  JSON encoding of the identity map, written as \<^verbatim>\<open>sha256:\<close> and 64 hexadecimal digits; \<open>Short\<close>
  takes a prefix of the digits for object names. SHA-256 (Go's \<^verbatim>\<open>crypto/sha256\<close>) is defined in
  full on integers below \<open>2 ^ 32\<close>, every sum reduced by \<open>take_bit 32\<close>, so that the golden value
  the repository freezes can be computed in the kernel. The theorems: the address depends on the
  map alone and never on its iteration order, it has a fixed shape, and two identities with the
  same address are equal unless SHA-256 itself collides on their encodings.
\<close>

unbundle bit_operations_syntax

section \<open>SHA-256\<close>

type_synonym w32 = int

text \<open>The round constants and the initial state, as pairs of half words.\<close>

definition halves :: "w32 \<times> w32 \<Rightarrow> w32" where
  "halves hl = fst hl * 0x10000 + snd hl"

definition sha_K :: "w32 list" where
  "sha_K = map halves
     [(0x428a, 0x2f98), (0x7137, 0x4491), (0xb5c0, 0xfbcf), (0xe9b5, 0xdba5),
      (0x3956, 0xc25b), (0x59f1, 0x11f1), (0x923f, 0x82a4), (0xab1c, 0x5ed5),
      (0xd807, 0xaa98), (0x1283, 0x5b01), (0x2431, 0x85be), (0x550c, 0x7dc3),
      (0x72be, 0x5d74), (0x80de, 0xb1fe), (0x9bdc, 0x06a7), (0xc19b, 0xf174),
      (0xe49b, 0x69c1), (0xefbe, 0x4786), (0x0fc1, 0x9dc6), (0x240c, 0xa1cc),
      (0x2de9, 0x2c6f), (0x4a74, 0x84aa), (0x5cb0, 0xa9dc), (0x76f9, 0x88da),
      (0x983e, 0x5152), (0xa831, 0xc66d), (0xb003, 0x27c8), (0xbf59, 0x7fc7),
      (0xc6e0, 0x0bf3), (0xd5a7, 0x9147), (0x06ca, 0x6351), (0x1429, 0x2967),
      (0x27b7, 0x0a85), (0x2e1b, 0x2138), (0x4d2c, 0x6dfc), (0x5338, 0x0d13),
      (0x650a, 0x7354), (0x766a, 0x0abb), (0x81c2, 0xc92e), (0x9272, 0x2c85),
      (0xa2bf, 0xe8a1), (0xa81a, 0x664b), (0xc24b, 0x8b70), (0xc76c, 0x51a3),
      (0xd192, 0xe819), (0xd699, 0x0624), (0xf40e, 0x3585), (0x106a, 0xa070),
      (0x19a4, 0xc116), (0x1e37, 0x6c08), (0x2748, 0x774c), (0x34b0, 0xbcb5),
      (0x391c, 0x0cb3), (0x4ed8, 0xaa4a), (0x5b9c, 0xca4f), (0x682e, 0x6ff3),
      (0x748f, 0x82ee), (0x78a5, 0x636f), (0x84c8, 0x7814), (0x8cc7, 0x0208),
      (0x90be, 0xfffa), (0xa450, 0x6ceb), (0xbef9, 0xa3f7), (0xc671, 0x78f2)]"

definition sha_H0 :: "w32 list" where
  "sha_H0 = map halves
     [(0x6a09, 0xe667), (0xbb67, 0xae85), (0x3c6e, 0xf372), (0xa54f, 0xf53a),
      (0x510e, 0x527f), (0x9b05, 0x688c), (0x1f83, 0xd9ab), (0x5be0, 0xcd19)]"

definition rotr :: "nat \<Rightarrow> w32 \<Rightarrow> w32" where
  "rotr n x = drop_bit n x OR take_bit 32 (push_bit (32 - n) x)"

definition bsig0 :: "w32 \<Rightarrow> w32" where "bsig0 x = rotr 2 x XOR rotr 13 x XOR rotr 22 x"
definition bsig1 :: "w32 \<Rightarrow> w32" where "bsig1 x = rotr 6 x XOR rotr 11 x XOR rotr 25 x"
definition ssig0 :: "w32 \<Rightarrow> w32" where "ssig0 x = rotr 7 x XOR rotr 18 x XOR drop_bit 3 x"
definition ssig1 :: "w32 \<Rightarrow> w32" where "ssig1 x = rotr 17 x XOR rotr 19 x XOR drop_bit 10 x"

text \<open>Big-endian words of a 64-byte block.\<close>

fun be_words :: "int list \<Rightarrow> w32 list" where
  "be_words (a # b # c # d # bs) =
     (push_bit 24 a OR push_bit 16 b OR push_bit 8 c OR d) # be_words bs"
| "be_words _ = []"

text \<open>The message schedule, kept newest first: \<open>ws ! i\<close> is the word \<open>i + 1\<close> places back.\<close>

fun sha_sched :: "nat \<Rightarrow> w32 list \<Rightarrow> w32 list" where
  "sha_sched 0 ws = rev ws"
| "sha_sched (Suc n) ws =
     sha_sched n (take_bit 32 (ssig1 (ws ! 1) + ws ! 6 + ssig0 (ws ! 14) + ws ! 15) # ws)"

fun sha_round :: "w32 list \<Rightarrow> w32 \<times> w32 \<Rightarrow> w32 list" where
  "sha_round [a, b, c, d, e, f, g, h] (k, w) =
     (let t1 = h + bsig1 e + ((e AND f) XOR (take_bit 32 (NOT e) AND g)) + k + w;
          t2 = bsig0 a + ((a AND b) XOR (a AND c) XOR (b AND c))
      in [take_bit 32 (t1 + t2), a, b, c, take_bit 32 (d + t1), e, f, g])"
| "sha_round s _ = s"

definition sha_block :: "w32 list \<Rightarrow> int list \<Rightarrow> w32 list" where
  "sha_block h bs =
     map2 (\<lambda>x y. take_bit 32 (x + y)) h
       (foldl sha_round h (zip sha_K (sha_sched 48 (rev (be_words bs)))))"

text \<open>\<open>n\<close> blocks of a padded message.\<close>

fun sha_blocks :: "nat \<Rightarrow> w32 list \<Rightarrow> int list \<Rightarrow> w32 list" where
  "sha_blocks 0 h bs = h"
| "sha_blocks (Suc n) h bs = sha_blocks n (sha_block h (take 64 bs)) (drop 64 bs)"

fun be_bytes :: "nat \<Rightarrow> int \<Rightarrow> int list" where
  "be_bytes 0 x = []"
| "be_bytes (Suc n) x = be_bytes n (drop_bit 8 x) @ [take_bit 8 x]"

definition sha_pad :: "int list \<Rightarrow> int list" where
  "sha_pad bs =
     bs @ [0x80] @ replicate ((119 - length bs mod 64) mod 64) 0 @ be_bytes 8 (8 * int (length bs))"

definition sha256 :: "string \<Rightarrow> int list" where
  "sha256 s =
     (let bs = sha_pad (map (\<lambda>c. of_char c) s)
      in concat (map (be_bytes 4) (sha_blocks (length bs div 64) sha_H0 bs)))"

section \<open>Canonical and Short\<close>

definition EncodeToString :: "int list \<Rightarrow> string" where
  "EncodeToString bs = concat (map (\<lambda>b. [hexdigit (nat (b div 16)), hexdigit (nat (b mod 16))]) bs)"

text \<open>The \<open>panic\<close> branch of the source is unreachable: a \<open>map[string]string\<close> always encodes.\<close>

definition Canonical :: "gomap \<Rightarrow> string" where
  "Canonical identity = ''sha256:'' @ EncodeToString (sha256 (marshal_map identity))"

definition Short :: "string \<Rightarrow> nat \<Rightarrow> string" where
  "Short canonical n =
     (let s = (if length ''sha256:'' < length canonical \<and> take 7 canonical = ''sha256:''
               then drop 7 canonical else canonical)
      in take (min n (length s)) s)"

section \<open>The encoding is injective and ignores iteration order\<close>

definition valid_map :: "gomap \<Rightarrow> bool" where
  "valid_map m \<longleftrightarrow> distinct (map fst m) \<and> (\<forall>(k, v) \<in> set m. valid_utf8 k \<and> valid_utf8 v)"

lemma quoteString_inj:
  assumes "valid_utf8 s" "valid_utf8 t" "quoteString s @ a = quoteString t @ b"
  shows "s = t \<and> a = b"
proof -
  have "unquote (appendString s @ CHR ''\"'' # a) = unquote (appendString t @ CHR ''\"'' # b)"
    using assms(3) by (simp add: quoteString_def)
  then show ?thesis using assms(1,2) by (simp add: unquote_appendString)
qed

lemma member_inj:
  assumes "valid_utf8 (fst x)" "valid_utf8 (snd x)" "valid_utf8 (fst y)" "valid_utf8 (snd y)"
    and "member x @ a = member y @ b"
  shows "x = y \<and> a = b"
proof -
  have "fst x = fst y \<and> '':'' @ quoteString (snd x) @ a = '':'' @ quoteString (snd y) @ b"
    using assms by (intro quoteString_inj) (simp_all add: member_def)
  moreover from this have "snd x = snd y \<and> a = b"
    using assms by (intro quoteString_inj) simp_all
  ultimately show ?thesis by (simp add: prod_eq_iff)
qed

lemma Join_Cons: "Join (x # xs) sep = x @ (if xs = [] then [] else sep @ Join xs sep)"
  by (cases xs) simp_all

lemma member_hd: "\<exists>t. member x = CHR ''\"'' # t"
  unfolding member_def quoteString_def by simp

lemma Join_member_inj:
  assumes "\<forall>x \<in> set xs. valid_utf8 (fst x) \<and> valid_utf8 (snd x)"
    and "\<forall>y \<in> set ys. valid_utf8 (fst y) \<and> valid_utf8 (snd y)"
    and "Join (map member xs) '','' @ ''}'' = Join (map member ys) '','' @ ''}''"
  shows "xs = ys"
  using assms
proof (induction xs arbitrary: ys)
  case Nil
  show ?case
  proof (cases ys)
    case (Cons y ys')
    then show ?thesis using Nil.prems(3) member_hd [of y] by (auto simp: Join_Cons)
  qed simp
next
  case IH: (Cons x xs)
  show ?case
  proof (cases ys)
    case Nil
    then show ?thesis using IH.prems(3) member_hd [of x] by (auto simp: Join_Cons)
  next
    case (Cons y ys')
    let ?tl = "\<lambda>zs. (if zs = [] then [] else '','' @ Join (map member zs) '','') @ ''}''"
    have "member x @ ?tl xs = member y @ ?tl ys'"
      using IH.prems(3) Cons by (simp add: Join_Cons)
    then have eq: "x = y \<and> ?tl xs = ?tl ys'"
      using IH.prems(1,2) Cons by (intro member_inj) simp_all
    have "xs = ys'"
    proof (cases "xs = [] \<or> ys' = []")
      case True
      then show ?thesis using eq by (auto split: if_splits)
    next
      case False
      then show ?thesis using eq IH.prems(1,2) Cons by (intro IH.IH) simp_all
    qed
    then show ?thesis using eq Cons by simp
  qed
qed

text \<open>Sorting by distinct keys: the list of members is determined by the map.\<close>

lemma sort_members_eq:
  assumes "distinct (map fst m)" "distinct (map fst m')" "map_of m = map_of m'"
  shows "sort_key fst m = sort_key fst m'"
proof -
  have "set m = set m'"
    using assms by (metis map_of_eqI set_map_of_compr)
  then have "mset m = mset m'"
    using assms(1,2) by (simp add: distinct_map set_eq_iff_mset_eq_distinct)
  moreover have "inj_on fst (set m)"
    using assms(1) by (simp add: distinct_map)
  ultimately show ?thesis
    by (simp add: sort_key_inj_key_eq sorted_sort_key)
qed

lemma marshal_map_cong:
  "distinct (map fst m) \<Longrightarrow> distinct (map fst m') \<Longrightarrow> map_of m = map_of m' \<Longrightarrow>
   marshal_map m = marshal_map m'"
  using sort_members_eq [of m m'] by (simp add: marshal_map_def)

lemma marshal_map_inj:
  assumes "valid_map m" "valid_map m'" "marshal_map m = marshal_map m'"
  shows "map_of m = map_of m'"
proof -
  have "sort_key fst m = sort_key fst m'"
    using assms by (intro Join_member_inj) (auto simp: valid_map_def marshal_map_def)
  then have "set m = set m'" by (metis set_sort)
  then show ?thesis
    using assms(1,2) by (simp add: valid_map_def map_of_inject_set)
qed

section \<open>Shape of the address\<close>

lemma length_be_bytes [simp]: "length (be_bytes n x) = n"
  by (induction n arbitrary: x) auto

lemma be_bytes_range: "b \<in> set (be_bytes n x) \<Longrightarrow> 0 \<le> b \<and> b < 256"
  by (induction n arbitrary: x) (auto simp: take_bit_int_def)

lemma length_sha_round [simp]: "length (sha_round s p) = length s"
  by (induction s p rule: sha_round.induct) (auto simp: Let_def)

lemma length_foldl_round [simp]: "length (foldl sha_round s ps) = length s"
  by (induction ps arbitrary: s) auto

lemma length_sha_blocks [simp]: "length (sha_blocks n h bs) = length h"
  by (induction n h bs rule: sha_blocks.induct) (auto simp: sha_block_def)

lemma length_sha256: "length (sha256 s) = 32"
  by (simp add: sha256_def Let_def length_concat comp_def sum_list_triv sha_H0_def)

lemma sha256_range: "b \<in> set (sha256 s) \<Longrightarrow> 0 \<le> b \<and> b < 256"
  unfolding sha256_def Let_def by (auto dest: be_bytes_range)

definition hexchars :: "char set" where
  "hexchars = set ''0123456789abcdef''"

lemma hexdigit_hexchars: "n < 16 \<Longrightarrow> hexdigit n \<in> hexchars"
  unfolding hexdigit_def hexchars_def by (rule nth_mem) simp

lemma length_EncodeToString: "length (EncodeToString bs) = 2 * length bs"
  by (induction bs) (auto simp: EncodeToString_def)

lemma EncodeToString_hex:
  assumes "\<forall>b \<in> set bs. 0 \<le> b \<and> b < 256"
  shows "set (EncodeToString bs) \<subseteq> hexchars"
proof -
  have "hexdigit (nat (b div 16)) \<in> hexchars \<and> hexdigit (nat (b mod 16)) \<in> hexchars" if "b \<in> set bs" for b
    using assms that by (auto intro!: hexdigit_hexchars simp: nat_less_iff)
  then show ?thesis by (auto simp: EncodeToString_def)
qed

lemma Canonical_prefix: "take 7 (Canonical m) = ''sha256:''"
  by (simp add: Canonical_def)

lemma length_Canonical: "length (Canonical m) = 71"
  by (simp add: Canonical_def length_EncodeToString length_sha256)

lemma Canonical_digits: "set (drop 7 (Canonical m)) \<subseteq> hexchars"
  using EncodeToString_hex [of "sha256 (marshal_map m)"] sha256_range by (simp add: Canonical_def)

lemma Canonical_not_Nil [simp]: "Canonical m \<noteq> []"
  by (simp add: Canonical_def)

lemma length_Short: "n \<le> 64 \<Longrightarrow> length (Short (Canonical m) n) = n"
  by (simp add: Short_def length_Canonical Canonical_prefix)

lemma Short_Canonical: "n \<le> 64 \<Longrightarrow> Short (Canonical m) n = take n (drop 7 (Canonical m))"
  by (simp add: Short_def length_Canonical Canonical_prefix)

lemma EncodeToString_inj:
  assumes "\<forall>b \<in> set bs. 0 \<le> b \<and> b < 256" "\<forall>b \<in> set cs. 0 \<le> b \<and> b < 256"
    and "EncodeToString bs = EncodeToString cs"
  shows "bs = cs"
  using assms
proof (induction bs arbitrary: cs)
  case Nil
  then show ?case by (cases cs) (auto simp: EncodeToString_def)
next
  case (Cons b bs)
  show ?case
  proof (cases cs)
    case Nil
    then show ?thesis using Cons.prems by (simp add: EncodeToString_def)
  next
    case (Cons c cs')
    have eq: "hexdigit (nat (b div 16)) = hexdigit (nat (c div 16))"
      "hexdigit (nat (b mod 16)) = hexdigit (nat (c mod 16))"
      "EncodeToString bs = EncodeToString cs'"
      using Cons.prems(3) Cons by (simp_all add: EncodeToString_def)
    have "nat (b div 16) < 16" "nat (c div 16) < 16" "nat (b mod 16) < 16" "nat (c mod 16) < 16"
      using Cons.prems(1,2) Cons by (auto simp: nat_less_iff)
    then have "nat (b div 16) = nat (c div 16)" "nat (b mod 16) = nat (c mod 16)"
      using eq(1,2) hexval_hexdigit by (metis option.inject)+
    then have "b = c"
      using Cons.prems(1,2) Cons by (metis div_mult_mod_eq eq_nat_nat_iff list.set_intros(1)
          pos_imp_zdiv_nonneg_iff pos_mod_sign zero_less_numeral)
    then show ?thesis using Cons.IH [of cs'] Cons.prems(1,2) Cons eq(3) by simp
  qed
qed

section \<open>Properties of the content address\<close>

text \<open>
  The address depends on the identity as a map: two association lists with the same entries,
  in whatever order a Go map iterates over them, have the same address.
\<close>

theorem Canonical_order_independent:
  assumes "distinct (map fst m)" "distinct (map fst m')" "map_of m = map_of m'"
  shows "Canonical m = Canonical m'"
  using marshal_map_cong [OF assms] by (simp add: Canonical_def)

theorem Canonical_order_independent_witness:
  "Canonical [(''gitRef'', ''v1''), (''arch'', ''x86'')] = Canonical [(''arch'', ''x86''), (''gitRef'', ''v1'')]"
  by (rule Canonical_order_independent) (auto simp: fun_eq_iff)

text \<open>
  C21: Two valid identities with the same address are the same map, or else they exhibit a collision
  of SHA-256: the canonical encoding in between loses nothing.
\<close>

theorem Canonical_collision:
  assumes "valid_map m" "valid_map m'" "Canonical m = Canonical m'"
  shows "map_of m = map_of m' \<or> marshal_map m \<noteq> marshal_map m' \<and> sha256 (marshal_map m) = sha256 (marshal_map m')"
proof (cases "marshal_map m = marshal_map m'")
  case True
  then show ?thesis using marshal_map_inj [OF assms(1,2)] by simp
next
  case False
  have "EncodeToString (sha256 (marshal_map m)) = EncodeToString (sha256 (marshal_map m'))"
    using assms(3) by (simp add: Canonical_def)
  then show ?thesis using False EncodeToString_inj sha256_range by blast
qed

theorem Canonical_collision_witness:
  "map_of [(''b'', ''2''), (''a'', ''1'')] = map_of [(''a'', ''1''), (''b'', ''2'')] \<or>
   marshal_map [(''b'', ''2''), (''a'', ''1'')] \<noteq> marshal_map [(''a'', ''1''), (''b'', ''2'')] \<and>
   sha256 (marshal_map [(''b'', ''2''), (''a'', ''1'')]) = sha256 (marshal_map [(''a'', ''1''), (''b'', ''2'')])"
proof (rule Canonical_collision)
  have "marshal_map [(''b'', ''2''), (''a'', ''1'')] = marshal_map [(''a'', ''1''), (''b'', ''2'')]"
    by (rule marshal_map_cong) (auto simp: fun_eq_iff)
  then show "Canonical [(''b'', ''2''), (''a'', ''1'')] = Canonical [(''a'', ''1''), (''b'', ''2'')]"
    by (simp add: Canonical_def)
qed (simp_all add: valid_map_def valid_utf8.simps byte_def)

text \<open>
  The address has the shape the rest of the system relies on: the prefix \<^verbatim>\<open>sha256:\<close> and 64
  lower-case hexadecimal digits, of which \<open>Short\<close> takes the first \<open>n\<close>.
\<close>

theorem Canonical_shape:
  "length (Canonical m) = 71 \<and> take 7 (Canonical m) = ''sha256:'' \<and> set (drop 7 (Canonical m)) \<subseteq> hexchars
   \<and> Short (Canonical m) (min n 64) = take n (drop 7 (Canonical m))"
  by (simp_all add: length_Canonical Canonical_prefix Canonical_digits Short_Canonical min_def)

text \<open>The golden value the repository freezes against accidental changes of the encoding.\<close>

theorem Canonical_golden:
  "Canonical [(''source'', ''client-repo.git''), (''gitRef'', ''v1.4.2''), (''platform'', ''windows''), (''arch'', ''x86'')]
   = ''sha256:72ddd979f2af866f8356b3ffe6e43584f7233bef60021f9882d40cc26f8bc776''"
  by code_simp

end
