(* ===== verification/JsonParse.thy ===== *)
theory JsonParse
  imports Json
begin

text \<open>
  Go's \<open>json.Unmarshal\<close> into an \<open>interface{}\<close> or a \<open>map[string]interface{}\<close>: the grammar of the
  scanner, its nesting limit of 10000, the range check of \<open>float64\<close> and last-wins duplicate
  members. \<open>Parse\<close> is the checked syntax tree with every member in order, from which theory
  \<open>JsonStruct\<close> decodes into structs. A \<open>float64\<close> is kept as the decimal literal it was read from (nothing in the program
  computes with it); an \<open>int64\<close>, which the Kubernetes decoder produces for integers, is a number.

  The recursion is on fuel. \<open>parse_value_fuel\<close> shows that any fuel above twice the length of the
  input gives the same answer, so the fuel \<open>Parse\<close> starts with is enough.
\<close>

datatype json =
    JNull
  | JBool bool
  | JInt int
  | JNum string
  | JStr string
  | JArr "json list"
  | JObj "(string \<times> json) list"

definition isWs :: "char \<Rightarrow> bool" where
  "isWs c \<longleftrightarrow> c \<in> {CHR '' '', CHR 0x09, CHR 0x0A, CHR 0x0D}"

definition skipWs :: "string \<Rightarrow> string" where
  "skipWs = dropWhile isWs"

lemma length_skipWs: "length (skipWs s) \<le> length s"
  by (simp add: skipWs_def length_dropWhile_le)

section \<open>Numbers\<close>

definition isDigit :: "char \<Rightarrow> bool" where
  "isDigit c \<longleftrightarrow> 48 \<le> byte c \<and> byte c \<le> 57"

definition digits :: "string \<Rightarrow> string \<times> string" where
  "digits s = (takeWhile isDigit s, dropWhile isDigit s)"

text \<open>Sign, integer part, fraction digits, exponent (sign and digits), rest.\<close>

definition scan_frac :: "string \<Rightarrow> (string \<times> string) option" where
  "scan_frac s =
     (case s of
        c # t \<Rightarrow> if c = CHR ''.''
                 then (case digits t of (d, r) \<Rightarrow> if d = [] then None else Some (d, r))
                 else Some ([], s)
      | [] \<Rightarrow> Some ([], []))"

definition scan_exp :: "string \<Rightarrow> (int \<times> string \<times> string) option" where
  "scan_exp s =
     (case s of
        c # t \<Rightarrow>
          if c = CHR ''e'' \<or> c = CHR ''E'' then
            (let (sg, t') = (case t of d # t1 \<Rightarrow> if d = CHR ''-'' then (- 1, t1)
                                                else if d = CHR ''+'' then (1, t1) else (1, t)
                             | [] \<Rightarrow> (1, t))
             in case digits t' of (d, r) \<Rightarrow> if d = [] then None else Some (sg, d, r))
          else Some (1, [], s)
      | [] \<Rightarrow> Some (1, [], []))"

definition dec :: "string \<Rightarrow> nat" where
  "dec = foldl (\<lambda>n c. 10 * n + (byte c - 48)) 0"

text \<open>
  The literal is out of the range of \<open>float64\<close>: its magnitude \<open>m * 10 ^ k\<close> rounds to infinity.
  The two cut-offs on \<open>k\<close> only avoid computing powers whose comparison is already decided.
\<close>

definition float_overflows :: "string \<Rightarrow> string \<Rightarrow> int \<Rightarrow> bool" where
  "float_overflows i f e =
     (let m = dec (i @ f); k = e - int (length f); B = 2 ^ 1024 - 2 ^ 970
      in if m = 0 then False
         else if 0 \<le> k then (if 400 < k then True else B \<le> m * 10 ^ nat k)
         else if int (length (i @ f)) \<le> - k then False
         else B * 10 ^ nat (- k) \<le> m)"

definition scan_number :: "string \<Rightarrow> (string \<times> string \<times> int \<times> string) option" where
  "scan_number s =
     (let t = (case s of c # t \<Rightarrow> if c = CHR ''-'' then t else s | [] \<Rightarrow> s);
          (i, r) = (case t of c # t' \<Rightarrow> if c = CHR ''0'' then ([c], t') else digits t | [] \<Rightarrow> ([], []))
      in if i = [] then None
         else case scan_frac r of
           None \<Rightarrow> None
         | Some (f, r1) \<Rightarrow>
             (case scan_exp r1 of
                None \<Rightarrow> None
              | Some (sg, x, r2) \<Rightarrow> Some (i, f, sg * int (dec x), r2)))"

definition parse_number :: "string \<Rightarrow> (json \<times> string) option" where
  "parse_number s =
     (case scan_number s of
        None \<Rightarrow> None
      | Some (i, f, e, r) \<Rightarrow> Some (JNum (take (length s - length r) s), r))"

definition out_of_range :: "string \<Rightarrow> bool" where
  "out_of_range lit =
     (case scan_number lit of None \<Rightarrow> False | Some (i, f, e, r) \<Rightarrow> float_overflows i f e)"

lemma digits_length: "digits s = (d, r) \<Longrightarrow> length s = length d + length r"
  unfolding digits_def by (metis length_append prod.inject takeWhile_dropWhile_id)

lemma scan_frac_length: "scan_frac s = Some (f, r) \<Longrightarrow> length r \<le> length s"
  by (auto simp: scan_frac_def split: list.splits if_splits prod.splits dest: digits_length)

lemma scan_exp_length: "scan_exp s = Some (g, x, r) \<Longrightarrow> length r \<le> length s"
  by (auto simp: scan_exp_def Let_def split: list.splits if_splits prod.splits dest: digits_length)

lemma parse_number_length:
  assumes "parse_number s = Some (v, r)"
  shows "length r < length s"
proof -
  obtain t i q f r1 g x where t: "t = (case s of c # t \<Rightarrow> if c = CHR ''-'' then t else s | [] \<Rightarrow> s)"
    and q: "(i, q) = (case t of c # t' \<Rightarrow> if c = CHR ''0'' then ([c], t') else digits t | [] \<Rightarrow> ([], []))"
    and i: "i \<noteq> []" and f: "scan_frac q = Some (f, r1)" and x: "scan_exp r1 = Some (g, x, r)"
    using assms unfolding parse_number_def scan_number_def
    by (auto simp: Let_def split: prod.splits if_splits option.splits)
  have "length t \<le> length s" using t by (auto split: list.splits)
  moreover have "length q < length t"
    using q i by (auto split: list.splits if_splits dest!: sym [THEN digits_length])
  ultimately show ?thesis using scan_frac_length [OF f] scan_exp_length [OF x] by simp
qed

section \<open>Values\<close>

definition literal :: "string \<Rightarrow> (json \<times> string) option" where
  "literal s =
     (if HasPrefix s ''true'' then Some (JBool True, drop 4 s)
      else if HasPrefix s ''false'' then Some (JBool False, drop 5 s)
      else if HasPrefix s ''null'' then Some (JNull, drop 4 s)
      else parse_number s)"

lemma literal_length: "literal s = Some (v, r) \<Longrightarrow> length r < length s"
  by (auto simp: literal_def HasPrefix_iff split: if_splits dest: parse_number_length)

text \<open>
  \<open>parse_elems\<close> and \<open>parse_members\<close> read the rest of a non-empty array or object, after its
  opening bracket or a comma; \<open>d\<close> is the nesting still allowed.
\<close>

fun parse_value :: "nat \<Rightarrow> nat \<Rightarrow> string \<Rightarrow> (json \<times> string) option"
and parse_elems :: "nat \<Rightarrow> nat \<Rightarrow> string \<Rightarrow> (json list \<times> string) option"
and parse_members :: "nat \<Rightarrow> nat \<Rightarrow> (string \<times> json) list \<Rightarrow> string \<Rightarrow> ((string \<times> json) list \<times> string) option"
where
  "parse_value 0 d s = None"
| "parse_value (Suc n) d s =
     (case skipWs s of
        [] \<Rightarrow> None
      | c # t \<Rightarrow>
          if c = CHR ''\"'' then map_option (\<lambda>(x, r). (JStr x, r)) (unquote t)
          else if c = CHR ''['' then
            (if d = 0 then None
             else case skipWs t of
               [] \<Rightarrow> None
             | e # r \<Rightarrow> if e = CHR '']'' then Some (JArr [], r)
                       else map_option (\<lambda>(xs, q). (JArr xs, q)) (parse_elems n (d - 1) t))
          else if c = CHR ''{'' then
            (if d = 0 then None
             else case skipWs t of
               [] \<Rightarrow> None
             | e # r \<Rightarrow> if e = CHR ''}'' then Some (JObj [], r)
                       else map_option (\<lambda>(m, q). (JObj m, q)) (parse_members n (d - 1) [] t))
          else literal (c # t))"
| "parse_elems 0 d s = None"
| "parse_elems (Suc n) d s =
     (case parse_value n d s of
        None \<Rightarrow> None
      | Some (v, r) \<Rightarrow>
          (case skipWs r of
             [] \<Rightarrow> None
           | c # t \<Rightarrow> if c = CHR '']'' then Some ([v], t)
                     else if c = CHR '','' then map_option (\<lambda>(xs, q). (v # xs, q)) (parse_elems n d t)
                     else None))"
| "parse_members 0 d m s = None"
| "parse_members (Suc n) d m s =
     (case skipWs s of
        [] \<Rightarrow> None
      | c # t \<Rightarrow>
          if c \<noteq> CHR ''\"'' then None
          else case unquote t of
            None \<Rightarrow> None
          | Some (k, r) \<Rightarrow>
              (case skipWs r of
                 [] \<Rightarrow> None
               | c2 # t2 \<Rightarrow>
                   if c2 \<noteq> CHR '':'' then None
                   else case parse_value n d t2 of
                     None \<Rightarrow> None
                   | Some (v, r2) \<Rightarrow>
                       (case skipWs r2 of
                          [] \<Rightarrow> None
                        | c3 # t3 \<Rightarrow>
                            if c3 = CHR ''}'' then Some (m @ [(k, v)], t3)
                            else if c3 = CHR '','' then parse_members n d (m @ [(k, v)]) t3
                            else None)))"

lemma prepend_SomeD: "prepend p o' = Some (x, r) \<Longrightarrow> \<exists>y. o' = Some (y, r)"
  by (auto simp: prepend_def)

lemma unquote_length_le: "length s \<le> n \<Longrightarrow> unquote s = Some (x, r) \<Longrightarrow> length r < length s"
proof (induction n arbitrary: s x r)
  case 0
  then show ?case by (simp add: unquote.simps)
next
  case (Suc n)
  have step: "prepend p (unquote u) = Some (y, q) \<Longrightarrow> length u \<le> n \<Longrightarrow> length u < L \<Longrightarrow> length q < L" for p u y q L
    using Suc.IH [of u] prepend_SomeD [of p "unquote u" y q] by fastforce
  from trans [OF unquote.simps [of s, symmetric] Suc.prems(2)] Suc.prems(1) show ?case
    by (auto split: list.splits if_splits option.splits elim!: step)
qed

lemma unquote_length: "unquote s = Some (x, r) \<Longrightarrow> length r < length s"
  by (rule unquote_length_le [OF order_refl])

section \<open>Fuel\<close>

lemma skipWs_Cons: "skipWs s = c # t \<Longrightarrow> length t < length s"
  using length_skipWs [of s] by simp

lemma parse_length:
  "parse_value n d s = Some (v, r) \<Longrightarrow> length r < length s"
  "parse_elems n d s = Some (xs, r) \<Longrightarrow> length r < length s"
  "parse_members n d m s = Some (ms, r) \<Longrightarrow> length r < length s"
proof (induction n d s and n d s and n d m s arbitrary: v r and xs r and ms r
    rule: parse_value_parse_elems_parse_members.induct)
  case (2 n d s)
  then show ?case
    by (auto split: list.splits if_splits dest!: skipWs_Cons unquote_length literal_length
        intro: less_trans) (metis Suc_lessD less_trans skipWs_Cons)+
next
  case (4 n d s)
  then show ?case
    by (auto split: list.splits if_splits option.splits dest!: skipWs_Cons) (meson less_trans)+
next
  case (6 n d m s)
  then show ?case
    by (auto split: list.splits if_splits option.splits dest!: skipWs_Cons unquote_length) (meson less_trans)+
qed simp_all

lemma parse_fuel_Suc:
  "2 * length s < n \<Longrightarrow> parse_value (Suc n) d s = parse_value n d s"
  "2 * length s + 1 < n \<Longrightarrow> parse_elems (Suc n) d s = parse_elems n d s"
  "2 * length s + 1 < n \<Longrightarrow> parse_members (Suc n) d m s = parse_members n d m s"
proof (induction n arbitrary: s d m)
  case (Suc n)
  {
    case 1
    then show ?case
      using Suc.IH(2) Suc.IH(3) skipWs_Cons [of s]
      by (fastforce split: list.splits option.splits simp del: parse_elems.simps parse_members.simps)
  next
    case 2
    then have v: "parse_value (Suc n) d s = parse_value n d s"
      using Suc.IH(1) by simp
    have e: "parse_elems (Suc n) d t = parse_elems n d t" if "length t < length s" for t
      using that 2 by (intro Suc.IH(2)) simp
    show ?case
      unfolding parse_elems.simps(2) [of "Suc n"] v
      by (subst parse_elems.simps(2) [of n d s])
        (auto split: option.split list.split simp del: parse_elems.simps
          dest!: skipWs_Cons parse_length(1) simp: e)
  next
    case 3
    have v: "parse_value (Suc n) d t2 = parse_value n d t2" if "length t2 < length s" for t2
      using that 3 by (intro Suc.IH(1)) simp
    have e: "parse_members (Suc n) d m' t3 = parse_members n d m' t3" if "length t3 < length s" for m' t3
      using that 3 by (intro Suc.IH(3)) simp
    note unf = parse_members.simps(2) [of "Suc n" d m s] parse_members.simps(2) [of n d m s]
    show ?case
    proof (cases "skipWs s")
      case sk: (Cons c t)
      show ?thesis
      proof (cases "unquote t")
        case un: (Some kr)
        obtain k r where kr: "kr = (k, r)" by (cases kr)
        show ?thesis
        proof (cases "skipWs r")
          case sr: (Cons c2 t2)
          have lt2: "length t2 < length s"
            using skipWs_Cons [OF sk] skipWs_Cons [OF sr] unquote_length [of t k r] un kr by simp
          show ?thesis
          proof (cases "parse_value n d t2")
            case pv: (Some vr)
            obtain x r2 where vr: "vr = (x, r2)" by (cases vr)
            have "length t3 < length s" if "skipWs r2 = c3 # t3" for c3 t3
              using skipWs_Cons [OF that] parse_length(1) [of n d t2 x r2] pv vr lt2 by simp
            then show ?thesis
              using sk un kr sr pv vr v [OF lt2] e
              by (cases "skipWs r2") (simp_all only: unf, simp_all del: parse_members.simps parse_value.simps)
          qed (use sk un kr sr v [OF lt2] in \<open>simp only: unf, simp del: parse_members.simps parse_value.simps\<close>)
        qed (use sk un kr in \<open>simp only: unf, simp del: parse_members.simps parse_value.simps\<close>)
      qed (use sk in \<open>simp only: unf, simp del: parse_members.simps parse_value.simps\<close>)
    qed (simp only: unf, simp del: parse_members.simps parse_value.simps)
  }
qed simp_all

lemma parse_value_fuel:
  assumes "2 * length s < n" "n \<le> k"
  shows "parse_value k d s = parse_value n d s"
  using assms(2,1)
proof (induction rule: dec_induct)
  case (step k)
  then show ?case using parse_fuel_Suc(1) [of s k d] by simp
qed simp

section \<open>Unmarshal\<close>

text \<open>
  The text is checked in full before anything is decoded. Into an \<open>interface{}\<close>, a number outside
  the range of \<open>float64\<close> is an error, wherever it stands, and of several members of the same name
  the last one wins.
\<close>

definition Parse :: "string \<Rightarrow> json option" where
  "Parse s =
     (case parse_value (2 * length s + 1) 10000 s of
        None \<Rightarrow> None
      | Some (v, r) \<Rightarrow> if skipWs r = [] then Some v else None)"

fun in_range :: "json \<Rightarrow> bool" where
  "in_range (JNum lit) = (\<not> out_of_range lit)"
| "in_range (JArr xs) = (\<forall>x \<in> set xs. in_range x)"
| "in_range (JObj m) = (\<forall>kv \<in> set m. in_range (snd kv))"
| "in_range _ = True"

fun collapse :: "json \<Rightarrow> json" where
  "collapse (JArr xs) = JArr (map collapse xs)"
| "collapse (JObj m) = JObj (foldl (\<lambda>acc kv. mput (fst kv) (snd kv) acc) [] (map (\<lambda>(k, v). (k, collapse v)) m))"
| "collapse v = v"

definition Unmarshal :: "string \<Rightarrow> json option" where
  "Unmarshal s =
     (case Parse s of
        None \<Rightarrow> None
      | Some v \<Rightarrow> if in_range v then Some (collapse v) else None)"

text \<open>Into a \<open>map[string]interface{}\<close>: \<open>null\<close> leaves the map nil (here empty).\<close>

definition UnmarshalObject :: "string \<Rightarrow> (string \<times> json) list option" where
  "UnmarshalObject s =
     (case Unmarshal s of
        Some (JObj m) \<Rightarrow> Some m
      | Some JNull \<Rightarrow> Some []
      | _ \<Rightarrow> None)"

lemma Parse_fuel:
  "2 * length s < n \<Longrightarrow> Parse s =
     (case parse_value n 10000 s of
        None \<Rightarrow> None | Some (v, r) \<Rightarrow> if skipWs r = [] then Some v else None)"
  unfolding Parse_def using parse_value_fuel [of s "2 * length s + 1" n 10000] by simp

end
