(* ===== verification/Template.thy ===== *)
theory Template
  imports Prelude
begin

text \<open>
  What the program uses of Go's \<^verbatim>\<open>text/template\<close>: templates of text and actions that are field
  chains (\<^verbatim>\<open>{{ .SpecHash }}\<close>, \<^verbatim>\<open>{{ .Identity.gitRef }}\<close>), executed with
  \<open>missingkey=error\<close>. Every template of the repository's samples and defaults is of this form. A
  template outside the fragment (pipelines, functions, control structures, trim markers) is
  executed by a parameter \<open>ext\<close> that stands for the rest of the engine.
\<close>

datatype seg = Text string | Field "string list"

definition tmplSpace :: "char \<Rightarrow> bool" where
  "tmplSpace c \<longleftrightarrow> c \<in> {CHR '' '', CHR 0x09, CHR 0x0D, CHR 0x0A}"

definition asciiDigit :: "char \<Rightarrow> bool" where
  "asciiDigit c \<longleftrightarrow> (48::nat) \<le> of_char c \<and> (of_char c :: nat) \<le> 57"

definition asciiAlnum :: "char \<Rightarrow> bool" where
  "asciiAlnum c \<longleftrightarrow>
     c = CHR ''_'' \<or> asciiDigit c \<or> (65::nat) \<le> of_char c \<and> (of_char c :: nat) \<le> 90
   \<or> (97::nat) \<le> of_char c \<and> (of_char c :: nat) \<le> 122"

text \<open>A field chain: dots and identifiers, none of which starts with a digit.\<close>

function chain :: "string \<Rightarrow> string list option" where
  "chain s =
     (case s of
        [] \<Rightarrow> None
      | c # r \<Rightarrow>
          if c \<noteq> CHR ''.'' then None
          else let name = takeWhile asciiAlnum r; rest = dropWhile asciiAlnum r
               in if name = [] \<or> asciiDigit (hd name) then None
                  else if rest = [] then Some [name]
                  else map_option ((#) name) (chain rest))"
  by pat_completeness auto
termination
  by (relation "measure length") (auto simp: less_Suc_eq_le length_dropWhile_le)

declare chain.simps [simp del]

definition trimTmplSpace :: "string \<Rightarrow> string" where
  "trimTmplSpace s = rev (dropWhile tmplSpace (rev (dropWhile tmplSpace s)))"

text \<open>The text before and after the first \<^verbatim>\<open>}}\<close>.\<close>

fun split_close :: "string \<Rightarrow> (string \<times> string) option" where
  "split_close [] = None"
| "split_close (c # s) =
     (if HasPrefix (c # s) ''}}'' then Some ([], drop 1 s)
      else map_option (\<lambda>(a, b). (c # a, b)) (split_close s))"

lemma split_close_length: "split_close s = Some (a, b) \<Longrightarrow> length b < length s"
  by (induction s arbitrary: a b) (fastforce split: if_splits)+

fun cons_text :: "char \<Rightarrow> seg list \<Rightarrow> seg list" where
  "cons_text c (Text t # segs) = Text (c # t) # segs"
| "cons_text c segs = Text [c] # segs"

function scan :: "string \<Rightarrow> seg list option" where
  "scan s =
     (case s of
        [] \<Rightarrow> Some []
      | c # r \<Rightarrow>
          if HasPrefix s ''{{'' then
            (case split_close (drop 2 s) of
               None \<Rightarrow> None
             | Some (body, rest) \<Rightarrow>
                 (case chain (trimTmplSpace body) of
                    None \<Rightarrow> None
                  | Some fs \<Rightarrow> map_option ((#) (Field fs)) (scan rest)))
          else map_option (cons_text c) (scan r))"
  by pat_completeness auto
termination
  by (relation "measure length") (auto dest!: split_close_length)

declare scan.simps [simp del]

text \<open>
  Execution: each action is evaluated by \<open>field\<close>, the data's own lookup; the first error ends it.
\<close>

fun exec :: "(string list \<Rightarrow> goerr + string) \<Rightarrow> seg list \<Rightarrow> goerr + string" where
  "exec field [] = Inr []"
| "exec field (Text t # segs) = map_res (\<lambda>r. t @ r) (exec field segs)"
| "exec field (Field fs # segs) =
     (case field fs of
        Inl e \<Rightarrow> Inl e
      | Inr v \<Rightarrow> map_res (\<lambda>r. v @ r) (exec field segs))"

definition template_render ::
  "(string \<Rightarrow> goerr + string) \<Rightarrow> (string list \<Rightarrow> goerr + string) \<Rightarrow> string \<Rightarrow> goerr + string" where
  "template_render ext field tmpl =
     (case scan tmpl of
        Some segs \<Rightarrow>
          (case exec field segs of
             Inl e \<Rightarrow> Inl (Errorf ''execute template %q: %w'' [AStr tmpl, AErr e])
           | Inr out \<Rightarrow> Inr out)
      | None \<Rightarrow> ext tmpl)"

section \<open>Facts\<close>

lemma scan_Nil [simp]: "scan [] = Some []"
  by (simp add: scan.simps)

lemma exec_cons_text: "exec field (cons_text c segs) = map_res (\<lambda>r. c # r) (exec field segs)"
proof (induction c segs rule: cons_text.induct)
  case (1 c t segs)
  show ?case by (cases "exec field segs") simp_all
qed (auto split: sum.split)

text \<open>A template without actions renders to itself.\<close>

lemma template_plain:
  assumes "\<not> Contains s ''{{''"
  shows "template_render ext field s = Inr s"
proof -
  have "\<exists>segs. scan s = Some segs \<and> exec field segs = Inr s"
    using assms
  proof (induction s)
    case (Cons c s)
    then obtain segs where "scan s = Some segs" "exec field segs = Inr s" by auto
    moreover have "\<not> HasPrefix (c # s) ''{{''" using Cons.prems by simp
    ultimately show ?case by (subst scan.simps) (auto simp: exec_cons_text)
  qed simp
  then show ?thesis by (auto simp: template_render_def)
qed

text \<open>The engine's answer on a single field action.\<close>

lemma template_one_field:
  assumes "scan tmpl = Some [Field fs]" "field fs = Inr v"
  shows "template_render ext field tmpl = Inr v"
  using assms by (simp add: template_render_def)

end
