(* ===== verification/Generator.thy ===== *)
theory Generator
  imports ApiTypes Hash JsonParse Template
begin

text \<open>
  Package \<^verbatim>\<open>internal/generator\<close>: rendering the store key and the generator run from a class's
  templates (\<^verbatim>\<open>render.go\<close>), and interpreting a run's status with CEL expressions compiled once
  and cached (\<^verbatim>\<open>eval.go\<close>). The CEL library is a parameter: a compiler from expressions to
  programs and an evaluator of programs; so is the part of the template engine outside the
  fragment of theory \<open>Template\<close>. The accessors of the Kubernetes \<open>unstructured\<close> package are
  parameters as well.
\<close>

section \<open>Rendering\<close>

record Input =
  inIdentity :: gomap
  inParams :: gomap
  inSpecHash :: string
  inSpecHex :: string
  inKey :: string
  inName :: string
  inNamespace :: string
  inClass :: string
  inAttempt :: int

text \<open>
  Field lookup in the template data: the fields of the struct \<open>Input\<close>, members of its two maps
  (an absent one is an error under \<open>missingkey=error\<close>), and printed values. A map prints as
  \<^verbatim>\<open>map[k:v ...]\<close> in key order.
\<close>

definition print_map :: "gomap \<Rightarrow> string" where
  "print_map m = ''map['' @ Join (map (\<lambda>(k, v). k @ '':'' @ v) (sort_key fst m)) '' '' @ '']''"

definition no_field :: "string \<Rightarrow> goerr" where
  "no_field f = Errorf ''can't evaluate field %s'' [AStr f]"

definition map_entry :: "gomap \<Rightarrow> string list \<Rightarrow> goerr + string" where
  "map_entry m fs =
     (case fs of
        [] \<Rightarrow> Inr (print_map m)
      | k # ks \<Rightarrow>
          (case map_of m k of
             None \<Rightarrow> Inl (Errorf ''map has no entry for key %q'' [AStr k])
           | Some v \<Rightarrow> (case ks of [] \<Rightarrow> Inr v | f # _ \<Rightarrow> Inl (no_field f))))"

definition scalar :: "string \<Rightarrow> string list \<Rightarrow> goerr + string" where
  "scalar v fs = (case fs of [] \<Rightarrow> Inr v | f # _ \<Rightarrow> Inl (no_field f))"

definition input_field :: "Input \<Rightarrow> string list \<Rightarrow> goerr + string" where
  "input_field i fs =
     (case fs of
        [] \<Rightarrow> Inl (no_field [])
      | f # r \<Rightarrow>
          if f = ''Identity'' then map_entry (inIdentity i) r
          else if f = ''Params'' then map_entry (inParams i) r
          else if f = ''SpecHash'' then scalar (inSpecHash i) r
          else if f = ''SpecHex'' then scalar (inSpecHex i) r
          else if f = ''Key'' then scalar (inKey i) r
          else if f = ''Name'' then scalar (inName i) r
          else if f = ''Namespace'' then scalar (inNamespace i) r
          else if f = ''Class'' then scalar (inClass i) r
          else if f = ''Attempt'' then scalar (itoa (inAttempt i)) r
          else Inl (no_field f))"

type_synonym tmpl_ext = "string \<Rightarrow> Input \<Rightarrow> goerr + string"

definition renderString :: "tmpl_ext \<Rightarrow> string \<Rightarrow> Input \<Rightarrow> goerr + string" where
  "renderString ext tmpl i = template_render (\<lambda>t. ext t i) (input_field i) tmpl"

definition RenderKey :: "tmpl_ext \<Rightarrow> string \<Rightarrow> Input \<Rightarrow> goerr + string" where
  "RenderKey ext tmpl i =
     (case renderString ext tmpl i of
        Inl e \<Rightarrow> Inl (Errorf ''render key template: %w'' [AErr e])
      | Inr out \<Rightarrow>
          if TrimSpaceEmpty out then Inl (Errorf ''key template rendered to an empty key'' [])
          else Inr out)"

text \<open>
  \<open>walk\<close> renders every string leaf. Go visits the members of an object in no particular order, so
  when several leaves fail, which error is reported is not determined; the model reports the first
  in list order.
\<close>

fun walk :: "tmpl_ext \<Rightarrow> Input \<Rightarrow> json \<Rightarrow> goerr + json"
and walk_list :: "tmpl_ext \<Rightarrow> Input \<Rightarrow> json list \<Rightarrow> goerr + json list"
and walk_members :: "tmpl_ext \<Rightarrow> Input \<Rightarrow> (string \<times> json) list \<Rightarrow> goerr + (string \<times> json) list"
where
  "walk ext i (JObj m) = map_res JObj (walk_members ext i m)"
| "walk ext i (JArr xs) = map_res JArr (walk_list ext i xs)"
| "walk ext i (JStr t) =
     (if \<not> Contains t ''{{'' then Inr (JStr t) else map_res JStr (renderString ext t i))"
| "walk ext i v = Inr v"
| "walk_list ext i [] = Inr []"
| "walk_list ext i (x # xs) =
     (case walk ext i x of
        Inl e \<Rightarrow> Inl e
      | Inr y \<Rightarrow> map_res ((#) y) (walk_list ext i xs))"
| "walk_members ext i [] = Inr []"
| "walk_members ext i ((k, v) # m) =
     (case walk ext i v of
        Inl e \<Rightarrow> Inl e
      | Inr w \<Rightarrow> map_res ((#) (k, w)) (walk_members ext i m))"

text \<open>An \<open>unstructured.Unstructured\<close> is its \<open>Object\<close>, the decoded map.\<close>

type_synonym unstructured = "(string \<times> json) list"

definition RenderTemplate ::
  "(unstructured \<Rightarrow> string) \<Rightarrow> (unstructured \<Rightarrow> string) \<Rightarrow> tmpl_ext \<Rightarrow> string \<Rightarrow> Input
     \<Rightarrow> goerr + unstructured" where
  "RenderTemplate getAPIVersion getKind ext raw i =
     (if raw = [] then Inl (Errorf ''generator template is empty'' [])
      else case UnmarshalObject raw of
        None \<Rightarrow> Inl (Errorf ''generator template is not a valid object: %w'' [])
      | Some obj \<Rightarrow>
          (case walk_members ext i obj of
             Inl e \<Rightarrow> Inl e
           | Inr u \<Rightarrow>
               if getAPIVersion u = [] \<or> getKind u = []
               then Inl (Errorf ''generator template must set apiVersion and kind'' [])
               else Inr u))"

section \<open>Evaluation\<close>

text \<open>
  The CEL library: \<open>compile\<close> stands for \<open>env.Compile\<close> followed by \<open>env.Program\<close>, \<open>eval\<close> for
  \<open>prg.Eval\<close> on the variables \<open>object\<close> and \<open>status\<close>. A result is a boolean or something else.
\<close>

datatype celval = CelBool bool | CelOther string

record 'p cel =
  celCompile :: "string \<Rightarrow> goerr + 'p"
  celEval :: "'p \<Rightarrow> unstructured \<Rightarrow> unstructured \<Rightarrow> goerr + celval"

record 'p Evaluator =
  progs :: "(string \<times> 'p) list"

definition NewEvaluator :: "'p Evaluator" where
  "NewEvaluator = \<lparr>progs = []\<rparr>"

definition program :: "'p cel \<Rightarrow> 'p Evaluator \<Rightarrow> string \<Rightarrow> (goerr + 'p) \<times> 'p Evaluator" where
  "program C e expr =
     (case map_of (progs e) expr of
        Some p \<Rightarrow> (Inr p, e)
      | None \<Rightarrow>
          (case celCompile C expr of
             Inl err \<Rightarrow> (Inl err, e)
           | Inr prg \<Rightarrow> (Inr prg, e\<lparr>progs := mput expr prg (progs e)\<rparr>)))"

definition statusOf :: "unstructured \<Rightarrow> unstructured" where
  "statusOf object = (case map_of object ''status'' of Some (JObj m) \<Rightarrow> m | _ \<Rightarrow> [])"

definition EvalBool ::
  "'p cel \<Rightarrow> 'p Evaluator \<Rightarrow> string \<Rightarrow> unstructured \<Rightarrow> (goerr + bool) \<times> 'p Evaluator" where
  "EvalBool C e expr object =
     (case program C e expr of
        (Inl err, e') \<Rightarrow> (Inl err, e')
      | (Inr prg, e') \<Rightarrow>
          (case celEval C prg object (statusOf object) of
             Inl err \<Rightarrow> (Inl (Errorf ''evaluate %q: %w'' [AStr expr, AErr err]), e')
           | Inr (CelBool b) \<Rightarrow> (Inr b, e')
           | Inr (CelOther t) \<Rightarrow>
               (Inl (Errorf ''expression %q returned %T, want bool'' [AStr expr, AStr t]), e')))"

section \<open>Rendering: facts\<close>

lemma renderString_plain: "\<not> Contains t ''{{'' \<Longrightarrow> renderString ext t i = Inr t"
  by (simp add: renderString_def template_plain)

lemma RenderKey_not_blank: "RenderKey ext tmpl i = Inr key \<Longrightarrow> \<not> TrimSpaceEmpty key"
  by (auto simp: RenderKey_def split: sum.splits if_splits)

lemma RenderKey_not_Nil: "RenderKey ext tmpl i = Inr key \<Longrightarrow> key \<noteq> []"
  using RenderKey_not_blank by fastforce

lemma scan_SpecHash: "scan ''{{ .SpecHash }}'' = Some [Field [''SpecHash'']]"
  by code_simp

lemma scan_SpecHex: "scan ''{{ .SpecHex }}'' = Some [Field [''SpecHex'']]"
  by code_simp

lemma hexchars_not_space: "c \<in> hexchars \<Longrightarrow> \<not> asciiSpace c"
  by (auto simp: hexchars_def asciiSpace_def)

lemma hexchars_ascii: "c \<in> hexchars \<Longrightarrow> (of_char c :: nat) < 0x80"
  by (auto simp: hexchars_def)

lemma TrimSpaceEmpty_ascii:
  "\<not> asciiSpace c \<Longrightarrow> (of_char c :: nat) < 0x80 \<Longrightarrow> \<not> TrimSpaceEmpty (c # s)"
  by (auto simp: Let_def split: list.splits)

lemma TrimSpaceEmpty_hex: "s \<noteq> [] \<Longrightarrow> set s \<subseteq> hexchars \<Longrightarrow> \<not> TrimSpaceEmpty s"
  by (cases s) (use TrimSpaceEmpty_ascii hexchars_not_space hexchars_ascii in \<open>auto simp del: TrimSpaceEmpty.simps\<close>)

text \<open>
  The default key templates address the store by the content address: the whole address, or its
  bare digits for the \<open>oci\<close> driver, whose tags may not contain a colon.
\<close>

lemma RenderKey_SpecHash:
  assumes "inSpecHash i = Canonical m"
  shows "RenderKey ext ''{{ .SpecHash }}'' i = Inr (Canonical m)"
proof -
  have "\<not> TrimSpaceEmpty (Canonical m)"
    unfolding Canonical_def by (simp del: TrimSpaceEmpty.simps, rule TrimSpaceEmpty_ascii)
      (simp_all add: asciiSpace_def)
  moreover have "renderString ext ''{{ .SpecHash }}'' i = Inr (Canonical m)"
    unfolding renderString_def using assms
    by (intro template_one_field [OF scan_SpecHash]) (simp add: input_field_def scalar_def)
  ultimately show ?thesis by (simp add: RenderKey_def)
qed

lemma RenderKey_SpecHex:
  assumes "inSpecHex i = Short (Canonical m) 64"
  shows "RenderKey ext ''{{ .SpecHex }}'' i = Inr (drop 7 (Canonical m))"
proof -
  have hex: "Short (Canonical m) 64 = drop 7 (Canonical m)"
    using length_Canonical [of m] by (simp add: Short_Canonical)
  have "drop 7 (Canonical m) \<noteq> []" using length_Canonical [of m] by auto
  then have "\<not> TrimSpaceEmpty (drop 7 (Canonical m))"
    using Canonical_digits by (rule TrimSpaceEmpty_hex)
  moreover have "renderString ext ''{{ .SpecHex }}'' i = Inr (drop 7 (Canonical m))"
    unfolding renderString_def using assms hex
    by (intro template_one_field [OF scan_SpecHex]) (simp add: input_field_def scalar_def)
  ultimately show ?thesis by (simp add: RenderKey_def)
qed

text \<open>Rendering changes string leaves only: members, array lengths and other leaves stay.\<close>

fun skeleton :: "json \<Rightarrow> json" where
  "skeleton (JObj m) = JObj (map (\<lambda>(k, v). (k, skeleton v)) m)"
| "skeleton (JArr xs) = JArr (map skeleton xs)"
| "skeleton (JStr t) = JStr []"
| "skeleton v = v"

lemma walk_skeleton:
  "walk ext i v = Inr w \<Longrightarrow> skeleton w = skeleton v"
  "walk_list ext i xs = Inr ys \<Longrightarrow> map skeleton ys = map skeleton xs"
  "walk_members ext i m = Inr m' \<Longrightarrow>
     map (\<lambda>(k, v). (k, skeleton v)) m' = map (\<lambda>(k, v). (k, skeleton v)) m"
  by (induction ext i v and ext i xs and ext i m arbitrary: w and ys and m'
      rule: walk_walk_list_walk_members.induct)
    (auto simp: map_res_Inr split: if_splits sum.splits)

text \<open>A template without actions is rendered to itself.\<close>

fun no_action :: "json \<Rightarrow> bool" where
  "no_action (JObj m) \<longleftrightarrow> (\<forall>(k, v) \<in> set m. no_action v)"
| "no_action (JArr xs) \<longleftrightarrow> (\<forall>x \<in> set xs. no_action x)"
| "no_action (JStr t) \<longleftrightarrow> \<not> Contains t ''{{''"
| "no_action v \<longleftrightarrow> True"

lemma walk_no_action:
  "no_action v \<Longrightarrow> walk ext i v = Inr v"
  "(\<forall>x \<in> set xs. no_action x) \<Longrightarrow> walk_list ext i xs = Inr xs"
  "(\<forall>(k, v) \<in> set m. no_action v) \<Longrightarrow> walk_members ext i m = Inr m"
  by (induction ext i v and ext i xs and ext i m rule: walk_walk_list_walk_members.induct)
    (auto simp: renderString_plain)

section \<open>The program cache\<close>

text \<open>
  What the controller relies on: an evaluator whose answers are those of a fixed reference and
  whose state keeps an invariant. A sequence of questions then gets the reference answers,
  however the cache fills up in between.
\<close>

locale status_evaluator =
  fixes evalb :: "'e \<Rightarrow> string \<Rightarrow> unstructured \<Rightarrow> (goerr + bool) \<times> 'e"
    and inv :: "'e \<Rightarrow> bool"
    and ref :: "string \<Rightarrow> unstructured \<Rightarrow> goerr + bool"
  assumes eval_ref: "inv e \<Longrightarrow> fst (evalb e x ob) = ref x ob"
    and eval_inv: "inv e \<Longrightarrow> inv (snd (evalb e x ob))"
begin

fun eval_seq :: "'e \<Rightarrow> (string \<times> unstructured) list \<Rightarrow> (goerr + bool) list \<times> 'e" where
  "eval_seq e [] = ([], e)"
| "eval_seq e ((x, ob) # qs) =
     (let (r, e1) = evalb e x ob; (rs, e2) = eval_seq e1 qs in (r # rs, e2))"

lemma eval_seq_ref: "inv e \<Longrightarrow> fst (eval_seq e qs) = map (\<lambda>(x, ob). ref x ob) qs"
proof (induction qs arbitrary: e)
  case (Cons q qs)
  obtain x ob where q: "q = (x, ob)" by (cases q)
  obtain r e1 where s: "evalb e x ob = (r, e1)" by (cases "evalb e x ob")
  have "r = ref x ob" and "inv e1"
    using eval_ref [OF Cons.prems, of x ob] eval_inv [OF Cons.prems, of x ob] s by simp_all
  then show ?case using Cons.IH [of e1] q s by (simp add: Let_def case_prod_beta)
qed simp

lemma eval_seq_inv: "inv e \<Longrightarrow> inv (snd (eval_seq e qs))"
proof (induction qs arbitrary: e)
  case (Cons q qs)
  obtain x ob where q: "q = (x, ob)" by (cases q)
  show ?case
    using Cons.IH [OF eval_inv [OF Cons.prems, of x ob]] q by (simp add: Let_def case_prod_beta)
qed simp

end

definition cache_ok :: "'p cel \<Rightarrow> 'p Evaluator \<Rightarrow> bool" where
  "cache_ok C e \<longleftrightarrow> list_all (\<lambda>(x, p). celCompile C x = Inr p) (progs e)"

text \<open>Evaluation without a cache: compile and run.\<close>

definition evalRef :: "'p cel \<Rightarrow> string \<Rightarrow> unstructured \<Rightarrow> goerr + bool" where
  "evalRef C expr object = fst (EvalBool C NewEvaluator expr object)"

lemma cache_ok_New: "cache_ok C NewEvaluator"
  by (simp add: cache_ok_def NewEvaluator_def)

lemma set_mput: "x \<in> set (mput k v m) \<Longrightarrow> x = (k, v) \<or> x \<in> set m"
  by (induction k v m rule: mput.induct) (auto split: if_splits)

lemma cache_ok_lookup: "cache_ok C e \<Longrightarrow> map_of (progs e) expr = Some p \<Longrightarrow> celCompile C expr = Inr p"
  using map_of_SomeD [of "progs e" expr p] by (auto simp: cache_ok_def list_all_iff)

lemma program_cache:
  assumes "cache_ok C e"
  shows "fst (program C e expr) = celCompile C expr" and "cache_ok C (snd (program C e expr))"
proof -
  show "fst (program C e expr) = celCompile C expr"
    using cache_ok_lookup [OF assms] by (auto simp: program_def split: option.split sum.split)
  show "cache_ok C (snd (program C e expr))"
    using assms by (auto simp: program_def cache_ok_def list_all_iff dest!: set_mput
        split: option.split sum.split)
qed

lemma EvalBool_program:
  "fst (EvalBool C e expr object) =
     (case fst (program C e expr) of
        Inl err \<Rightarrow> Inl err
      | Inr prg \<Rightarrow>
          (case celEval C prg object (statusOf object) of
             Inl err \<Rightarrow> Inl (Errorf ''evaluate %q: %w'' [AStr expr, AErr err])
           | Inr (CelBool b) \<Rightarrow> Inr b
           | Inr (CelOther t) \<Rightarrow> Inl (Errorf ''expression %q returned %T, want bool'' [AStr expr, AStr t])))"
  "snd (EvalBool C e expr object) = snd (program C e expr)"
  by (auto simp: EvalBool_def split: prod.split sum.split celval.split)

lemma EvalBool_ref: "cache_ok C e \<Longrightarrow> fst (EvalBool C e expr object) = evalRef C expr object"
  unfolding evalRef_def by (simp add: EvalBool_program program_cache cache_ok_New)

interpretation cel_cache: status_evaluator "EvalBool C" "cache_ok C" "evalRef C" for C
  by unfold_locales (simp_all add: EvalBool_ref EvalBool_program(2) program_cache(2))

section \<open>Properties\<close>

lemma skipWs_quote [simp]: "skipWs (CHR ''\"'' # s) = CHR ''\"'' # s" "skipWs (CHR '':'' # s) = CHR '':'' # s"
  "skipWs (CHR '','' # s) = CHR '','' # s" "skipWs (CHR ''}'' # s) = CHR ''}'' # s" "skipWs (CHR ''{'' # s) = CHR ''{'' # s"
  by (simp_all add: skipWs_def isWs_def)

lemma parse_quoted:
  "valid_utf8 v \<Longrightarrow> 0 < n \<Longrightarrow> parse_value n d (quoteString v @ s) = Some (JStr v, s)"
  by (cases n) (simp_all add: quoteString_def unquote_appendString)

lemma parse_marshalled:
  assumes "ms \<noteq> []" "\<forall>kv \<in> set ms. valid_utf8 (fst kv) \<and> valid_utf8 (snd kv)" "length ms < n"
  shows "parse_members n d acc (Join (map member ms) '','' @ CHR ''}'' # s) =
    Some (acc @ map (\<lambda>kv. (fst kv, JStr (snd kv))) ms, s)"
  using assms
proof (induction ms arbitrary: n acc rule: induct_list012)
  case (2 x)
  then obtain k where n: "n = Suc k" "0 < k" by (cases n) auto
  have "member x @ CHR ''}'' # s = CHR ''\"'' # appendString (fst x) @ CHR ''\"'' # CHR '':'' # (quoteString (snd x) @ CHR ''}'' # s)"
    by (simp add: member_def quoteString_def)
  then show ?case using 2 n by (simp add: unquote_appendString parse_quoted)
next
  case (3 x y ms)
  then obtain k where n: "n = Suc k" "0 < k" by (cases n) auto
  let ?r = "Join (map member (y # ms)) '','' @ CHR ''}'' # s"
  have "Join (map member (x # y # ms)) '','' @ CHR ''}'' # s =
      CHR ''\"'' # appendString (fst x) @ CHR ''\"'' # CHR '':'' # (quoteString (snd x) @ CHR '','' # ?r)"
    by (simp add: member_def quoteString_def)
  moreover have "parse_members k d (acc @ [(fst x, JStr (snd x))]) ?r =
      Some ((acc @ [(fst x, JStr (snd x))]) @ map (\<lambda>kv. (fst kv, JStr (snd kv))) (y # ms), s)"
    using 3 n by (intro "3.IH"(2)) auto
  ultimately show ?case using 3 n by (simp add: unquote_appendString parse_quoted del: Join.simps)
qed simp

lemma mput_fresh: "k \<notin> fst ` set m \<Longrightarrow> mput k v m = m @ [(k, v)]"
  by (induction k v m rule: mput.induct) auto

lemma foldl_mput_distinct:
  "distinct (map fst (acc @ ms)) \<Longrightarrow> foldl (\<lambda>a kv. mput (fst kv) (snd kv) a) acc ms = acc @ ms"
proof (induction ms arbitrary: acc)
  case (Cons kv ms)
  have "mput (fst kv) (snd kv) acc = acc @ [kv]" using Cons.prems by (subst mput_fresh) auto
  then show ?case using Cons.IH [of "acc @ [kv]"] Cons.prems by simp
qed simp

lemma Join_nonempty: "length ms \<le> length (Join (map member ms) '','')"
  by (induction ms rule: induct_list012) (simp_all add: member_def quoteString_def)

lemma UnmarshalObject_marshal_map:
  assumes "valid_map m"
  shows "UnmarshalObject (marshal_map m) = Some (map (\<lambda>kv. (fst kv, JStr (snd kv))) (sort_key fst m))"
proof (cases "m = []")
  case True
  then have "marshal_map m = ''{}''" by (simp add: marshal_map_def)
  moreover have "UnmarshalObject ''{}'' = Some []" by code_simp
  ultimately show ?thesis using True by simp
next
  case False
  let ?ms = "sort_key fst m" and ?f = "\<lambda>kv. (fst kv, JStr (snd kv))"
  let ?s = "Join (map member ?ms) '','' @ CHR ''}'' # []"
  have ms: "?ms \<noteq> []" using False by (metis set_empty set_sort)
  have v: "\<forall>kv \<in> set ?ms. valid_utf8 (fst kv) \<and> valid_utf8 (snd kv)"
    using assms by (auto simp: valid_map_def)
  have "length ?ms < 2 * length (marshal_map m)" using Join_nonempty [of ?ms] by (simp add: marshal_map_def)
  then have p: "parse_members (2 * length (marshal_map m)) 9999 [] ?s = Some (map ?f ?ms, [])"
    using parse_marshalled [OF ms v, of _ 9999 "[]" "[]"] by simp
  obtain x xs where x: "?ms = x # xs" using ms by (cases ?ms) auto
  have q: "\<exists>t. ?s = CHR ''\"'' # t" unfolding x by (cases xs) (simp_all add: member_def quoteString_def)
  have "parse_value (2 * length (marshal_map m) + 1) 10000 (marshal_map m) = Some (JObj (map ?f ?ms), [])"
  proof -
    have e: "marshal_map m = CHR ''{'' # ?s" by (simp add: marshal_map_def)
    obtain t where t: "?s = CHR ''\"'' # t" using q by blast
    show ?thesis using p unfolding t e by (simp add: t)
  qed
  then have "Parse (marshal_map m) = Some (JObj (map ?f ?ms))" by (simp add: Parse_def skipWs_def)
  moreover have "in_range (JObj (map ?f ?ms))" by auto
  moreover have "collapse (JObj (map ?f ?ms)) = JObj (map ?f ?ms)"
  proof -
    have "distinct (map fst (map ?f ?ms))"
      using assms by (simp add: valid_map_def comp_def distinct_map)
    then show ?thesis using foldl_mput_distinct [of "[]" "map ?f ?ms"] by (simp add: comp_def)
  qed
  ultimately show ?thesis by (simp add: UnmarshalObject_def Unmarshal_def)
qed

text \<open>
  C22: The content address is the hash of a document from which the identity can be read back: what is
  hashed decodes to the identity's entries, in key order.
\<close>

theorem Canonical_readable:
  assumes "valid_map m"
  shows "\<exists>doc. Canonical m = ''sha256:'' @ EncodeToString (sha256 doc)
    \<and> UnmarshalObject doc = Some (map (\<lambda>kv. (fst kv, JStr (snd kv))) (sort_key fst m))"
  using UnmarshalObject_marshal_map [OF assms] by (auto simp: Canonical_def)

theorem Canonical_readable_witness:
  "\<exists>doc. Canonical [(''gitRef'', ''v1''), (''arch'', ''x86'')] = ''sha256:'' @ EncodeToString (sha256 doc)
    \<and> UnmarshalObject doc = Some [(''arch'', JStr ''x86''), (''gitRef'', JStr ''v1'')]"
  using Canonical_readable [of "[(''gitRef'', ''v1''), (''arch'', ''x86'')]"]
  by (simp add: valid_map_def valid_utf8.simps byte_def)

text \<open>
  C37: Rendering a generator template changes the text of string leaves and nothing else: the run has
  the members, the arrays and the other leaves of the template, and it names an API version and a
  kind.
\<close>

theorem RenderTemplate_shape:
  assumes "RenderTemplate getAPIVersion getKind ext raw i = Inr u"
  shows "\<exists>tmpl. UnmarshalObject raw = Some tmpl
    \<and> map (\<lambda>(k, v). (k, skeleton v)) u = map (\<lambda>(k, v). (k, skeleton v)) tmpl
    \<and> getAPIVersion u \<noteq> [] \<and> getKind u \<noteq> []"
  using assms walk_skeleton(3)
  by (auto simp: RenderTemplate_def split: if_splits option.splits sum.splits)

theorem RenderTemplate_shape_witness:
  "\<exists>u tmpl. RenderTemplate (\<lambda>u. ''v1'') (\<lambda>u. ''Job'') (\<lambda>t i. Inl (ExtError t)) ''{\"kind\":\"Job\",\"n\":[true,\"{{ .Name }}\"]}''
       \<lparr>inIdentity = [], inParams = [], inSpecHash = [], inSpecHex = [], inKey = [], inName = ''a'', inNamespace = [],
        inClass = [], inAttempt = 1\<rparr> = Inr u
     \<and> UnmarshalObject ''{\"kind\":\"Job\",\"n\":[true,\"{{ .Name }}\"]}'' = Some tmpl
     \<and> map (\<lambda>(k, v). (k, skeleton v)) u = map (\<lambda>(k, v). (k, skeleton v)) tmpl"
proof -
  have "UnmarshalObject ''{\"kind\":\"Job\",\"n\":[true,\"{{ .Name }}\"]}'' =
      Some [(''kind'', JStr ''Job''), (''n'', JArr [JBool True, JStr ''{{ .Name }}''])]" by code_simp
  moreover have "scan ''{{ .Name }}'' = Some [Field [''Name'']]" by code_simp
  ultimately have r: "RenderTemplate (\<lambda>u. ''v1'') (\<lambda>u. ''Job'') (\<lambda>t i. Inl (ExtError t)) ''{\"kind\":\"Job\",\"n\":[true,\"{{ .Name }}\"]}''
       \<lparr>inIdentity = [], inParams = [], inSpecHash = [], inSpecHex = [], inKey = [], inName = ''a'', inNamespace = [],
        inClass = [], inAttempt = 1\<rparr> = Inr [(''kind'', JStr ''Job''), (''n'', JArr [JBool True, JStr ''a''])]"
    by (simp add: RenderTemplate_def renderString_def template_render_def input_field_def scalar_def)
  show ?thesis using r RenderTemplate_shape [OF r] by blast
qed



lemma fold_eval_seq:
  "fold (\<lambda>q e. snd (EvalBool C e (fst q) (snd q))) qs e = snd (cel_cache.eval_seq C e qs)"
  by (induction qs arbitrary: e) (auto simp: Let_def case_prod_beta)

text \<open>
  C34: The program cache is transparent: after any history of evaluations an expression has the value,
  or the error, it has when it is compiled afresh.
\<close>

theorem EvalBool_history:
  "fst (EvalBool C (fold (\<lambda>q e. snd (EvalBool C e (fst q) (snd q))) qs NewEvaluator) expr object) =
   fst (EvalBool C NewEvaluator expr object)"
  using cel_cache.eval_ref [OF cel_cache.eval_seq_inv [OF cache_ok_New]]
  by (simp add: fold_eval_seq evalRef_def)

end
