(* ===== verification/Store.thy ===== *)
theory Store
  imports ApiTypes
begin

text \<open>
  Package \<^verbatim>\<open>internal/store\<close>: what a driver observes, the driver interface, the registry that
  resolves a class to its driver, and the in-memory driver of \<^verbatim>\<open>internal/store/fake\<close>. The outside
  world a driver talks to is a type \<open>'w\<close>: an observation reads it and a deletion returns the new
  one, with the error the call reports.

  The interface \<open>Driver\<close> is the locale \<open>store_driver\<close>; its law is the one the reconciler rests on,
  that after a deletion without error the key is not observed any more. \<open>exclusive_store\<close> adds that
  a deletion touches its own key only, and that a failed one leaves the object as it was or gone. The fake store, alone and as a part of a larger world, is an
  interpretation of both.
\<close>

section \<open>Observations and drivers\<close>

record Observation =
  Exists :: bool
  obsDigest :: string
  Metadata :: gomap

definition absent :: Observation where
  "absent = \<lparr>Exists = False, obsDigest = [], Metadata = []\<rparr>"

text \<open>
  \<open>obs.Metadata[strings.ToLower(k)] = v\<close> over the entries of a map. Go visits them in no particular
  order; the model goes through the list, which matters only for keys that differ in case alone.
\<close>

definition lowerKeys :: "gomap \<Rightarrow> gomap" where
  "lowerKeys m = foldl (\<lambda>acc kv. mput (ToLower (fst kv)) (snd kv) acc) [] m"

lemma map_of_foldl_lower:
  assumes "distinct (map (\<lambda>kv. ToLower (fst kv)) m)"
  shows "map_of (foldl (\<lambda>acc kv. mput (ToLower (fst kv)) (snd kv) acc) acc m) k =
    (case map_of (map (\<lambda>kv. (ToLower (fst kv), snd kv)) m) k of None \<Rightarrow> map_of acc k | Some v \<Rightarrow> Some v)"
  using assms
proof (induction m arbitrary: acc)
  case (Cons kv m)
  then show ?case
    using map_of_eq_None_iff [of "map (\<lambda>kv. (ToLower (fst kv), snd kv)) m" "ToLower (fst kv)"]
    by (force simp: image_image split: option.split)
qed simp

lemma map_of_lowerKeys:
  "distinct (map (\<lambda>kv. ToLower (fst kv)) m) \<Longrightarrow>
   map_of (lowerKeys m) k = map_of (map (\<lambda>kv. (ToLower (fst kv), snd kv)) m) k"
  by (simp add: lowerKeys_def map_of_foldl_lower split: option.split)

record 'w StoreDriver =
  Observe :: "'w \<Rightarrow> string \<Rightarrow> goerr + Observation"
  Delete :: "'w \<Rightarrow> string \<Rightarrow> goerr option \<times> 'w"

type_synonym 'w Factory = "'w \<Rightarrow> ArtifactClass \<Rightarrow> goerr + 'w StoreDriver"

section \<open>Registry\<close>

record 'w Registry =
  factories :: "(string \<times> 'w Factory) list"

definition NewRegistry :: "'w Registry" where
  "NewRegistry = \<lparr>factories = []\<rparr>"

definition Register :: "'w Registry \<Rightarrow> string \<Rightarrow> 'w Factory \<Rightarrow> 'w Registry" where
  "Register r name f = r\<lparr>factories := mput name f (factories r)\<rparr>"

definition registered :: "'w Registry \<Rightarrow> string list" where
  "registered r = sort (map fst (factories r))"

definition DriverFor :: "'w Registry \<Rightarrow> 'w \<Rightarrow> ArtifactClass \<Rightarrow> goerr + 'w StoreDriver" where
  "DriverFor r w class =
     (case map_of (factories r) (Driver (Store (classSpec class))) of
        None \<Rightarrow> Inl (Errorf ''no store driver registered for %q (available: %s)''
                  [AStr (Driver (Store (classSpec class))), AStr (Join (registered r) '', '')])
      | Some f \<Rightarrow> f w class)"

lemma DriverFor_Register:
  "Driver (Store (classSpec class)) = name \<Longrightarrow> DriverFor (Register r name f) w class = f w class"
  by (simp add: DriverFor_def Register_def)

lemma DriverFor_Register_other:
  "Driver (Store (classSpec class)) \<noteq> name \<Longrightarrow> DriverFor r w class = Inr d \<Longrightarrow>
   DriverFor (Register r name f) w class = Inr d"
  by (simp add: DriverFor_def Register_def split: option.splits)

lemma registered_sorted: "sorted (registered r)"
  by (simp add: registered_def)

section \<open>The driver interface\<close>

locale store_driver =
  fixes observe :: "'w \<Rightarrow> string \<Rightarrow> goerr + Observation"
    and delete :: "'w \<Rightarrow> string \<Rightarrow> goerr option \<times> 'w"
  assumes delete_gone: "delete w k = (None, w') \<Longrightarrow> observe w' k = Inr ob \<Longrightarrow> \<not> Exists ob"

locale exclusive_store = store_driver +
  assumes delete_frame: "k' \<noteq> k \<Longrightarrow> observe (snd (delete w k)) k' = observe w k'"
    and delete_refused:
      "delete w k = (Some e, w') \<Longrightarrow> observe w' k = Inr ob \<Longrightarrow> Exists ob \<Longrightarrow> observe w k = Inr ob"
begin

text \<open>Deletions of a list of keys in turn: whatever is observed afterwards was there before.\<close>

lemma delete_monotone:
  assumes "observe (snd (delete w k)) k' = Inr ob" "Exists ob"
  shows "observe w k' = Inr ob"
proof (cases "k' = k")
  case True
  obtain e w' where d: "delete w k = (e, w')" by (cases "delete w k")
  show ?thesis
  proof (cases e)
    case None
    then show ?thesis using delete_gone [of w k w' ob] d assms True by simp
  next
    case (Some x)
    then show ?thesis using delete_refused [of w k x w' ob] d assms True by simp
  qed
next
  case False
  then show ?thesis using delete_frame [of k' k w] assms by simp
qed

lemma deletes_monotone:
  "observe (fold (\<lambda>k w. snd (delete w k)) ks w) k' = Inr ob \<Longrightarrow> Exists ob \<Longrightarrow> observe w k' = Inr ob"
proof (induction ks arbitrary: w)
  case (Cons k ks)
  then show ?case using delete_monotone [of w k k' ob] by simp
qed simp

end

section \<open>The fake store\<close>

record FakeObject =
  foDigest :: string
  foMetadata :: gomap

record FakeStore =
  objects :: "(string \<times> FakeObject) list"
  deleteErr :: "goerr option"

definition fake_New :: FakeStore where
  "fake_New = \<lparr>objects = [], deleteErr = None\<rparr>"

definition fake_Observe :: "FakeStore \<Rightarrow> string \<Rightarrow> goerr + Observation" where
  "fake_Observe s key =
     (case map_of (objects s) key of
        None \<Rightarrow> Inr absent
      | Some ob \<Rightarrow> Inr \<lparr>Exists = True, obsDigest = foDigest ob, Metadata = foMetadata ob\<rparr>)"

definition fake_Delete :: "FakeStore \<Rightarrow> string \<Rightarrow> goerr option \<times> FakeStore" where
  "fake_Delete s key =
     (case deleteErr s of
        Some e \<Rightarrow> (Some e, s)
      | None \<Rightarrow> (None, s\<lparr>objects := filter (\<lambda>(k, _). k \<noteq> key) (objects s)\<rparr>))"

definition fake_FailDeletes :: "goerr option \<Rightarrow> FakeStore \<Rightarrow> FakeStore" where
  "fake_FailDeletes e s = s\<lparr>deleteErr := e\<rparr>"

definition fake_Put :: "string \<Rightarrow> string \<Rightarrow> gomap \<Rightarrow> FakeStore \<Rightarrow> FakeStore" where
  "fake_Put key digest md s =
     s\<lparr>objects := mput key \<lparr>foDigest = digest, foMetadata = md\<rparr> (objects s)\<rparr>"

definition fake_Clear :: "FakeStore \<Rightarrow> FakeStore" where
  "fake_Clear s = s\<lparr>objects := []\<rparr>"

text \<open>
  One shared instance serves every class. In a world that contains the store, \<open>get\<close> and \<open>put\<close> are
  the store's place in it.
\<close>

definition fake_driver :: "('w \<Rightarrow> FakeStore) \<Rightarrow> (FakeStore \<Rightarrow> 'w \<Rightarrow> 'w) \<Rightarrow> 'w StoreDriver" where
  "fake_driver get put =
     \<lparr>Observe = (\<lambda>w. fake_Observe (get w)),
      Delete = (\<lambda>w key. case fake_Delete (get w) key of (e, s) \<Rightarrow> (e, put s w))\<rparr>"

definition fake_Register ::
  "('w \<Rightarrow> FakeStore) \<Rightarrow> (FakeStore \<Rightarrow> 'w \<Rightarrow> 'w) \<Rightarrow> 'w Registry \<Rightarrow> 'w Registry" where
  "fake_Register get put reg = Register reg ''fake'' (\<lambda>_ _. Inr (fake_driver get put))"

lemma map_of_filter_key:
  "map_of (filter (\<lambda>(k, _). k \<noteq> key) m) = (map_of m)(key := None)"
  by (induction m) (auto simp: fun_eq_iff)

lemma fake_Observe_Put:
  "fake_Observe (fake_Put k d md s) k' =
     (if k' = k then Inr \<lparr>Exists = True, obsDigest = d, Metadata = md\<rparr> else fake_Observe s k')"
  by (simp add: fake_Observe_def fake_Put_def)

lemma fake_Observe_Delete:
  "fake_Observe (snd (fake_Delete s k)) k' =
     (if k' = k \<and> deleteErr s = None then Inr absent else fake_Observe s k')"
  by (auto simp: fake_Observe_def fake_Delete_def map_of_filter_key split: option.split)

interpretation fake: exclusive_store fake_Observe fake_Delete
proof unfold_locales
  fix w k w' ob
  assume d: "fake_Delete w k = (None, w')" and o': "fake_Observe w' k = Inr ob"
  then have "deleteErr w = None" by (auto simp: fake_Delete_def split: option.splits)
  then show "\<not> Exists ob" using d o' fake_Observe_Delete [of w k k] by (simp add: absent_def)
next
  fix w k e w' ob
  assume "fake_Delete w k = (Some e, w')" "fake_Observe w' k = Inr ob"
  then show "fake_Observe w k = Inr ob"
    by (auto simp: fake_Delete_def split: option.splits)
qed (simp add: fake_Observe_Delete)

lemma fake_driver_exclusive:
  assumes "\<And>s w. get (put s w) = s"
  shows "exclusive_store (Observe (fake_driver get put)) (Delete (fake_driver get put))"
proof unfold_locales
  fix w k w' ob
  assume "Delete (fake_driver get put) w k = (None, w')"
    and "Observe (fake_driver get put) w' k = Inr ob"
  then show "\<not> Exists ob"
    using fake.delete_gone [of "get w" k "get w'" ob]
    by (auto simp: fake_driver_def assms split: prod.splits)
next
  fix k' k :: string and w
  assume "k' \<noteq> k"
  then show "Observe (fake_driver get put) (snd (Delete (fake_driver get put) w k)) k' =
      Observe (fake_driver get put) w k'"
    using fake.delete_frame [of k' k "get w"] by (auto simp: fake_driver_def assms split: prod.split)
next
  fix w k e w' ob
  assume "Delete (fake_driver get put) w k = (Some e, w')" "Observe (fake_driver get put) w' k = Inr ob" "Exists ob"
  then show "Observe (fake_driver get put) w k = Inr ob"
    using fake.delete_refused [of "get w" k e "get w'" ob]
    by (auto simp: fake_driver_def assms split: prod.splits)
qed

end
