(* ===== verification/Kube.thy ===== *)
theory Kube
  imports Generator Store
begin

text \<open>
  The libraries the reconciler is written against, as parameters. \<open>lib\<close> gathers the pure helpers of
  \<^verbatim>\<open>fluxcd/pkg/runtime/conditions\<close>, \<^verbatim>\<open>controllerutil\<close> and apimachinery's \<open>unstructured\<close> and \<open>metav1\<close>;
  \<open>client\<close> gathers the calls on the API server, which read or change the outside world \<open>'w\<close>.
  \<open>lib_ok\<close> is what their documentation promises of the former; theorems that need it name it as a
  hypothesis. \<open>refLib\<close> is a concrete library that satisfies it, used to evaluate the model.
\<close>

section \<open>Pure helpers\<close>

record GVK =
  gvGroup :: string
  gvVersion :: string
  gvKind :: string

record lib =
  MarkTrue :: "Condition list \<Rightarrow> CondType \<Rightarrow> Reason \<Rightarrow> message \<Rightarrow> Condition list"
  MarkFalse :: "Condition list \<Rightarrow> CondType \<Rightarrow> Reason \<Rightarrow> message \<Rightarrow> Condition list"
  MarkUnknown :: "Condition list \<Rightarrow> CondType \<Rightarrow> Reason \<Rightarrow> message \<Rightarrow> Condition list"
  DeleteCond :: "Condition list \<Rightarrow> CondType \<Rightarrow> Condition list"
  IsTrue :: "Condition list \<Rightarrow> CondType \<Rightarrow> bool"
  ContainsFinalizer :: "string list \<Rightarrow> string \<Rightarrow> bool"
  AddFinalizer :: "string list \<Rightarrow> string \<Rightarrow> string list"
  RemoveFinalizer :: "string list \<Rightarrow> string \<Rightarrow> string list"
  SetControllerReference :: "Artifact \<Rightarrow> unstructured \<Rightarrow> goerr + unstructured"
  IsControlledBy :: "unstructured \<Rightarrow> Artifact \<Rightarrow> bool"
  GetAPIVersion :: "unstructured \<Rightarrow> string"
  GetKind :: "unstructured \<Rightarrow> string"
  GetName :: "unstructured \<Rightarrow> string"
  GetNamespace :: "unstructured \<Rightarrow> string"
  GetLabels :: "unstructured \<Rightarrow> gomap"
  GetCreationTimestamp :: "unstructured \<Rightarrow> gotime option"
  SetName :: "unstructured \<Rightarrow> string \<Rightarrow> unstructured"
  SetNamespace :: "unstructured \<Rightarrow> string \<Rightarrow> unstructured"
  SetLabels :: "unstructured \<Rightarrow> gomap \<Rightarrow> unstructured"
  GroupVersionKind :: "unstructured \<Rightarrow> GVK"
  ToAPIVersion :: "GVK \<Rightarrow> string"

text \<open>
  What the conditions, finalizer and metadata helpers promise: marking sets the named condition
  and no other, deleting removes it and no other, \<open>IsTrue\<close> reads it; the finalizer functions are
  insertion into and removal from a list read by membership; setters are read back by their getter
  and leave the other metadata alone; who controls an object is read off the owner's UID.
\<close>

definition cond_of :: "Condition list \<Rightarrow> CondType \<Rightarrow> (CondStatus \<times> Reason \<times> message) option" where
  "cond_of cs t =
     map_option (\<lambda>c. (cStatus c, cReason c, cMessage c)) (List.find (\<lambda>c. cType c = t) cs)"

definition conditions_ok :: "lib \<Rightarrow> bool" where
  "conditions_ok L \<longleftrightarrow>
     (\<forall>cs t r m. cond_of (MarkTrue L cs t r m) = (cond_of cs)(t \<mapsto> (CondTrue, r, m)))
   \<and> (\<forall>cs t r m. cond_of (MarkFalse L cs t r m) = (cond_of cs)(t \<mapsto> (CondFalse, r, m)))
   \<and> (\<forall>cs t r m. cond_of (MarkUnknown L cs t r m) = (cond_of cs)(t \<mapsto> (CondUnknown, r, m)))
   \<and> (\<forall>cs t. cond_of (DeleteCond L cs t) = (cond_of cs)(t := None))
   \<and> (\<forall>cs t. IsTrue L cs t = (\<exists>r m. cond_of cs t = Some (CondTrue, r, m)))"

definition finalizers_ok :: "lib \<Rightarrow> bool" where
  "finalizers_ok L \<longleftrightarrow>
     (\<forall>fs f. ContainsFinalizer L fs f \<longleftrightarrow> f \<in> set fs)
   \<and> (\<forall>fs f. set (AddFinalizer L fs f) = insert f (set fs))
   \<and> (\<forall>fs f. set (RemoveFinalizer L fs f) = set fs - {f})"

definition metadata_ok :: "lib \<Rightarrow> bool" where
  "metadata_ok L \<longleftrightarrow>
     (\<forall>u n. GetName L (SetName L u n) = n \<and> GetAPIVersion L (SetName L u n) = GetAPIVersion L u
          \<and> GetKind L (SetName L u n) = GetKind L u)
   \<and> (\<forall>u n. GetNamespace L (SetNamespace L u n) = n \<and> GetName L (SetNamespace L u n) = GetName L u
          \<and> GetAPIVersion L (SetNamespace L u n) = GetAPIVersion L u
          \<and> GetKind L (SetNamespace L u n) = GetKind L u)
   \<and> (\<forall>u m. GetLabels L (SetLabels L u m) = m \<and> GetName L (SetLabels L u m) = GetName L u
          \<and> GetNamespace L (SetLabels L u m) = GetNamespace L u
          \<and> GetAPIVersion L (SetLabels L u m) = GetAPIVersion L u
          \<and> GetKind L (SetLabels L u m) = GetKind L u)
   \<and> (\<forall>a u v. SetControllerReference L a u = Inr v \<longrightarrow>
          GetName L v = GetName L u \<and> GetNamespace L v = GetNamespace L u
        \<and> GetAPIVersion L v = GetAPIVersion L u \<and> GetKind L v = GetKind L u
        \<and> GetLabels L v = GetLabels L u \<and> IsControlledBy L v a)
   \<and> (\<forall>u a b. UID (Meta a) = UID (Meta b) \<longrightarrow> IsControlledBy L u a = IsControlledBy L u b)"

definition lib_ok :: "lib \<Rightarrow> bool" where
  "lib_ok L \<longleftrightarrow> conditions_ok L \<and> finalizers_ok L \<and> metadata_ok L"

lemma conditions_ok_simps:
  assumes "conditions_ok L"
  shows "cond_of (MarkTrue L cs t r m) = (cond_of cs)(t \<mapsto> (CondTrue, r, m))"
    and "cond_of (MarkFalse L cs t r m) = (cond_of cs)(t \<mapsto> (CondFalse, r, m))"
    and "cond_of (MarkUnknown L cs t r m) = (cond_of cs)(t \<mapsto> (CondUnknown, r, m))"
    and "cond_of (DeleteCond L cs t) = (cond_of cs)(t := None)"
    and "IsTrue L cs t = (\<exists>r m. cond_of cs t = Some (CondTrue, r, m))"
  using assms by (simp_all add: conditions_ok_def)

lemma lib_okD: "lib_ok L \<Longrightarrow> conditions_ok L" "lib_ok L \<Longrightarrow> finalizers_ok L" "lib_ok L \<Longrightarrow> metadata_ok L"
  by (simp_all add: lib_ok_def)

section \<open>The API server\<close>

text \<open>
  A run is addressed by its API version, kind, name and namespace. \<open>clCreate\<close> answers with the
  object as the server stored it, which the Go client writes back into its argument. \<open>clPatch\<close>
  takes the object as it was read and as the reconciler left it. A call that fails may still have
  had an effect: each returns the world it leaves behind. The options of a patch are the conditions
  the reconciler owns and its field owner.
\<close>

record 'w client =
  clGetArtifact :: "'w \<Rightarrow> string \<times> string \<Rightarrow> apierr + Artifact"
  clGetClass :: "'w \<Rightarrow> string \<Rightarrow> apierr + ArtifactClass"
  clGetRun :: "'w \<Rightarrow> GeneratorReference \<Rightarrow> apierr + unstructured"
  clListByClass :: "'w \<Rightarrow> string \<Rightarrow> apierr + Artifact list"
  clCreate :: "'w \<Rightarrow> unstructured \<Rightarrow> (apierr + unstructured) \<times> 'w"
  clDeleteRun :: "'w \<Rightarrow> GeneratorReference \<Rightarrow> apierr option \<times> 'w"
  clDeleteArtifact :: "'w \<Rightarrow> Artifact \<Rightarrow> apierr option \<times> 'w"
  clPatch :: "'w \<Rightarrow> CondType list \<times> string \<Rightarrow> Artifact \<Rightarrow> Artifact \<Rightarrow> goerr option \<times> 'w"
  clWatch :: "'w \<Rightarrow> GVK \<Rightarrow> goerr option \<times> 'w"
  clFilterOutNotFound :: "goerr \<Rightarrow> goerr option"

section \<open>A concrete library\<close>

definition setCond :: "CondStatus \<Rightarrow> Condition list \<Rightarrow> CondType \<Rightarrow> Reason \<Rightarrow> message \<Rightarrow> Condition list" where
  "setCond s cs t r m =
     \<lparr>cType = t, cStatus = s, cReason = r, cMessage = m, cLastTransition = 0\<rparr>
       # filter (\<lambda>c. cType c \<noteq> t) cs"

definition jstr :: "json option \<Rightarrow> string" where
  "jstr v = (case v of Some (JStr s) \<Rightarrow> s | _ \<Rightarrow> [])"

definition jobj :: "json option \<Rightarrow> unstructured" where
  "jobj v = (case v of Some (JObj m) \<Rightarrow> m | _ \<Rightarrow> [])"

definition metaOf :: "unstructured \<Rightarrow> unstructured" where
  "metaOf u = jobj (map_of u ''metadata'')"

definition setMeta :: "string \<Rightarrow> json \<Rightarrow> unstructured \<Rightarrow> unstructured" where
  "setMeta k v u = mput ''metadata'' (JObj (mput k v (metaOf u))) u"

definition refLib :: lib where
  "refLib = \<lparr>
     MarkTrue = setCond CondTrue, MarkFalse = setCond CondFalse, MarkUnknown = setCond CondUnknown,
     DeleteCond = (\<lambda>cs t. filter (\<lambda>c. cType c \<noteq> t) cs),
     IsTrue = (\<lambda>cs t. case cond_of cs t of Some (CondTrue, _) \<Rightarrow> True | _ \<Rightarrow> False),
     ContainsFinalizer = (\<lambda>fs f. List.member fs f),
     AddFinalizer = (\<lambda>fs f. if List.member fs f then fs else fs @ [f]),
     RemoveFinalizer = (\<lambda>fs f. filter (\<lambda>x. x \<noteq> f) fs),
     SetControllerReference = (\<lambda>a u. Inr (setMeta ''ownerReferences'' (JStr (UID (Meta a))) u)),
     IsControlledBy = (\<lambda>u a. map_of (metaOf u) ''ownerReferences'' = Some (JStr (UID (Meta a)))),
     GetAPIVersion = (\<lambda>u. jstr (map_of u ''apiVersion'')),
     GetKind = (\<lambda>u. jstr (map_of u ''kind'')),
     GetName = (\<lambda>u. jstr (map_of (metaOf u) ''name'')),
     GetNamespace = (\<lambda>u. jstr (map_of (metaOf u) ''namespace'')),
     GetLabels = (\<lambda>u. map (\<lambda>(k, v). (k, jstr (Some v))) (jobj (map_of (metaOf u) ''labels''))),
     GetCreationTimestamp = (\<lambda>u. case map_of (metaOf u) ''creationTimestamp'' of
                                    Some (JInt t) \<Rightarrow> Some t | _ \<Rightarrow> None),
     SetName = (\<lambda>u n. setMeta ''name'' (JStr n) u),
     SetNamespace = (\<lambda>u n. setMeta ''namespace'' (JStr n) u),
     SetLabels = (\<lambda>u m. setMeta ''labels'' (JObj (map (\<lambda>(k, v). (k, JStr v)) m)) u),
     GroupVersionKind = (\<lambda>u. \<lparr>gvGroup = [], gvVersion = jstr (map_of u ''apiVersion''),
                                gvKind = jstr (map_of u ''kind'')\<rparr>),
     ToAPIVersion = gvVersion\<rparr>"

lemma find_filter_ne: "t' \<noteq> t \<Longrightarrow> List.find (\<lambda>c. cType c = t') (filter (\<lambda>c. cType c \<noteq> t) cs)
    = List.find (\<lambda>c. cType c = t') cs"
  by (induction cs) auto

lemma find_filter_eq: "List.find (\<lambda>c. cType c = t) (filter (\<lambda>c. cType c \<noteq> t) cs) = None"
  by (induction cs) auto

lemma cond_of_setCond: "cond_of (setCond s cs t r m) = (cond_of cs)(t \<mapsto> (s, r, m))"
  by (auto simp: cond_of_def setCond_def fun_eq_iff find_filter_ne)

lemma refLib_conditions: "conditions_ok refLib"
  by (auto simp: conditions_ok_def refLib_def cond_of_setCond fun_eq_iff find_filter_ne find_filter_eq
      cond_of_def [of "filter _ _"] split: option.splits CondStatus.splits)
    (auto simp: cond_of_def)

lemma metaOf_setMeta: "metaOf (setMeta k v u) = mput k v (metaOf u)"
  by (simp add: metaOf_def setMeta_def jobj_def)

lemma map_of_setMeta: "k' \<noteq> ''metadata'' \<Longrightarrow> map_of (setMeta k v u) k' = map_of u k'"
  by (simp add: setMeta_def)

lemma labels_roundtrip: "map (\<lambda>(k, v). (k, jstr (Some v))) (map (\<lambda>(k, v). (k, JStr v)) m) = m"
  by (induction m) (auto simp: jstr_def)

lemma refLib_ok: "lib_ok refLib"
proof -
  have "finalizers_ok refLib" by (auto simp: finalizers_ok_def refLib_def)
  moreover have "metadata_ok refLib"
    unfolding metadata_ok_def refLib_def
    by (simp add: metaOf_setMeta map_of_setMeta jstr_def jobj_def comp_def case_prod_beta)
  ultimately show ?thesis using refLib_conditions by (simp add: lib_ok_def)
qed

end
