(* ===== verification/Timing.thy ===== *)
theory Timing
  imports Prelude Complex_Main "HOL-Library.Log_Nat"
begin

text \<open>
  The arithmetic helpers at the end of \<^verbatim>\<open>internal/controller/artifact_controller.go\<close>: the capped
  exponential backoff on \<open>int64\<close> durations, whose doubling wraps around, and the requeue jitter on
  \<open>float64\<close>, whose operations round. The backoff is shown equal to the closed form
  \<open>min max (initial * 2 ^ (failed - 1))\<close> wherever the delays are at most \<open>2 ^ 62\<close> nanoseconds
  (about 146 years), and the jitter to stay within ten percent up to the rounding error.
\<close>

section \<open>Backoff\<close>

fun backoff_loop :: "nat \<Rightarrow> duration \<Rightarrow> duration \<Rightarrow> duration" where
  "backoff_loop 0 d mx = (if mx < d then mx else d)"
| "backoff_loop (Suc n) d mx =
     (let d2 = wrap64 (d * 2) in if mx \<le> d2 then mx else backoff_loop n d2 mx)"

text \<open>The loop \<open>for i := int32(1); i < failed; i++\<close> runs \<open>failed - 1\<close> times, if at all.\<close>

definition backoffDelay :: "int \<Rightarrow> duration \<Rightarrow> duration \<Rightarrow> duration" where
  "backoffDelay failed initial mx = backoff_loop (nat (failed - 1)) initial mx"

definition maxInt :: "int \<Rightarrow> int \<Rightarrow> int" where
  "maxInt a b = (if a > b then a else b)"

lemma backoff_loop_closed:
  assumes "0 < d" "d < 2 ^ 62" "mx \<le> 2 ^ 62"
  shows "backoff_loop n d mx = min mx (d * 2 ^ n)"
  using assms
proof (induction n arbitrary: d)
  case (Suc n)
  have w: "wrap64 (d * 2) = d * 2"
    using Suc.prems by (intro wrap64_id) simp_all
  show ?case
  proof (cases "mx \<le> d * 2")
    case True
    have "d * 2 \<le> d * 2 ^ Suc n"
      using Suc.prems mult_left_mono [of 2 "2 ^ Suc n" d] by simp
    then show ?thesis using True w by (simp add: Let_def)
  next
    case False
    then show ?thesis using Suc.IH [of "d * 2"] Suc.prems w by (simp add: Let_def mult_ac)
  qed
qed simp

lemma backoffDelay_closed:
  assumes "0 < initial" "initial < 2 ^ 62" "mx \<le> 2 ^ 62"
  shows "backoffDelay failed initial mx = min mx (initial * 2 ^ nat (failed - 1))"
  unfolding backoffDelay_def using assms by (rule backoff_loop_closed)

section \<open>Jitter\<close>

text \<open>
  \<open>flog2 x\<close> is the exponent \<open>k\<close> with \<open>2 ^ k \<le> x < 2 ^ (k + 1)\<close>; \<open>fl64\<close> rounds a positive number to
  the nearest one with a 53-bit significand, ties to even. The numbers here are far from the ends
  of the exponent range of \<open>float64\<close>.
\<close>

definition flog2 :: "rat \<Rightarrow> int" where
  "flog2 x =
     (let (a, b) = quotient_of x; k = bitlen a - bitlen b
      in if 2 powi k \<le> x then k else k - 1)"

definition round_even :: "rat \<Rightarrow> int" where
  "round_even x =
     (let f = \<lfloor>x\<rfloor>; r = x - of_int f
      in if r < 1 / 2 then f else if 1 / 2 < r then f + 1 else if even f then f else f + 1)"

definition fl64 :: "rat \<Rightarrow> rat" where
  "fl64 x =
     (if x = 0 then 0
      else let e = flog2 x - 52 in of_int (round_even (x / 2 powi e)) * 2 powi e)"

text \<open>
  \<open>time.Duration(float64(d) * (0.9 + 0.2*rand.Float64()))\<close>, where \<open>r\<close> is the random draw. Go
  leaves the conversion of a value outside \<open>int64\<close> to the implementation: \<open>oob\<close>.
\<close>

definition jittered :: "(rat \<Rightarrow> duration) \<Rightarrow> rat \<Rightarrow> duration \<Rightarrow> duration" where
  "jittered oob r d =
     (if d \<le> 0 then d
      else let x = fl64 (fl64 (of_int d) * fl64 (fl64 (9 / 10) + fl64 (fl64 (1 / 5) * r)))
           in if \<lfloor>x\<rfloor> \<le> maxInt64 then \<lfloor>x\<rfloor> else oob x)"

lemma bitlen_bounds_rat:
  assumes "0 < a"
  shows "(2 :: rat) powi (bitlen a - 1) \<le> of_int a" and "of_int a < (2 :: rat) powi bitlen a"
proof -
  let ?n = "nat (bitlen a)"
  have n: "0 < bitlen a" using assms bitlen_eq_zero_iff [of a] bitlen_nonneg [of a] by linarith
  have "2 ^ (?n - 1) \<le> a \<and> a < 2 ^ ?n"
    using bitlen_bounds [OF assms] n by (simp add: nat_diff_distrib)
  then have "(of_int (2 ^ (?n - 1)) :: rat) \<le> of_int a" and "of_int a < (of_int (2 ^ ?n) :: rat)"
    by (simp_all only: of_int_le_iff of_int_less_iff)
  then show "(2 :: rat) powi (bitlen a - 1) \<le> of_int a" and "of_int a < (2 :: rat) powi bitlen a"
    using n by (simp_all add: power_int_def nat_diff_distrib)
qed

lemma flog2_bounds:
  assumes "0 < x"
  shows "2 powi flog2 x \<le> x" and "x < 2 powi (flog2 x + 1)"
proof -
  obtain a b where q: "quotient_of x = (a, b)" by (cases "quotient_of x")
  have b: "0 < b" using quotient_of_denom_pos [OF q] .
  have x: "x = of_int a / of_int b" using quotient_of_div [OF q] .
  have a: "0 < a" using assms b x by (simp add: zero_less_divide_iff)
  let ?k = "bitlen a - bitlen b"
  have lo: "2 powi (?k - 1) < x"
  proof -
    have "2 powi (?k - 1) * of_int b < (2 :: rat) powi (?k - 1) * 2 powi bitlen b"
      using bitlen_bounds_rat(2) [OF b] by simp
    also have "\<dots> = 2 powi (bitlen a - 1)"
      by (simp add: power_int_add [symmetric] algebra_simps)
    also have "\<dots> \<le> of_int a" using bitlen_bounds_rat(1) [OF a] .
    finally show ?thesis using b x by (simp add: pos_less_divide_eq)
  qed
  have hi: "x < 2 powi (?k + 1)"
  proof -
    have "of_int a < (2 :: rat) powi bitlen a" using bitlen_bounds_rat(2) [OF a] .
    also have "\<dots> = 2 powi (?k + 1) * 2 powi (bitlen b - 1)"
      by (simp add: power_int_add [symmetric])
    also have "\<dots> \<le> 2 powi (?k + 1) * of_int b"
      using bitlen_bounds_rat(1) [OF b] by simp
    finally show ?thesis using b x by (simp add: pos_divide_less_eq)
  qed
  show "2 powi flog2 x \<le> x" and "x < 2 powi (flog2 x + 1)"
    using lo hi q by (auto simp: flog2_def Let_def)
qed

lemma round_even_error: "\<bar>of_int (round_even x) - x\<bar> \<le> 1 / 2"
  unfolding round_even_def Let_def
  using floor_correct [of x] by (auto simp: abs_le_iff)

text \<open>The relative error of one rounding is at most \<open>2 ^ -53\<close>.\<close>

lemma fl64_error:
  assumes "0 \<le> x"
  shows "\<bar>fl64 x - x\<bar> \<le> x / 2 ^ 53"
proof (cases "x = 0")
  case False
  then have x: "0 < x" using assms by simp
  let ?e = "flog2 x - 52"
  let ?p = "(2 :: rat) powi ?e"
  have p: "0 < ?p" by simp
  have "\<bar>fl64 x - x\<bar> = \<bar>of_int (round_even (x / ?p)) - x / ?p\<bar> * ?p"
  proof -
    have "fl64 x - x = (of_int (round_even (x / ?p)) - x / ?p) * ?p"
      using False by (simp add: fl64_def Let_def left_diff_distrib)
    then show ?thesis using p by (simp only: abs_mult abs_of_pos)
  qed
  also have "\<dots> \<le> 1 / 2 * ?p"
    using round_even_error [of "x / ?p"] p by (intro mult_right_mono) simp_all
  also have "\<dots> = 2 powi flog2 x / 2 ^ 53"
    by (simp add: power_int_diff)
  also have "\<dots> \<le> x / 2 ^ 53"
    using flog2_bounds(1) [OF x] by (simp add: divide_right_mono)
  finally show ?thesis .
qed (simp add: fl64_def)

lemma fl64_between:
  assumes "0 \<le> l" "l \<le> x" "x \<le> u"
  shows "l * (1 - 1 / 2 ^ 53) \<le> fl64 x" and "fl64 x \<le> u * (1 + 1 / 2 ^ 53)"
proof -
  have "\<bar>fl64 x - x\<bar> \<le> x / 2 ^ 53" using assms by (intro fl64_error) simp
  then have e: "fl64 x - x \<le> x / 2 ^ 53" "x - fl64 x \<le> x / 2 ^ 53" by linarith+
  have "l * (1 - 1 / 2 ^ 53) \<le> x * (1 - 1 / 2 ^ 53)" using assms by (intro mult_right_mono) simp_all
  also have "\<dots> \<le> fl64 x" using e(2) by (simp add: field_simps)
  finally show "l * (1 - 1 / 2 ^ 53) \<le> fl64 x" .
  have "fl64 x \<le> x * (1 + 1 / 2 ^ 53)" using e(1) by (simp add: field_simps)
  also have "\<dots> \<le> u * (1 + 1 / 2 ^ 53)" using assms by (intro mult_right_mono) simp_all
  finally show "fl64 x \<le> u * (1 + 1 / 2 ^ 53)" .
qed

text \<open>The jitter factor, and then the product, within ten percent and a few rounding errors.\<close>

lemma jitter_factor:
  assumes "0 \<le> r" "r \<le> 1"
  defines "f \<equiv> fl64 (fl64 (9 / 10) + fl64 (fl64 (1 / 5) * r))"
  shows "9 / 10 * (1 - 1 / 2 ^ 53) ^ 2 \<le> f" and "f \<le> 11 / 10 * (1 + 1 / 2 ^ 53) ^ 3"
proof -
  let ?e = "1 / 2 ^ 53 :: rat"
  have c: "9 / 10 * (1 - ?e) \<le> fl64 (9 / 10)" "fl64 (9 / 10) \<le> 9 / 10 * (1 + ?e)"
    by (rule fl64_between [of "9 / 10" "9 / 10" "9 / 10"]; simp)+
  have a: "1 / 5 * (1 - ?e) \<le> fl64 (1 / 5)" "fl64 (1 / 5) \<le> 1 / 5 * (1 + ?e)"
    by (rule fl64_between [of "1 / 5" "1 / 5" "1 / 5"]; simp)+
  have a0: "0 \<le> fl64 (1 / 5)" using a(1) by simp
  have "fl64 (1 / 5) * r \<le> 1 / 5 * (1 + ?e)"
    using mult_mono [OF a(2) assms(2)] a0 assms(1) by simp
  then have b: "0 \<le> fl64 (fl64 (1 / 5) * r)" "fl64 (fl64 (1 / 5) * r) \<le> 1 / 5 * (1 + ?e) * (1 + ?e)"
    using fl64_between [of 0 "fl64 (1 / 5) * r" "1 / 5 * (1 + ?e)"] a0 assms(1) by simp_all
  have "9 / 10 * (1 - ?e) * (1 - ?e) \<le> f" "f \<le> 11 / 10 * (1 + ?e) * (1 + ?e) * (1 + ?e)"
    unfolding f_def
    by (rule fl64_between [of "9 / 10 * (1 - ?e)" _ "11 / 10 * (1 + ?e) * (1 + ?e)"]; use b c in simp)+
  then show "9 / 10 * (1 - ?e) ^ 2 \<le> f" and "f \<le> 11 / 10 * (1 + ?e) ^ 3"
    by (simp_all add: power2_eq_square power3_eq_cube)
qed

lemma jitter_product:
  assumes "0 < d" "0 \<le> r" "r \<le> 1"
  defines "x \<equiv> fl64 (fl64 (of_int d) * fl64 (fl64 (9 / 10) + fl64 (fl64 (1 / 5) * r)))"
  shows "(9 / 10 - 1 / 2 ^ 50) * of_int d \<le> x" and "x \<le> (11 / 10 + 1 / 2 ^ 50) * of_int d"
proof -
  let ?e = "1 / 2 ^ 53 :: rat"
  let ?f = "fl64 (fl64 (9 / 10) + fl64 (fl64 (1 / 5) * r))"
  let ?d = "of_int d :: rat"
  have d: "0 < ?d" using assms(1) by simp
  have f: "9 / 10 * (1 - ?e) ^ 2 \<le> ?f" "?f \<le> 11 / 10 * (1 + ?e) ^ 3"
    using jitter_factor assms(2,3) by blast+
  have g: "?d * (1 - ?e) \<le> fl64 ?d" "fl64 ?d \<le> ?d * (1 + ?e)"
    using fl64_between [of ?d ?d ?d] d by simp_all
  have f0: "0 \<le> ?f" using f(1) by (rule order_trans [rotated]) simp
  have g0: "0 \<le> fl64 ?d" using g(1) by (rule order_trans [rotated]) (use d in simp)
  have lo: "?d * (1 - ?e) * (9 / 10 * (1 - ?e) ^ 2) \<le> fl64 ?d * ?f"
    using g(1) f(1) d g0 by (intro mult_mono) simp_all
  have hi: "fl64 ?d * ?f \<le> ?d * (1 + ?e) * (11 / 10 * (1 + ?e) ^ 3)"
    using g(2) f(2) f0 d by (intro mult_mono) simp_all
  have x: "?d * (1 - ?e) * (9 / 10 * (1 - ?e) ^ 2) * (1 - ?e) \<le> x"
    "x \<le> ?d * (1 + ?e) * (11 / 10 * (1 + ?e) ^ 3) * (1 + ?e)"
    unfolding x_def by (rule fl64_between [OF _ lo hi]; use d in simp)+
  have l: "9 / 10 - 1 / 2 ^ 50 \<le> (1 - ?e) * (9 / 10 * (1 - ?e) ^ 2) * (1 - ?e)"
    and u: "(1 + ?e) * (11 / 10 * (1 + ?e) ^ 3) * (1 + ?e) \<le> 11 / 10 + 1 / 2 ^ 50"
    by (simp_all add: power2_eq_square power3_eq_cube)
  have "(9 / 10 - 1 / 2 ^ 50) * ?d \<le> (1 - ?e) * (9 / 10 * (1 - ?e) ^ 2) * (1 - ?e) * ?d"
    using l d by (intro mult_right_mono) simp_all
  then show "(9 / 10 - 1 / 2 ^ 50) * ?d \<le> x" using x(1) by (simp only: mult_ac)
  have "(1 + ?e) * (11 / 10 * (1 + ?e) ^ 3) * (1 + ?e) * ?d \<le> (11 / 10 + 1 / 2 ^ 50) * ?d"
    using u d by (intro mult_right_mono) simp_all
  then show "x \<le> (11 / 10 + 1 / 2 ^ 50) * ?d" using x(2) by (simp only: mult_ac)
qed

lemma jittered_bounds:
  assumes "0 < d" "d \<le> 2 ^ 62" "0 \<le> r" "r \<le> 1"
  shows "(9 / 10 - 1 / 2 ^ 50) * of_int d - 1 < (of_int (jittered oob r d) :: rat)"
    and "of_int (jittered oob r d) \<le> (11 / 10 + 1 / 2 ^ 50) * (of_int d :: rat)"
proof -
  define x where "x = fl64 (fl64 (of_int d) * fl64 (fl64 (9 / 10) + fl64 (fl64 (1 / 5) * r)))"
  have b: "(9 / 10 - 1 / 2 ^ 50) * of_int d \<le> x" "x \<le> (11 / 10 + 1 / 2 ^ 50) * of_int d"
    unfolding x_def by (rule jitter_product [OF assms(1,3,4)])+
  have "(of_int d :: rat) \<le> of_int (2 ^ 62)" using assms(2) by (simp only: of_int_le_iff)
  then have "x < 2 ^ 63" using b(2) by simp
  then have "\<lfloor>x\<rfloor> \<le> maxInt64" by (simp add: floor_le_iff)
  then have j: "jittered oob r d = \<lfloor>x\<rfloor>" using assms(1) by (simp add: jittered_def Let_def x_def)
  show "(9 / 10 - 1 / 2 ^ 50) * of_int d - 1 < (of_int (jittered oob r d) :: rat)"
    unfolding j using b(1) floor_correct [of x] by linarith
  show "of_int (jittered oob r d) \<le> (11 / 10 + 1 / 2 ^ 50) * (of_int d :: rat)"
    unfolding j using b(2) floor_correct [of x] by linarith
qed

section \<open>Properties\<close>

text \<open>
  C35: The backoff loop computes the capped exponential: the first failure waits \<open>initial\<close>, every
  further one twice as long as the one before, and no wait exceeds the cap. Durations are assumed
  below \<open>2\<^sup>6\<^sup>2\<close> nanoseconds, above which the doubling would wrap around.
\<close>

theorem backoffDelay_exponential:
  assumes "0 < initial" "initial < 2 ^ 62" "mx \<le> 2 ^ 62"
  shows "backoffDelay failed initial mx = min mx (initial * 2 ^ nat (failed - 1))"
  using assms by (rule backoffDelay_closed)

theorem backoffDelay_exponential_witness:
  "map (\<lambda>n. backoffDelay n (30 * second) (32 * minute)) [1, 2, 3, 7, 8, 100] =
   [30 * second, 60 * second, 120 * second, 32 * minute, 32 * minute, 32 * minute]"
  using backoffDelay_exponential [of "30 * second" "32 * minute"] by simp

text \<open>
  C36: The jitter moves a delay by at most a tenth, up to the rounding of \<open>float64\<close>, so that it neither
  vanishes nor runs away, whatever the random draw.
\<close>

theorem jittered_range:
  assumes "0 < d" "d \<le> 2 ^ 62" "0 \<le> r" "r \<le> 1"
  shows "(9 / 10 - 1 / 2 ^ 50) * of_int d - 1 < (of_int (jittered oob r d) :: rat)
    \<and> of_int (jittered oob r d) \<le> (11 / 10 + 1 / 2 ^ 50) * (of_int d :: rat)"
  using jittered_bounds [OF assms] by simp

theorem jittered_range_witness:
  "(9 / 10 - 1 / 2 ^ 50) * of_int minute - 1 < (of_int (jittered (\<lambda>_. 0) (1 / 2) minute) :: rat)
    \<and> of_int (jittered (\<lambda>_. 0) (1 / 2) minute) \<le> (11 / 10 + 1 / 2 ^ 50) * (of_int minute :: rat)"
  by (rule jittered_range) simp_all

end
