(* ===== verification/Controller.thy ===== *)
theory Controller
  imports Kube Timing
begin

text \<open>
  The reconciler of \<^verbatim>\<open>internal/controller/artifact_controller.go\<close>, one definition per function, in
  state-passing style. The state \<open>rst\<close> holds the object in memory, the outside world, the events
  recorded so far, the CEL program cache and the set of watched kinds. The record \<open>Reconciler\<close>
  holds what the Go struct and the libraries provide: helpers, API client, store registry, CEL,
  the rest of the template engine, the clock's reading and the random draw of this pass (one
  jittered delay is computed per pass at most).

  A handler returns the requeue delay and error of \<open>(ctrl.Result, error)\<close> with the new state. In a
  chain of \<open>let s = ...\<close> each line is one statement of the source.
\<close>

record ('w, 'p) Reconciler =
  rLib :: lib
  rClient :: "'w client"
  rRegistry :: "'w Registry"
  rCel :: "'p cel"
  rExt :: tmpl_ext
  rNow :: gotime
  rRand :: rat
  rOob :: "rat \<Rightarrow> duration"
  rPrintNum :: "string \<Rightarrow> string"
  rFieldOwner :: string

record Event =
  evWarning :: bool
  evReason :: string
  evMessage :: message

record ('w, 'p) rst =
  obj :: Artifact
  world :: 'w
  events :: "Event list"
  evaluator :: "'p Evaluator"
  watched :: "GVK list"

type_synonym ret = "duration \<times> goerr option"

definition after :: "duration \<Rightarrow> ret" where
  "after d = (d, None)"

definition fail :: "goerr \<Rightarrow> ret" where
  "fail e = (0, Some e)"

definition unrecognizedGracePeriod :: duration where
  "unrecognizedGracePeriod = 15 * second"

section \<open>Statements\<close>

definition setStatus :: "(ArtifactStatus \<Rightarrow> ArtifactStatus) \<Rightarrow> ('w, 'p) rst \<Rightarrow> ('w, 'p) rst" where
  "setStatus f s = s\<lparr>obj := (obj s)\<lparr>Status := f (Status (obj s))\<rparr>\<rparr>"

definition setState :: "State \<Rightarrow> ('w, 'p) rst \<Rightarrow> ('w, 'p) rst" where
  "setState x = setStatus (\<lambda>st. st\<lparr>State := x\<rparr>)"

definition markTrue :: "('w, 'p) Reconciler \<Rightarrow> CondType \<Rightarrow> Reason \<Rightarrow> message \<Rightarrow> ('w, 'p) rst \<Rightarrow> ('w, 'p) rst" where
  "markTrue R t r m = setStatus (\<lambda>st. st\<lparr>Conditions := MarkTrue (rLib R) (Conditions st) t r m\<rparr>)"

definition markFalse :: "('w, 'p) Reconciler \<Rightarrow> CondType \<Rightarrow> Reason \<Rightarrow> message \<Rightarrow> ('w, 'p) rst \<Rightarrow> ('w, 'p) rst" where
  "markFalse R t r m = setStatus (\<lambda>st. st\<lparr>Conditions := MarkFalse (rLib R) (Conditions st) t r m\<rparr>)"

definition markUnknown :: "('w, 'p) Reconciler \<Rightarrow> CondType \<Rightarrow> Reason \<Rightarrow> message \<Rightarrow> ('w, 'p) rst \<Rightarrow> ('w, 'p) rst" where
  "markUnknown R t r m = setStatus (\<lambda>st. st\<lparr>Conditions := MarkUnknown (rLib R) (Conditions st) t r m\<rparr>)"

definition condDelete :: "('w, 'p) Reconciler \<Rightarrow> CondType \<Rightarrow> ('w, 'p) rst \<Rightarrow> ('w, 'p) rst" where
  "condDelete R t = setStatus (\<lambda>st. st\<lparr>Conditions := DeleteCond (rLib R) (Conditions st) t\<rparr>)"

definition isTrue :: "('w, 'p) Reconciler \<Rightarrow> ('w, 'p) rst \<Rightarrow> CondType \<Rightarrow> bool" where
  "isTrue R s t = IsTrue (rLib R) (Conditions (Status (obj s))) t"

definition emit :: "bool \<Rightarrow> string \<Rightarrow> message \<Rightarrow> ('w, 'p) rst \<Rightarrow> ('w, 'p) rst" where
  "emit warning reason m s =
     s\<lparr>events := events s @ [\<lparr>evWarning = warning, evReason = reason, evMessage = m\<rparr>]\<rparr>"

definition jitter :: "('w, 'p) Reconciler \<Rightarrow> duration \<Rightarrow> duration" where
  "jitter R d = jittered (rOob R) (rRand R) d"

abbreviation stat :: "('w, 'p) rst \<Rightarrow> ArtifactStatus" where
  "stat s \<equiv> Status (obj s)"

section \<open>Helpers\<close>

definition markStalled :: "('w, 'p) Reconciler \<Rightarrow> Reason \<Rightarrow> message \<Rightarrow> ('w, 'p) rst \<Rightarrow> ('w, 'p) rst" where
  "markStalled R reason m s =
     (let s = condDelete R ReconcilingCondition s
      in markTrue R StalledCondition reason m s)"

definition markReconciling :: "('w, 'p) Reconciler \<Rightarrow> Reason \<Rightarrow> message \<Rightarrow> ('w, 'p) rst \<Rightarrow> ('w, 'p) rst" where
  "markReconciling R reason m s =
     (let s = condDelete R StalledCondition s
      in markTrue R ReconcilingCondition reason m s)"

definition generatorRefFor :: "lib \<Rightarrow> unstructured \<Rightarrow> GeneratorReference" where
  "generatorRefFor L u =
     \<lparr>refAPIVersion = GetAPIVersion L u, refKind = GetKind L u, refName = GetName L u,
      refNamespace = GetNamespace L u\<rparr>"

definition runName :: "Artifact \<Rightarrow> string \<Rightarrow> int \<Rightarrow> string" where
  "runName a specHash attempt =
     (let base = Name (Meta a);
          base = (if 40 < length base then take 40 base else base)
      in base @ ''-'' @ Short specHash 8 @ ''-r'' @ itoa attempt)"

definition runStartTime :: "lib \<Rightarrow> unstructured \<Rightarrow> Artifact \<Rightarrow> gotime" where
  "runStartTime L run a =
     (case GetCreationTimestamp L run of
        Some ts \<Rightarrow> ts
      | None \<Rightarrow> (case LastFailureTime (Status a) of
          Some lf \<Rightarrow> lf
        | None \<Rightarrow> CreationTimestamp (Meta a)))"

text \<open>
  \<open>%v\<close> of a scalar; how a \<open>float64\<close> prints is the parameter \<open>num\<close>. Only strings, booleans and
  numbers are shown with their value.
\<close>

definition statusPart :: "(string \<Rightarrow> string) \<Rightarrow> string \<times> json \<Rightarrow> string" where
  "statusPart num kv =
     (case snd kv of
        JStr v \<Rightarrow> fst kv @ ''='' @ v
      | JBool b \<Rightarrow> fst kv @ ''='' @ (if b then ''true'' else ''false'')
      | JInt i \<Rightarrow> fst kv @ ''='' @ itoa i
      | JNum n \<Rightarrow> fst kv @ ''='' @ num n
      | _ \<Rightarrow> fst kv)"

definition summarizeStatus :: "(string \<Rightarrow> string) \<Rightarrow> unstructured \<Rightarrow> string" where
  "summarizeStatus num run =
     (case map_of run ''status'' of
        Some (JObj status) \<Rightarrow>
          if status = [] then ''status is empty''
          else let out = Join (map (statusPart num) (sort_key fst status)) '' ''
               in if 160 < length out then take 157 out @ ''...'' else out
      | _ \<Rightarrow> ''status is empty'')"

definition recordDrift ::
  "('w, 'p) Reconciler \<Rightarrow> ArtifactClass \<Rightarrow> string \<Rightarrow> string \<Rightarrow> string \<Rightarrow> ('w, 'p) rst \<Rightarrow> ('w, 'p) rst" where
  "recordDrift R class key was now s =
     (if DriftPolicy class = DriftPolicyIgnore then s
      else
        let m = Msg ''content at %q changed from %s to %s with no generator run of ours in between''
                  [AStr key, AStr was, AStr now];
            s = markTrue R ArtifactDriftedCondition ReasonContentDrifted (Msg ''%s'' [msg_arg m]) s
        in emit True (Reason_str ReasonContentDrifted) m s)"

definition ensureGeneratorWatch ::
  "('w, 'p) Reconciler \<Rightarrow> GVK \<Rightarrow> ('w, 'p) rst \<Rightarrow> goerr option \<times> ('w, 'p) rst" where
  "ensureGeneratorWatch R gvk s =
     (if List.member (watched s) gvk then (None, s)
      else
        let s = s\<lparr>watched := gvk # watched s\<rparr>
        in case clWatch (rClient R) (world s) gvk of
             (None, w) \<Rightarrow> (None, s\<lparr>world := w\<rparr>)
           | (Some e, w) \<Rightarrow> (Some e, s\<lparr>world := w, watched := removeAll gvk (watched s)\<rparr>))"

definition artifactsForClass :: "('w, 'p) Reconciler \<Rightarrow> 'w \<Rightarrow> string \<Rightarrow> (string \<times> string) list" where
  "artifactsForClass R w cls =
     (case clListByClass (rClient R) w cls of
        Inl _ \<Rightarrow> []
      | Inr items \<Rightarrow> map (\<lambda>a. (Namespace (Meta a), Name (Meta a))) items)"

section \<open>Runs\<close>

definition deleteAbandonedRun ::
  "('w, 'p) Reconciler \<Rightarrow> GeneratorReference \<Rightarrow> fmt_arg \<Rightarrow> ('w, 'p) rst \<Rightarrow> goerr option \<times> ('w, 'p) rst" where
  "deleteAbandonedRun R ref why s =
     (case clDeleteRun (rClient R) (world s) ref of
        (None, w) \<Rightarrow>
          (None, emit False ''GeneratorRunCancelled''
             (Msg ''deleted generator run %s %q: %s'' [AStr (refKind ref), AStr (refName ref), why])
             (s\<lparr>world := w\<rparr>))
      | (Some NotFound, w) \<Rightarrow> (None, s\<lparr>world := w\<rparr>)
      | (Some e, w) \<Rightarrow>
          (Some (Errorf ''cancel generator run %s %q: %w''
             [AStr (refKind ref), AStr (refName ref), AErr (ApiError e)]), s\<lparr>world := w\<rparr>))"

text \<open>Forgetting the current run: the three lines that follow a confirmed cancellation.\<close>

definition forgetRun :: "('w, 'p) Reconciler \<Rightarrow> ('w, 'p) rst \<Rightarrow> ('w, 'p) rst" where
  "forgetRun R s =
     (let s = setStatus (\<lambda>st. st\<lparr>GeneratorRef := None, GeneratorSucceededAt := None\<rparr>) s
      in condDelete R GeneratorSucceededCondition s)"

definition budgetMsg :: "int \<Rightarrow> int \<Rightarrow> message" where
  "budgetMsg failed budget =
     Msg ''%d consecutive generator failures (budget %d); set the %q annotation to retry''
       [AInt failed, AInt budget, AStr RetryAnnotation]"

definition recordAttemptFailure ::
  "('w, 'p) Reconciler \<Rightarrow> Reason \<Rightarrow> message \<Rightarrow> int \<times> duration \<times> duration \<Rightarrow> ('w, 'p) rst
     \<Rightarrow> ret \<times> ('w, 'p) rst" where
  "recordAttemptFailure R reason m backoff s =
     (case backoff of (maxAttempts, initialDelay, maxDelay) \<Rightarrow>
      let s = setStatus (\<lambda>st. st\<lparr>FailedAttempts := wrap32 (FailedAttempts st + 1),
                LastFailureTime := Some (rNow R), LastFailureMessage := Some m,
                GeneratorRef := None, GeneratorSucceededAt := None\<rparr>) s;
          s = markFalse R GeneratorSucceededCondition reason (Msg ''%s'' [msg_arg m]) s;
          s = emit True (Reason_str reason) m s
      in if maxAttempts \<le> FailedAttempts (stat s) then
           let s = setState StateDegraded s;
               s = markStalled R ReasonFailureBudgetExhausted (budgetMsg (FailedAttempts (stat s)) maxAttempts) s;
               s = markFalse R ReadyCondition ReasonFailureBudgetExhausted
                     (Msg ''degraded after %d consecutive generator failures: %s''
                        [AInt (FailedAttempts (stat s)), msg_arg m]) s;
               s = emit True ''Degraded'' (Msg ''failure budget exhausted (%d/%d)''
                        [AInt (FailedAttempts (stat s)), AInt maxAttempts]) s
           in (after (jitter R (wrap64 (10 * GetInterval (obj s)))), s)
         else
           let s = setState StateGenerating s;
               s = markReconciling R ReasonBackoffPending
                     (Msg ''attempt %d failed; backing off'' [AInt (Attempts (stat s))]) s;
               s = markFalse R ReadyCondition reason (Msg ''%s'' [msg_arg m]) s
           in (after (backoffDelay (FailedAttempts (stat s)) initialDelay maxDelay), s))"

text \<open>\<open>EvalBool\<close> with its error read as "not matched".\<close>

definition matched :: "('w, 'p) Reconciler \<Rightarrow> string \<Rightarrow> unstructured \<Rightarrow> ('w, 'p) rst \<Rightarrow> bool \<times> ('w, 'p) rst" where
  "matched R expr run s =
     (case EvalBool (rCel R) (evaluator s) expr run of
        (r, e) \<Rightarrow> (case r of Inl _ \<Rightarrow> False | Inr b \<Rightarrow> b, s\<lparr>evaluator := e\<rparr>))"

text \<open>The succeeded branch of \<open>evaluateRun\<close>, which first records when the run succeeded.\<close>

definition markSucceeded :: "('w, 'p) Reconciler \<Rightarrow> unstructured \<Rightarrow> ('w, 'p) rst \<Rightarrow> ('w, 'p) rst" where
  "markSucceeded R run s =
     (let L = rLib R; kind = GetKind L run; name = GetName L run
      in if GeneratorSucceededAt (stat s) = None
         then let s = setStatus (\<lambda>st. st\<lparr>GeneratorSucceededAt := Some (rNow R)\<rparr>) s;
                  s = markTrue R GeneratorSucceededCondition ReasonGeneratorSucceeded
                        (Msg ''generator %s %q succeeded'' [AStr kind, AStr name]) s
              in emit False ''GeneratorSucceeded''
                   (Msg ''generator %s %q succeeded; verifying artifact at %q''
                      [AStr kind, AStr name, AStr (Key (stat s))]) s
         else s)"

definition awaitArtifact ::
  "('w, 'p) Reconciler \<Rightarrow> ArtifactClass \<Rightarrow> unstructured \<Rightarrow> int \<times> duration \<times> duration \<Rightarrow> ('w, 'p) rst
     \<Rightarrow> ret \<times> ('w, 'p) rst" where
  "awaitArtifact R class run backoff s =
     (let now = rNow R;
          s = markSucceeded R run s;
          grace = GracePeriod class;
          elapsed = time_Sub now (case GeneratorSucceededAt (stat s) of Some t \<Rightarrow> t | None \<Rightarrow> now)
      in if elapsed < grace then
           let s = setState StateAwaitingArtifact s;
               s = markReconciling R ReasonAwaitingArtifact
                     (Msg ''generator succeeded %s ago; waiting up to %s for artifact at %q''
                        [ADur (dur_Round elapsed second), ADur grace, AStr (Key (stat s))]) s;
               s = markFalse R ReadyCondition ReasonAwaitingArtifact
                     (Msg ''waiting for artifact to appear in store'' []) s;
               rem = wrap64 (grace - elapsed);
               requeue = (if rem < 10 * second then wrap64 (rem + second) else 10 * second)
           in (after requeue, s)
         else
           recordAttemptFailure R ReasonSucceededWithoutArtifact
             (Msg ''generator succeeded but no matching artifact appeared at %q within %s; check that the generator uploads to the expected key and stamps %q''
                [AStr (Key (stat s)), ADur grace, AStr (StampMetadataKey class)]) backoff s)"

text \<open>
  \<open>evaluateRun\<close> is called with a class that has a generator (its caller checks), so the generator
  \<open>g\<close> is an argument. A failure to delete a run past its deadline is logged and otherwise ignored.
\<close>

definition evaluateRun ::
  "('w, 'p) Reconciler \<Rightarrow> ArtifactClass \<Rightarrow> GeneratorSpec \<Rightarrow> unstructured \<Rightarrow> int \<times> duration \<times> duration
     \<Rightarrow> ('w, 'p) rst \<Rightarrow> ret \<times> ('w, 'p) rst" where
  "evaluateRun R class g run backoff s =
     (let L = rLib R; now = rNow R; kind = GetKind L run; name = GetName L run;
          (failed, s) = matched R (FailedWhen g) run s
      in if failed then
           recordAttemptFailure R ReasonGeneratorFailed
             (Msg ''generator %s %q reported failure'' [AStr kind, AStr name]) backoff s
         else
           let (succeeded, s) = matched R (SucceededWhen g) run s
           in if succeeded then awaitArtifact R class run backoff s
              else
                let settled = unrecognizedGracePeriod < time_Sub now (runStartTime L run (obj s));
                    (inProgress, s) = (if InProgressWhen g \<noteq> [] \<and> settled
                                       then matched R (InProgressWhen g) run s else (True, s));
                    reason = (if inProgress then ReasonGenerating else ReasonStatusUnrecognized);
                    detail = (if inProgress then Msg ''in progress'' []
                              else Msg ''status matches none of succeededWhen/failedWhen/inProgressWhen: %s''
                                     [AStr (summarizeStatus (rPrintNum R) run)]);
                    dl = ProgressDeadline class
                in if 0 < dl \<and> dl < time_Sub now (runStartTime L run (obj s)) then
                     case clDeleteRun (rClient R) (world s) (generatorRefFor L run) of (_, w) \<Rightarrow>
                       recordAttemptFailure R ReasonProgressDeadlineExceeded
                         (Msg ''generator %s %q made no terminal progress within %s (%s)''
                            [AStr kind, AStr name, ADur dl, msg_arg detail]) backoff (s\<lparr>world := w\<rparr>)
                   else
                     let s = setState StateGenerating s;
                         s = markReconciling R reason
                               (Msg ''generator %s %q: %s'' [AStr kind, AStr name, msg_arg detail]) s;
                         s = markFalse R ReadyCondition reason
                               (Msg ''generator %s (attempt %d)'' [msg_arg detail, AInt (Attempts (stat s))]) s
                     in (after (jitter R (30 * second)), s))"

text \<open>
  The object to create: the rendered template under the deterministic name, in the Artifact's
  namespace, labelled and owned.
\<close>

definition ownedRun :: "lib \<Rightarrow> Artifact \<Rightarrow> string \<Rightarrow> string \<Rightarrow> unstructured \<Rightarrow> goerr + unstructured" where
  "ownedRun L a specHash name run =
     (let run = SetName L run name;
          run = SetNamespace L run (Namespace (Meta a));
          labels = GetLabels L run;
          labels = mput ''artifacts.kargops.dev/artifact'' (Name (Meta a)) labels;
          labels = mput ''artifacts.kargops.dev/spec-hash'' (Short specHash 16) labels;
          run = SetLabels L run labels
      in SetControllerReference L a run)"

definition createRun ::
  "('w, 'p) Reconciler \<Rightarrow> GeneratorSpec \<Rightarrow> Input \<Rightarrow> ('w, 'p) rst \<Rightarrow> ret \<times> ('w, 'p) rst" where
  "createRun R g i s =
     (let L = rLib R; attempt = wrap32 (Attempts (stat s) + 1); i = i\<lparr>inAttempt := attempt\<rparr>
      in case RenderTemplate (GetAPIVersion L) (GetKind L) (rExt R) (Template g) i of
           Inl e \<Rightarrow>
             let s = markStalled R ReasonTemplateError (Msg ''%s'' [AErr e]) s;
                 s = markFalse R ReadyCondition ReasonTemplateError (Msg ''%s'' [AErr e]) s
             in (after 0, s)
         | Inr run \<Rightarrow>
             let name = runName (obj s) (inSpecHash i) attempt
             in case ownedRun L (obj s) (inSpecHash i) name run of
                  Inl e \<Rightarrow> (fail e, s)
                | Inr run \<Rightarrow>
                    let gvk = GroupVersionKind L run;
                        s = snd (ensureGeneratorWatch R gvk s)
                    in case clCreate (rClient R) (world s) run of
                         (Inl AlreadyExists, w) \<Rightarrow>
                           let s = s\<lparr>world := w\<rparr>;
                               ref = \<lparr>refAPIVersion = ToAPIVersion L gvk, refKind = gvKind gvk,
                                      refName = name, refNamespace = Namespace (Meta (obj s))\<rparr>
                           in (case clGetRun (rClient R) (world s) ref of
                                 Inr existing \<Rightarrow>
                                   if IsControlledBy L existing (obj s) then
                                     (after second, setStatus (\<lambda>st. st\<lparr>Attempts := attempt,
                                        GeneratorRef := Some (generatorRefFor L existing)\<rparr>) s)
                                   else
                                     (after minute, markFalse R ReadyCondition ReasonGeneratorFailed
                                        (Msg ''generator %q already exists and is not owned by this Artifact''
                                           [AStr name]) s)
                               | Inl _ \<Rightarrow>
                                   (after minute, markFalse R ReadyCondition ReasonGeneratorFailed
                                      (Msg ''generator %q already exists and is not owned by this Artifact''
                                         [AStr name]) s))
                       | (Inl e, w) \<Rightarrow>
                           let s = s\<lparr>world := w\<rparr>;
                               s = emit True ''GeneratorCreateFailed'' (Msg ''%s'' [AErr (ApiError e)]) s;
                               s = markFalse R ReadyCondition ReasonGeneratorFailed
                                     (Msg ''create generator: %s'' [AErr (ApiError e)]) s
                           in (after (jitter R minute), s)
                       | (Inr run, w) \<Rightarrow>
                           let s = s\<lparr>world := w\<rparr>;
                               s = setStatus (\<lambda>st. st\<lparr>Attempts := attempt,
                                     GeneratorRef := Some (generatorRefFor L run),
                                     GeneratorSucceededAt := None, State := StateGenerating\<rparr>) s;
                               s = markReconciling R ReasonGenerating
                                     (Msg ''generator %s %q created (attempt %d)''
                                        [AStr (gvKind gvk), AStr name, AInt attempt]) s;
                               s = markUnknown R GeneratorSucceededCondition ReasonGenerating
                                     (Msg ''waiting for %s %q'' [AStr (gvKind gvk), AStr name]) s;
                               s = markFalse R ReadyCondition ReasonGenerating
                                     (Msg ''producing artifact (attempt %d)'' [AInt attempt]) s;
                               s = emit False ''GeneratorCreated''
                                     (Msg ''created %s %q (attempt %d)''
                                        [AStr (gvKind gvk), AStr name, AInt attempt]) s
                           in (after (jitter R (30 * second)), s))"

section \<open>A missing artifact\<close>

text \<open>The branch of \<open>reconcileMissing\<close> for a class without a generator.\<close>

definition noGenerator ::
  "('w, 'p) Reconciler \<Rightarrow> ArtifactClass \<Rightarrow> Input \<Rightarrow> ('w, 'p) rst \<Rightarrow> ret \<times> ('w, 'p) rst" where
  "noGenerator R class i s =
     (case (case GeneratorRef (stat s) of
              None \<Rightarrow> (None, s)
            | Some ref \<Rightarrow>
                (case deleteAbandonedRun R ref
                        (AMsg ''class %q no longer defines a generator'' [AStr (className class)]) s of
                   (Some e, s) \<Rightarrow> (Some e, s)
                 | (None, s) \<Rightarrow> (None, forgetRun R s))) of
        (Some e, s) \<Rightarrow> (fail e, s)
      | (None, s) \<Rightarrow>
          let s = setState StateDegraded s;
              s = markStalled R ReasonGeneratorNotConfigured
                    (Msg ''class %q defines no generator; set managementPolicy: Observe to watch without generating''
                       [AStr (className class)]) s;
              s = markFalse R ReadyCondition ReasonGeneratorNotConfigured
                    (Msg ''no artifact at %q and class %q defines no generator''
                       [AStr (inKey i), AStr (className class)]) s
          in (after (jitter R (GetInterval (obj s))), s))"

text \<open>The statements \<open>reconcileMissing\<close> starts with.\<close>

definition markMissing :: "('w, 'p) Reconciler \<Rightarrow> Input \<Rightarrow> ('w, 'p) rst \<Rightarrow> ('w, 'p) rst" where
  "markMissing R i s =
     (let s = (if isTrue R s ReadyCondition
               then emit True ''ArtifactMissing''
                      (Msg ''artifact disappeared from store key %q; re-triggering generator'' [AStr (inKey i)]) s
               else s);
          s = markFalse R ArtifactInStoreCondition ReasonArtifactMissing
                (Msg ''no artifact at %q'' [AStr (inKey i)]) s
      in setStatus (\<lambda>st. st\<lparr>Digest := []\<rparr>) s)"

text \<open>The budget and backoff branches, and the evaluation of the run in flight.\<close>

definition budgetExhausted ::
  "('w, 'p) Reconciler \<Rightarrow> int \<Rightarrow> ('w, 'p) rst \<Rightarrow> ret \<times> ('w, 'p) rst" where
  "budgetExhausted R maxAttempts s =
     (let s = setState StateDegraded s;
          s = markStalled R ReasonFailureBudgetExhausted
                (budgetMsg (FailedAttempts (stat s)) maxAttempts) s;
          s = markFalse R ReadyCondition ReasonFailureBudgetExhausted
                (Msg ''degraded after %d consecutive generator failures''
                   [AInt (FailedAttempts (stat s))]) s
      in (after (jitter R (wrap64 (10 * GetInterval (obj s)))), s))"

definition backoffPending ::
  "('w, 'p) Reconciler \<Rightarrow> gotime \<Rightarrow> ('w, 'p) rst \<Rightarrow> ret \<times> ('w, 'p) rst" where
  "backoffPending R nxt s =
     (let s = setState StateGenerating s;
          s = markReconciling R ReasonBackoffPending
                (Msg ''next generator attempt at %s'' [ATime nxt]) s;
          s = markFalse R ReadyCondition ReasonBackoffPending
                (Msg ''in backoff after %d failure(s)'' [AInt (FailedAttempts (stat s))]) s
      in (after (wrap64 (time_Sub nxt (rNow R) + second)), s))"

definition inFlight ::
  "('w, 'p) Reconciler \<Rightarrow> ArtifactClass \<Rightarrow> GeneratorSpec \<Rightarrow> GeneratorReference
     \<Rightarrow> int \<times> duration \<times> duration \<Rightarrow> ('w, 'p) rst \<Rightarrow> ret \<times> ('w, 'p) rst" where
  "inFlight R class g ref backoff s =
     (case clGetRun (rClient R) (world s) ref of
        Inl NotFound \<Rightarrow>
          (after second, setStatus (\<lambda>st. st\<lparr>GeneratorRef := None, GeneratorSucceededAt := None\<rparr>) s)
      | Inl e \<Rightarrow> (fail (ApiError e), s)
      | Inr run \<Rightarrow> evaluateRun R class g run backoff s)"

definition reconcileMissing ::
  "('w, 'p) Reconciler \<Rightarrow> ArtifactClass \<Rightarrow> Input \<Rightarrow> ('w, 'p) rst \<Rightarrow> ret \<times> ('w, 'p) rst" where
  "reconcileMissing R class i s =
     (let s = markMissing R i s
      in case Generator (classSpec class) of
           None \<Rightarrow> noGenerator R class i s
         | Some g \<Rightarrow>
             (case EffectiveBackoff class of (maxAttempts, initialDelay, maxDelay) \<Rightarrow>
              if maxAttempts \<le> FailedAttempts (stat s) then budgetExhausted R maxAttempts s
              else case GeneratorRef (stat s) of
                Some ref \<Rightarrow> inFlight R class g ref (maxAttempts, initialDelay, maxDelay) s
              | None \<Rightarrow>
                  (case LastFailureTime (stat s) of
                     Some lf \<Rightarrow>
                       let nxt = lf + backoffDelay (FailedAttempts (stat s)) initialDelay maxDelay
                       in if 0 < FailedAttempts (stat s) \<and> rNow R < nxt then backoffPending R nxt s
                          else createRun R g i s
                   | None \<Rightarrow> createRun R g i s)))"

definition reconcileMissingObserved ::
  "('w, 'p) Reconciler \<Rightarrow> Input \<Rightarrow> ('w, 'p) rst \<Rightarrow> ret \<times> ('w, 'p) rst" where
  "reconcileMissingObserved R i s =
     (let s = (if isTrue R s ReadyCondition
               then emit True ''ArtifactMissing''
                      (Msg ''artifact disappeared from store key %q; managementPolicy is Observe, not regenerating''
                         [AStr (inKey i)]) s
               else s);
          s = setStatus (\<lambda>st. st\<lparr>FailedAttempts := 0, LastFailureTime := None, LastFailureMessage := None\<rparr>) s;
          s = condDelete R GeneratorSucceededCondition s;
          s = setStatus (\<lambda>st. st\<lparr>Digest := [], State := StateMissing\<rparr>) s;
          s = condDelete R ReconcilingCondition s;
          s = condDelete R StalledCondition s;
          s = markFalse R ArtifactInStoreCondition ReasonArtifactMissing
                (Msg ''no artifact at %q'' [AStr (inKey i)]) s;
          s = markFalse R ReadyCondition ReasonArtifactMissing
                (Msg ''no artifact at %q; waiting for an external producer (managementPolicy: Observe)''
                   [AStr (inKey i)]) s
      in (after (jitter R (GetInterval (obj s))), s))"

section \<open>A present artifact\<close>

text \<open>The verified tail of \<open>reconcileExisting\<close>: record the observation and report Ready.\<close>

definition markAvailable ::
  "('w, 'p) Reconciler \<Rightarrow> string \<Rightarrow> string \<Rightarrow> bool \<Rightarrow> ('w, 'p) rst \<Rightarrow> ret \<times> ('w, 'p) rst" where
  "markAvailable R key digest wasReady s =
     (let s = setStatus (\<lambda>st. st\<lparr>Digest := digest, LastVerifiedTime := Some (rNow R),
                FailedAttempts := 0, LastFailureTime := None, LastFailureMessage := None,
                GeneratorRef := None, GeneratorSucceededAt := None, State := StateReady\<rparr>) s;
          s = condDelete R ReconcilingCondition s;
          s = condDelete R StalledCondition s;
          s = markTrue R ArtifactInStoreCondition ReasonArtifactAvailable
                (Msg ''artifact present at %q'' [AStr key]) s;
          s = markTrue R ReadyCondition ReasonArtifactAvailable
                (Msg ''artifact present at %q'' [AStr key]) s;
          s = (if \<not> wasReady
               then emit False ''ArtifactAvailable'' (Msg ''artifact observed at %q (%s)'' [AStr key, AStr digest]) s
               else s)
      in (after (jitter R (GetInterval (obj s))), s))"

definition keyConflict ::
  "('w, 'p) Reconciler \<Rightarrow> string \<Rightarrow> string \<Rightarrow> string \<Rightarrow> ('w, 'p) rst \<Rightarrow> ret \<times> ('w, 'p) rst" where
  "keyConflict R key specHash stamp s =
     (let s = setState StateKeyConflict s;
          s = condDelete R ReconcilingCondition s;
          s = markFalse R ArtifactInStoreCondition ReasonKeyConflict
                (Msg ''store object at %q is stamped %s'' [AStr key, AStr stamp]) s;
          s = markFalse R ReadyCondition ReasonKeyConflict
                (Msg ''store object at %q carries provenance stamp %s, expected %s; refusing to adopt or overwrite''
                   [AStr key, AStr stamp, AStr specHash]) s;
          s = emit True ''KeyConflict''
                (Msg ''foreign object at store key %q (stamp %s)'' [AStr key, AStr stamp]) s
      in (after (jitter R (GetInterval (obj s))), s))"

definition generatedSinceLastVerify :: "ArtifactStatus \<Rightarrow> bool" where
  "generatedSinceLastVerify st \<longleftrightarrow> GeneratorSucceededAt st \<noteq> None \<or> GeneratorRef st \<noteq> None"

definition drifted :: "ArtifactStatus \<Rightarrow> Observation \<Rightarrow> bool" where
  "drifted st obs \<longleftrightarrow>
     obsDigest obs \<noteq> [] \<and> Digest st \<noteq> [] \<and> obsDigest obs \<noteq> Digest st \<and> \<not> generatedSinceLastVerify st"

definition reconcileExisting ::
  "('w, 'p) Reconciler \<Rightarrow> ArtifactClass \<Rightarrow> Observation \<Rightarrow> Input \<Rightarrow> ('w, 'p) rst \<Rightarrow> ret \<times> ('w, 'p) rst" where
  "reconcileExisting R class obs i s =
     (let key = inKey i; specHash = inSpecHash i;
          stamp = mget (Metadata obs) (StampMetadataKey class)
      in if stamp \<noteq> [] \<and> stamp \<noteq> specHash then keyConflict R key specHash stamp s
         else
           let wasReady = isTrue R s ReadyCondition
           in if drifted (stat s) obs then
                let s = recordDrift R class key (Digest (stat s)) (obsDigest obs) s
                in if DriftPolicy class = DriftPolicyRegenerate \<and> \<not> ObserveOnly (obj s)
                   then reconcileMissing R class i (setStatus (\<lambda>st. st\<lparr>Digest := []\<rparr>) s)
                   else markAvailable R key (obsDigest obs) wasReady s
              else
                let s = (if obsDigest obs \<noteq> [] \<and> obsDigest obs \<noteq> Digest (stat s)
                         then condDelete R ArtifactDriftedCondition s else s)
                in markAvailable R key (obsDigest obs) wasReady s)"

section \<open>Expiry and deletion\<close>

text \<open>
  \<open>deletable\<close> is the provenance test before every store deletion: no stamp, or our own.
\<close>

definition deletable :: "ArtifactClass \<Rightarrow> string \<Rightarrow> Observation \<Rightarrow> bool" where
  "deletable class specHash obs \<longleftrightarrow>
     (let stamp = mget (Metadata obs) (StampMetadataKey class) in stamp = [] \<or> stamp = specHash)"

text \<open>Parking as Expired, the end of \<open>reconcileExpired\<close>.\<close>

definition parkExpired ::
  "('w, 'p) Reconciler \<Rightarrow> ('w, 'p) rst \<Rightarrow> ret \<times> ('w, 'p) rst" where
  "parkExpired R s =
     (let s = setStatus (\<lambda>st. st\<lparr>State := StateExpired, Digest := [], GeneratorRef := None,
                GeneratorSucceededAt := None\<rparr>) s;
          s = condDelete R ReconcilingCondition s;
          s = condDelete R StalledCondition s;
          s = markFalse R ArtifactInStoreCondition ReasonExpired
                (Msg ''deleteAfter reached; artifact deleted from store'' []) s;
          s = markFalse R ReadyCondition ReasonExpired
                (Msg ''deleteAfter %s reached; artifact is no longer reconciled''
                   [ADur (case DeleteAfter (Spec (obj s)) of Some d \<Rightarrow> d | None \<Rightarrow> 0)]) s
      in case TTL (Spec (obj s)) of
           Some ttl \<Rightarrow>
             if 0 < ttl then
               let remaining = wrap64 (ttl - time_Sub (rNow R) (CreationTimestamp (Meta (obj s))))
               in if 0 < remaining then (after (wrap64 (remaining + second)), s) else (after second, s)
             else (after 0, s)
         | None \<Rightarrow> (after 0, s))"

definition reconcileExpired ::
  "('w, 'p) Reconciler \<Rightarrow> ArtifactClass \<Rightarrow> 'w StoreDriver \<Rightarrow> string \<Rightarrow> string \<Rightarrow> ('w, 'p) rst
     \<Rightarrow> ret \<times> ('w, 'p) rst" where
  "reconcileExpired R class driver key specHash s =
     (case Observe driver (world s) key of
        Inl e \<Rightarrow>
          (after (jitter R minute), markFalse R ReadyCondition ReasonStoreUnavailable (Msg ''%s'' [AErr e]) s)
      | Inr obs \<Rightarrow>
          if Exists obs then
            if deletable class specHash obs then
              (case Delete driver (world s) key of
                 (Some e, w) \<Rightarrow>
                   (after (jitter R minute),
                    markFalse R ReadyCondition ReasonStoreUnavailable
                      (Msg ''deleteAfter cleanup: %s'' [AErr e]) (s\<lparr>world := w\<rparr>))
               | (None, w) \<Rightarrow>
                   parkExpired R (emit False ''ArtifactDeleted''
                     (Msg ''deleteAfter reached; deleted artifact at %q'' [AStr key]) (s\<lparr>world := w\<rparr>)))
            else
              parkExpired R (emit True ''KeyConflict''
                (Msg ''deleteAfter reached but object at %q is stamped %s; leaving it in place''
                   [AStr key, AStr (mget (Metadata obs) (StampMetadataKey class))]) s)
          else parkExpired R s)"

definition removeFinalizer :: "('w, 'p) Reconciler \<Rightarrow> ('w, 'p) rst \<Rightarrow> ('w, 'p) rst" where
  "removeFinalizer R s =
     s\<lparr>obj := (obj s)\<lparr>Meta := (Meta (obj s))\<lparr>Finalizers :=
        RemoveFinalizer (rLib R) (Finalizers (Meta (obj s))) ArtifactFinalizer\<rparr>\<rparr>\<rparr>"

text \<open>The store object's deletion under policy Delete; \<open>None\<close> lets the finalizer go.\<close>

definition deleteFromStore ::
  "('w, 'p) Reconciler \<Rightarrow> ArtifactClass \<Rightarrow> ('w, 'p) rst \<Rightarrow> goerr option \<times> ('w, 'p) rst" where
  "deleteFromStore R class s =
     (let key = Key (stat s)
      in case DriverFor (rRegistry R) (world s) class of
           Inl e \<Rightarrow> (Some e, s)
         | Inr driver \<Rightarrow>
             (case Observe driver (world s) key of
                Inl e \<Rightarrow> (Some e, s)
              | Inr obs \<Rightarrow>
                  if \<not> Exists obs then (None, s)
                  else if deletable class (SpecHash (stat s)) obs then
                    (case Delete driver (world s) key of
                       (Some e, w) \<Rightarrow>
                         let s = s\<lparr>world := w\<rparr>;
                             s = setState StateDeleting s;
                             s = markFalse R DeletingCondition ReasonStoreDeleteFailed
                                   (Msg ''delete artifact at %q: %s'' [AStr key, AErr e]) s;
                             s = markFalse R ReadyCondition ReasonStoreDeleteFailed
                                   (Msg ''deletionPolicy Delete is blocked: %s'' [AErr e]) s;
                             s = emit True ''DeletionBlocked''
                                   (Msg ''delete artifact at %q: %s'' [AStr key, AErr e]) s
                         in (Some e, s)
                     | (None, w) \<Rightarrow>
                         (None, emit False ''ArtifactDeleted''
                            (Msg ''deleted artifact at %q per deletionPolicy'' [AStr key]) (s\<lparr>world := w\<rparr>)))
                  else
                    (None, emit True ''KeyConflict''
                       (Msg ''object at %q is stamped %s; leaving it in place''
                          [AStr key, AStr (mget (Metadata obs) (StampMetadataKey class))]) s)))"

definition reconcileDelete :: "('w, 'p) Reconciler \<Rightarrow> ('w, 'p) rst \<Rightarrow> ret \<times> ('w, 'p) rst" where
  "reconcileDelete R s =
     (if \<not> ContainsFinalizer (rLib R) (Finalizers (Meta (obj s))) ArtifactFinalizer then (after 0, s)
      else if DeletionPolicy (Spec (obj s)) = DeletionPolicyDelete \<and> Key (stat s) \<noteq> []
              \<and> \<not> ObserveOnly (obj s) then
        (case clGetClass (rClient R) (world s) (ClassRef (Spec (obj s))) of
           Inl NotFound \<Rightarrow>
             (after 0, removeFinalizer R (emit True ''OrphanedArtifact''
                (Msg ''deletionPolicy is Delete but ArtifactClass %q is gone; store object at %q is orphaned''
                   [AStr (ClassRef (Spec (obj s))), AStr (Key (stat s))]) s))
         | Inl e \<Rightarrow> (fail (ApiError e), s)
         | Inr class \<Rightarrow>
             (case deleteFromStore R class s of
                (Some e, s) \<Rightarrow> (fail e, s)
              | (None, s) \<Rightarrow> (after 0, removeFinalizer R s)))
      else (after 0, removeFinalizer R s))"

section \<open>The state machine\<close>

text \<open>The retry annotation: one reset of the failure budget per token.\<close>

definition honorRetry :: "('w, 'p) Reconciler \<Rightarrow> ('w, 'p) rst \<Rightarrow> ('w, 'p) rst" where
  "honorRetry R s =
     (let tok = mget (Annotations (Meta (obj s))) RetryAnnotation
      in if tok \<noteq> [] \<and> tok \<noteq> RetryToken (stat s) then
           let s = setStatus (\<lambda>st. st\<lparr>RetryToken := tok, FailedAttempts := 0, LastFailureTime := None,
                     LastFailureMessage := None\<rparr>) s;
               s = condDelete R StalledCondition s
           in emit False ''RetryRequested'' (Msg ''failure budget reset via retry annotation'' []) s
         else s)"

text \<open>An optional positive duration (\<open>ttl\<close>, \<open>deleteAfter\<close>) that the object's age has reached.\<close>

definition reached :: "duration option \<Rightarrow> duration \<Rightarrow> bool" where
  "reached d age \<longleftrightarrow> (case d of None \<Rightarrow> False | Some x \<Rightarrow> 0 < x \<and> x \<le> age)"

text \<open>The part of \<open>reconcile\<close> from the rendered key on.\<close>

definition reconcileKeyed ::
  "('w, 'p) Reconciler \<Rightarrow> ArtifactClass \<Rightarrow> Input \<Rightarrow> ('w, 'p) rst \<Rightarrow> ret \<times> ('w, 'p) rst" where
  "reconcileKeyed R class i s =
     (let key = inKey i; specHash = inSpecHash i;
          s = setStatus (\<lambda>st. st\<lparr>SpecHash := specHash, Key := key\<rparr>) s;
          age = time_Sub (rNow R) (CreationTimestamp (Meta (obj s)))
      in if reached (TTL (Spec (obj s))) age then
           let s = emit False ''TTLExpired'' (Msg ''ttl %s reached; deleting Artifact''
                     [ADur (case TTL (Spec (obj s)) of Some x \<Rightarrow> x | None \<Rightarrow> 0)]) s
           in (case clDeleteArtifact (rClient R) (world s) (obj s) of
                 (None, w) \<Rightarrow> (after 0, s\<lparr>world := w\<rparr>)
               | (Some NotFound, w) \<Rightarrow> (after 0, s\<lparr>world := w\<rparr>)
               | (Some e, w) \<Rightarrow> (fail (ApiError e), s\<lparr>world := w\<rparr>))
         else case DriverFor (rRegistry R) (world s) class of
           Inl e \<Rightarrow>
             (after minute, markFalse R ReadyCondition ReasonStoreUnavailable (Msg ''%s'' [AErr e]) s)
         | Inr driver \<Rightarrow>
             if reached (DeleteAfter (Spec (obj s))) age \<and> \<not> ObserveOnly (obj s)
             then reconcileExpired R class driver key specHash s
             else case Observe driver (world s) key of
               Inl e \<Rightarrow>
                 (after (jitter R (30 * second)),
                  markFalse R ReadyCondition ReasonStoreUnavailable (Msg ''%s'' [AErr e]) s)
             | Inr obs \<Rightarrow>
                 if Exists obs then reconcileExisting R class obs i s
                 else if ObserveOnly (obj s) then reconcileMissingObserved R i s
                 else reconcileMissing R class i s)"

definition inputFor :: "Artifact \<Rightarrow> ArtifactClass \<Rightarrow> Input" where
  "inputFor a class =
     (let specHash = Canonical (Identity (Spec a))
      in \<lparr>inIdentity = Identity (Spec a), inParams = Params (Spec a), inSpecHash = specHash,
          inSpecHex = Short specHash 64, inKey = [], inName = Name (Meta a),
          inNamespace = Namespace (Meta a), inClass = className class, inAttempt = 0\<rparr>)"

text \<open>The part of \<open>reconcile\<close> from the class lookup on.\<close>

definition reconcileClass :: "('w, 'p) Reconciler \<Rightarrow> ('w, 'p) rst \<Rightarrow> ret \<times> ('w, 'p) rst" where
  "reconcileClass R s =
     (case clGetClass (rClient R) (world s) (ClassRef (Spec (obj s))) of
        Inl NotFound \<Rightarrow>
          (after (30 * second), markFalse R ReadyCondition ReasonClassNotFound
             (Msg ''ArtifactClass %q not found'' [AStr (ClassRef (Spec (obj s)))]) s)
      | Inl e \<Rightarrow> (fail (ApiError e), s)
      | Inr class \<Rightarrow>
          let i = inputFor (obj s) class
          in (case RenderKey (rExt R) (KeyTemplate class) i of
                Inl e \<Rightarrow>
                  let s = markStalled R ReasonTemplateError (Msg ''%s'' [AErr e]) s;
                      s = markFalse R ReadyCondition ReasonTemplateError (Msg ''%s'' [AErr e]) s
                  in (after 0, s)
              | Inr key \<Rightarrow> reconcileKeyed R class (i\<lparr>inKey := key\<rparr>) s))"

text \<open>What every pass over a live object starts with, and the branch for a suspended one.\<close>

definition startPass :: "('w, 'p) rst \<Rightarrow> ('w, 'p) rst" where
  "startPass s =
     (let s = setStatus (\<lambda>st. if State st = StateUnset then st\<lparr>State := StatePending\<rparr> else st) s
      in setStatus (\<lambda>st. st\<lparr>ObservedGeneration := Generation (Meta (obj s))\<rparr>) s)"

definition suspendPass :: "('w, 'p) Reconciler \<Rightarrow> ('w, 'p) rst \<Rightarrow> ret \<times> ('w, 'p) rst" where
  "suspendPass R s =
     (let s = setState StateSuspended s;
          s = condDelete R ReconcilingCondition s;
          s = markFalse R ReadyCondition ReasonSuspended (Msg ''reconciliation is suspended'' []) s
      in (after 0, s))"

definition reconcile :: "('w, 'p) Reconciler \<Rightarrow> ('w, 'p) rst \<Rightarrow> ret \<times> ('w, 'p) rst" where
  "reconcile R s =
     (let s = startPass s
      in if Suspend (Spec (obj s)) then suspendPass R s
         else
           let s = honorRetry R s
           in case (if ObserveOnly (obj s) then GeneratorRef (stat s) else None) of
                None \<Rightarrow> reconcileClass R s
              | Some ref \<Rightarrow>
                  (case deleteAbandonedRun R ref (AStr ''managementPolicy is Observe'') s of
                     (Some e, s) \<Rightarrow> (fail e, s)
                   | (None, s) \<Rightarrow> reconcileClass R (forgetRun R s)))"

definition addFinalizer :: "('w, 'p) Reconciler \<Rightarrow> ('w, 'p) rst \<Rightarrow> ('w, 'p) rst" where
  "addFinalizer R s =
     s\<lparr>obj := (obj s)\<lparr>Meta := (Meta (obj s))\<lparr>Finalizers :=
        AddFinalizer (rLib R) (Finalizers (Meta (obj s))) ArtifactFinalizer\<rparr>\<rparr>\<rparr>"

text \<open>The body of \<open>Reconcile\<close> between the read of the object and the deferred patch.\<close>

definition reconcileBody :: "('w, 'p) Reconciler \<Rightarrow> ('w, 'p) rst \<Rightarrow> ret \<times> ('w, 'p) rst" where
  "reconcileBody R s =
     (if DeletionTimestamp (Meta (obj s)) \<noteq> None then reconcileDelete R s
      else if \<not> ContainsFinalizer (rLib R) (Finalizers (Meta (obj s))) ArtifactFinalizer
        then (after (10 * millisecond), addFinalizer R s)
      else reconcile R s)"

definition patchOpts :: "('w, 'p) Reconciler \<Rightarrow> CondType list \<times> string" where
  "patchOpts R =
     ([ReadyCondition, ReconcilingCondition, StalledCondition, ArtifactInStoreCondition,
       GeneratorSucceededCondition, DeletingCondition], rFieldOwner R)"

definition patchObj :: "('w, 'p) Reconciler \<Rightarrow> Artifact \<Rightarrow> ret \<times> ('w, 'p) rst \<Rightarrow> ret \<times> ('w, 'p) rst" where
  "patchObj R orig rs =
     (case rs of ((d, retErr), s) \<Rightarrow>
      case clPatch (rClient R) (world s) (patchOpts R) orig (obj s) of (e, w) \<Rightarrow>
      let s = s\<lparr>world := w\<rparr>;
          e = (case e of
                 None \<Rightarrow> None
               | Some x \<Rightarrow> if DeletionTimestamp (Meta (obj s)) \<noteq> None
                           then clFilterOutNotFound (rClient R) x else Some x)
      in (case e of
            None \<Rightarrow> ((d, retErr), s)
          | Some x \<Rightarrow> ((d, Some (Aggregate (case retErr of None \<Rightarrow> [x] | Some r \<Rightarrow> [r, x]))), s)))"

definition Reconcile ::
  "('w, 'p) Reconciler \<Rightarrow> string \<times> string \<Rightarrow> ('w, 'p) rst \<Rightarrow> ret \<times> ('w, 'p) rst" where
  "Reconcile R req s =
     (case clGetArtifact (rClient R) (world s) req of
        Inl NotFound \<Rightarrow> (after 0, s)
      | Inl e \<Rightarrow> (fail (ApiError e), s)
      | Inr a \<Rightarrow> patchObj R a (reconcileBody R (s\<lparr>obj := a\<rparr>)))"

end
