(* ===== verification/Effects.thy ===== *)
theory Effects
  imports Controller
begin

text \<open>
  What a pass of the reconciler may do to the outside world. \<open>effect\<close> is the specification: the
  only changes the controller is entitled to make on behalf of an Artifact, each with its guard.
  The refinement at the end shows that the handlers make no other change, in an order that
  cancels a run before anything else.
\<close>

section \<open>Frame lemmas of the statements\<close>

lemma setStatus_frame [simp]:
  "world (setStatus f s) = world s" "Meta (obj (setStatus f s)) = Meta (obj s)"
  "Spec (obj (setStatus f s)) = Spec (obj s)" "Status (obj (setStatus f s)) = f (Status (obj s))"
  "events (setStatus f s) = events s" "watched (setStatus f s) = watched s"
  "evaluator (setStatus f s) = evaluator s"
  by (simp_all add: setStatus_def)

lemma emit_frame [simp]:
  "world (emit b r m s) = world s" "obj (emit b r m s) = obj s"
  "watched (emit b r m s) = watched s" "evaluator (emit b r m s) = evaluator s"
  by (simp_all add: emit_def)

text \<open>The condition statements and \<open>setState\<close> change the status only, in the field they name.\<close>

lemma setState_frame [simp]:
  "world (setState x s) = world s" "Meta (obj (setState x s)) = Meta (obj s)"
  "Spec (obj (setState x s)) = Spec (obj s)" "Status (obj (setState x s)) = (Status (obj s))\<lparr>State := x\<rparr>"
  "events (setState x s) = events s"
  by (simp_all add: setState_def)

lemma markTrue_frame [simp]:
  "world (markTrue R t r m s) = world s" "Meta (obj (markTrue R t r m s)) = Meta (obj s)"
  "Spec (obj (markTrue R t r m s)) = Spec (obj s)" "events (markTrue R t r m s) = events s"
  "Status (obj (markTrue R t r m s)) =
     (Status (obj s))\<lparr>Conditions := MarkTrue (rLib R) (Conditions (Status (obj s))) t r m\<rparr>"
  by (simp_all add: markTrue_def)

lemma markFalse_frame [simp]:
  "world (markFalse R t r m s) = world s" "Meta (obj (markFalse R t r m s)) = Meta (obj s)"
  "Spec (obj (markFalse R t r m s)) = Spec (obj s)" "events (markFalse R t r m s) = events s"
  "Status (obj (markFalse R t r m s)) =
     (Status (obj s))\<lparr>Conditions := MarkFalse (rLib R) (Conditions (Status (obj s))) t r m\<rparr>"
  by (simp_all add: markFalse_def)

lemma markUnknown_frame [simp]:
  "world (markUnknown R t r m s) = world s" "Meta (obj (markUnknown R t r m s)) = Meta (obj s)"
  "Spec (obj (markUnknown R t r m s)) = Spec (obj s)" "events (markUnknown R t r m s) = events s"
  "Status (obj (markUnknown R t r m s)) =
     (Status (obj s))\<lparr>Conditions := MarkUnknown (rLib R) (Conditions (Status (obj s))) t r m\<rparr>"
  by (simp_all add: markUnknown_def)

lemma condDelete_frame [simp]:
  "world (condDelete R t s) = world s" "Meta (obj (condDelete R t s)) = Meta (obj s)"
  "Spec (obj (condDelete R t s)) = Spec (obj s)" "events (condDelete R t s) = events s"
  "Status (obj (condDelete R t s)) =
     (Status (obj s))\<lparr>Conditions := DeleteCond (rLib R) (Conditions (Status (obj s))) t\<rparr>"
  by (simp_all add: condDelete_def)

lemma markStalled_frame [simp]:
  "world (markStalled R r m s) = world s" "Meta (obj (markStalled R r m s)) = Meta (obj s)"
  "Spec (obj (markStalled R r m s)) = Spec (obj s)" "events (markStalled R r m s) = events s"
  "Status (obj (markStalled R r m s)) =
     (Status (obj s))\<lparr>Conditions := MarkTrue (rLib R) (DeleteCond (rLib R) (Conditions (Status (obj s)))
        ReconcilingCondition) StalledCondition r m\<rparr>"
  by (simp_all add: markStalled_def Let_def)

lemma markReconciling_frame [simp]:
  "world (markReconciling R r m s) = world s" "Meta (obj (markReconciling R r m s)) = Meta (obj s)"
  "Spec (obj (markReconciling R r m s)) = Spec (obj s)" "events (markReconciling R r m s) = events s"
  "Status (obj (markReconciling R r m s)) =
     (Status (obj s))\<lparr>Conditions := MarkTrue (rLib R) (DeleteCond (rLib R) (Conditions (Status (obj s)))
        StalledCondition) ReconcilingCondition r m\<rparr>"
  by (simp_all add: markReconciling_def Let_def)

lemma matched_frame [simp]:
  "world (snd (matched R x run s)) = world s" "obj (snd (matched R x run s)) = obj s"
  "events (snd (matched R x run s)) = events s"
  by (simp_all add: matched_def case_prod_beta)

lemma recordDrift_frame [simp]:
  "world (recordDrift R c k was new s) = world s" "Meta (obj (recordDrift R c k was new s)) = Meta (obj s)"
  "Spec (obj (recordDrift R c k was new s)) = Spec (obj s)"
  by (simp_all add: recordDrift_def Let_def)

lemma GetInterval_frame: "Spec a = Spec b \<Longrightarrow> GetInterval a = GetInterval b"
  by (simp add: GetInterval_def)

lemma ObserveOnly_frame: "Spec a = Spec b \<Longrightarrow> ObserveOnly a = ObserveOnly b"
  by (simp add: ObserveOnly_def)

section \<open>The permitted effects\<close>

text \<open>
  The failure count and time of last failure a pass works with: those of the status, or none when
  the retry annotation carries a token the status has not seen.
\<close>

definition retry_due :: "Artifact \<Rightarrow> bool" where
  "retry_due a \<longleftrightarrow>
     (let tok = mget (Annotations (Meta a)) RetryAnnotation in tok \<noteq> [] \<and> tok \<noteq> RetryToken (Status a))"

definition failures :: "Artifact \<Rightarrow> int" where
  "failures a = (if retry_due a then 0 else FailedAttempts (Status a))"

definition lastFailure :: "Artifact \<Rightarrow> gotime option" where
  "lastFailure a = (if retry_due a then None else LastFailureTime (Status a))"

text \<open>\<open>keyed\<close>: the class in force and the key and hash that address the artifact in its store.\<close>

definition keyed :: "('w, 'p) Reconciler \<Rightarrow> Artifact \<Rightarrow> 'w \<Rightarrow> ArtifactClass \<Rightarrow> string \<Rightarrow> bool" where
  "keyed R a w c key \<longleftrightarrow>
     clGetClass (rClient R) w (ClassRef (Spec a)) = Inr c
   \<and> RenderKey (rExt R) (KeyTemplate c) (inputFor a c) = Inr key"

definition age_reached :: "('w, 'p) Reconciler \<Rightarrow> Artifact \<Rightarrow> duration option \<Rightarrow> bool" where
  "age_reached R a d \<longleftrightarrow> reached d (time_Sub (rNow R) (CreationTimestamp (Meta a)))"

text \<open>The store does not hold the artifact, or holds drifted content a class wants regenerated.\<close>

definition needs_run :: "Artifact \<Rightarrow> ArtifactClass \<Rightarrow> Observation \<Rightarrow> bool" where
  "needs_run a c obs \<longleftrightarrow>
     \<not> Exists obs
   \<or> drifted (Status a) obs \<and> DriftPolicy c = DriftPolicyRegenerate
     \<and> deletable c (Canonical (Identity (Spec a))) obs"

text \<open>
  The budget and the backoff gate: fewer failures than attempts allowed, and the delay since the
  last failure served in full.
\<close>

definition budget_left :: "('w, 'p) Reconciler \<Rightarrow> Artifact \<Rightarrow> ArtifactClass \<Rightarrow> bool" where
  "budget_left R a c \<longleftrightarrow>
     (case EffectiveBackoff c of (maxAttempts, initialDelay, maxDelay) \<Rightarrow>
        failures a < maxAttempts
      \<and> (case lastFailure a of None \<Rightarrow> True
         | Some lf \<Rightarrow> failures a \<le> 0 \<or> lf + backoffDelay (failures a) initialDelay maxDelay \<le> rNow R))"

text \<open>The object created: named after the next attempt, in the Artifact's namespace, owned by it.\<close>

definition run_of :: "lib \<Rightarrow> Artifact \<Rightarrow> unstructured \<Rightarrow> bool" where
  "run_of L a run \<longleftrightarrow>
     GetName L run = runName a (Canonical (Identity (Spec a))) (wrap32 (Attempts (Status a) + 1))
   \<and> GetNamespace L run = Namespace (Meta a) \<and> IsControlledBy L run a
   \<and> mget (GetLabels L run) ''artifacts.kargops.dev/artifact'' = Name (Meta a)
   \<and> mget (GetLabels L run) ''artifacts.kargops.dev/spec-hash'' = Short (Canonical (Identity (Spec a))) 16"

inductive effect :: "('w, 'p) Reconciler \<Rightarrow> Artifact \<Rightarrow> 'w \<Rightarrow> 'w \<Rightarrow> bool" for R a where
  CancelObserved: "GeneratorRef (Status a) = Some ref \<Longrightarrow> ObserveOnly a \<Longrightarrow>
     effect R a w (snd (clDeleteRun (rClient R) w ref))"
| CancelOrphaned: "GeneratorRef (Status a) = Some ref \<Longrightarrow> \<not> ObserveOnly a \<Longrightarrow> keyed R a w c key \<Longrightarrow>
     Generator (classSpec c) = None \<Longrightarrow> effect R a w (snd (clDeleteRun (rClient R) w ref))"
| CancelOverdue: "GeneratorRef (Status a) = Some ref \<Longrightarrow> \<not> ObserveOnly a \<Longrightarrow> keyed R a w c key \<Longrightarrow>
     clGetRun (rClient R) w ref = Inr run \<Longrightarrow> 0 < ProgressDeadline c \<Longrightarrow>
     effect R a w (snd (clDeleteRun (rClient R) w (generatorRefFor (rLib R) run)))"
| StartRun: "GeneratorRef (Status a) = None \<Longrightarrow> \<not> ObserveOnly a \<Longrightarrow> keyed R a w c key \<Longrightarrow>
     Generator (classSpec c) \<noteq> None \<Longrightarrow> budget_left R a c \<Longrightarrow>
     DriverFor (rRegistry R) w c = Inr driver \<Longrightarrow> Observe driver w key = Inr obs \<Longrightarrow> needs_run a c obs \<Longrightarrow>
     run_of (rLib R) a run \<Longrightarrow>
     w' = w \<or> w' = snd (clWatch (rClient R) w (GroupVersionKind (rLib R) run)) \<Longrightarrow>
     effect R a w (snd (clCreate (rClient R) w' run))"
| ExpireObject: "age_reached R a (TTL (Spec a)) \<Longrightarrow> Meta b = Meta a \<Longrightarrow> Spec b = Spec a \<Longrightarrow>
     effect R a w (snd (clDeleteArtifact (rClient R) w b))"
| ExpireStored: "age_reached R a (DeleteAfter (Spec a)) \<Longrightarrow> \<not> ObserveOnly a \<Longrightarrow> keyed R a w c key \<Longrightarrow>
     DriverFor (rRegistry R) w c = Inr driver \<Longrightarrow> Observe driver w key = Inr obs \<Longrightarrow> Exists obs \<Longrightarrow>
     deletable c (Canonical (Identity (Spec a))) obs \<Longrightarrow> effect R a w (snd (Delete driver w key))"
| DeleteStored: "DeletionTimestamp (Meta a) \<noteq> None \<Longrightarrow> DeletionPolicy (Spec a) = DeletionPolicyDelete \<Longrightarrow>
     \<not> ObserveOnly a \<Longrightarrow> clGetClass (rClient R) w (ClassRef (Spec a)) = Inr c \<Longrightarrow>
     DriverFor (rRegistry R) w c = Inr driver \<Longrightarrow> Observe driver w (Key (Status a)) = Inr obs \<Longrightarrow>
     Exists obs \<Longrightarrow> deletable c (SpecHash (Status a)) obs \<Longrightarrow>
     effect R a w (snd (Delete driver w (Key (Status a))))"

inductive_simps effect_iff: "effect R a w w'"

section \<open>What the handlers do to the world\<close>

lemma ensureGeneratorWatch_frame:
  "obj (snd (ensureGeneratorWatch R gvk s)) = obj s"
  "events (snd (ensureGeneratorWatch R gvk s)) = events s"
  "world (snd (ensureGeneratorWatch R gvk s)) = world s
   \<or> world (snd (ensureGeneratorWatch R gvk s)) = snd (clWatch (rClient R) (world s) gvk)"
  by (auto simp: ensureGeneratorWatch_def Let_def split: prod.split option.split)

lemma ownedRun_ok:
  assumes "metadata_ok L" "ownedRun L a h name run = Inr v"
  shows "GetName L v = name" "GetNamespace L v = Namespace (Meta a)" "IsControlledBy L v a"
    "mget (GetLabels L v) ''artifacts.kargops.dev/artifact'' = Name (Meta a)"
    "mget (GetLabels L v) ''artifacts.kargops.dev/spec-hash'' = Short h 16"
  using assms by (simp_all add: metadata_ok_def ownedRun_def Let_def mget_def)

definition created :: "('w, 'p) Reconciler \<Rightarrow> Artifact \<Rightarrow> string \<Rightarrow> 'w \<Rightarrow> 'w \<Rightarrow> bool" where
  "created R a h w w' \<longleftrightarrow>
     (\<exists>run tmpl v. ownedRun (rLib R) a h (runName a h (wrap32 (Attempts (Status a) + 1))) tmpl = Inr run
        \<and> (v = w \<or> v = snd (clWatch (rClient R) w (GroupVersionKind (rLib R) run)))
        \<and> w' = snd (clCreate (rClient R) v run))"

lemma createRun_world:
  "world (snd (createRun R g i s)) = world s
   \<or> created R (obj s) (inSpecHash i) (world s) (world (snd (createRun R g i s)))"
proof (cases "RenderTemplate (GetAPIVersion (rLib R)) (GetKind (rLib R)) (rExt R) (Template g)
    (i\<lparr>inAttempt := wrap32 (Attempts (stat s) + 1)\<rparr>)")
  case (Inl e)
  then show ?thesis by (simp add: createRun_def Let_def)
next
  case (Inr tmpl)
  let ?h = "inSpecHash i"
  let ?name = "runName (obj s) ?h (wrap32 (Attempts (stat s) + 1))"
  show ?thesis
  proof (cases "ownedRun (rLib R) (obj s) ?h ?name tmpl")
    case (Inl e)
    then show ?thesis using Inr by (simp add: createRun_def Let_def)
  next
    case owned: (Inr run)
    let ?gvk = "GroupVersionKind (rLib R) run"
    let ?s = "snd (ensureGeneratorWatch R ?gvk s)"
    have "world (snd (createRun R g i s)) = snd (clCreate (rClient R) (world ?s) run)"
      using Inr owned
      by (simp add: createRun_def Let_def split: prod.split sum.split apierr.split)
    then show ?thesis
      using owned ensureGeneratorWatch_frame(3) [of R ?gvk s] unfolding created_def by metis
  qed
qed

lemma recordAttemptFailure_frame [simp]:
  "world (snd (recordAttemptFailure R r m b s)) = world s"
  "Meta (obj (snd (recordAttemptFailure R r m b s))) = Meta (obj s)"
  "Spec (obj (snd (recordAttemptFailure R r m b s))) = Spec (obj s)"
  by (simp_all add: recordAttemptFailure_def Let_def case_prod_beta)

lemma awaitArtifact_frame [simp]:
  "world (snd (awaitArtifact R c run b s)) = world s"
  "Meta (obj (snd (awaitArtifact R c run b s))) = Meta (obj s)"
  "Spec (obj (snd (awaitArtifact R c run b s))) = Spec (obj s)"
  by (simp_all add: awaitArtifact_def markSucceeded_def Let_def)

lemma evaluateRun_world:
  "world (snd (evaluateRun R c g run b s)) = world s
   \<or> 0 < ProgressDeadline c \<and>
     world (snd (evaluateRun R c g run b s)) = snd (clDeleteRun (rClient R) (world s) (generatorRefFor (rLib R) run))"
  by (simp add: evaluateRun_def Let_def case_prod_beta)

lemma deleteAbandonedRun_frame [simp]:
  "obj (snd (deleteAbandonedRun R ref why s)) = obj s"
  "world (snd (deleteAbandonedRun R ref why s)) = snd (clDeleteRun (rClient R) (world s) ref)"
  by (simp_all add: deleteAbandonedRun_def split: prod.split option.split apierr.split)

lemma forgetRun_frame [simp]:
  "world (forgetRun R s) = world s" "Meta (obj (forgetRun R s)) = Meta (obj s)"
  "Spec (obj (forgetRun R s)) = Spec (obj s)"
  "Status (obj (forgetRun R s)) = (Status (obj s))\<lparr>GeneratorRef := None, GeneratorSucceededAt := None,
     Conditions := DeleteCond (rLib R) (Conditions (Status (obj s))) GeneratorSucceededCondition\<rparr>"
  by (simp_all add: forgetRun_def Let_def)

lemma noGenerator_world:
  "world (snd (noGenerator R c i s)) =
     (case GeneratorRef (stat s) of None \<Rightarrow> world s
      | Some ref \<Rightarrow> snd (clDeleteRun (rClient R) (world s) ref))"
proof (cases "GeneratorRef (stat s)")
  case (Some ref)
  let ?d = "deleteAbandonedRun R ref (AMsg ''class %q no longer defines a generator'' [AStr (className c)]) s"
  obtain e s' where d: "?d = (e, s')" by (cases ?d)
  have "world s' = snd (clDeleteRun (rClient R) (world s) ref)"
    using deleteAbandonedRun_frame(2) [of R ref _ s] d by (metis snd_conv)
  then show ?thesis using Some d by (cases e) (simp_all add: noGenerator_def Let_def)
qed (simp add: noGenerator_def Let_def)

lemma markAvailable_frame [simp]:
  "world (snd (markAvailable R key d b s)) = world s"
  by (simp add: markAvailable_def Let_def)

lemma keyConflict_frame [simp]:
  "world (snd (keyConflict R key h st s)) = world s"
  by (simp add: keyConflict_def Let_def)

lemma reconcileMissingObserved_frame [simp]:
  "world (snd (reconcileMissingObserved R i s)) = world s"
  by (simp add: reconcileMissingObserved_def Let_def)

lemma parkExpired_frame [simp]:
  "world (snd (parkExpired R s)) = world s"
  by (simp add: parkExpired_def Let_def split: option.split)

text \<open>The state in which a handler runs agrees with the artifact read at the start of the pass.\<close>

definition agrees :: "Artifact \<Rightarrow> ('w, 'p) rst \<Rightarrow> bool" where
  "agrees a s \<longleftrightarrow>
     Meta (obj s) = Meta a \<and> Spec (obj s) = Spec a
   \<and> GeneratorRef (stat s) = (if ObserveOnly a then None else GeneratorRef (Status a))
   \<and> Attempts (stat s) = Attempts (Status a)
   \<and> FailedAttempts (stat s) = failures a \<and> LastFailureTime (stat s) = lastFailure a"

lemma IsControlledBy_UID:
  "metadata_ok L \<Longrightarrow> UID (Meta a) = UID (Meta b) \<Longrightarrow> IsControlledBy L u a = IsControlledBy L u b"
  unfolding metadata_ok_def by blast

lemma run_of_created:
  assumes "lib_ok (rLib R)" "agrees a s" "created R (obj s) (Canonical (Identity (Spec a))) w w'"
  shows "\<exists>run v. run_of (rLib R) a run
    \<and> (v = w \<or> v = snd (clWatch (rClient R) w (GroupVersionKind (rLib R) run)))
    \<and> w' = snd (clCreate (rClient R) v run)"
proof -
  let ?h = "Canonical (Identity (Spec a))"
  have m: "metadata_ok (rLib R)" using assms(1) by (rule lib_okD)
  obtain run tmpl v where o: "ownedRun (rLib R) (obj s) ?h
        (runName (obj s) ?h (wrap32 (Attempts (stat s) + 1))) tmpl = Inr run"
    and v: "v = w \<or> v = snd (clWatch (rClient R) w (GroupVersionKind (rLib R) run))"
      "w' = snd (clCreate (rClient R) v run)"
    using assms(3) unfolding created_def by blast
  have "IsControlledBy (rLib R) run a = IsControlledBy (rLib R) run (obj s)"
    using m assms(2) by (intro IsControlledBy_UID) (simp_all add: agrees_def)
  then have "run_of (rLib R) a run"
    using ownedRun_ok [OF m o] assms(2) by (simp add: run_of_def agrees_def runName_def)
  then show ?thesis using v by blast
qed

lemma markMissing_frame [simp]:
  "world (markMissing R i s) = world s" "Meta (obj (markMissing R i s)) = Meta (obj s)"
  "Spec (obj (markMissing R i s)) = Spec (obj s)"
  "Status (obj (markMissing R i s)) = (Status (obj s))\<lparr>Digest := [], Conditions :=
     MarkFalse (rLib R) (Conditions (Status (obj s))) ArtifactInStoreCondition ReasonArtifactMissing
       (Msg ''no artifact at %q'' [AStr (inKey i)])\<rparr>"
  by (simp_all add: markMissing_def Let_def)

lemma budgetExhausted_frame [simp]: "world (snd (budgetExhausted R m s)) = world s"
  by (simp add: budgetExhausted_def Let_def)

lemma backoffPending_frame [simp]: "world (snd (backoffPending R t s)) = world s"
  by (simp add: backoffPending_def Let_def)

lemma inFlight_world:
  "world (snd (inFlight R c g ref b s)) = world s
   \<or> (\<exists>run. clGetRun (rClient R) (world s) ref = Inr run \<and> 0 < ProgressDeadline c \<and>
      world (snd (inFlight R c g ref b s)) =
        snd (clDeleteRun (rClient R) (world s) (generatorRefFor (rLib R) run)))"
  using evaluateRun_world [of R c g _ b s]
  by (auto simp: inFlight_def split: sum.split apierr.split)

lemma reconcileMissing_effect:
  assumes L: "lib_ok (rLib R)" and ag: "agrees a s" and k: "keyed R a (world s) c key"
    and o: "\<not> ObserveOnly a" and h: "inSpecHash i = Canonical (Identity (Spec a))"
    and d: "DriverFor (rRegistry R) (world s) c = Inr driver" "Observe driver (world s) key = Inr obs"
    and n: "needs_run a c obs"
  shows "(effect R a)\<^sup>=\<^sup>= (world s) (world (snd (reconcileMissing R c i s)))"
proof -
  let ?s = "markMissing R i s"
  have ag1: "agrees a ?s" using ag by (simp add: agrees_def)
  obtain mx ini cap where b: "EffectiveBackoff c = (mx, ini, cap)" by (cases "EffectiveBackoff c")
  have start: "(effect R a)\<^sup>=\<^sup>= (world s) (world (snd (createRun R g i ?s)))"
    if "Generator (classSpec c) = Some g" "GeneratorRef (Status a) = None" "budget_left R a c" for g
    using createRun_world [of R g i ?s] run_of_created [OF L ag1, of "world ?s"]
      StartRun [OF that(2) o k _ that(3) d n] that(1) h by fastforce
  show ?thesis
  proof (cases "Generator (classSpec c)")
    case None
    then show ?thesis using CancelOrphaned [OF _ o k None] ag o
      by (auto simp: reconcileMissing_def Let_def noGenerator_world agrees_def split: option.split)
  next
    case (Some g)
    have "(effect R a)\<^sup>=\<^sup>= (world s) (world (snd (inFlight R c g ref b' ?s)))"
      if "GeneratorRef (Status a) = Some ref" for ref b'
      using inFlight_world [of R c g ref b' ?s] CancelOverdue [OF that o k] by auto
    then show ?thesis using Some b start [OF Some] ag o
      by (auto simp: reconcileMissing_def Let_def agrees_def budget_left_def split: option.split)
  qed
qed

definition fresh :: "Artifact \<Rightarrow> ('w, 'p) rst \<Rightarrow> bool" where
  "fresh a s \<longleftrightarrow> agrees a s
   \<and> (\<not> ObserveOnly a \<longrightarrow> Digest (stat s) = Digest (Status a)
        \<and> GeneratorSucceededAt (stat s) = GeneratorSucceededAt (Status a))"

lemma recordDrift_status:
  "\<exists>cs. stat (recordDrift R c k was new s) = (stat s)\<lparr>Conditions := cs\<rparr>"
proof (cases "DriftPolicy c = DriftPolicyIgnore")
  case True
  then show ?thesis by (intro exI [of _ "Conditions (stat s)"]) (simp add: recordDrift_def)
qed (auto simp: recordDrift_def Let_def)

lemma agrees_recordDrift:
  assumes "agrees a s"
  shows "agrees a (setStatus (\<lambda>st. st\<lparr>Digest := d\<rparr>) (recordDrift R c k was new s))"
proof -
  obtain cs where "stat (recordDrift R c k was new s) = (stat s)\<lparr>Conditions := cs\<rparr>"
    using recordDrift_status by blast
  then show ?thesis using assms by (simp add: agrees_def)
qed

lemma reconcileExisting_effect:
  assumes L: "lib_ok (rLib R)" and f: "fresh a s" and k: "keyed R a (world s) c key"
    and i: "inSpecHash i = Canonical (Identity (Spec a))"
    and d: "DriverFor (rRegistry R) (world s) c = Inr driver" "Observe driver (world s) key = Inr obs"
  shows "(effect R a)\<^sup>=\<^sup>= (world s) (world (snd (reconcileExisting R c obs i s)))"
proof -
  let ?s = "setStatus (\<lambda>st. st\<lparr>Digest := []\<rparr>) (recordDrift R c (inKey i) (Digest (stat s)) (obsDigest obs) s)"
  have ag: "agrees a ?s" using f by (simp add: fresh_def agrees_recordDrift)
  have m: "(effect R a)\<^sup>=\<^sup>= (world s) (world (snd (reconcileMissing R c i ?s)))"
    if "\<not> ObserveOnly a" "needs_run a c obs"
    using reconcileMissing_effect [OF L ag _ that(1) i _ _ that(2)] k d by simp
  have oo: "ObserveOnly (obj (recordDrift R c (inKey i) (Digest (stat s)) (obsDigest obs) s)) = ObserveOnly a"
    using f by (simp add: ObserveOnly_def fresh_def agrees_def)
  have dr: "needs_run a c obs"
    if "drifted (stat s) obs" "DriftPolicy c = DriftPolicyRegenerate" "\<not> ObserveOnly a"
      "\<not> (mget (Metadata obs) (StampMetadataKey c) \<noteq> [] \<and> mget (Metadata obs) (StampMetadataKey c) \<noteq> inSpecHash i)"
    using that f i by (simp add: needs_run_def deletable_def drifted_def generatedSinceLastVerify_def
        fresh_def agrees_def Let_def)
  show ?thesis
    using m dr oo by (auto simp: reconcileExisting_def Let_def)
qed

lemma reconcileExpired_effect:
  assumes f: "fresh a s" and k: "keyed R a (world s) c key" and o: "\<not> ObserveOnly a"
    and e: "age_reached R a (DeleteAfter (Spec a))"
    and d: "DriverFor (rRegistry R) (world s) c = Inr driver"
  shows "(effect R a)\<^sup>=\<^sup>= (world s)
    (world (snd (reconcileExpired R c driver key (Canonical (Identity (Spec a))) s)))"
  using ExpireStored [OF e o k d]
  by (auto simp: reconcileExpired_def split: sum.split prod.split option.split)
  

lemma reconcileKeyed_effect:
  assumes L: "lib_ok (rLib R)" and f: "fresh a s" and k: "keyed R a (world s) c key"
    and i: "inSpecHash i = Canonical (Identity (Spec a))" "inKey i = key"
  shows "(effect R a)\<^sup>=\<^sup>= (world s) (world (snd (reconcileKeyed R c i s)))"
proof -
  let ?s = "setStatus (\<lambda>st. st\<lparr>SpecHash := inSpecHash i, Key := key\<rparr>) s"
  have f1: "fresh a ?s" using f by (simp add: fresh_def agrees_def)
  have k1: "keyed R a (world ?s) c key" using k by simp
  have ms: "Meta (obj s) = Meta a" "Spec (obj s) = Spec a" using f by (simp_all add: fresh_def agrees_def)
  then have oo: "ObserveOnly (obj ?s) = ObserveOnly a" by (simp add: ObserveOnly_def)
  show ?thesis
  proof (cases "age_reached R a (TTL (Spec a))")
    case True
    have "world (snd (reconcileKeyed R c i s)) = snd (clDeleteArtifact (rClient R) (world s) (obj ?s))"
      using True ms unfolding reconcileKeyed_def Let_def i(2) age_reached_def
      by (simp split: prod.split option.split apierr.split)
    moreover have "effect R a (world s) (snd (clDeleteArtifact (rClient R) (world s) (obj ?s)))"
      using ms by (intro ExpireObject [OF True]) simp_all
    ultimately show ?thesis by simp
  next
    case False
    show ?thesis
    proof (cases "DriverFor (rRegistry R) (world s) c")
      case (Inl e)
      then show ?thesis using False ms unfolding reconcileKeyed_def Let_def i(2) age_reached_def by simp
    next
      case (Inr driver)
      have mi: "(effect R a)\<^sup>=\<^sup>= (world s) (world (snd (reconcileMissing R c i ?s)))"
        if "Observe driver (world s) key = Inr obs" "\<not> Exists obs" "\<not> ObserveOnly a" for obs
        using reconcileMissing_effect [OF L _ k1 that(3) i(1), of driver obs] Inr f1 that
        by (simp add: needs_run_def fresh_def)
      have exi: "(effect R a)\<^sup>=\<^sup>= (world s) (world (snd (reconcileExisting R c obs i ?s)))"
        if "Observe driver (world s) key = Inr obs" for obs
        using reconcileExisting_effect [OF L f1 k1 i(1), of driver obs] Inr that by simp
      have ep: "(effect R a)\<^sup>=\<^sup>= (world s) (world (snd (reconcileExpired R c driver key (inSpecHash i) ?s)))"
        if "age_reached R a (DeleteAfter (Spec a))" "\<not> ObserveOnly a"
        using reconcileExpired_effect [OF f1 k1 that(2,1), of driver] Inr i by simp
      show ?thesis using False Inr mi exi ep oo ms
        unfolding reconcileKeyed_def Let_def i(2) age_reached_def
        by (simp split: sum.split)
    qed
  qed
qed

lemma reconcileClass_effect:
  assumes L: "lib_ok (rLib R)" and f: "fresh a s"
  shows "(effect R a)\<^sup>=\<^sup>= (world s) (world (snd (reconcileClass R s)))"
proof (cases "clGetClass (rClient R) (world s) (ClassRef (Spec a))")
  case (Inl e)
  then show ?thesis using f by (cases e) (simp_all add: reconcileClass_def fresh_def agrees_def)
next
  case (Inr c)
  have ms: "Meta (obj s) = Meta a" "Spec (obj s) = Spec a" using f by (simp_all add: fresh_def agrees_def)
  then have i: "inputFor (obj s) c = inputFor a c" by (simp add: inputFor_def)
  show ?thesis
  proof (cases "RenderKey (rExt R) (KeyTemplate c) (inputFor a c)")
    case (Inl e)
    then show ?thesis using Inr ms i by (simp add: reconcileClass_def Let_def)
  next
    case key: (Inr key)
    have k: "keyed R a (world s) c key" using Inr key by (simp add: keyed_def)
    have "inSpecHash (inputFor a c) = Canonical (Identity (Spec a))" by (simp add: inputFor_def Let_def)
    then show ?thesis using reconcileKeyed_effect [OF L f k, of "(inputFor a c)\<lparr>inKey := key\<rparr>"] Inr key ms i
      by (simp add: reconcileClass_def Let_def)
  qed
qed

lemma honorRetry_frame [simp]:
  "world (honorRetry R s) = world s" "Meta (obj (honorRetry R s)) = Meta (obj s)"
  "Spec (obj (honorRetry R s)) = Spec (obj s)"
  by (simp_all add: honorRetry_def Let_def)

lemma honorRetry_status:
  "FailedAttempts (stat (honorRetry R s)) = failures (obj s)"
  "LastFailureTime (stat (honorRetry R s)) = lastFailure (obj s)"
  "GeneratorRef (stat (honorRetry R s)) = GeneratorRef (stat s)"
  "Attempts (stat (honorRetry R s)) = Attempts (stat s)"
  "Digest (stat (honorRetry R s)) = Digest (stat s)"
  "GeneratorSucceededAt (stat (honorRetry R s)) = GeneratorSucceededAt (stat s)"
  by (simp_all add: honorRetry_def failures_def lastFailure_def retry_due_def Let_def)

lemma startPass_frame [simp]:
  "world (startPass s) = world s" "Meta (obj (startPass s)) = Meta (obj s)"
  "Spec (obj (startPass s)) = Spec (obj s)"
  by (simp_all add: startPass_def Let_def)

lemma startPass_status:
  "failures (obj (startPass s)) = failures (obj s)" "lastFailure (obj (startPass s)) = lastFailure (obj s)"
  "GeneratorRef (stat (startPass s)) = GeneratorRef (stat s)" "Attempts (stat (startPass s)) = Attempts (stat s)"
  "Digest (stat (startPass s)) = Digest (stat s)"
  "GeneratorSucceededAt (stat (startPass s)) = GeneratorSucceededAt (stat s)"
  by (simp_all add: startPass_def failures_def lastFailure_def retry_due_def Let_def)

lemma fresh_start:
  "\<not> ObserveOnly (obj s) \<or> GeneratorRef (stat s) = None \<Longrightarrow> fresh (obj s) (honorRetry R (startPass s))"
  by (auto simp: fresh_def agrees_def honorRetry_status startPass_status)

lemma fresh_cancelled:
  "ObserveOnly (obj s) \<Longrightarrow> obj s' = obj (honorRetry R (startPass s)) \<Longrightarrow> fresh (obj s) (forgetRun R s')"
  by (simp add: fresh_def agrees_def honorRetry_status startPass_status)

lemma reconcile_effect:
  assumes L: "lib_ok (rLib R)"
  shows "((effect R (obj s))\<^sup>=\<^sup>= OO (effect R (obj s))\<^sup>=\<^sup>=) (world s) (world (snd (reconcile R s)))"
proof -
  let ?s = "honorRetry R (startPass s)"
  have o: "ObserveOnly (obj ?s) = ObserveOnly (obj s)" by (simp add: ObserveOnly_def)
  note st = honorRetry_status startPass_status
  show ?thesis
  proof (cases "\<not> Suspend (Spec (obj s)) \<and> ObserveOnly (obj s) \<and> GeneratorRef (stat s) \<noteq> None")
    case True
    then obtain ref where ref: "GeneratorRef (stat s) = Some ref" by blast
    obtain e s2 where d: "deleteAbandonedRun R ref (AStr ''managementPolicy is Observe'') ?s = (e, s2)"
      by fastforce
    have s2: "obj s2 = obj ?s" "world s2 = snd (clDeleteRun (rClient R) (world s) ref)"
      using deleteAbandonedRun_frame [of R ref _ ?s] d by (metis snd_conv startPass_frame(1) honorRetry_frame(1))+
    have "fresh (obj s) (forgetRun R s2)" using True s2 by (intro fresh_cancelled) simp_all
    then have "(effect R (obj s))\<^sup>=\<^sup>= (world s2) (world (snd (reconcileClass R (forgetRun R s2))))"
      using reconcileClass_effect [OF L] by fastforce
    moreover have "effect R (obj s) (world s) (world s2)"
      using CancelObserved [OF ref, of R "world s"] True s2 by simp
    ultimately show ?thesis using True ref d o by (cases e) (auto simp: reconcile_def st)
  next
    case False
    have "fresh (obj s) ?s" if "\<not> Suspend (Spec (obj s))"
      using False that by (intro fresh_start) auto
    then have "(effect R (obj s))\<^sup>=\<^sup>= (world s) (world (snd (reconcileClass R ?s)))"
      if "\<not> Suspend (Spec (obj s))"
      using reconcileClass_effect [OF L] that by fastforce
    then show ?thesis using False o by (auto simp: reconcile_def suspendPass_def st Let_def)
  qed
qed

lemma reconcileDelete_effect:
  assumes "DeletionTimestamp (Meta (obj s)) \<noteq> None"
  shows "(effect R (obj s))\<^sup>=\<^sup>= (world s) (world (snd (reconcileDelete R s)))"
proof (cases "ContainsFinalizer (rLib R) (Finalizers (Meta (obj s))) ArtifactFinalizer
    \<and> DeletionPolicy (Spec (obj s)) = DeletionPolicyDelete \<and> Key (stat s) \<noteq> [] \<and> \<not> ObserveOnly (obj s)")
  case False
  then show ?thesis by (auto simp: reconcileDelete_def removeFinalizer_def)
next
  case True
  have e: "(effect R (obj s))\<^sup>=\<^sup>= (world s) (world (snd (deleteFromStore R c s)))"
    if c: "clGetClass (rClient R) (world s) (ClassRef (Spec (obj s))) = Inr c" for c
    using DeleteStored [OF assms _ _ c] True
    by (auto simp: deleteFromStore_def Let_def split: sum.split prod.split option.split)
      (metis snd_conv)+
  show ?thesis
    using e True by (auto simp: reconcileDelete_def removeFinalizer_def split: sum.split apierr.split prod.split option.split)
qed

lemma reconcileBody_effect:
  assumes L: "lib_ok (rLib R)"
  shows "((effect R (obj s))\<^sup>=\<^sup>= OO (effect R (obj s))\<^sup>=\<^sup>=) (world s) (world (snd (reconcileBody R s)))"
proof (cases "DeletionTimestamp (Meta (obj s)) = None")
  case False
  then show ?thesis using reconcileDelete_effect [of s R] by (auto simp: reconcileBody_def)
next
  case True
  then show ?thesis using reconcile_effect [OF L, of s] by (auto simp: reconcileBody_def addFinalizer_def)
qed

end
