(* ===== verification/Cluster.thy ===== *)
theory Cluster
  imports Effects
begin

text \<open>
  A concrete cluster on which the model runs: tables of Artifacts, classes and generator runs, and
  the fake store beside them, the setting of the repository's controller tests. The API server
  keeps what it is given, assigns creation times from its clock, refuses a second object of the
  same name, and removes a deleted Artifact once its finalizers are gone. The theorems of the
  development are about every client; the cluster is where their hypotheses are shown to hold and
  where the handlers are evaluated.
\<close>

record cluster =
  artifacts :: "((string \<times> string) \<times> Artifact) list"
  classes :: "(string \<times> ArtifactClass) list"
  runs :: "(GeneratorReference \<times> unstructured) list"
  fstore :: FakeStore
  clock :: gotime

definition find_in :: "('k \<times> 'v) list \<Rightarrow> 'k \<Rightarrow> apierr + 'v" where
  "find_in m k = (case map_of m k of None \<Rightarrow> Inl NotFound | Some v \<Rightarrow> Inr v)"

definition drop_in :: "'k \<Rightarrow> ('k \<times> 'v) list \<Rightarrow> ('k \<times> 'v) list" where
  "drop_in k = filter (\<lambda>kv. fst kv \<noteq> k)"

definition nsName :: "Artifact \<Rightarrow> string \<times> string" where
  "nsName a = (Namespace (Meta a), Name (Meta a))"

definition clusterCreate :: "cluster \<Rightarrow> unstructured \<Rightarrow> (apierr + unstructured) \<times> cluster" where
  "clusterCreate w run =
     (let ref = generatorRefFor refLib run; v = setMeta ''creationTimestamp'' (JInt (clock w)) run
      in case map_of (runs w) ref of
           Some _ \<Rightarrow> (Inl AlreadyExists, w)
         | None \<Rightarrow> (Inr v, w\<lparr>runs := (ref, v) # runs w\<rparr>))"

definition clusterDeleteRun :: "cluster \<Rightarrow> GeneratorReference \<Rightarrow> apierr option \<times> cluster" where
  "clusterDeleteRun w ref =
     (case map_of (runs w) ref of
        None \<Rightarrow> (Some NotFound, w)
      | Some _ \<Rightarrow> (None, w\<lparr>runs := drop_in ref (runs w)\<rparr>))"

definition clusterDeleteArtifact :: "cluster \<Rightarrow> Artifact \<Rightarrow> apierr option \<times> cluster" where
  "clusterDeleteArtifact w a =
     (case map_of (artifacts w) (nsName a) of
        None \<Rightarrow> (Some NotFound, w)
      | Some b \<Rightarrow>
          (None, w\<lparr>artifacts := (nsName a, b\<lparr>Meta := (Meta b)\<lparr>DeletionTimestamp := Some (clock w)\<rparr>\<rparr>)
                     # drop_in (nsName a) (artifacts w)\<rparr>))"

definition clusterPatch ::
  "cluster \<Rightarrow> CondType list \<times> string \<Rightarrow> Artifact \<Rightarrow> Artifact \<Rightarrow> goerr option \<times> cluster" where
  "clusterPatch w opts orig a =
     (let rest = drop_in (nsName a) (artifacts w)
      in (None, w\<lparr>artifacts := (if DeletionTimestamp (Meta a) \<noteq> None \<and> Finalizers (Meta a) = []
                               then rest else (nsName a, a) # rest)\<rparr>))"

definition clusterClient :: "cluster client" where
  "clusterClient = \<lparr>
     clGetArtifact = (\<lambda>w. find_in (artifacts w)),
     clGetClass = (\<lambda>w. find_in (classes w)),
     clGetRun = (\<lambda>w. find_in (runs w)),
     clListByClass = (\<lambda>w c. Inr (map snd (filter (\<lambda>ka. ClassRef (Spec (snd ka)) = c) (artifacts w)))),
     clCreate = clusterCreate, clDeleteRun = clusterDeleteRun,
     clDeleteArtifact = clusterDeleteArtifact, clPatch = clusterPatch,
     clWatch = (\<lambda>w gvk. (None, w)), clFilterOutNotFound = Some\<rparr>"

definition putStore :: "FakeStore \<Rightarrow> cluster \<Rightarrow> cluster" where
  "putStore f w = w\<lparr>fstore := f\<rparr>"

definition clusterDriver :: "cluster StoreDriver" where
  "clusterDriver = fake_driver fstore putStore"

text \<open>
  Status expressions are compiled to the phase they wait for: \<open>succeeded\<close>, \<open>failed\<close> and \<open>running\<close>
  hold when \<open>status.phase\<close> says so.
\<close>

definition phaseCel :: "string cel" where
  "phaseCel = \<lparr>celCompile = Inr,
     celEval = (\<lambda>p ob st. Inr (CelBool (map_of st ''phase'' = Some (JStr p))))\<rparr>"

definition clusterR :: "gotime \<Rightarrow> (cluster, string) Reconciler" where
  "clusterR now = \<lparr>rLib = refLib, rClient = clusterClient,
     rRegistry = fake_Register fstore putStore NewRegistry, rCel = phaseCel,
     rExt = (\<lambda>t i. Inl (Errorf ''unsupported template %q'' [AStr t])), rNow = now, rRand = 1 / 2,
     rOob = (\<lambda>_. 0), rPrintNum = (\<lambda>n. n), rFieldOwner = ''artifact-controller''\<rparr>"

section \<open>A class and an Artifact\<close>

definition demoTemplate :: string where
  "demoTemplate = ''{\"apiVersion\":\"batch/v1\",\"kind\":\"Job\",\"spec\":{\"key\":\"{{ .Key }}\"}}''"

definition demoClass :: ArtifactClass where
  "demoClass = \<lparr>className = ''builds'', classSpec = \<lparr>
     Store = \<lparr>Driver = ''fake'', spKeyTemplate = ''artifacts/{{ .Name }}'', S3 = None, OCI = None, HTTP = None,
              AMI = None, RepoManager = None, Fake = Some ()\<rparr>,
     Generator = Some \<lparr>Template = demoTemplate, SucceededWhen = ''succeeded'', FailedWhen = ''failed'',
                       InProgressWhen = ''running'', gsProgressDeadline = Some (10 * minute)\<rparr>,
     Backoff = Some \<lparr>MaxAttempts = 2, InitialDelay = 30 * second, MaxDelay = 5 * minute\<rparr>,
     Drift = None, VerificationGracePeriod = 0\<rparr>\<rparr>"

definition emptyStatus :: ArtifactStatus where
  "emptyStatus = \<lparr>ObservedGeneration = 0, SpecHash = [], Key = [], Digest = [], State = StateUnset,
     Attempts = 0, FailedAttempts = 0, LastFailureTime = None, LastFailureMessage = None,
     GeneratorRef = None, GeneratorSucceededAt = None, LastVerifiedTime = None, RetryToken = [],
     Conditions = []\<rparr>"

definition demoArtifact :: Artifact where
  "demoArtifact = \<lparr>
     Meta = \<lparr>Name = ''client'', Namespace = ''team'', UID = ''u1'', Generation = 1, CreationTimestamp = 0,
             DeletionTimestamp = None, Finalizers = [ArtifactFinalizer], Annotations = []\<rparr>,
     Spec = \<lparr>ClassRef = ''builds'', Identity = [(''gitRef'', ''v1'')], Params = [], Interval = minute,
             Suspend = False, TTL = None, DeleteAfter = None, DeletionPolicy = DeletionPolicyDelete,
             ManagementPolicy = ManagementPolicyFull\<rparr>,
     Status = emptyStatus\<rparr>"

definition demoCluster :: cluster where
  "demoCluster = \<lparr>artifacts = [((''team'', ''client''), demoArtifact)], classes = [(''builds'', demoClass)],
     runs = [], fstore = fake_New, clock = 0\<rparr>"

definition startAt :: "Artifact \<Rightarrow> cluster \<Rightarrow> (cluster, string) rst" where
  "startAt a w = \<lparr>obj = a, world = w, events = [], evaluator = NewEvaluator, watched = []\<rparr>"

lemma clusterR_lib_ok: "lib_ok (rLib (clusterR now))"
  by (simp add: clusterR_def refLib_ok)

lemma clusterR_lib: "rLib (clusterR now) = refLib"
  by (simp add: clusterR_def)

lemma clusterR_client: "rClient (clusterR now) = clusterClient"
  by (simp add: clusterR_def)

lemma clusterDriver_exclusive: "exclusive_store (Observe clusterDriver) (Delete clusterDriver)"
  unfolding clusterDriver_def by (rule fake_driver_exclusive) (simp add: putStore_def)

lemma clusterR_DriverFor:
  "DriverFor (rRegistry (clusterR now)) w c = Inr d \<Longrightarrow> d = clusterDriver"
  by (auto simp: clusterR_def fake_Register_def DriverFor_def Register_def NewRegistry_def clusterDriver_def
      split: option.splits if_splits)

text \<open>API calls leave the store alone.\<close>

lemma clusterClient_store:
  "fstore (snd (clCreate clusterClient w r)) = fstore w"
  "fstore (snd (clDeleteRun clusterClient w ref)) = fstore w"
  "fstore (snd (clDeleteArtifact clusterClient w a)) = fstore w"
  "fstore (snd (clWatch clusterClient w g)) = fstore w"
  by (simp_all add: clusterClient_def clusterCreate_def clusterDeleteRun_def clusterDeleteArtifact_def
      Let_def split: option.split)

end
