(* ===== verification/StatusInv.thy ===== *)
theory StatusInv
  imports Safety
begin

text \<open>
  Invariants of the status that every handler keeps: the conventions of kstatus (Reconciling and
  Stalled are never both present, and a Ready object shows neither), Ready together with its
  bookkeeping, and a success time only beside its run. \<open>sok\<close> is their conjunction, on the state a
  handler works on; each statement and then each handler has a lemma that keeps it.
\<close>

text \<open>Reconciling and Stalled exclude each other.\<close>

definition excl :: "('w, 'p) rst \<Rightarrow> bool" where
  "excl s \<longleftrightarrow> cond_of (Conditions (stat s)) ReconcilingCondition = None
      \<or> cond_of (Conditions (stat s)) StalledCondition = None"

text \<open>Ready is reported with everything that goes with it.\<close>

definition readyTrue :: "ArtifactStatus \<Rightarrow> bool" where
  "readyTrue st \<longleftrightarrow> (case cond_of (Conditions st) ReadyCondition of Some (CondTrue, _) \<Rightarrow> True | _ \<Rightarrow> False)"

definition rdy :: "('w, 'p) rst \<Rightarrow> bool" where
  "rdy s \<longleftrightarrow> (readyTrue (stat s) \<longrightarrow>
     State (stat s) = StateReady \<and> LastVerifiedTime (stat s) \<noteq> None \<and> Key (stat s) \<noteq> [] \<and> SpecHash (stat s) \<noteq> []
   \<and> cond_of (Conditions (stat s)) ReconcilingCondition = None
   \<and> cond_of (Conditions (stat s)) StalledCondition = None)"

text \<open>A success time is kept only beside the run that succeeded.\<close>

definition gen :: "('w, 'p) rst \<Rightarrow> bool" where
  "gen s \<longleftrightarrow> (GeneratorSucceededAt (stat s) \<noteq> None \<longrightarrow> GeneratorRef (stat s) \<noteq> None)"

lemma excl_simps [simp]:
  "excl (emit b ev m s) = excl s" "excl (setState x s) = excl s" "excl (s\<lparr>world := w\<rparr>) = excl s"
  "Conditions (f (stat s)) = Conditions (stat s) \<Longrightarrow> excl (setStatus f s) = excl s"
  "excl (snd (matched R e run s)) = excl s"
  by (simp_all add: excl_def)

lemma excl_cond [simp]:
  assumes "conditions_ok (rLib R)"
  shows "t \<noteq> ReconcilingCondition \<Longrightarrow> t \<noteq> StalledCondition \<Longrightarrow> excl (markTrue R t r m s) = excl s"
    "t \<noteq> ReconcilingCondition \<Longrightarrow> t \<noteq> StalledCondition \<Longrightarrow> excl (markFalse R t r m s) = excl s"
    "t \<noteq> ReconcilingCondition \<Longrightarrow> t \<noteq> StalledCondition \<Longrightarrow> excl (markUnknown R t r m s) = excl s"
    "excl (markStalled R r m s)" "excl (markReconciling R r m s)"
    "excl s \<Longrightarrow> excl (condDelete R t s)"
  by (auto simp: excl_def conditions_ok_simps [OF assms])

lemma rdy_simps [simp]:
  "rdy (emit b ev m s) = rdy s" "rdy (s\<lparr>world := w\<rparr>) = rdy s" "rdy (snd (matched R e run s)) = rdy s"
  "Conditions (f (stat s)) = Conditions (stat s) \<Longrightarrow> State (f (stat s)) = State (stat s) \<Longrightarrow>
   LastVerifiedTime (f (stat s)) = LastVerifiedTime (stat s) \<Longrightarrow> Key (f (stat s)) = Key (stat s) \<Longrightarrow>
   SpecHash (f (stat s)) = SpecHash (stat s) \<Longrightarrow> rdy (setStatus f s) = rdy s"
  by (simp_all add: rdy_def readyTrue_def)

lemma rdy_cond [simp]:
  assumes "conditions_ok (rLib R)"
  shows "rdy (markFalse R ReadyCondition r m s)"
    "t \<in> {ArtifactInStoreCondition, ArtifactDriftedCondition, GeneratorSucceededCondition, DeletingCondition} \<Longrightarrow>
       rdy (markTrue R t r m s) = rdy s"
    "t \<in> {ArtifactInStoreCondition, ArtifactDriftedCondition, GeneratorSucceededCondition, DeletingCondition} \<Longrightarrow>
       rdy (markFalse R t r m s) = rdy s"
    "rdy s \<Longrightarrow> rdy (condDelete R t s)"
  by (auto simp: rdy_def readyTrue_def conditions_ok_simps [OF assms])

lemma gen_simps [simp]:
  "gen (emit b ev m s) = gen s" "gen (s\<lparr>world := w\<rparr>) = gen s" "gen (setState x s) = gen s"
  "gen (markTrue R t r m s) = gen s" "gen (markFalse R t r m s) = gen s" "gen (markUnknown R t r m s) = gen s"
  "gen (condDelete R t s) = gen s" "gen (markStalled R r m s) = gen s" "gen (markReconciling R r m s) = gen s"
  "gen (snd (matched R e run s)) = gen s"
  "gen (setStatus f s) \<longleftrightarrow> (GeneratorSucceededAt (f (stat s)) \<noteq> None \<longrightarrow> GeneratorRef (f (stat s)) \<noteq> None)"
  by (simp_all add: gen_def)

definition sok :: "('w, 'p) rst \<Rightarrow> bool" where
  "sok s \<longleftrightarrow> excl s \<and> rdy s \<and> gen s"

lemma sokD: "sok s \<Longrightarrow> excl s \<and> rdy s \<and> gen s"
  by (simp add: sok_def)

lemma sok_simps [simp]:
  "sok (emit b ev m s) = sok s" "sok (s\<lparr>world := w\<rparr>) = sok s" "sok (snd (matched R e run s)) = sok s"
  by (simp_all add: sok_def)

text \<open>Reporting not Ready is always consistent.\<close>

lemma sok_notReady [simp]:
  "conditions_ok (rLib R) \<Longrightarrow> sok (markFalse R ReadyCondition r m s) \<longleftrightarrow> excl s \<and> gen s"
  by (simp add: sok_def)

lemma recordAttemptFailure_ok:
  assumes "conditions_ok (rLib R)" "sok s"
  shows "sok (snd (recordAttemptFailure R r m b s))"
  using assms sokD [OF assms(2)] by (simp add: recordAttemptFailure_def Let_def case_prod_beta)

lemma awaitArtifact_ok:
  assumes "conditions_ok (rLib R)" "sok s" "GeneratorRef (stat s) \<noteq> None"
  shows "sok (snd (awaitArtifact R c run b s))"
  using assms sokD [OF assms(2)]
  by (auto simp: awaitArtifact_def markSucceeded_def Let_def intro!: recordAttemptFailure_ok) (simp add: sok_def)

lemma evaluateRun_ok:
  assumes "conditions_ok (rLib R)" "sok s" "GeneratorRef (stat s) \<noteq> None"
  shows "sok (snd (evaluateRun R c g run b s))"
  using assms sokD [OF assms(2)]
  by (simp add: evaluateRun_def Let_def case_prod_beta recordAttemptFailure_ok awaitArtifact_ok)

lemma deleteAbandonedRun_ok [simp]: "sok (snd (deleteAbandonedRun R ref why s)) = sok s"
  by (simp add: deleteAbandonedRun_def split: prod.split option.split apierr.split)

lemma forgetRun_ok: "conditions_ok (rLib R) \<Longrightarrow> sok s \<Longrightarrow> sok (forgetRun R s)"
  by (simp add: forgetRun_def Let_def sok_def)

lemma createRun_ok:
  assumes "conditions_ok (rLib R)" "sok s" "GeneratorRef (stat s) = None"
  shows "sok (snd (createRun R g i s))"
proof -
  have o: "sok (snd (ensureGeneratorWatch R gvk s))" for gvk
    using assms(2) by (auto simp: ensureGeneratorWatch_def sok_def excl_def rdy_def gen_def readyTrue_def Let_def
       split: prod.split option.split)
  have w: "excl (snd (ensureGeneratorWatch R gvk s))" "rdy (snd (ensureGeneratorWatch R gvk s))"
     "gen (snd (ensureGeneratorWatch R gvk s))" for gvk
    using sokD [OF o] by simp_all
  show ?thesis using assms w sokD [OF assms(2)]
    by (simp add: createRun_def Let_def split: sum.split prod.split apierr.split)
      (simp add: sok_def)
qed

lemma markMissing_ok: "conditions_ok (rLib R) \<Longrightarrow> sok s \<Longrightarrow> sok (markMissing R i s)"
  by (auto simp: markMissing_def Let_def sok_def gen_def)

lemma noGenerator_ok:
  assumes "conditions_ok (rLib R)" "sok s"
  shows "sok (snd (noGenerator R c i s))"
proof (cases "GeneratorRef (stat s)")
  case None
  then show ?thesis using assms sokD [OF assms(2)] by (simp add: noGenerator_def Let_def)
next
  case (Some ref)
  let ?d = "deleteAbandonedRun R ref (AMsg ''class %q no longer defines a generator'' [AStr (className c)]) s"
  obtain e s' where d: "?d = (e, s')" by (cases ?d)
  have "sok s'" using assms(2) deleteAbandonedRun_ok [of R ref _ s] d by (metis snd_conv)
  then show ?thesis using Some d assms(1) sokD [OF forgetRun_ok [OF assms(1), of s']]
    by (cases e) (simp_all add: noGenerator_def Let_def)
qed

lemma inFlight_ok:
  assumes "conditions_ok (rLib R)" "sok s" "GeneratorRef (stat s) \<noteq> None"
  shows "sok (snd (inFlight R c g ref b s))"
  using assms sokD [OF assms(2)] evaluateRun_ok [OF assms]
  by (auto simp: inFlight_def split: sum.split apierr.split) (simp add: sok_def)

lemma reconcileMissing_ok:
  assumes "conditions_ok (rLib R)" "sok s"
  shows "sok (snd (reconcileMissing R c i s))"
proof -
  have m: "sok (markMissing R i s)" using assms by (rule markMissing_ok)
  have "sok (snd (budgetExhausted R n (markMissing R i s)))" "sok (snd (backoffPending R t (markMissing R i s)))" for n t
    using assms(1) sokD [OF m] by (simp_all add: budgetExhausted_def backoffPending_def Let_def)
  then show ?thesis
    using noGenerator_ok [OF assms(1) m] inFlight_ok [OF assms(1) m] createRun_ok [OF assms(1) m]
    by (simp add: reconcileMissing_def Let_def split: option.split prod.split)
qed

lemma reconcileMissingObserved_ok:
  "conditions_ok (rLib R) \<Longrightarrow> sok s \<Longrightarrow> sok (snd (reconcileMissingObserved R i s))"
  using sokD [of s] by (simp add: reconcileMissingObserved_def Let_def) (simp add: gen_def)

lemma markAvailable_ok:
  assumes "conditions_ok (rLib R)" "Key (stat s) \<noteq> []" "SpecHash (stat s) \<noteq> []"
  shows "sok (snd (markAvailable R key d b s))"
  using assms(2,3) by (simp add: markAvailable_def Let_def sok_def excl_def rdy_def gen_def conditions_ok_simps [OF assms(1)])

lemma keyConflict_ok: "conditions_ok (rLib R) \<Longrightarrow> sok s \<Longrightarrow> sok (snd (keyConflict R key h st s))"
  using sokD [of s] by (simp add: keyConflict_def Let_def)

lemma recordDrift_ok: "conditions_ok (rLib R) \<Longrightarrow> sok s \<Longrightarrow> sok (recordDrift R c k was new s)"
  using sokD [of s] by (simp add: recordDrift_def Let_def) (simp add: sok_def)

lemma recordDrift_key:
  "Key (stat (recordDrift R c k was new s)) = Key (stat s)"
  "SpecHash (stat (recordDrift R c k was new s)) = SpecHash (stat s)"
  using recordDrift_status [of R c k was new s] by auto

lemma reconcileExisting_ok:
  assumes "conditions_ok (rLib R)" "sok s" "Key (stat s) \<noteq> []" "SpecHash (stat s) \<noteq> []"
  shows "sok (snd (reconcileExisting R c obs i s))"
proof -
  have d: "sok (setStatus (\<lambda>st. st\<lparr>Digest := []\<rparr>) (recordDrift R c k was new s))" for k was new
    using sokD [OF recordDrift_ok [OF assms(1,2), of c k was new]] by (simp add: sok_def) (simp add: gen_def)
  show ?thesis
    using keyConflict_ok [OF assms(1,2)] reconcileMissing_ok [OF assms(1) d] assms
    by (simp add: reconcileExisting_def Let_def markAvailable_ok recordDrift_key)
qed

lemma parkExpired_ok: "conditions_ok (rLib R) \<Longrightarrow> sok s \<Longrightarrow> sok (snd (parkExpired R s))"
  using sokD [of s] by (simp add: parkExpired_def Let_def split: option.split)

lemma reconcileExpired_ok:
  assumes "conditions_ok (rLib R)" "sok s"
  shows "sok (snd (reconcileExpired R c d key h s))"
  using assms sokD [OF assms(2)] parkExpired_ok [OF assms(1)]
  by (simp add: reconcileExpired_def split: sum.split prod.split option.split)

lemma reconcileKeyed_ok:
  assumes "conditions_ok (rLib R)" "sok s" "inKey i \<noteq> []" "inSpecHash i \<noteq> []"
  shows "sok (snd (reconcileKeyed R c i s))"
proof -
  let ?s = "setStatus (\<lambda>st. st\<lparr>SpecHash := inSpecHash i, Key := inKey i\<rparr>) s"
  have s: "sok ?s" "Key (stat ?s) \<noteq> []" "SpecHash (stat ?s) \<noteq> []"
    using assms(2-) by (simp_all add: sok_def) (simp add: rdy_def readyTrue_def gen_def)
  have "sok (setStatus (\<lambda>st. st\<lparr>SpecHash := inSpecHash i, Key := inKey i\<rparr>) s)"
    by (rule s)
  then show ?thesis
    using reconcileExisting_ok [OF assms(1) s] reconcileExpired_ok [OF assms(1) s(1)]
      reconcileMissing_ok [OF assms(1) s(1)] reconcileMissingObserved_ok [OF assms(1) s(1)]
      assms(1) sokD [OF s(1)]
    by (simp add: reconcileKeyed_def Let_def del: gen_simps(11) split: sum.split prod.split option.split apierr.split)
qed

lemma reconcileClass_ok:
  assumes "conditions_ok (rLib R)" "sok s"
  shows "sok (snd (reconcileClass R s))"
proof -
  have "sok (snd (reconcileKeyed R c ((inputFor (obj s) c)\<lparr>inKey := key\<rparr>) s))"
    if "RenderKey (rExt R) (KeyTemplate c) (inputFor (obj s) c) = Inr key" for c key
    using RenderKey_not_Nil [OF that] by (intro reconcileKeyed_ok assms) (simp_all add: inputFor_def Let_def)
  then show ?thesis
    using assms sokD [OF assms(2)] by (auto simp: reconcileClass_def Let_def split: sum.split apierr.split)
qed

lemma startPass_ok: "sok s \<Longrightarrow> sok (startPass s)"
  by (auto simp: startPass_def Let_def sok_def excl_def rdy_def gen_def readyTrue_def)

lemma honorRetry_ok: "conditions_ok (rLib R) \<Longrightarrow> sok s \<Longrightarrow> sok (honorRetry R s)"
  by (auto simp: honorRetry_def Let_def sok_def gen_def)

lemma reconcile_ok:
  assumes "conditions_ok (rLib R)" "sok s"
  shows "sok (snd (reconcile R s))"
proof -
  let ?s = "honorRetry R (startPass s)"
  have s: "sok (startPass s)" "sok ?s" using assms startPass_ok honorRetry_ok by blast+
  have "sok (snd (case deleteAbandonedRun R ref why ?s of
      (Some e, s) \<Rightarrow> (fail e, s) | (None, s) \<Rightarrow> reconcileClass R (forgetRun R s)))" for ref why
  proof -
    obtain e s' where d: "deleteAbandonedRun R ref why ?s = (e, s')" by fastforce
    then have "sok s'" using deleteAbandonedRun_ok [of R ref why ?s] s(2) by simp
    then show ?thesis using d reconcileClass_ok [OF assms(1)] forgetRun_ok [OF assms(1)] by (cases e) simp_all
  qed
  then show ?thesis
    using reconcileClass_ok [OF assms(1) s(2)] assms(1) sokD [OF s(1)]
    by (simp add: reconcile_def suspendPass_def Let_def split: option.split)
qed

lemma deleteFromStore_ok:
  assumes "conditions_ok (rLib R)" "sok s"
  shows "sok (snd (deleteFromStore R c s))"
  using assms sokD [OF assms(2)]
  by (simp add: deleteFromStore_def Let_def split: sum.split prod.split option.split)

lemma finalizer_ok [simp]: "sok (removeFinalizer R s) = sok s" "sok (addFinalizer R s) = sok s"
  by (simp_all add: removeFinalizer_def addFinalizer_def sok_def excl_def rdy_def gen_def)

lemma reconcileDelete_ok:
  assumes "conditions_ok (rLib R)" "sok s"
  shows "sok (snd (reconcileDelete R s))"
proof -
  have "sok (snd (case deleteFromStore R c s of (Some e, s) \<Rightarrow> (fail e, s)
     | (None, s) \<Rightarrow> (after 0, removeFinalizer R s)))" for c
    using deleteFromStore_ok [OF assms, of c] by (auto split: prod.split option.split)
  then show ?thesis using assms by (simp add: reconcileDelete_def split: sum.split apierr.split)
qed

lemma reconcileBody_ok:
  assumes "conditions_ok (rLib R)" "sok s"
  shows "sok (snd (reconcileBody R s))"
  using reconcile_ok [OF assms] reconcileDelete_ok [OF assms] assms(2) by (simp add: reconcileBody_def)

end
