(* ===== verification/Counters.thy ===== *)
theory Counters
  imports StatusInv
begin

text \<open>
  The attempt counters through a pass. Below the largest \<open>int32\<close>, no handler lets a failure or a
  run in flight go uncounted, the lifetime counter never falls, and a pass raises it at most once.
\<close>

text \<open>
  The attempt counters: consecutive failures and the run in flight are among the attempts made,
  and the attempts lie between \<open>k\<close> and \<open>n\<close>.
\<close>

definition counts :: "int \<Rightarrow> int \<Rightarrow> ArtifactStatus \<Rightarrow> bool" where
  "counts k n st \<longleftrightarrow>
     0 \<le> FailedAttempts st
   \<and> FailedAttempts st + (if GeneratorRef st = None then 0 else 1) \<le> Attempts st
   \<and> k \<le> Attempts st \<and> Attempts st \<le> n"

definition cnt :: "int \<Rightarrow> int \<Rightarrow> ('w, 'p) rst \<Rightarrow> bool" where
  "cnt k n s \<longleftrightarrow> counts k n (stat s)"

lemma cnt_simps [simp]:
  "cnt k n (emit b ev m s) = cnt k n s" "cnt k n (s\<lparr>world := w\<rparr>) = cnt k n s" "cnt k n (setState x s) = cnt k n s"
  "cnt k n (markTrue R t r m s) = cnt k n s" "cnt k n (markFalse R t r m s) = cnt k n s"
  "cnt k n (markUnknown R t r m s) = cnt k n s" "cnt k n (condDelete R t s) = cnt k n s"
  "cnt k n (markStalled R r m s) = cnt k n s" "cnt k n (markReconciling R r m s) = cnt k n s"
  "cnt k n (snd (matched R e run s)) = cnt k n s"
  "cnt k n (setStatus f s) = counts k n (f (stat s))"
  "cnt k n (snd (deleteAbandonedRun R ref why s)) = cnt k n s"
  "cnt k n (removeFinalizer R s) = cnt k n s" "cnt k n (addFinalizer R s) = cnt k n s"
  by (simp_all add: cnt_def counts_def removeFinalizer_def addFinalizer_def)

lemma cnt_mono: "cnt k n s \<Longrightarrow> n \<le> n' \<Longrightarrow> cnt k n' s"
  by (simp add: cnt_def counts_def)

lemma cnt_Suc: "cnt k n s \<Longrightarrow> cnt k (n + 1) s"
  by (simp add: cnt_def counts_def)

lemma recordAttemptFailure_cnt:
  assumes "cnt k n s" "GeneratorRef (stat s) \<noteq> None" "n < maxInt32"
  shows "cnt k n (snd (recordAttemptFailure R r m b s))"
proof -
  have "wrap32 (FailedAttempts (stat s) + 1) = FailedAttempts (stat s) + 1"
    using assms by (intro wrap32_id) (auto simp: cnt_def counts_def)
  then show ?thesis using assms by (auto simp: recordAttemptFailure_def Let_def case_prod_beta cnt_def counts_def)
qed

lemma awaitArtifact_cnt:
  assumes "cnt k n s" "GeneratorRef (stat s) \<noteq> None" "n < maxInt32"
  shows "cnt k n (snd (awaitArtifact R c run b s))"
  using assms by (auto simp: awaitArtifact_def markSucceeded_def Let_def intro!: recordAttemptFailure_cnt)
    (auto simp: cnt_def counts_def)

lemma evaluateRun_cnt:
  assumes "cnt k n s" "GeneratorRef (stat s) \<noteq> None" "n < maxInt32"
  shows "cnt k n (snd (evaluateRun R c g run b s))"
  using assms by (simp add: evaluateRun_def Let_def case_prod_beta recordAttemptFailure_cnt awaitArtifact_cnt)

lemma forgetRun_cnt: "cnt k n s \<Longrightarrow> cnt k n (forgetRun R s)"
  by (auto simp: forgetRun_def Let_def cnt_def counts_def split: if_splits)

lemma createRun_cnt:
  assumes "cnt k n s" "GeneratorRef (stat s) = None" "n < maxInt32"
  shows "cnt k (n + 1) (snd (createRun R g i s))"
proof -
  have w: "wrap32 (Attempts (stat s) + 1) = Attempts (stat s) + 1"
    using assms by (intro wrap32_id) (auto simp: cnt_def counts_def)
  have "cnt k n (snd (ensureGeneratorWatch R gvk s))" for gvk
    using assms(1) by (simp add: cnt_def ensureGeneratorWatch_frame)
  then show ?thesis using assms w
    by (simp add: createRun_def Let_def cnt_Suc split: sum.split prod.split apierr.split)
      (auto simp: cnt_def counts_def ensureGeneratorWatch_frame)
qed

lemma noGenerator_cnt: "cnt k n s \<Longrightarrow> cnt k n (snd (noGenerator R c i s))"
proof (cases "GeneratorRef (stat s)")
  case (Some ref)
  assume "cnt k n s"
  let ?d = "deleteAbandonedRun R ref (AMsg ''class %q no longer defines a generator'' [AStr (className c)]) s"
  obtain e s' where d: "?d = (e, s')" by (cases ?d)
  have "cnt k n s'" using \<open>cnt k n s\<close> cnt_simps(12) [of k n R ref _ s] d by (metis snd_conv)
  then show ?thesis using Some d by (cases e) (simp_all add: noGenerator_def Let_def forgetRun_cnt)
qed (simp add: noGenerator_def Let_def)

lemma inFlight_cnt:
  assumes "cnt k n s" "GeneratorRef (stat s) \<noteq> None" "n < maxInt32"
  shows "cnt k n (snd (inFlight R c g ref b s))"
proof -
  have "counts k n ((stat s)\<lparr>GeneratorRef := None, GeneratorSucceededAt := None\<rparr>)"
    using assms(1) by (auto simp: cnt_def counts_def split: if_splits)
  then show ?thesis
    using assms by (simp add: inFlight_def evaluateRun_cnt split: sum.split apierr.split)
qed

lemma reconcileMissing_cnt:
  assumes "cnt k n s" "n < maxInt32"
  shows "cnt k (n + 1) (snd (reconcileMissing R c i s))"
proof -
  let ?s = "markMissing R i s"
  have m: "cnt k n ?s" using assms by (simp add: cnt_def counts_def)
  have "cnt k n (snd (budgetExhausted R x ?s))" "cnt k n (snd (backoffPending R t ?s))" for x t
    using m by (simp_all add: budgetExhausted_def backoffPending_def Let_def)
  moreover have "cnt k n (snd (inFlight R c g ref b ?s))" if "GeneratorRef (stat ?s) \<noteq> None" for g ref b
    using inFlight_cnt [OF m that assms(2)] .
  ultimately show ?thesis
    using noGenerator_cnt [OF m] createRun_cnt [OF m _ assms(2)]
    by (simp add: reconcileMissing_def Let_def cnt_Suc split: option.split prod.split)
qed

lemma recordDrift_counts: "counts k n (stat (recordDrift R c key was new s)) = counts k n (stat s)"
  using recordDrift_status [of R c key was new s] by (auto simp: counts_def)

lemma counts_frame: "counts k n (st\<lparr>Conditions := cs\<rparr>) = counts k n st"
  by (simp add: counts_def)

lemma markAvailable_cnt: "counts k n (stat s) \<Longrightarrow> cnt k n (snd (markAvailable R key d b s))"
  by (auto simp: markAvailable_def Let_def counts_def split: if_splits)

lemma reconcileExisting_cnt:
  assumes "cnt k n s" "n < maxInt32"
  shows "cnt k (n + 1) (snd (reconcileExisting R c obs i s))"
proof -
  have "cnt k n (setStatus (\<lambda>st. st\<lparr>Digest := []\<rparr>) (recordDrift R c key was new s))" for key was new
    using assms(1) recordDrift_counts [of k n R c key was new s] by (simp add: cnt_def) (simp add: counts_def)
  note m = reconcileMissing_cnt [OF this assms(2)]
  have "cnt k n (snd (keyConflict R key h st s))" for key h st
    using assms(1) by (simp add: keyConflict_def Let_def)
  moreover have "counts k (n + 1) (stat s)" using assms(1) by (simp add: cnt_def counts_def)
  ultimately show ?thesis
    using m
    by (simp add: reconcileExisting_def Let_def cnt_Suc markAvailable_cnt recordDrift_counts counts_frame)
qed

lemma parkExpired_cnt: "cnt k n s \<Longrightarrow> cnt k n (snd (parkExpired R s))"
  by (auto simp: parkExpired_def Let_def cnt_def counts_def split: option.split if_splits)

lemma reconcileExpired_cnt: "cnt k n s \<Longrightarrow> cnt k n (snd (reconcileExpired R c d key h s))"
  by (simp add: reconcileExpired_def parkExpired_cnt split: sum.split prod.split option.split)

lemma reconcileMissingObserved_cnt: "cnt k n s \<Longrightarrow> cnt k n (snd (reconcileMissingObserved R i s))"
  by (auto simp: reconcileMissingObserved_def Let_def cnt_def counts_def split: if_splits)

lemma reconcileKeyed_cnt:
  assumes "cnt k n s" "n < maxInt32"
  shows "cnt k (n + 1) (snd (reconcileKeyed R c i s))"
proof -
  let ?s = "setStatus (\<lambda>st. st\<lparr>SpecHash := inSpecHash i, Key := inKey i\<rparr>) s"
  have s: "cnt k n ?s" using assms(1) by (simp add: cnt_def counts_def)
  have "cnt k (n + 1) ?s" "cnt k (n + 1) (snd (reconcileExpired R c d key h ?s))"
    "cnt k (n + 1) (snd (reconcileMissingObserved R i ?s))" for d key h
    by (rule cnt_mono, rule s reconcileExpired_cnt [OF s] reconcileMissingObserved_cnt [OF s], simp)+
  then show ?thesis
    using reconcileMissing_cnt [OF s assms(2)] reconcileExisting_cnt [OF s assms(2)]
    by (simp add: reconcileKeyed_def Let_def del: cnt_simps(11) split: sum.split prod.split option.split apierr.split)
qed

lemma reconcileClass_cnt:
  assumes "cnt k n s" "n < maxInt32"
  shows "cnt k (n + 1) (snd (reconcileClass R s))"
  using reconcileKeyed_cnt [OF assms] cnt_mono [OF assms(1), of "n + 1"]
  by (simp add: reconcileClass_def Let_def split: sum.split apierr.split)

lemma startPass_cnt: "cnt k n s \<Longrightarrow> cnt k n (honorRetry R (startPass s))"
  by (auto simp: honorRetry_def startPass_def Let_def cnt_def counts_def split: if_splits)

lemma reconcile_cnt:
  assumes "cnt k n s" "n < maxInt32"
  shows "cnt k (n + 1) (snd (reconcile R s))"
proof -
  let ?s = "honorRetry R (startPass s)"
  have s: "cnt k n ?s" using assms(1) by (rule startPass_cnt)
  have "cnt k (n + 1) (snd (case deleteAbandonedRun R ref why ?s of
      (Some e, s) \<Rightarrow> (fail e, s) | (None, s) \<Rightarrow> reconcileClass R (forgetRun R s)))" for ref why
  proof -
    obtain e s' where d: "deleteAbandonedRun R ref why ?s = (e, s')" by fastforce
    then have "cnt k n s'" using cnt_simps(12) [of k n R ref why ?s] s by simp
    then show ?thesis using d reconcileClass_cnt [OF forgetRun_cnt assms(2)] cnt_mono [of k n s' "n + 1"]
      by (cases e) simp_all
  qed
  moreover have "cnt k (n + 1) (startPass s)" using assms(1) by (simp add: startPass_def Let_def cnt_def counts_def)
  ultimately show ?thesis
    using reconcileClass_cnt [OF s assms(2)] by (simp add: reconcile_def suspendPass_def Let_def split: option.split)
qed

lemma reconcileDelete_cnt:
  assumes "cnt k n s"
  shows "cnt k n (snd (reconcileDelete R s))"
proof -
  have d: "cnt k n (snd (deleteFromStore R c s))" for c
    using assms by (simp add: deleteFromStore_def Let_def split: sum.split prod.split option.split)
  have "cnt k n (snd (case deleteFromStore R c s of (Some e, s) \<Rightarrow> (fail e, s)
     | (None, s) \<Rightarrow> (after 0, removeFinalizer R s)))" for c
    using d [of c] by (auto split: prod.split option.split)
  then show ?thesis using assms by (simp add: reconcileDelete_def split: sum.split apierr.split)
qed

lemma reconcileBody_cnt:
  assumes "cnt k n s" "n < maxInt32"
  shows "cnt k (n + 1) (snd (reconcileBody R s))"
  using reconcile_cnt [OF assms] reconcileDelete_cnt [OF assms(1)] assms(1)
  by (simp add: reconcileBody_def cnt_Suc)

end
