(* ===== verification/History.thy ===== *)
theory History
  imports Counters
begin

text \<open>
  Properties of the life of an Artifact over many passes, by rule induction over \<open>life\<close>: the status
  conventions, the accounting of attempts, and the names of generator runs.
\<close>

section \<open>Run names\<close>

lemma itoa_no_r: "CHR ''r'' \<notin> set (itoa i)"
proof
  assume "CHR ''r'' \<in> set (itoa i)"
  then obtain n where "CHR ''r'' \<in> set (utoa n)" by (auto simp: itoa_def split: if_splits)
  then obtain d where "d < 10" "digit d = CHR ''r''" using utoa_digits by metis
  then show False using of_char_digit [of d] by simp
qed

text \<open>What follows the last \<open>r\<close> of a name is the attempt.\<close>

lemma takeWhile_rev_r: "CHR ''r'' \<notin> set p \<Longrightarrow> takeWhile (\<lambda>c. c \<noteq> CHR ''r'') (rev (x @ CHR ''r'' # p)) = rev p"
  using takeWhile_append2 [of "rev p" "\<lambda>c. c \<noteq> CHR ''r''" "CHR ''r'' # rev x"] by auto

lemma runName_inj: "runName a h n = runName b k m \<Longrightarrow> n = m"
proof -
  assume eq: "runName a h n = runName b k m"
  have "takeWhile (\<lambda>c. c \<noteq> CHR ''r'') (rev (runName c l i)) = rev (itoa i)" for c l i
    using takeWhile_rev_r [OF itoa_no_r, of "(if 40 < length (Name (Meta c))
      then take 40 (Name (Meta c)) else Name (Meta c)) @ ''-'' @ Short l 8 @ ''-''" i]
    by (simp add: runName_def Let_def)
  then have "rev (itoa n) = rev (itoa m)" using eq by metis
  then show ?thesis using itoa_inj by simp
qed

lemma length_runName:
  assumes "0 \<le> n" "n \<le> maxInt32"
  shows "length (runName a (Canonical m) n) \<le> 61"
  using assms length_itoa32_nonneg [of n] by (simp add: runName_def Let_def length_Short)

text \<open>
  A run's name is a DNS label: whatever the Artifact is called, it has at most 63 characters,
  with the first 40 of the Artifact's name, eight digits of the address and the attempt.
\<close>

theorem runName_label:
  assumes "0 \<le> n" "n \<le> maxInt32"
  shows "length (runName a (Canonical m) n) \<le> 63"
  using length_runName [OF assms, of a m] by simp

theorem runName_label_witness: "length (runName demoArtifact (Canonical []) maxInt32) \<le> 63"
  by (rule runName_label) simp_all

text \<open>
  Names of different attempts differ, whatever the Artifacts and hashes: the lifetime counter
  alone keeps a run from taking the name of an earlier one.
\<close>

theorem runName_attempt:
  assumes "n \<noteq> m"
  shows "runName a h n \<noteq> runName b k m"
  using assms runName_inj by blast

theorem runName_attempt_witness: "runName demoArtifact (Canonical []) 11 \<noteq> runName demoArtifact (Canonical []) 1"
  by (rule runName_attempt) simp

section \<open>Histories\<close>

text \<open>
  The life of an Artifact's status as the API server keeps it: passes of the reconciler, under any
  clock, any state of the world, the store and the caches, whose result is written back, and edits
  by anybody else, who can change everything but the status. A pass whose patch is lost leaves no
  step. \<open>life RS a n b\<close>: \<open>b\<close> is reached from \<open>a\<close> with \<open>n\<close> passes of reconcilers of \<open>RS\<close>.
\<close>

inductive life :: "('w, 'p) Reconciler set \<Rightarrow> Artifact \<Rightarrow> nat \<Rightarrow> Artifact \<Rightarrow> bool" for RS a where
  Start: "life RS a 0 a"
| Pass: "life RS a n (obj s) \<Longrightarrow> R \<in> RS \<Longrightarrow> life RS a (Suc n) (obj (snd (reconcileBody R s)))"
| Edit: "life RS a n b \<Longrightarrow> Status c = Status b \<Longrightarrow> life RS a n c"

definition libs_ok :: "('w, 'p) Reconciler set \<Rightarrow> bool" where
  "libs_ok RS \<longleftrightarrow> (\<forall>R \<in> RS. lib_ok (rLib R))"

text \<open>The invariant of \<open>StatusInv\<close> on the status alone.\<close>

definition status_ok :: "ArtifactStatus \<Rightarrow> bool" where
  "status_ok st \<longleftrightarrow>
     (cond_of (Conditions st) ReconcilingCondition = None \<or> cond_of (Conditions st) StalledCondition = None)
   \<and> (readyTrue st \<longrightarrow>
        State st = StateReady \<and> LastVerifiedTime st \<noteq> None \<and> Key st \<noteq> [] \<and> SpecHash st \<noteq> []
      \<and> cond_of (Conditions st) ReconcilingCondition = None \<and> cond_of (Conditions st) StalledCondition = None)
   \<and> (GeneratorSucceededAt st \<noteq> None \<longrightarrow> GeneratorRef st \<noteq> None)"

lemma sok_status: "sok s \<longleftrightarrow> status_ok (stat s)"
  by (simp add: sok_def excl_def rdy_def gen_def status_ok_def)

lemma life_status_ok:
  assumes "life RS a n b" "libs_ok RS" "status_ok (Status a)"
  shows "status_ok (Status b)"
  using assms(1)
proof induction
  case (Pass n s R)
  then have "conditions_ok (rLib R)" using assms(2) by (simp add: libs_ok_def lib_ok_def)
  then show ?case using Pass.IH reconcileBody_ok [of R s] by (simp add: sok_status)
qed (use assms(3) in auto)

lemma life_counts:
  assumes "life RS a n b" "counts 0 m (Status a)" "m + int n \<le> maxInt32"
  shows "counts (Attempts (Status a)) (Attempts (Status a) + int n) (Status b)"
  using assms(1,3)
proof induction
  case Start
  then show ?case using assms(2) by (simp add: counts_def)
next
  case (Pass n s R)
  let ?k = "Attempts (Status a)"
  have "?k \<le> m" using assms(2) by (simp add: counts_def)
  then have "cnt ?k (?k + int n) s" "?k + int n < maxInt32" using Pass by (simp_all add: cnt_def)
  then show ?case using reconcileBody_cnt [of ?k "?k + int n" s R] by (simp add: cnt_def add_ac)
next
  case (Edit n b c)
  then show ?case by simp
qed


text \<open>
  C10: Over any life with fewer than \<open>2\<^sup>3\<^sup>1\<close> passes, the consecutive failures and the run in flight
  are covered by the attempts made, the attempts by the passes, and the counters never overflow.
\<close>

theorem attempts_account:
  assumes "life RS a n b" "Status a = emptyStatus" "int n \<le> maxInt32"
  shows "0 \<le> FailedAttempts (Status b)
   \<and> FailedAttempts (Status b) + (if GeneratorRef (Status b) = None then 0 else 1) \<le> Attempts (Status b)
   \<and> Attempts (Status b) \<le> int n"
  using life_counts [OF assms(1), of 0] assms(2,3) by (simp add: counts_def emptyStatus_def)

text \<open>
  C11: A run started later in the life of an Artifact never takes the name of a run of an attempt
  already made, even across edits of the class, the spec and the policies.
\<close>

theorem run_names_not_reused:
  assumes "life RS a n b" "counts 0 m (Status a)" "m + int n < maxInt32" "j \<le> Attempts (Status a)"
  shows "runName b h (wrap32 (Attempts (Status b) + 1)) \<noteq> runName a' h' j"
proof -
  have c: "counts (Attempts (Status a)) (Attempts (Status a) + int n) (Status b)"
    using life_counts [OF assms(1,2)] assms(3) by simp
  have "wrap32 (Attempts (Status b) + 1) = Attempts (Status b) + 1"
    using c assms(2,3) by (intro wrap32_id) (auto simp: counts_def)
  then show ?thesis using c assms(4) runName_inj by (fastforce simp: counts_def)
qed

section \<open>A life on the cluster\<close>

definition passOn :: "gotime \<Rightarrow> Artifact \<Rightarrow> Artifact" where
  "passOn now a = obj (snd (reconcileBody (clusterR now) (startAt a demoCluster)))"

lemma life_passOn: "life (range clusterR) a 1 (passOn now a)"
proof -
  have "life (range clusterR) a 0 (obj (startAt a demoCluster))" by (simp add: startAt_def life.Start)
  then show ?thesis unfolding passOn_def One_nat_def by (rule life.Pass) simp
qed

lemma libs_ok_cluster: "libs_ok (range clusterR)"
  by (simp add: libs_ok_def clusterR_lib_ok)


theorem attempts_account_witness:
  "0 \<le> FailedAttempts (Status (passOn minute demoArtifact))
   \<and> FailedAttempts (Status (passOn minute demoArtifact))
     + (if GeneratorRef (Status (passOn minute demoArtifact)) = None then 0 else 1)
     \<le> Attempts (Status (passOn minute demoArtifact))
   \<and> Attempts (Status (passOn minute demoArtifact)) \<le> int 1"
  by (rule attempts_account [OF life_passOn]) (simp_all add: demoArtifact_def)

theorem run_names_not_reused_witness:
  "runName (passOn minute demoArtifact) (Canonical []) (wrap32 (Attempts (Status (passOn minute demoArtifact)) + 1))
     \<noteq> runName demoArtifact (Canonical [(''gitRef'', ''v1'')]) 0"
  by (rule run_names_not_reused [where m = 0, OF life_passOn])
    (simp_all add: demoArtifact_def counts_def emptyStatus_def)

end
