(* ===== verification/Passes.thy ===== *)
theory Passes
  imports History
begin

text \<open>
  Passes that get as far as an answer from the store: \<open>at_store\<close> collects what brings a pass there,
  and \<open>pass_at_store\<close> reduces the whole of \<open>reconcileBody\<close> to the handler in charge. The second part
  follows the Ready condition through the handlers: only the verified tail of \<open>reconcileExisting\<close>
  turns it on.
\<close>
section \<open>Passes that reach the store\<close>

definition at_store ::
  "('w, 'p) Reconciler \<Rightarrow> ('w, 'p) rst \<Rightarrow> ArtifactClass \<Rightarrow> string \<Rightarrow> 'w StoreDriver \<Rightarrow> Observation \<Rightarrow> bool" where
  "at_store R s c key driver obs \<longleftrightarrow>
     DeletionTimestamp (Meta (obj s)) = None
   \<and> ContainsFinalizer (rLib R) (Finalizers (Meta (obj s))) ArtifactFinalizer
   \<and> \<not> Suspend (Spec (obj s)) \<and> (\<not> ObserveOnly (obj s) \<or> GeneratorRef (stat s) = None)
   \<and> keyed R (obj s) (world s) c key
   \<and> \<not> age_reached R (obj s) (TTL (Spec (obj s)))
   \<and> (\<not> age_reached R (obj s) (DeleteAfter (Spec (obj s))) \<or> ObserveOnly (obj s))
   \<and> DriverFor (rRegistry R) (world s) c = Inr driver \<and> Observe driver (world s) key = Inr obs"

definition passInput :: "Artifact \<Rightarrow> ArtifactClass \<Rightarrow> string \<Rightarrow> Input" where
  "passInput a c key = (inputFor a c)\<lparr>inKey := key\<rparr>"

definition keyedState :: "('w, 'p) Reconciler \<Rightarrow> string \<Rightarrow> ('w, 'p) rst \<Rightarrow> ('w, 'p) rst" where
  "keyedState R key s =
     setStatus (\<lambda>st. st\<lparr>SpecHash := Canonical (Identity (Spec (obj s))), Key := key\<rparr>) (honorRetry R (startPass s))"

lemma passInput_simps [simp]:
  "inKey (passInput a c key) = key" "inSpecHash (passInput a c key) = Canonical (Identity (Spec a))"
  by (simp_all add: passInput_def inputFor_def Let_def)

lemma keyedState_simps [simp]:
  "world (keyedState R key s) = world s" "Meta (obj (keyedState R key s)) = Meta (obj s)"
  "Spec (obj (keyedState R key s)) = Spec (obj s)" "ObserveOnly (obj (keyedState R key s)) = ObserveOnly (obj s)"
  "FailedAttempts (stat (keyedState R key s)) = failures (obj s)"
  "LastFailureTime (stat (keyedState R key s)) = lastFailure (obj s)"
  "GeneratorRef (stat (keyedState R key s)) = GeneratorRef (stat s)"
  "GeneratorSucceededAt (stat (keyedState R key s)) = GeneratorSucceededAt (stat s)"
  "Attempts (stat (keyedState R key s)) = Attempts (stat s)"
  "Digest (stat (keyedState R key s)) = Digest (stat s)"
  "Key (stat (keyedState R key s)) = key"
  by (simp_all add: keyedState_def honorRetry_status startPass_status ObserveOnly_def)

lemma pass_at_store:
  assumes "at_store R s c key driver obs"
  shows "reconcileBody R s =
    (if Exists obs then reconcileExisting R c obs (passInput (obj s) c key) (keyedState R key s)
     else if ObserveOnly (obj s) then reconcileMissingObserved R (passInput (obj s) c key) (keyedState R key s)
     else reconcileMissing R c (passInput (obj s) c key) (keyedState R key s))"
proof -
  let ?s = "honorRetry R (startPass s)"
  have o: "ObserveOnly (obj ?s) = ObserveOnly (obj s)" by (simp add: ObserveOnly_def)
  have i: "inputFor (obj ?s) c = inputFor (obj s) c" by (simp add: inputFor_def)
  have "reconcileBody R s = reconcileClass R ?s"
    using assms o by (auto simp: at_store_def reconcileBody_def reconcile_def honorRetry_status startPass_status Let_def)
  also have "\<dots> = reconcileKeyed R c (passInput (obj s) c key) ?s"
    using assms by (simp add: at_store_def keyed_def reconcileClass_def i passInput_def Let_def)
  also have "\<dots> = (if Exists obs then reconcileExisting R c obs (passInput (obj s) c key) (keyedState R key s)
     else if ObserveOnly (obj s) then reconcileMissingObserved R (passInput (obj s) c key) (keyedState R key s)
     else reconcileMissing R c (passInput (obj s) c key) (keyedState R key s))"
  proof -
    have k: "setStatus (\<lambda>st. st\<lparr>SpecHash := Canonical (Identity (Spec (obj s))), Key := key\<rparr>) ?s = keyedState R key s"
      by (simp add: keyedState_def)
    show ?thesis
      using assms unfolding reconcileKeyed_def passInput_simps Let_def k
      by (auto simp: at_store_def age_reached_def)
  qed
  finally show ?thesis .
qed

section \<open>Such passes on the cluster\<close>

lemma demo_scan: "scan ''artifacts/{{ .Name }}'' = Some [Text ''artifacts/'', Field [''Name'']]"
  by code_simp

lemma demo_key:
  "Name (Meta a) = ''client'' \<Longrightarrow>
   RenderKey (rExt (clusterR now)) (KeyTemplate demoClass) (inputFor a demoClass) = Inr ''artifacts/client''"
  by (simp add: RenderKey_def renderString_def template_render_def KeyTemplate_def demoClass_def
      demo_scan input_field_def scalar_def inputFor_def Let_def map_res.simps TrimSpaceEmpty.simps asciiSpace_def)

lemma demo_at_store:
  assumes "Meta a = Meta demoArtifact" "Spec a = Spec demoArtifact" "classes w = [(''builds'', demoClass)]"
    and "fake_Observe (fstore w) ''artifacts/client'' = Inr obs"
  shows "at_store (clusterR now) (startAt a w) demoClass ''artifacts/client'' clusterDriver obs"
  using assms demo_key [of a now]
  by (simp add: at_store_def keyed_def startAt_def demoArtifact_def clusterR_client clusterClient_def find_in_def
      age_reached_def reached_def ObserveOnly_def ManagementPolicyFull_def ManagementPolicyObserve_def
      clusterDriver_def fake_driver_def DriverFor_def fake_Register_def Register_def NewRegistry_def)
   (simp add: clusterR_def refLib_def DriverFor_def fake_Register_def Register_def NewRegistry_def demoClass_def clusterDriver_def fake_driver_def )

definition storedCluster :: cluster where
  "storedCluster = putStore (fake_Put ''artifacts/client'' ''d1'' [] fake_New) demoCluster"

lemma cluster_conditions: "conditions_ok (rLib (clusterR now))"
  by (rule lib_okD(1) [OF clusterR_lib_ok])

lemma stored_at_store:
  "at_store (clusterR now) (startAt demoArtifact storedCluster) demoClass ''artifacts/client'' clusterDriver
     \<lparr>Exists = True, obsDigest = ''d1'', Metadata = []\<rparr>"
  by (rule demo_at_store) (simp_all add: storedCluster_def putStore_def demoCluster_def fake_Observe_Put)

lemma markAvailable_ready: "conditions_ok (rLib R) \<Longrightarrow> readyTrue (stat (snd (markAvailable R key d b s)))"
  by (simp add: markAvailable_def readyTrue_def conditions_ok_simps Let_def)

lemma demo_ready: "readyTrue (stat (snd (reconcileBody (clusterR minute) (startAt demoArtifact storedCluster))))"
proof -
  have "Digest (stat (startAt demoArtifact storedCluster)) = []" by (simp add: startAt_def demoArtifact_def emptyStatus_def)
  then show ?thesis
    by (simp add: pass_at_store [OF stored_at_store] reconcileExisting_def drifted_def Let_def
        markAvailable_ready [OF cluster_conditions])
qed

section \<open>Who turns Ready on\<close>

definition nr :: "('w, 'p) rst \<Rightarrow> bool" where
  "nr s \<longleftrightarrow> \<not> readyTrue (stat s)"

lemma nr_simps [simp]:
  "nr (emit b ev m s) = nr s" "nr (s\<lparr>world := w\<rparr>) = nr s" "nr (snd (matched R e run s)) = nr s"
  "nr (setState x s) = nr s" "nr (snd (deleteAbandonedRun R ref why s)) = nr s"
  "nr (snd (ensureGeneratorWatch R gvk s)) = nr s"
  "nr (removeFinalizer R s) = nr s" "nr (addFinalizer R s) = nr s"
  "Conditions (f (stat s)) = Conditions (stat s) \<Longrightarrow> nr (setStatus f s) = nr s"
  by (simp_all add: nr_def readyTrue_def ensureGeneratorWatch_frame removeFinalizer_def addFinalizer_def)

lemma nr_cond [simp]:
  assumes "conditions_ok (rLib R)"
  shows "nr (markFalse R ReadyCondition r m s)"
    "t \<noteq> ReadyCondition \<Longrightarrow> nr (markTrue R t r m s) = nr s"
    "t \<noteq> ReadyCondition \<Longrightarrow> nr (markFalse R t r m s) = nr s"
    "t \<noteq> ReadyCondition \<Longrightarrow> nr (markUnknown R t r m s) = nr s"
    "t \<noteq> ReadyCondition \<Longrightarrow> nr (condDelete R t s) = nr s"
    "nr (markStalled R r m s) = nr s" "nr (markReconciling R r m s) = nr s"
  by (auto simp: nr_def readyTrue_def conditions_ok_simps [OF assms])

lemma recordAttemptFailure_nr: "conditions_ok (rLib R) \<Longrightarrow> nr (snd (recordAttemptFailure R r m b s))"
  by (simp add: recordAttemptFailure_def Let_def case_prod_beta)

lemma evaluateRun_nr: "conditions_ok (rLib R) \<Longrightarrow> nr (snd (evaluateRun R c g run b s))"
  by (simp add: evaluateRun_def awaitArtifact_def markSucceeded_def Let_def case_prod_beta recordAttemptFailure_nr)

lemma createRun_nr: "conditions_ok (rLib R) \<Longrightarrow> nr s \<Longrightarrow> nr (snd (createRun R g i s))"
  by (simp add: createRun_def Let_def split: sum.split prod.split apierr.split)

lemma noGenerator_nr:
  assumes "conditions_ok (rLib R)" "nr s"
  shows "nr (snd (noGenerator R c i s))"
proof (cases "GeneratorRef (stat s)")
  case (Some ref)
  let ?d = "deleteAbandonedRun R ref (AMsg ''class %q no longer defines a generator'' [AStr (className c)]) s"
  obtain e s' where d: "?d = (e, s')" by (cases ?d)
  have "nr s'" using assms(2) nr_simps(5) [of R ref _ s] d by (metis snd_conv)
  then show ?thesis using Some d assms(1) by (cases e) (simp_all add: noGenerator_def Let_def)
qed (use assms in \<open>simp add: noGenerator_def Let_def\<close>)

lemma reconcileMissing_nr:
  assumes "conditions_ok (rLib R)" "nr s"
  shows "nr (snd (reconcileMissing R c i s))"
proof -
  let ?s = "markMissing R i s"
  have m: "nr ?s" using assms by (simp add: markMissing_def Let_def)
  have "nr (snd (budgetExhausted R x ?s))" "nr (snd (backoffPending R t ?s))"
    "nr (snd (inFlight R c g ref b ?s))" for x t g ref b
    using m assms(1) by (simp_all add: budgetExhausted_def backoffPending_def inFlight_def Let_def evaluateRun_nr
        split: sum.split apierr.split)
  then show ?thesis using noGenerator_nr [OF assms(1) m] createRun_nr [OF assms(1) m]
    by (simp add: reconcileMissing_def Let_def split: option.split prod.split)
qed

lemma reconcileDelete_nr:
  assumes "conditions_ok (rLib R)" "nr s"
  shows "nr (snd (reconcileDelete R s))"
proof -
  have d: "nr (snd (deleteFromStore R c s))" for c
    using assms by (simp add: deleteFromStore_def Let_def split: sum.split prod.split option.split)
  have "nr (snd (case deleteFromStore R c s of (Some e, s) \<Rightarrow> (fail e, s)
     | (None, s) \<Rightarrow> (after 0, removeFinalizer R s)))" for c
    using d [of c] by (auto split: prod.split option.split)
  then show ?thesis using assms by (simp add: reconcileDelete_def split: sum.split apierr.split)
qed

text \<open>What a pass that turns Ready has seen in the store, and what it recorded.\<close>

definition verified :: "('w, 'p) Reconciler \<Rightarrow> Artifact \<Rightarrow> 'w \<Rightarrow> ArtifactStatus \<Rightarrow> bool" where
  "verified R a w st \<longleftrightarrow>
     (\<exists>c key driver obs. keyed R a w c key \<and> DriverFor (rRegistry R) w c = Inr driver
        \<and> Observe driver w key = Inr obs \<and> Exists obs \<and> deletable c (Canonical (Identity (Spec a))) obs
        \<and> State st = StateReady \<and> Key st = key \<and> SpecHash st = Canonical (Identity (Spec a))
        \<and> Digest st = obsDigest obs \<and> LastVerifiedTime st = Some (rNow R)
        \<and> FailedAttempts st = 0 \<and> GeneratorRef st = None)"

lemma markAvailable_status:
  "State (stat (snd (markAvailable R key d b s))) = StateReady"
  "Key (stat (snd (markAvailable R key d b s))) = Key (stat s)"
  "SpecHash (stat (snd (markAvailable R key d b s))) = SpecHash (stat s)"
  "Digest (stat (snd (markAvailable R key d b s))) = d"
  "LastVerifiedTime (stat (snd (markAvailable R key d b s))) = Some (rNow R)"
  "FailedAttempts (stat (snd (markAvailable R key d b s))) = 0"
  "GeneratorRef (stat (snd (markAvailable R key d b s))) = None"
  by (simp_all add: markAvailable_def Let_def)

lemma reconcileExisting_verified:
  assumes "conditions_ok (rLib R)" "nr s"
  shows "nr (snd (reconcileExisting R c obs i s))
   \<or> deletable c (inSpecHash i) obs
     \<and> (let st = stat (snd (reconcileExisting R c obs i s))
        in State st = StateReady \<and> Key st = Key (stat s) \<and> SpecHash st = SpecHash (stat s)
         \<and> Digest st = obsDigest obs \<and> LastVerifiedTime st = Some (rNow R)
         \<and> FailedAttempts st = 0 \<and> GeneratorRef st = None)"
proof -
  have d: "nr (setStatus (\<lambda>st. st\<lparr>Digest := []\<rparr>) (recordDrift R c k was new s))" for k was new
    using assms by (simp add: recordDrift_def Let_def)
  have "nr (snd (keyConflict R k h st s))" for k h st using assms by (simp add: keyConflict_def Let_def)
  then show ?thesis using reconcileMissing_nr [OF assms(1) d]
    by (auto simp: reconcileExisting_def Let_def deletable_def markAvailable_status recordDrift_key)
qed

lemma reconcileKeyed_verified:
  assumes L: "conditions_ok (rLib R)" and n: "nr s" and f: "fresh a s" and k: "keyed R a (world s) c key"
    and i: "inSpecHash i = Canonical (Identity (Spec a))" "inKey i = key"
  shows "nr (snd (reconcileKeyed R c i s)) \<or> verified R a (world s) (stat (snd (reconcileKeyed R c i s)))"
proof -
  let ?s = "setStatus (\<lambda>st. st\<lparr>SpecHash := inSpecHash i, Key := key\<rparr>) s"
  have n1: "nr ?s" using n by simp
  have e: "nr (snd (reconcileExpired R c d key' h ?s))" for d key' h
    using n1 L by (simp add: reconcileExpired_def parkExpired_def Let_def split: sum.split prod.split option.split)
  have m: "nr (snd (reconcileMissingObserved R i ?s))" using L by (simp add: reconcileMissingObserved_def Let_def)
  have x: "nr (snd (reconcileExisting R c obs i ?s)) \<or> verified R a (world s) (stat (snd (reconcileExisting R c obs i ?s)))"
    if "DriverFor (rRegistry R) (world s) c = Inr d" "Observe d (world s) key = Inr obs" "Exists obs" for d obs
    using reconcileExisting_verified [OF L n1, of c obs i] that k i unfolding verified_def Let_def by auto
  show ?thesis
    using e m x n1 L reconcileMissing_nr [OF L n1, of c i] unfolding reconcileKeyed_def Let_def i(2)
    by (simp del: nr_simps(9) split: sum.split prod.split option.split apierr.split)
qed

lemma reconcileClass_verified:
  assumes L: "conditions_ok (rLib R)" and n: "nr s" and f: "fresh a s"
  shows "nr (snd (reconcileClass R s)) \<or> verified R a (world s) (stat (snd (reconcileClass R s)))"
proof -
  have ms: "Meta (obj s) = Meta a" "Spec (obj s) = Spec a" using f by (simp_all add: fresh_def agrees_def)
  then have i: "inputFor (obj s) c = inputFor a c" for c by (simp add: inputFor_def)
  have "nr (snd (reconcileKeyed R c ((inputFor a c)\<lparr>inKey := key\<rparr>) s))
     \<or> verified R a (world s) (stat (snd (reconcileKeyed R c ((inputFor a c)\<lparr>inKey := key\<rparr>) s)))"
    if "keyed R a (world s) c key" for c key
    by (rule reconcileKeyed_verified [OF L n f that]) (simp_all add: inputFor_def Let_def)
  then show ?thesis using L n i ms
    by (auto simp: reconcileClass_def Let_def keyed_def split: sum.split apierr.split)
qed

text \<open>
  C5: A pass turns Ready on only if it has itself seen the object in the store, at the key and hash
  of this Artifact, with no stamp or its own, and then the status records exactly that object.
\<close>

theorem ready_sound:
  assumes L: "lib_ok (rLib R)" and n: "\<not> readyTrue (stat s)"
    and r: "readyTrue (stat (snd (reconcileBody R s)))"
  shows "\<exists>w. (w = world s \<or> (\<exists>ref. GeneratorRef (stat s) = Some ref \<and> w = snd (clDeleteRun (rClient R) (world s) ref)))
    \<and> verified R (obj s) w (stat (snd (reconcileBody R s)))"
proof -
  let ?s = "honorRetry R (startPass s)"
  have C: "conditions_ok (rLib R)" using L by (rule lib_okD)
  have n0: "nr s" using n by (simp add: nr_def)
  have n1: "nr (startPass s)" "nr ?s" using n0 C by (simp_all add: startPass_def honorRetry_def Let_def)
  have o: "ObserveOnly (obj ?s) = ObserveOnly (obj s)" by (simp add: ObserveOnly_def)
  have live: "DeletionTimestamp (Meta (obj s)) = None" "reconcileBody R s = reconcile R s"
    using r reconcileDelete_nr [OF C n0] n0 by (auto simp: reconcileBody_def nr_def addFinalizer_def split: if_splits)
  have "nr (snd (suspendPass R (startPass s)))" using C by (simp add: suspendPass_def Let_def)
  then have sus: "\<not> Suspend (Spec (obj s))" using r live by (auto simp: reconcile_def nr_def)
  show ?thesis
  proof (cases "ObserveOnly (obj s) \<and> GeneratorRef (stat s) \<noteq> None")
    case False
    then have "reconcileBody R s = reconcileClass R ?s"
      using live sus o by (auto simp: reconcile_def honorRetry_status startPass_status Let_def)
    moreover have "fresh (obj s) ?s" using False by (intro fresh_start) blast
    ultimately show ?thesis
      using reconcileClass_verified [OF C n1(2), of "obj s"] r by (auto simp: nr_def)
  next
    case True
    then obtain ref where ref: "GeneratorRef (stat s) = Some ref" by blast
    obtain e s2 where d: "deleteAbandonedRun R ref (AStr ''managementPolicy is Observe'') ?s = (e, s2)" by fastforce
    have s2: "obj s2 = obj ?s" "world s2 = snd (clDeleteRun (rClient R) (world s) ref)" "nr s2"
      using deleteAbandonedRun_frame [of R ref _ ?s] d n1(2) nr_simps(5) [of R ref _ ?s]
      by (metis snd_conv startPass_frame(1) honorRetry_frame(1))+
    have b: "reconcileBody R s = (case e of Some x \<Rightarrow> (fail x, s2) | None \<Rightarrow> reconcileClass R (forgetRun R s2))"
      using live sus o True ref d by (simp add: reconcile_def honorRetry_status startPass_status Let_def split: option.split)
    have "fresh (obj s) (forgetRun R s2)" using True s2 by (intro fresh_cancelled) simp_all
    moreover have "nr (forgetRun R s2)" using s2 C by (simp add: forgetRun_def Let_def)
    ultimately show ?thesis
      using reconcileClass_verified [OF C, of "forgetRun R s2" "obj s"] r b s2 ref
      by (cases e) (auto simp: nr_def)
  qed
qed

theorem ready_sound_witness:
  "\<exists>w. (w = storedCluster \<or> (\<exists>ref. GeneratorRef (Status demoArtifact) = Some ref
          \<and> w = snd (clDeleteRun (rClient (clusterR minute)) storedCluster ref)))
    \<and> verified (clusterR minute) demoArtifact w
        (stat (snd (reconcileBody (clusterR minute) (startAt demoArtifact storedCluster))))"
proof -
  have "\<not> readyTrue (stat (startAt demoArtifact storedCluster))"
    by (simp add: startAt_def demoArtifact_def emptyStatus_def readyTrue_def cond_of_def)
  then show ?thesis
    using ready_sound [OF clusterR_lib_ok _ demo_ready] by (simp add: startAt_def)
qed

end
