(* ===== verification/Outcomes.thy ===== *)
theory Outcomes
  imports Passes
begin

text \<open>
  The outcome of a pass on every branch behind the store's answer: what is reported, what is
  recorded, when the next pass is asked for, and that the world is left alone where it should be.
\<close>

section \<open>Reading conditions\<close>

definition cond_is :: "ArtifactStatus \<Rightarrow> CondType \<Rightarrow> CondStatus \<Rightarrow> Reason \<Rightarrow> bool" where
  "cond_is st t x r \<longleftrightarrow> (case cond_of (Conditions st) t of Some (y, q, _) \<Rightarrow> y = x \<and> q = r | None \<Rightarrow> False)"

definition no_cond :: "ArtifactStatus \<Rightarrow> CondType \<Rightarrow> bool" where
  "no_cond st t \<longleftrightarrow> cond_of (Conditions st) t = None"

lemmas cond_defs = cond_is_def no_cond_def

section \<open>An object at the key\<close>

text \<open>
  C13: An object at the key with no stamp or our own is reported Ready: no error, the next look after one
  jittered interval, the observed digest recorded, failures and run bookkeeping cleared, and the
  world left alone. The exception is drift under policy Regenerate.
\<close>

theorem available_reported:
  assumes "lib_ok (rLib R)" "at_store R s c key driver obs" "Exists obs"
    and "deletable c (Canonical (Identity (Spec (obj s)))) obs"
    and "\<not> (drifted (stat s) obs \<and> DriftPolicy c = DriftPolicyRegenerate \<and> \<not> ObserveOnly (obj s))"
  shows "let r = reconcileBody R s; st = stat (snd r) in
    fst r = after (jitter R (GetInterval (obj s)))
    \<and> world (snd r) = world s
    \<and> verified R (obj s) (world s) st
    \<and> cond_is st ReadyCondition CondTrue ReasonArtifactAvailable
    \<and> no_cond st ReconcilingCondition
    \<and> no_cond st StalledCondition"
proof -
  have C: "conditions_ok (rLib R)" using assms(1) by (rule lib_okD)
  let ?d = "recordDrift R c key (Digest (stat s)) (obsDigest obs) (keyedState R key s)"
  let ?s = "if drifted (stat s) obs then ?d
            else if obsDigest obs \<noteq> [] \<and> obsDigest obs \<noteq> Digest (stat s)
                 then condDelete R ArtifactDriftedCondition (keyedState R key s) else keyedState R key s"
  have dr: "drifted (stat (keyedState R key s)) obs = drifted (stat s) obs"
    by (simp add: drifted_def generatedSinceLastVerify_def)
  have oo: "ObserveOnly (obj ?d) = ObserveOnly (obj s)" by (simp add: ObserveOnly_def)
  have b: "reconcileBody R s = markAvailable R key (obsDigest obs) (isTrue R (keyedState R key s) ReadyCondition) ?s"
    using assms(3-5) dr oo
    by (auto simp: pass_at_store [OF assms(2)] reconcileExisting_def deletable_def Let_def)
  have s: "world ?s = world s" "Spec (obj ?s) = Spec (obj s)" "Key (stat ?s) = key"
    "SpecHash (stat ?s) = Canonical (Identity (Spec (obj s)))"
    by (simp_all add: recordDrift_key) (simp_all add: keyedState_def)
  have "verified R (obj s) (world s) (stat (snd (reconcileBody R s)))"
    using assms(2-4) s unfolding verified_def b markAvailable_status at_store_def by blast
  then show ?thesis
    using s GetInterval_frame [OF s(2)] unfolding b Let_def
    by (simp add: markAvailable_def Let_def cond_defs conditions_ok_simps [OF C] GetInterval_def)
qed

text \<open>
  C18: An object at the key with a foreign stamp is neither adopted nor overwritten: the pass changes
  nothing outside, reports KeyConflict and looks again after one interval.
\<close>

theorem key_conflict_reported:
  assumes "lib_ok (rLib R)" "at_store R s c key driver obs" "Exists obs"
    and "\<not> deletable c (Canonical (Identity (Spec (obj s)))) obs"
  shows "let r = reconcileBody R s; st = stat (snd r) in
    fst r = after (jitter R (GetInterval (obj s)))
    \<and> world (snd r) = world s
    \<and> State st = StateKeyConflict
    \<and> cond_is st ReadyCondition CondFalse ReasonKeyConflict
    \<and> cond_is st ArtifactInStoreCondition CondFalse ReasonKeyConflict
    \<and> no_cond st ReconcilingCondition"
proof -
  have C: "conditions_ok (rLib R)" using assms(1) by (rule lib_okD)
  have "reconcileBody R s = keyConflict R key (Canonical (Identity (Spec (obj s))))
      (mget (Metadata obs) (StampMetadataKey c)) (keyedState R key s)"
    using assms(3,4) by (simp add: pass_at_store [OF assms(2)] reconcileExisting_def deletable_def Let_def)
  then show ?thesis
    by (simp add: keyConflict_def Let_def cond_defs conditions_ok_simps [OF C] GetInterval_def)
qed

section \<open>Nothing at the key\<close>

text \<open>
  With the failure budget spent and nothing in the store the pass stays away from the generator
  and reports Degraded and Stalled, at a tenth of the usual pace.
\<close>

theorem budget_exhausted_degrades:
  assumes "lib_ok (rLib R)" "at_store R s c key driver obs" "\<not> Exists obs" "\<not> ObserveOnly (obj s)"
    and "Generator (classSpec c) \<noteq> None" "EffectiveBackoff c = (maxAttempts, initialDelay, maxDelay)"
    and "maxAttempts \<le> failures (obj s)"
  shows "let r = reconcileBody R s; st = stat (snd r) in
    fst r = after (jitter R (wrap64 (10 * GetInterval (obj s))))
    \<and> world (snd r) = world s
    \<and> State st = StateDegraded
    \<and> cond_is st StalledCondition CondTrue ReasonFailureBudgetExhausted
    \<and> cond_is st ReadyCondition CondFalse ReasonFailureBudgetExhausted
    \<and> no_cond st ReconcilingCondition
    \<and> GeneratorRef st = GeneratorRef (stat s)"
proof -
  have C: "conditions_ok (rLib R)" using assms(1) by (rule lib_okD)
  show ?thesis
    using assms(3-7) by (auto simp: pass_at_store [OF assms(2)] reconcileMissing_def budgetExhausted_def Let_def
        cond_defs conditions_ok_simps [OF C] GetInterval_def)
qed

text \<open>
  Inside the backoff window nothing is started, and the pass asks to be woken one second after
  the window closes.
\<close>

theorem backoff_waits:
  assumes "lib_ok (rLib R)" "at_store R s c key driver obs" "\<not> Exists obs" "\<not> ObserveOnly (obj s)"
    and "Generator (classSpec c) \<noteq> None" "EffectiveBackoff c = (maxAttempts, initialDelay, maxDelay)"
    and "0 < failures (obj s)" "failures (obj s) < maxAttempts" "GeneratorRef (stat s) = None"
    and "lastFailure (obj s) = Some lf"
    and "rNow R < lf + backoffDelay (failures (obj s)) initialDelay maxDelay"
    and "lf \<le> rNow R" "backoffDelay (failures (obj s)) initialDelay maxDelay < 2 ^ 62"
  shows "let r = reconcileBody R s; st = stat (snd r) in
    fst r =
      after (lf + backoffDelay (failures (obj s)) initialDelay maxDelay - rNow R + second)
    \<and> world (snd r) = world s
    \<and> State st = StateGenerating
    \<and> cond_is st ReconcilingCondition CondTrue ReasonBackoffPending
    \<and> cond_is st ReadyCondition CondFalse ReasonBackoffPending
    \<and> no_cond st StalledCondition"
proof -
  have C: "conditions_ok (rLib R)" using assms(1) by (rule lib_okD)
  let ?n = "lf + backoffDelay (failures (obj s)) initialDelay maxDelay"
  have t: "time_Sub ?n (rNow R) = ?n - rNow R" "wrap64 (?n - rNow R + second) = ?n - rNow R + second"
    using assms(11-) by (simp_all add: time_Sub_def wrap64_id)
  show ?thesis
    using assms(3-11) t
    by (auto simp: pass_at_store [OF assms(2)] reconcileMissing_def backoffPending_def Let_def
        cond_defs conditions_ok_simps [OF C])
qed

section \<open>Runs\<close>

definition holdsOn :: "('w, 'p) Reconciler \<Rightarrow> string \<Rightarrow> unstructured \<Rightarrow> bool" where
  "holdsOn R expr run \<longleftrightarrow> evalRef (rCel R) expr run = Inr True"

lemma matched_ref:
  assumes "cache_ok (rCel R) (evaluator s)"
  shows "fst (matched R e run s) = holdsOn R e run" "cache_ok (rCel R) (evaluator (snd (matched R e run s)))"
  using cel_cache.eval_ref [OF assms, of e run] cel_cache.eval_inv [OF assms, of e run]
  by (auto simp: matched_def holdsOn_def case_prod_beta split: sum.split)

lemma evaluator_frame [simp]:
  "evaluator (condDelete R t s) = evaluator s" "evaluator (markFalse R t r m s) = evaluator s"
  "evaluator (keyedState R key s) = evaluator s" "evaluator (markMissing R i s) = evaluator s"
  by (simp_all add: condDelete_def markFalse_def keyedState_def honorRetry_def startPass_def markMissing_def Let_def)

lemma pass_in_flight:
  assumes "at_store R s c key driver obs" "\<not> Exists obs" "\<not> ObserveOnly (obj s)"
    and "Generator (classSpec c) = Some g" "EffectiveBackoff c = (maxAttempts, initialDelay, maxDelay)"
    and "failures (obj s) < maxAttempts" "GeneratorRef (stat s) = Some ref"
    and "clGetRun (rClient R) (world s) ref = Inr run"
  shows "reconcileBody R s = evaluateRun R c g run (maxAttempts, initialDelay, maxDelay)
    (markMissing R (passInput (obj s) c key) (keyedState R key s))"
  using assms by (simp add: pass_at_store reconcileMissing_def inFlight_def Let_def)

text \<open>What \<open>recordAttemptFailure\<close> leaves behind.\<close>

definition failure_recorded ::
  "('w, 'p) Reconciler \<Rightarrow> ArtifactClass \<Rightarrow> Reason \<Rightarrow> int \<Rightarrow> ret \<times> ('w, 'p) rst \<Rightarrow> bool" where
  "failure_recorded R c reason n r \<longleftrightarrow>
     (let st = stat (snd r) in
      case EffectiveBackoff c of (maxAttempts, initialDelay, maxDelay) \<Rightarrow>
        FailedAttempts st = n \<and> LastFailureTime st = Some (rNow R) \<and> LastFailureMessage st \<noteq> None
      \<and> GeneratorRef st = None \<and> GeneratorSucceededAt st = None
      \<and> cond_is st GeneratorSucceededCondition CondFalse reason
      \<and> (if maxAttempts \<le> n
         then State st = StateDegraded
            \<and> cond_is st StalledCondition CondTrue ReasonFailureBudgetExhausted
            \<and> cond_is st ReadyCondition CondFalse ReasonFailureBudgetExhausted
            \<and> no_cond st ReconcilingCondition
            \<and> fst r = after (jitter R (wrap64 (10 * GetInterval (obj (snd r)))))
         else State st = StateGenerating
            \<and> cond_is st ReconcilingCondition CondTrue ReasonBackoffPending
            \<and> cond_is st ReadyCondition CondFalse reason
            \<and> no_cond st StalledCondition
            \<and> fst r = after (backoffDelay n initialDelay maxDelay)))"

lemma recordAttemptFailure_recorded:
  assumes "conditions_ok (rLib R)" "EffectiveBackoff c = b"
    and "FailedAttempts (stat s) + 1 \<le> maxInt32" "0 \<le> FailedAttempts (stat s)"
  shows "failure_recorded R c reason (FailedAttempts (stat s) + 1) (recordAttemptFailure R reason m b s)"
proof -
  have w: "wrap32 (FailedAttempts (stat s) + 1) = FailedAttempts (stat s) + 1"
    using assms(3,4) by (intro wrap32_id) auto
  show ?thesis
    using assms(2) by (simp add: failure_recorded_def recordAttemptFailure_def Let_def case_prod_beta w
        cond_defs conditions_ok_simps [OF assms(1)])
qed

text \<open>
  C15: A run in flight for which \<open>failedWhen\<close> holds is counted exactly once: one more consecutive
  failure with its time and message, the run forgotten, and then either Degraded (budget spent) or
  the exponential delay to the next attempt.
\<close>

theorem failed_run_recorded:
  assumes "lib_ok (rLib R)" "at_store R s c key driver obs" "\<not> Exists obs" "\<not> ObserveOnly (obj s)"
    and "Generator (classSpec c) = Some g" "EffectiveBackoff c = (maxAttempts, initialDelay, maxDelay)"
    and "0 \<le> failures (obj s)" "failures (obj s) < maxAttempts" "maxAttempts \<le> maxInt32"
    and "GeneratorRef (stat s) = Some ref" "clGetRun (rClient R) (world s) ref = Inr run"
    and "cache_ok (rCel R) (evaluator s)" "holdsOn R (FailedWhen g) run"
  shows "failure_recorded R c ReasonGeneratorFailed (failures (obj s) + 1) (reconcileBody R s)
    \<and> world (snd (reconcileBody R s)) = world s"
proof -
  let ?s = "markMissing R (passInput (obj s) c key) (keyedState R key s)"
  have m: "fst (matched R (FailedWhen g) run ?s)" using matched_ref(1) [of R ?s "FailedWhen g" run] assms by simp
  have b: "reconcileBody R s = recordAttemptFailure R ReasonGeneratorFailed
      (Msg ''generator %s %q reported failure'' [AStr (GetKind (rLib R) run), AStr (GetName (rLib R) run)])
      (maxAttempts, initialDelay, maxDelay) (snd (matched R (FailedWhen g) run ?s))"
    using m assms by (simp add: pass_in_flight evaluateRun_def Let_def case_prod_beta)
  show ?thesis
    using recordAttemptFailure_recorded [OF lib_okD(1) [OF assms(1)] assms(6),
        of "snd (matched R (FailedWhen g) run ?s)" ReasonGeneratorFailed] assms(7-9)
    unfolding b by simp
qed

text \<open>
  C16: A run that succeeded without its artifact in the store is waited for during the grace period,
  measured from the first time success was seen, without counting a failure; after it, it counts
  as one failure.
\<close>

theorem succeeded_run_awaited:
  assumes "lib_ok (rLib R)" "at_store R s c key driver obs" "\<not> Exists obs" "\<not> ObserveOnly (obj s)"
    and "Generator (classSpec c) = Some g" "EffectiveBackoff c = (maxAttempts, initialDelay, maxDelay)"
    and "0 \<le> failures (obj s)" "failures (obj s) < maxAttempts" "maxAttempts \<le> maxInt32"
    and "GeneratorRef (stat s) = Some ref" "clGetRun (rClient R) (world s) ref = Inr run"
    and "cache_ok (rCel R) (evaluator s)" "\<not> holdsOn R (FailedWhen g) run" "holdsOn R (SucceededWhen g) run"
    and "since = (case GeneratorSucceededAt (stat s) of Some t \<Rightarrow> t | None \<Rightarrow> rNow R)"
  shows "let r = reconcileBody R s; st = stat (snd r) in
    world (snd r) = world s
  \<and> (if time_Sub (rNow R) since < GracePeriod c
     then FailedAttempts st = failures (obj s) \<and> GeneratorRef st = Some ref
        \<and> GeneratorSucceededAt st = Some since \<and> State st = StateAwaitingArtifact
        \<and> cond_is st ReconcilingCondition CondTrue ReasonAwaitingArtifact
        \<and> cond_is st ReadyCondition CondFalse ReasonAwaitingArtifact
     else failure_recorded R c ReasonSucceededWithoutArtifact (failures (obj s) + 1) r)"
proof -
  let ?sM = "markMissing R (passInput (obj s) c key) (keyedState R key s)"
  let ?sF = "snd (matched R (FailedWhen g) run ?sM)"
  let ?s = "snd (matched R (SucceededWhen g) run ?sF)"
  let ?b = "(maxAttempts, initialDelay, maxDelay)"
  have C: "conditions_ok (rLib R)" using assms(1) by (rule lib_okD)
  have c0: "cache_ok (rCel R) (evaluator ?sM)" using assms(12) by simp
  have "reconcileBody R s = awaitArtifact R c run ?b ?s"
    using matched_ref [OF c0, of "FailedWhen g" run] matched_ref(1) [of R ?sF "SucceededWhen g" run] assms
    by (simp add: pass_in_flight evaluateRun_def Let_def case_prod_beta)
  note b = this
  let ?t = "markSucceeded R run ?s"
  have s2: "GeneratorSucceededAt (stat ?t) = Some since" "FailedAttempts (stat ?t) = failures (obj s)"
    "GeneratorRef (stat ?t) = Some ref" "world ?t = world s"
    using assms(10,15) by (auto simp: markSucceeded_def Let_def split: option.split)
  have f: "failure_recorded R c ReasonSucceededWithoutArtifact (failures (obj s) + 1)
      (recordAttemptFailure R ReasonSucceededWithoutArtifact m ?b ?t)" for m
    using recordAttemptFailure_recorded [OF C assms(6), of ?t] s2 assms(7-9) by simp
  show ?thesis
    using s2 f unfolding b awaitArtifact_def Let_def
    by (simp add: cond_defs conditions_ok_simps [OF C])
qed

section \<open>Starting a run\<close>

text \<open>
  What decides a creation: the template renders to an object that can be owned, and the server's
  answer to its creation. Registering the watch on its kind leaves the world alone.
\<close>

definition creation ::
  "('w, 'p) Reconciler \<Rightarrow> Artifact \<Rightarrow> ArtifactClass \<Rightarrow> GeneratorSpec \<Rightarrow> string \<Rightarrow> 'w \<Rightarrow> unstructured
     \<Rightarrow> (apierr + unstructured) \<times> 'w \<Rightarrow> bool" where
  "creation R a c g key w run answer \<longleftrightarrow>
     (\<exists>tmpl. RenderTemplate (GetAPIVersion (rLib R)) (GetKind (rLib R)) (rExt R) (Template g)
          ((passInput a c key)\<lparr>inAttempt := wrap32 (Attempts (Status a) + 1)\<rparr>) = Inr tmpl
      \<and> (\<forall>b. Meta b = Meta a \<longrightarrow> Spec b = Spec a \<longrightarrow>
           ownedRun (rLib R) b (Canonical (Identity (Spec a)))
             (runName a (Canonical (Identity (Spec a))) (wrap32 (Attempts (Status a) + 1))) tmpl = Inr run))
   \<and> (\<forall>gvk. snd (clWatch (rClient R) w gvk) = w) \<and> clCreate (rClient R) w run = answer"

lemma pass_creates:
  assumes "at_store R s c key driver obs" "\<not> Exists obs" "\<not> ObserveOnly (obj s)"
    and "Generator (classSpec c) = Some g" "GeneratorRef (stat s) = None" "budget_left R (obj s) c"
  shows "reconcileBody R s = createRun R g (passInput (obj s) c key)
    (markMissing R (passInput (obj s) c key) (keyedState R key s))"
proof -
  obtain mx ini cap where b: "EffectiveBackoff c = (mx, ini, cap)" by (cases "EffectiveBackoff c")
  show ?thesis
    using assms b by (auto simp: pass_at_store reconcileMissing_def budget_left_def Let_def split: option.splits)
qed

lemma runName_frame: "Meta a = Meta b \<Longrightarrow> runName a h n = runName b h n"
  by (simp add: runName_def)

lemma ensureGeneratorWatch_world:
  "snd (clWatch (rClient R) (world s) gvk) = world s \<Longrightarrow> world (snd (ensureGeneratorWatch R gvk s)) = world s"
  using ensureGeneratorWatch_frame(3) [of R gvk s] by auto

lemma createRun_answer:
  assumes cr: "creation R a c g key (world s) run answer"
    and ms: "Meta (obj s) = Meta a" "Spec (obj s) = Spec a" "Attempts (stat s) = Attempts (Status a)"
  shows "createRun R g (passInput a c key) s =
    (let L = rLib R; n = wrap32 (Attempts (Status a) + 1); gvk = GroupVersionKind L run;
         name = runName a (Canonical (Identity (Spec a))) n;
         s = snd (ensureGeneratorWatch R gvk s)
     in case answer of
          (Inl AlreadyExists, w) \<Rightarrow>
            (case clGetRun (rClient R) w \<lparr>refAPIVersion = ToAPIVersion L gvk, refKind = gvKind gvk,
                    refName = name, refNamespace = Namespace (Meta a)\<rparr> of
               Inr existing \<Rightarrow>
                 if IsControlledBy L existing (obj s) then
                   (after second, setStatus (\<lambda>st. st\<lparr>Attempts := n, GeneratorRef := Some (generatorRefFor L existing)\<rparr>)
                      (s\<lparr>world := w\<rparr>))
                 else (after minute, markFalse R ReadyCondition ReasonGeneratorFailed
                        (Msg ''generator %q already exists and is not owned by this Artifact'' [AStr name]) (s\<lparr>world := w\<rparr>))
             | Inl _ \<Rightarrow>
                 (after minute, markFalse R ReadyCondition ReasonGeneratorFailed
                    (Msg ''generator %q already exists and is not owned by this Artifact'' [AStr name]) (s\<lparr>world := w\<rparr>)))
        | (Inl e, w) \<Rightarrow>
            (after (jitter R minute), markFalse R ReadyCondition ReasonGeneratorFailed
               (Msg ''create generator: %s'' [AErr (ApiError e)])
               (emit True ''GeneratorCreateFailed'' (Msg ''%s'' [AErr (ApiError e)]) (s\<lparr>world := w\<rparr>)))
        | (Inr v, w) \<Rightarrow>
            (after (jitter R (30 * second)),
             emit False ''GeneratorCreated'' (Msg ''created %s %q (attempt %d)'' [AStr (gvKind gvk), AStr name, AInt n])
              (markFalse R ReadyCondition ReasonGenerating (Msg ''producing artifact (attempt %d)'' [AInt n])
               (markUnknown R GeneratorSucceededCondition ReasonGenerating (Msg ''waiting for %s %q'' [AStr (gvKind gvk), AStr name])
                (markReconciling R ReasonGenerating (Msg ''generator %s %q created (attempt %d)'' [AStr (gvKind gvk), AStr name, AInt n])
                 (setStatus (\<lambda>st. st\<lparr>Attempts := n, GeneratorRef := Some (generatorRefFor L v),
                    GeneratorSucceededAt := None, State := StateGenerating\<rparr>) (s\<lparr>world := w\<rparr>)))))))"
proof -
  from cr obtain tmpl where t: "RenderTemplate (GetAPIVersion (rLib R)) (GetKind (rLib R)) (rExt R) (Template g)
          ((passInput a c key)\<lparr>inAttempt := wrap32 (Attempts (Status a) + 1)\<rparr>) = Inr tmpl"
    and o: "ownedRun (rLib R) (obj s) (Canonical (Identity (Spec a)))
             (runName a (Canonical (Identity (Spec a))) (wrap32 (Attempts (Status a) + 1))) tmpl = Inr run"
    and w: "world (snd (ensureGeneratorWatch R gvk s)) = world s" "clCreate (rClient R) (world s) run = answer" for gvk
    using ms by (auto simp: creation_def ensureGeneratorWatch_world)
  show ?thesis
    using t o w ms runName_frame [OF ms(1)]
    by (simp add: createRun_def Let_def ensureGeneratorWatch_frame split: prod.split sum.split apierr.split)
qed

text \<open>
  C14: A run the server accepts is recorded: the attempt counter moves by one, the reference is that of
  the created object, failures are untouched, and the conditions say Generating.
\<close>

theorem run_started:
  assumes "lib_ok (rLib R)" "at_store R s c key driver obs" "\<not> Exists obs" "\<not> ObserveOnly (obj s)"
    and "Generator (classSpec c) = Some g" "GeneratorRef (stat s) = None" "budget_left R (obj s) c"
    and "creation R (obj s) c g key (world s) run (Inr v, w)"
  shows "let r = reconcileBody R s; st = stat (snd r) in
    fst r = after (jitter R (30 * second)) \<and> world (snd r) = w
  \<and> Attempts st = wrap32 (Attempts (stat s) + 1) \<and> FailedAttempts st = failures (obj s)
  \<and> GeneratorRef st = Some (generatorRefFor (rLib R) v) \<and> State st = StateGenerating
  \<and> cond_is st ReconcilingCondition CondTrue ReasonGenerating
  \<and> cond_is st GeneratorSucceededCondition CondUnknown ReasonGenerating
  \<and> cond_is st ReadyCondition CondFalse ReasonGenerating
  \<and> no_cond st StalledCondition"
proof -
  let ?s = "markMissing R (passInput (obj s) c key) (keyedState R key s)"
  have C: "conditions_ok (rLib R)" using assms(1) by (rule lib_okD)
  have cr: "creation R (obj s) c g key (world ?s) run (Inr v, w)" using assms(8) by simp
  have b: "reconcileBody R s = createRun R g (passInput (obj s) c key) ?s" by (rule pass_creates [OF assms(2-7)])
  show ?thesis
    using createRun_answer [OF cr] unfolding b Let_def
    by (simp add: ensureGeneratorWatch_frame cond_defs conditions_ok_simps [OF C])
qed

text \<open>
  A name that is taken already is adopted only when the object there is controlled by this
  Artifact (a creation whose status update was lost), and then it counts as the attempt it is;
  anybody else's object is left alone and nothing is recorded.
\<close>

theorem lost_run_recovered:
  assumes "lib_ok (rLib R)" "at_store R s c key driver obs" "\<not> Exists obs" "\<not> ObserveOnly (obj s)"
    and "Generator (classSpec c) = Some g" "GeneratorRef (stat s) = None" "budget_left R (obj s) c"
    and "creation R (obj s) c g key (world s) run (Inl AlreadyExists, w)"
    and "clGetRun (rClient R) w \<lparr>refAPIVersion = ToAPIVersion (rLib R) (GroupVersionKind (rLib R) run),
        refKind = gvKind (GroupVersionKind (rLib R) run),
        refName = runName (obj s) (Canonical (Identity (Spec (obj s)))) (wrap32 (Attempts (stat s) + 1)),
        refNamespace = Namespace (Meta (obj s))\<rparr> = Inr existing"
  shows "let r = reconcileBody R s; st = stat (snd r) in
    if IsControlledBy (rLib R) existing (obj s)
    then fst r = after second \<and> Attempts st = wrap32 (Attempts (stat s) + 1)
       \<and> GeneratorRef st = Some (generatorRefFor (rLib R) existing) \<and> FailedAttempts st = failures (obj s)
    else fst r = after minute \<and> Attempts st = Attempts (stat s) \<and> GeneratorRef st = None
       \<and> cond_is st ReadyCondition CondFalse ReasonGeneratorFailed"
proof -
  let ?s = "markMissing R (passInput (obj s) c key) (keyedState R key s)"
  let ?e = "snd (ensureGeneratorWatch R (GroupVersionKind (rLib R) run) ?s)"
  have C: "conditions_ok (rLib R)" using assms(1) by (rule lib_okD)
  have cr: "creation R (obj s) c g key (world ?s) run (Inl AlreadyExists, w)" using assms(8) by simp
  have ic: "IsControlledBy (rLib R) existing (obj ?e) = IsControlledBy (rLib R) existing (obj s)"
    by (rule IsControlledBy_UID [OF lib_okD(3) [OF assms(1)]]) (simp add: ensureGeneratorWatch_frame)
  have b: "reconcileBody R s = createRun R g (passInput (obj s) c key) ?s" by (rule pass_creates [OF assms(2-7)])
  show ?thesis
    using ic assms(6,9) createRun_answer [OF cr] unfolding b Let_def
    by (simp add: ensureGeneratorWatch_frame cond_defs conditions_ok_simps [OF C])
qed

end
