(* ===== verification/Deletion.thy ===== *)
theory Deletion
  imports Outcomes
begin

text \<open>
  Deletion under each policy, suspension, the retry annotation and the flip to Observe.
\<close>

section \<open>Deletion\<close>

definition deleting :: "('w, 'p) Reconciler \<Rightarrow> Artifact \<Rightarrow> bool" where
  "deleting R a \<longleftrightarrow> DeletionTimestamp (Meta a) \<noteq> None
     \<and> ContainsFinalizer (rLib R) (Finalizers (Meta a)) ArtifactFinalizer"

definition owns_object :: "Artifact \<Rightarrow> bool" where
  "owns_object a \<longleftrightarrow> DeletionPolicy (Spec a) = DeletionPolicyDelete \<and> Key (Status a) \<noteq> [] \<and> \<not> ObserveOnly a"

lemma finalizer_release:
  assumes "lib_ok (rLib R)" "deleting R (obj s)" "owns_object (obj s)"
    and drv: "\<And>c d. clGetClass (rClient R) (world s) (ClassRef (Spec (obj s))) = Inr c \<Longrightarrow>
      DriverFor (rRegistry R) (world s) c = Inr d \<Longrightarrow> store_driver (Observe d) (Delete d)"
    and rel: "ArtifactFinalizer \<notin> set (Finalizers (Meta (obj (snd (reconcileBody R s)))))"
  shows "clGetClass (rClient R) (world s) (ClassRef (Spec (obj s))) = Inl NotFound
   \<or> (\<exists>c d. clGetClass (rClient R) (world s) (ClassRef (Spec (obj s))) = Inr c
        \<and> DriverFor (rRegistry R) (world s) c = Inr d
        \<and> (\<forall>obs. Observe d (world (snd (reconcileBody R s))) (Key (stat s)) = Inr obs \<longrightarrow> Exists obs \<longrightarrow>
             \<not> deletable c (SpecHash (stat s)) obs))"
proof -
  have F: "finalizers_ok (rLib R)" using assms(1) by (rule lib_okD)
  have f: "ArtifactFinalizer \<in> set (Finalizers (Meta (obj s)))"
    using assms(2) F by (simp add: deleting_def finalizers_ok_def)
  have b: "reconcileBody R s = reconcileDelete R s" using assms(2) by (simp add: reconcileBody_def deleting_def)
  show ?thesis
  proof (cases "clGetClass (rClient R) (world s) (ClassRef (Spec (obj s)))")
    case (Inl e)
    then show ?thesis
      using rel f assms(2,3) unfolding b
      by (cases e) (auto simp: reconcileDelete_def deleting_def owns_object_def)
  next
    case (Inr c)
    obtain e s' where d: "deleteFromStore R c s = (e, s')" by fastforce
    have m: "Meta (obj s') = Meta (obj s)"
      using d by (auto simp: deleteFromStore_def Let_def split: sum.splits if_splits prod.splits option.splits)
    have r: "reconcileDelete R s = (case e of Some x \<Rightarrow> (fail x, s') | None \<Rightarrow> (after 0, removeFinalizer R s'))"
      using assms(2,3) Inr d by (simp add: reconcileDelete_def deleting_def owns_object_def split: option.split)
    have "e = None" using rel f m unfolding b r by (cases e) auto
    then have w: "world (snd (reconcileDelete R s)) = world s'" using r by (simp add: removeFinalizer_def)
    obtain drv ob where dr: "DriverFor (rRegistry R) (world s) c = Inr drv"
      and ob: "Observe drv (world s) (Key (stat s)) = Inr ob"
      using d \<open>e = None\<close> by (auto simp: deleteFromStore_def Let_def split: sum.splits)
    have "\<not> deletable c (SpecHash (stat s)) obs"
      if "Observe drv (world s') (Key (stat s)) = Inr obs" "Exists obs" for obs
    proof
      assume "deletable c (SpecHash (stat s)) obs"
      show False
      proof (cases "Exists ob \<and> deletable c (SpecHash (stat s)) ob")
        case True
        then have "Delete drv (world s) (Key (stat s)) = (None, world s')"
          using d dr ob \<open>e = None\<close> by (auto simp: deleteFromStore_def Let_def split: prod.splits option.splits)
        then show False using store_driver.delete_gone [OF assms(4) [OF Inr dr]] that by blast
      next
        case False
        then have "world s' = world s"
          using d dr ob \<open>e = None\<close> by (auto simp: deleteFromStore_def Let_def split: if_splits)
        then show False using False that ob \<open>deletable c (SpecHash (stat s)) obs\<close> by simp
      qed
    qed
    then show ?thesis using Inr dr w b by auto
  qed
qed

text \<open>
  The finalizer of an Artifact under policy Delete goes only when the class is gone, or when the
  store no longer holds an object at its key that is unstamped or its own.
\<close>

theorem finalizer_released:
  assumes "lib_ok (rLib R)" "deleting R (obj s)" "owns_object (obj s)"
    and drv: "\<And>c d. clGetClass (rClient R) (world s) (ClassRef (Spec (obj s))) = Inr c \<Longrightarrow>
      DriverFor (rRegistry R) (world s) c = Inr d \<Longrightarrow> store_driver (Observe d) (Delete d)"
    and rel: "ArtifactFinalizer \<notin> set (Finalizers (Meta (obj (snd (reconcileBody R s)))))"
  shows "clGetClass (rClient R) (world s) (ClassRef (Spec (obj s))) = Inl NotFound
   \<or> (\<exists>c d. clGetClass (rClient R) (world s) (ClassRef (Spec (obj s))) = Inr c
        \<and> DriverFor (rRegistry R) (world s) c = Inr d
        \<and> (\<forall>obs. Observe d (world (snd (reconcileBody R s))) (Key (stat s)) = Inr obs \<longrightarrow> Exists obs \<longrightarrow>
             \<not> deletable c (SpecHash (stat s)) obs))"
  using assms by (rule finalizer_release)

text \<open>
  C20: A store that refuses the deletion keeps the finalizer in place: the error is returned for the
  retry, and the state and conditions say that deletion is blocked.
\<close>

theorem refused_delete_kept:
  assumes "lib_ok (rLib R)" "deleting R (obj s)" "owns_object (obj s)"
    and "clGetClass (rClient R) (world s) (ClassRef (Spec (obj s))) = Inr c"
    and "DriverFor (rRegistry R) (world s) c = Inr d"
    and "Observe d (world s) (Key (stat s)) = Inr obs" "Exists obs" "deletable c (SpecHash (stat s)) obs"
    and "Delete d (world s) (Key (stat s)) = (Some e, w)"
  shows "let r = reconcileBody R s; st = stat (snd r) in
    fst r = fail e \<and> world (snd r) = w \<and> Finalizers (Meta (obj (snd r))) = Finalizers (Meta (obj s))
  \<and> State st = StateDeleting \<and> cond_is st DeletingCondition CondFalse ReasonStoreDeleteFailed
  \<and> cond_is st ReadyCondition CondFalse ReasonStoreDeleteFailed"
proof -
  have C: "conditions_ok (rLib R)" using assms(1) by (rule lib_okD)
  show ?thesis
    using assms(2-9) by (simp add: reconcileBody_def reconcileDelete_def deleteFromStore_def deleting_def
        owns_object_def Let_def cond_defs conditions_ok_simps [OF C])
qed

text \<open>
  Under policy Orphan, without a key, or for a sensor, the finalizer goes at once and nothing
  outside is touched.
\<close>

theorem orphan_policy_releases:
  assumes "lib_ok (rLib R)" "deleting R (obj s)" "\<not> owns_object (obj s)"
  shows "let r = reconcileBody R s in
    fst r = after 0 \<and> world (snd r) = world s \<and> ArtifactFinalizer \<notin> set (Finalizers (Meta (obj (snd r))))
  \<and> Status (obj (snd r)) = Status (obj s)"
proof -
  have F: "finalizers_ok (rLib R)" using assms(1) by (rule lib_okD)
  show ?thesis
    using assms(2,3) F by (auto simp: reconcileBody_def reconcileDelete_def removeFinalizer_def deleting_def
        owns_object_def finalizers_ok_def)
qed

section \<open>Suspension, retries and policy flips\<close>

text \<open>
  A suspended Artifact is inert: nothing outside changes, no wake-up is asked for, and the
  counters, the run and the retry token are kept.
\<close>

theorem suspended_is_inert:
  assumes "lib_ok (rLib R)" "DeletionTimestamp (Meta (obj s)) = None"
    and "ContainsFinalizer (rLib R) (Finalizers (Meta (obj s))) ArtifactFinalizer" "Suspend (Spec (obj s))"
  shows "let r = reconcileBody R s; st = stat (snd r) in
    fst r = after 0 \<and> world (snd r) = world s \<and> State st = StateSuspended
  \<and> cond_is st ReadyCondition CondFalse ReasonSuspended
  \<and> (FailedAttempts st, Attempts st, GeneratorRef st, RetryToken st) =
    (FailedAttempts (stat s), Attempts (stat s), GeneratorRef (stat s), RetryToken (stat s))"
proof -
  have C: "conditions_ok (rLib R)" using assms(1) by (rule lib_okD)
  show ?thesis
    using assms(2-4) by (simp add: reconcileBody_def reconcile_def suspendPass_def startPass_def Let_def cond_defs
        conditions_ok_simps [OF C])
qed


text \<open>
  C40: A sensor whose run cannot be cancelled does not forget the run: the pass ends in an error with
  the reference still recorded.
\<close>

theorem failed_cancellation_retried:
  assumes "DeletionTimestamp (Meta (obj s)) = None"
    and "ContainsFinalizer (rLib R) (Finalizers (Meta (obj s))) ArtifactFinalizer" "\<not> Suspend (Spec (obj s))"
    and "ObserveOnly (obj s)" "GeneratorRef (stat s) = Some ref"
    and "clDeleteRun (rClient R) (world s) ref = (Some e, w)" "e \<noteq> NotFound"
  shows "let r = reconcileBody R s in
    snd (fst r) \<noteq> None \<and> GeneratorRef (stat (snd r)) = Some ref \<and> world (snd r) = w"
proof -
  have o: "ObserveOnly (obj (honorRetry R (startPass s)))" using assms(4) by (simp add: ObserveOnly_def)
  show ?thesis
    using assms o by (cases e) (simp_all add: reconcileBody_def reconcile_def deleteAbandonedRun_def fail_def Let_def
        honorRetry_status startPass_status)
qed

end
