(* ===== verification/Liveness.thy ===== *)
theory Liveness
  imports Deletion
begin

text \<open>
  Every pass over a live Artifact arranges for the next one. The bounds of \<open>timing_ok\<close> keep the
  \<open>int64\<close> arithmetic of durations from wrapping; they are far above anything the API admits in
  practice (\<open>2\<^sup>5\<^sup>8\<close> nanoseconds are nine years). The first section holds two behaviours that the
  modelling brought to light.
\<close>

section \<open>Known gaps\<close>

lemma pass_finds_output:
  assumes "at_store R s c key driver obs" "Exists obs"
    and "deletable c (Canonical (Identity (Spec (obj s)))) obs" "GeneratorRef (stat s) \<noteq> None"
  shows "reconcileBody R s = markAvailable R key (obsDigest obs) (isTrue R (keyedState R key s) ReadyCondition)
    (if obsDigest obs \<noteq> [] \<and> obsDigest obs \<noteq> Digest (stat s)
     then condDelete R ArtifactDriftedCondition (keyedState R key s) else keyedState R key s)"
  using assms(2-4)
  by (auto simp: pass_at_store [OF assms(1)] reconcileExisting_def deletable_def drifted_def
      generatedSinceLastVerify_def Let_def)


text \<open>
  When a lost creation is recovered while Ready was still on, Ready stays on although the artifact
  is reported missing.
\<close>

theorem recovery_keeps_stale_ready:
  assumes "lib_ok (rLib R)" "at_store R s c key driver obs" "\<not> Exists obs" "\<not> ObserveOnly (obj s)"
    and "Generator (classSpec c) = Some g" "GeneratorRef (stat s) = None" "budget_left R (obj s) c"
    and "creation R (obj s) c g key (world s) run (Inl AlreadyExists, w)"
    and "clGetRun (rClient R) w \<lparr>refAPIVersion = ToAPIVersion (rLib R) (GroupVersionKind (rLib R) run),
        refKind = gvKind (GroupVersionKind (rLib R) run),
        refName = runName (obj s) (Canonical (Identity (Spec (obj s)))) (wrap32 (Attempts (stat s) + 1)),
        refNamespace = Namespace (Meta (obj s))\<rparr> = Inr existing"
    and "IsControlledBy (rLib R) existing (obj s)" "readyTrue (stat s)"
  shows "let st = stat (snd (reconcileBody R s)) in
    readyTrue st \<and> cond_is st ArtifactInStoreCondition CondFalse ReasonArtifactMissing"
proof -
  let ?s = "markMissing R (passInput (obj s) c key) (keyedState R key s)"
  let ?e = "snd (ensureGeneratorWatch R (GroupVersionKind (rLib R) run) ?s)"
  have C: "conditions_ok (rLib R)" using assms(1) by (rule lib_okD)
  have cr: "creation R (obj s) c g key (world ?s) run (Inl AlreadyExists, w)" using assms(8) by simp
  have ic: "IsControlledBy (rLib R) existing (obj ?e)"
    using IsControlledBy_UID [OF lib_okD(3) [OF assms(1)], of "obj ?e" "obj s"] assms(10)
    by (simp add: ensureGeneratorWatch_frame)
  have b: "reconcileBody R s = createRun R g (passInput (obj s) c key) ?s" by (rule pass_creates [OF assms(2-7)])
  have "\<not> nr ?s" using assms(11) C
    by (simp add: markMissing_def keyedState_def honorRetry_def startPass_def Let_def) (simp add: nr_def)
  then have "readyTrue (stat ?s)" by (simp add: nr_def)
  moreover have "cond_is (stat ?s) ArtifactInStoreCondition CondFalse ReasonArtifactMissing"
    by (simp add: cond_defs conditions_ok_simps [OF C])
  ultimately show ?thesis
    using ic assms(9) createRun_answer [OF cr] unfolding b Let_def
    by (simp add: ensureGeneratorWatch_frame readyTrue_def cond_defs)
qed

section \<open>Waking up\<close>

definition wakes :: "ret \<times> ('w, 'p) rst \<Rightarrow> bool" where
  "wakes r \<longleftrightarrow> snd (fst r) \<noteq> None \<or> 0 < fst (fst r)"

lemma wakes_simps [simp]: "wakes (after d, s) \<longleftrightarrow> 0 < d" "wakes (fail e, s)"
  by (simp_all add: wakes_def after_def fail_def)

lemma jitter_pos:
  assumes "0 \<le> rRand R" "rRand R \<le> 1" "10 \<le> d" "d \<le> 2 ^ 62"
  shows "0 < jitter R d"
proof -
  have "(0::rat) < (9 / 10 - 1 / 2 ^ 50) * of_int d - 1"
  proof -
    have "(1::rat) < (9 / 10 - 1 / 2 ^ 50) * 10" by simp
    also have "\<dots> \<le> (9 / 10 - 1 / 2 ^ 50) * of_int d" using assms(3) by (intro mult_left_mono) simp_all
    finally show ?thesis by simp
  qed
  also have "\<dots> < of_int (jittered (rOob R) (rRand R) d)" using assms by (intro jittered_bounds) simp_all
  finally show ?thesis by (simp add: jitter_def)
qed

definition timing_ok :: "('w, 'p) Reconciler \<Rightarrow> Artifact \<Rightarrow> ArtifactClass \<Rightarrow> bool" where
  "timing_ok R a c \<longleftrightarrow>
     0 \<le> rRand R \<and> rRand R \<le> 1 \<and> 10 \<le> GetInterval a \<and> GetInterval a \<le> 2 ^ 58
   \<and> (case EffectiveBackoff c of (_, initialDelay, maxDelay) \<Rightarrow> initialDelay < 2 ^ 62 \<and> maxDelay \<le> 2 ^ 62)
   \<and> GracePeriod c \<le> 2 ^ 62 \<and> (case TTL (Spec a) of None \<Rightarrow> True | Some t \<Rightarrow> t \<le> 2 ^ 62)
   \<and> CreationTimestamp (Meta a) \<le> rNow R
   \<and> (case GeneratorSucceededAt (Status a) of None \<Rightarrow> True | Some t \<Rightarrow> t \<le> rNow R)
   \<and> (case LastFailureTime (Status a) of None \<Rightarrow> True | Some t \<Rightarrow> t \<le> rNow R)"

lemma timing_okD:
  assumes "timing_ok R a c"
  shows "10 \<le> d \<Longrightarrow> d \<le> 2 ^ 62 \<Longrightarrow> 0 < jitter R d"
    "Spec b = Spec a \<Longrightarrow> 0 < jitter R (GetInterval b)"
    "Spec b = Spec a \<Longrightarrow> 0 < jitter R (wrap64 (10 * GetInterval b))"
    "EffectiveBackoff c = (m, ini, cap) \<Longrightarrow> 0 < backoffDelay n ini cap \<and> backoffDelay n ini cap \<le> 2 ^ 62"
proof -
  have r: "0 \<le> rRand R" "rRand R \<le> 1" and i: "10 \<le> GetInterval a" "GetInterval a \<le> 2 ^ 58"
    using assms by (simp_all add: timing_ok_def)
  show "10 \<le> d \<Longrightarrow> d \<le> 2 ^ 62 \<Longrightarrow> 0 < jitter R d" using jitter_pos [OF r] .
  show "0 < jitter R (GetInterval b)" if "Spec b = Spec a"
    using jitter_pos [OF r, of "GetInterval b"] i GetInterval_frame [OF that] by simp
  show "0 < jitter R (wrap64 (10 * GetInterval b))" if "Spec b = Spec a"
    using jitter_pos [OF r, of "10 * GetInterval b"] i GetInterval_frame [OF that] by (simp add: wrap64_id)
  show "0 < backoffDelay n ini cap \<and> backoffDelay n ini cap \<le> 2 ^ 62" if "EffectiveBackoff c = (m, ini, cap)"
  proof -
    have "0 < ini" "0 < cap" using EffectiveBackoff_pos [OF that] by simp_all
    moreover have "ini < 2 ^ 62" "cap \<le> 2 ^ 62" using assms that by (simp_all add: timing_ok_def)
    ultimately show ?thesis by (simp add: backoffDelay_closed min_def)
  qed
qed

lemma recordAttemptFailure_wakes:
  assumes "timing_ok R a c" "Spec (obj s) = Spec a" "EffectiveBackoff c = b"
  shows "wakes (recordAttemptFailure R r m b s)"
  using assms(2,3) timing_okD(3,4) [OF assms(1)]
  by (auto simp: recordAttemptFailure_def Let_def split: prod.split)

lemma awaitArtifact_wakes:
  assumes t: "timing_ok R a c" and sp: "Spec (obj s) = Spec a" and b: "EffectiveBackoff c = b"
    and at: "GeneratorSucceededAt (stat s) = None \<or> GeneratorSucceededAt (stat s) = GeneratorSucceededAt (Status a)"
  shows "wakes (awaitArtifact R c run b s)"
proof -
  let ?s = "markSucceeded R run s"
  have sp': "Spec (obj ?s) = Spec a" using sp by (simp add: markSucceeded_def Let_def)
  obtain u where u: "GeneratorSucceededAt (stat ?s) = Some u" "u \<le> rNow R"
    using at t by (auto simp: markSucceeded_def timing_ok_def Let_def split: option.splits)
  have g: "0 < GracePeriod c" "GracePeriod c \<le> 2 ^ 62" using t GracePeriod_pos by (auto simp: timing_ok_def)
  have e: "0 \<le> time_Sub (rNow R) u" "time_Sub (rNow R) u < 2 ^ 63" using u(2) by (auto simp: time_Sub_def)
  have "wrap64 (GracePeriod c - time_Sub (rNow R) u) = GracePeriod c - time_Sub (rNow R) u"
    using g e by (intro wrap64_id) auto
  moreover have "wrap64 (x + second) = x + second" if "0 < x" "x < 10 * second" for x
    using that by (intro wrap64_id) auto
  ultimately show ?thesis
    using recordAttemptFailure_wakes [OF t sp' b] u(1) unfolding awaitArtifact_def Let_def by simp
qed

lemma evaluateRun_wakes:
  assumes t: "timing_ok R a c" and sp: "Spec (obj s) = Spec a" and b: "EffectiveBackoff c = b"
    and at: "GeneratorSucceededAt (stat s) = None \<or> GeneratorSucceededAt (stat s) = GeneratorSucceededAt (Status a)"
  shows "wakes (evaluateRun R c g run b s)"
  using sp at timing_okD(1) [OF t, of "30 * second"]
  by (simp add: evaluateRun_def Let_def case_prod_beta recordAttemptFailure_wakes [OF t _ b]
      awaitArtifact_wakes [OF t _ b])

definition template_error :: "ArtifactStatus \<Rightarrow> bool" where
  "template_error st \<longleftrightarrow> cond_is st StalledCondition CondTrue ReasonTemplateError"

lemma createRun_wakes:
  assumes t: "timing_ok R a c" and C: "conditions_ok (rLib R)"
  shows "wakes (createRun R g i s) \<or> template_error (stat (snd (createRun R g i s)))"
  using timing_okD(1) [OF t, of minute] timing_okD(1) [OF t, of "30 * second"]
  by (simp add: createRun_def Let_def template_error_def cond_defs conditions_ok_simps [OF C]
      split: sum.split prod.split apierr.split)

lemma noGenerator_wakes:
  assumes t: "timing_ok R a c" and sp: "Spec (obj s) = Spec a"
  shows "wakes (noGenerator R c i s)"
proof (cases "GeneratorRef (stat s)")
  case None
  then show ?thesis using timing_okD(2) [OF t] sp by (simp add: noGenerator_def Let_def)
next
  case (Some ref)
  let ?d = "deleteAbandonedRun R ref (AMsg ''class %q no longer defines a generator'' [AStr (className c)]) s"
  obtain e s' where d: "?d = (e, s')" by (cases ?d)
  have "obj s' = obj s" using deleteAbandonedRun_frame(1) [of R ref _ s] d by (metis snd_conv)
  then show ?thesis using Some d sp timing_okD(2) [OF t] by (cases e) (simp_all add: noGenerator_def Let_def)
qed

lemma reconcileMissing_wakes:
  assumes t: "timing_ok R a c" and C: "conditions_ok (rLib R)" and f: "agrees a s"
    and at: "\<not> ObserveOnly a \<Longrightarrow> GeneratorSucceededAt (stat s) = GeneratorSucceededAt (Status a)" and o: "\<not> ObserveOnly a"
  shows "wakes (reconcileMissing R c i s) \<or> template_error (stat (snd (reconcileMissing R c i s)))"
proof -
  let ?s = "markMissing R i s"
  have sp: "Spec (obj ?s) = Spec a" using f by (simp add: agrees_def)
  obtain m ini cap where b: "EffectiveBackoff c = (m, ini, cap)" by (cases "EffectiveBackoff c")
  have d: "0 < backoffDelay n ini cap" "backoffDelay n ini cap \<le> 2 ^ 62" for n
    using timing_okD(4) [OF t b] by blast+
  have "wakes (budgetExhausted R m ?s)"
    using timing_okD(3) [OF t] sp by (simp add: budgetExhausted_def Let_def)
  moreover have "wakes (inFlight R c g ref (m, ini, cap) ?s)" for g ref
    using evaluateRun_wakes [OF t sp b] at o by (auto simp: inFlight_def split: sum.split apierr.split)
  moreover have "wakes (backoffPending R (lf + backoffDelay n ini cap) ?s)"
    if "lastFailure a = Some lf" "rNow R < lf + backoffDelay n ini cap" for lf n
  proof -
    have "lf \<le> rNow R" using that(1) t by (auto simp: lastFailure_def timing_ok_def split: if_splits)
    then have "time_Sub (lf + backoffDelay n ini cap) (rNow R) = lf + backoffDelay n ini cap - rNow R"
      "wrap64 (lf + backoffDelay n ini cap - rNow R + second) = lf + backoffDelay n ini cap - rNow R + second"
      using that(2) d(2) [of n] by (auto simp: time_Sub_def intro!: wrap64_id)
    then show ?thesis using that(2) by (simp add: backoffPending_def Let_def)
  qed
  ultimately show ?thesis
    using noGenerator_wakes [OF t sp] createRun_wakes [OF t C] f b
    by (auto simp: reconcileMissing_def agrees_def Let_def split: option.split)
qed

lemma reconcileExisting_wakes:
  assumes t: "timing_ok R a c" and C: "conditions_ok (rLib R)" and f: "fresh a s"
  shows "wakes (reconcileExisting R c obs i s) \<or> template_error (stat (snd (reconcileExisting R c obs i s)))"
proof -
  let ?s = "setStatus (\<lambda>st. st\<lparr>Digest := []\<rparr>) (recordDrift R c (inKey i) (Digest (stat s)) (obsDigest obs) s)"
  have sp: "Spec (obj s) = Spec a" using f by (simp add: fresh_def agrees_def)
  have ag: "agrees a ?s" using f by (simp add: fresh_def agrees_recordDrift)
  obtain cs where cs: "stat (recordDrift R c (inKey i) (Digest (stat s)) (obsDigest obs) s) = (stat s)\<lparr>Conditions := cs\<rparr>"
    using recordDrift_status by blast
  have "GeneratorSucceededAt (stat ?s) = GeneratorSucceededAt (Status a)" if "\<not> ObserveOnly a"
    using f that cs by (simp add: fresh_def)
  note m = reconcileMissing_wakes [OF t C ag this]
  have oo: "ObserveOnly (obj (recordDrift R c (inKey i) (Digest (stat s)) (obsDigest obs) s)) = ObserveOnly a"
    using sp by (simp add: ObserveOnly_def)
  have k: "wakes (keyConflict R k h st s)" "Spec (obj x) = Spec a \<Longrightarrow> wakes (markAvailable R k d b x)" for k h st d b x
    using timing_okD(2) [OF t] sp by (simp_all add: keyConflict_def markAvailable_def Let_def)
  show ?thesis using m oo k sp by (auto simp: reconcileExisting_def Let_def)
qed

text \<open>The reasons for which a pass asks for no wake-up.\<close>

definition may_sleep :: "('w, 'p) Reconciler \<Rightarrow> Artifact \<Rightarrow> ArtifactStatus \<Rightarrow> bool" where
  "may_sleep R a st \<longleftrightarrow> template_error st \<or> State st = StateExpired \<or> age_reached R a (TTL (Spec a))
     \<or> State st = StateSuspended"

lemma reconcileKeyed_wakes:
  assumes t: "timing_ok R a c" and C: "conditions_ok (rLib R)" and f: "fresh a s"
  shows "wakes (reconcileKeyed R c i s) \<or> may_sleep R a (stat (snd (reconcileKeyed R c i s)))"
proof -
  let ?s = "setStatus (\<lambda>st. st\<lparr>SpecHash := inSpecHash i, Key := inKey i\<rparr>) s"
  have f1: "fresh a ?s" using f by (simp add: fresh_def agrees_def)
  have ms: "Meta (obj s) = Meta a" "Spec (obj s) = Spec a" using f by (simp_all add: fresh_def agrees_def)
  have oo: "ObserveOnly (obj ?s) = ObserveOnly a" using ms by (simp add: ObserveOnly_def)
  have e: "wakes (reconcileExpired R c d k h ?s) \<or> State (stat (snd (reconcileExpired R c d k h ?s))) = StateExpired" for d k h
    using timing_okD(1) [OF t, of minute]
    by (simp add: reconcileExpired_def parkExpired_def Let_def split: sum.split prod.split option.split)
  have o: "wakes (reconcileMissingObserved R i ?s)"
    using timing_okD(2) [OF t] ms by (simp add: reconcileMissingObserved_def Let_def)
  have m: "wakes (reconcileMissing R c i ?s) \<or> template_error (stat (snd (reconcileMissing R c i ?s)))" if "\<not> ObserveOnly a"
    using reconcileMissing_wakes [OF t C, of ?s i] f1 that by (simp add: fresh_def)
  show ?thesis
  proof (cases "age_reached R a (TTL (Spec a))")
    case True
    then show ?thesis by (simp add: may_sleep_def)
  next
    case False
    then have nt: "\<not> reached (TTL (Spec (obj ?s))) (time_Sub (rNow R) (CreationTimestamp (Meta (obj ?s))))"
      using ms by (simp add: age_reached_def)
    show ?thesis
      using nt e o m oo reconcileExisting_wakes [OF t C f1] timing_okD(1) [OF t, of "30 * second"]
      unfolding reconcileKeyed_def Let_def may_sleep_def
      by (simp split: sum.split) blast
  qed
qed

lemma reconcileClass_wakes:
  assumes C: "conditions_ok (rLib R)" and f: "fresh a s"
    and t: "\<And>c. clGetClass (rClient R) (world s) (ClassRef (Spec a)) = Inr c \<Longrightarrow> timing_ok R a c"
  shows "wakes (reconcileClass R s) \<or> may_sleep R a (stat (snd (reconcileClass R s)))"
proof (cases "clGetClass (rClient R) (world s) (ClassRef (Spec a))")
  case (Inl e)
  then show ?thesis using f by (cases e) (simp_all add: reconcileClass_def fresh_def agrees_def)
next
  case (Inr c)
  show ?thesis
    using Inr f reconcileKeyed_wakes [OF t [OF Inr] C f]
    by (simp add: reconcileClass_def Let_def fresh_def agrees_def may_sleep_def template_error_def cond_defs
        conditions_ok_simps [OF C] split: sum.split)
qed

text \<open>
  C7: No live Artifact is forgotten: with durations in range, every pass ends in an error (retried by
  the work queue) or asks for a wake-up at a positive delay, unless it is suspended, expired, past
  its ttl, or stalled on a template error, which end by a watch event.
\<close>

theorem never_forgotten:
  assumes L: "lib_ok (rLib R)" and live: "DeletionTimestamp (Meta (obj s)) = None"
    and t: "\<And>w c. w = world s \<or> (\<exists>ref. GeneratorRef (stat s) = Some ref \<and> w = snd (clDeleteRun (rClient R) (world s) ref)) \<Longrightarrow>
        clGetClass (rClient R) w (ClassRef (Spec (obj s))) = Inr c \<Longrightarrow> timing_ok R (obj s) c"
  shows "wakes (reconcileBody R s) \<or> may_sleep R (obj s) (stat (snd (reconcileBody R s)))"
proof -
  let ?s = "honorRetry R (startPass s)"
  have C: "conditions_ok (rLib R)" using L by (rule lib_okD)
  have o: "ObserveOnly (obj ?s) = ObserveOnly (obj s)" by (simp add: ObserveOnly_def)
  have "wakes (reconcile R s) \<or> may_sleep R (obj s) (stat (snd (reconcile R s)))" if ns: "\<not> Suspend (Spec (obj s))"
  proof (cases "ObserveOnly (obj s) \<and> GeneratorRef (stat s) \<noteq> None")
    case False
    then have "reconcile R s = reconcileClass R ?s"
      using ns o by (auto simp: reconcile_def honorRetry_status startPass_status Let_def)
    moreover have "fresh (obj s) ?s" using False by (intro fresh_start) blast
    ultimately show ?thesis using reconcileClass_wakes [OF C, of "obj s" ?s] t [of "world s"] by simp
  next
    case True
    then obtain ref where ref: "GeneratorRef (stat s) = Some ref" by blast
    obtain e s2 where d: "deleteAbandonedRun R ref (AStr ''managementPolicy is Observe'') ?s = (e, s2)" by fastforce
    have s2: "obj s2 = obj ?s" "world s2 = snd (clDeleteRun (rClient R) (world s) ref)"
      using deleteAbandonedRun_frame [of R ref _ ?s] d by (metis snd_conv startPass_frame(1) honorRetry_frame(1))+
    have b: "reconcile R s = (case e of Some x \<Rightarrow> (fail x, s2) | None \<Rightarrow> reconcileClass R (forgetRun R s2))"
      using ns o True ref d by (simp add: reconcile_def honorRetry_status startPass_status Let_def split: option.split)
    have "fresh (obj s) (forgetRun R s2)" using True s2 by (intro fresh_cancelled) simp_all
    then show ?thesis
      using reconcileClass_wakes [OF C, of "obj s" "forgetRun R s2"] t [of "world s2"] ref s2 b by (cases e) simp_all
  qed
  moreover have "may_sleep R (obj s) (stat (snd (reconcile R s)))" if "Suspend (Spec (obj s))"
    using that by (simp add: reconcile_def suspendPass_def Let_def may_sleep_def)
  ultimately show ?thesis using live by (auto simp: reconcileBody_def)
qed

end
