(* ===== verification/Examples.thy ===== *)
theory Examples
  imports Liveness
begin

text \<open>
  The handlers at work on the concrete cluster: each theorem about a pass is applied here to a
  class, an Artifact and a world in which its hypotheses hold.
\<close>

section \<open>Verdicts on the cluster\<close>

definition demoRef :: GeneratorReference where
  "demoRef = \<lparr>refAPIVersion = ''batch/v1'', refKind = ''Job'', refName = ''client-r1'', refNamespace = ''team''\<rparr>"

definition demoRun :: "string \<Rightarrow> unstructured" where
  "demoRun phase = [(''apiVersion'', JStr ''batch/v1''), (''kind'', JStr ''Job''),
     (''status'', JObj [(''phase'', JStr phase)])]"

definition withStatus :: "ArtifactStatus \<Rightarrow> Artifact" where
  "withStatus st = demoArtifact\<lparr>Status := st\<rparr>"

definition runCluster :: "string \<Rightarrow> cluster" where
  "runCluster phase = demoCluster\<lparr>runs := [(demoRef, demoRun phase)]\<rparr>"

lemma absent_at_store:
  assumes "classes w = [(''builds'', demoClass)]" "fstore w = fake_New"
  shows "at_store (clusterR now) (startAt (withStatus st) w) demoClass ''artifacts/client'' clusterDriver absent"
  by (rule demo_at_store) (use assms in \<open>simp_all add: withStatus_def fake_Observe_def fake_New_def\<close>)

lemma demo_frame:
  "Spec (withStatus st) = Spec demoArtifact" "Meta (withStatus st) = Meta demoArtifact" "Status (withStatus st) = st"
  by (simp_all add: withStatus_def)

lemma demo_not_observed: "\<not> ObserveOnly (withStatus st)"
  by (simp add: ObserveOnly_def demo_frame demoArtifact_def ManagementPolicyFull_def ManagementPolicyObserve_def)

lemma demo_no_retry: "\<not> retry_due (withStatus st)"
  by (simp add: retry_due_def demo_frame demoArtifact_def)

lemma demo_backoff: "EffectiveBackoff demoClass = (2, 30 * second, 5 * minute)"
  by (simp add: EffectiveBackoff_def demoClass_def)

lemma startAt_simps [simp]:
  "obj (startAt a w) = a" "world (startAt a w) = w" "evaluator (startAt a w) = NewEvaluator"
  by (simp_all add: startAt_def)

lemma demoCluster_simps [simp]:
  "classes demoCluster = [(''builds'', demoClass)]" "fstore demoCluster = fake_New"
  "classes (runCluster p) = [(''builds'', demoClass)]" "fstore (runCluster p) = fake_New"
  by (simp_all add: demoCluster_def runCluster_def)

theorem available_reported_witness:
  "let r = reconcileBody (clusterR minute) (startAt demoArtifact storedCluster); st = stat (snd r) in
    fst r = after (jitter (clusterR minute) (GetInterval demoArtifact))
    \<and> world (snd r) = storedCluster
    \<and> verified (clusterR minute) demoArtifact storedCluster st
    \<and> cond_is st ReadyCondition CondTrue ReasonArtifactAvailable
    \<and> no_cond st ReconcilingCondition \<and> no_cond st StalledCondition"
  using available_reported [OF clusterR_lib_ok stored_at_store, of minute]
  by (simp add: deletable_def drifted_def demoArtifact_def emptyStatus_def Let_def)

lemma elsewhere_at_store:
  "at_store (clusterR now) (startAt demoArtifact ownedElsewhere) demoClass ''artifacts/client'' clusterDriver
     \<lparr>Exists = True, obsDigest = ''d1'', Metadata = [(DefaultStampMetadataKey, ''sha256:other'')]\<rparr>"
  by (rule demo_at_store) (simp_all add: ownedElsewhere_def putStore_def demoCluster_def fake_Observe_Put)

theorem key_conflict_reported_witness:
  "let r = reconcileBody (clusterR minute) (startAt demoArtifact ownedElsewhere); st = stat (snd r) in
    fst r = after (jitter (clusterR minute) (GetInterval demoArtifact))
    \<and> world (snd r) = ownedElsewhere \<and> State st = StateKeyConflict
    \<and> cond_is st ReadyCondition CondFalse ReasonKeyConflict
    \<and> cond_is st ArtifactInStoreCondition CondFalse ReasonKeyConflict
    \<and> no_cond st ReconcilingCondition"
  using key_conflict_reported [OF clusterR_lib_ok elsewhere_at_store, of minute]
    Canonical_length_ne [of "''sha256:other''"]
  by (simp add: deletable_def demoClass_stamp mget_def)

lemma demo_failures:
  "failures (withStatus st) = FailedAttempts st" "lastFailure (withStatus st) = LastFailureTime st"
  by (simp_all add: failures_def lastFailure_def demo_no_retry demo_frame)

lemma demo_generator: "Generator (classSpec demoClass) \<noteq> None"
  by (simp add: demoClass_def)

lemma clusterR_now: "rNow (clusterR now) = now"
  by (simp add: clusterR_def)

definition failedOnce :: ArtifactStatus where
  "failedOnce = emptyStatus\<lparr>Attempts := 1, FailedAttempts := 1, LastFailureTime := Some 0\<rparr>"

lemma failedOnce_simps:
  "FailedAttempts failedOnce = 1" "LastFailureTime failedOnce = Some 0" "GeneratorRef failedOnce = None"
  by (simp_all add: failedOnce_def emptyStatus_def)

theorem budget_exhausted_degrades_witness:
  "State (stat (snd (reconcileBody (clusterR minute)
      (startAt (withStatus (emptyStatus\<lparr>FailedAttempts := 2\<rparr>)) demoCluster)))) = StateDegraded"
  using budget_exhausted_degrades [OF clusterR_lib_ok absent_at_store _ _ demo_generator demo_backoff,
      of demoCluster "emptyStatus\<lparr>FailedAttempts := 2\<rparr>" minute]
  by (simp add: absent_def demo_not_observed demo_failures emptyStatus_def Let_def)

theorem backoff_waits_witness:
  "fst (reconcileBody (clusterR (5 * second)) (startAt (withStatus failedOnce) demoCluster)) = after (26 * second)"
proof -
  have d: "backoffDelay 1 30000000000 300000000000 = 30000000000" by (simp add: backoffDelay_closed)
  show ?thesis
    using backoff_waits [OF clusterR_lib_ok absent_at_store [where w = demoCluster and st = failedOnce
        and now = "5 * second"] _ _ demo_generator demo_backoff, where lf = 0]
    by (simp add: absent_def demo_not_observed demo_failures demo_frame failedOnce_simps d Let_def clusterR_now)
qed

definition inFlightStatus :: ArtifactStatus where
  "inFlightStatus = emptyStatus\<lparr>Attempts := 1, GeneratorRef := Some demoRef\<rparr>"

lemma inFlight_simps:
  "FailedAttempts inFlightStatus = 0" "GeneratorRef inFlightStatus = Some demoRef"
  "GeneratorSucceededAt inFlightStatus = None"
  by (simp_all add: inFlightStatus_def emptyStatus_def)

lemma demo_run: "clGetRun (rClient (clusterR now)) (runCluster p) demoRef = Inr (demoRun p)"
  by (simp add: clusterR_client clusterClient_def find_in_def runCluster_def)

lemma demo_holds: "holdsOn (clusterR now) x (demoRun p) \<longleftrightarrow> p = x"
  by (auto simp: holdsOn_def evalRef_def EvalBool_def program_def NewEvaluator_def clusterR_def phaseCel_def statusOf_def
      demoRun_def)

lemma demo_generator_spec:
  "Generator (classSpec demoClass) = Some \<lparr>Template = demoTemplate, SucceededWhen = ''succeeded'',
     FailedWhen = ''failed'', InProgressWhen = ''running'', gsProgressDeadline = Some (10 * minute)\<rparr>"
  by (simp add: demoClass_def)

theorem failed_run_recorded_witness:
  "failure_recorded (clusterR minute) demoClass ReasonGeneratorFailed 1
     (reconcileBody (clusterR minute) (startAt (withStatus inFlightStatus) (runCluster ''failed'')))
   \<and> world (snd (reconcileBody (clusterR minute) (startAt (withStatus inFlightStatus) (runCluster ''failed''))))
     = runCluster ''failed''"
  using failed_run_recorded [OF clusterR_lib_ok absent_at_store [where w = "runCluster ''failed''" and
      st = inFlightStatus and now = minute] _ _ demo_generator_spec demo_backoff]
  by (simp add: absent_def demo_not_observed demo_failures demo_frame inFlight_simps
      demo_run demo_holds cache_ok_New)

theorem succeeded_run_awaited_witness:
  "State (stat (snd (reconcileBody (clusterR minute)
      (startAt (withStatus inFlightStatus) (runCluster ''succeeded''))))) = StateAwaitingArtifact"
  using succeeded_run_awaited [OF clusterR_lib_ok absent_at_store [where w = "runCluster ''succeeded''" and
      st = inFlightStatus and now = minute] _ _ demo_generator_spec demo_backoff]
    GracePeriod_pos [of demoClass]
  by (simp add: absent_def demo_not_observed demo_failures demo_frame inFlight_simps
      demo_run demo_holds cache_ok_New Let_def time_Sub_def clusterR_now)
section \<open>Creation on the cluster\<close>

lemma demo_unmarshal:
  "UnmarshalObject demoTemplate = Some [(''apiVersion'', JStr ''batch/v1''), (''kind'', JStr ''Job''),
     (''spec'', JObj [(''key'', JStr ''{{ .Key }}'')])]"
  by code_simp

lemma demo_template: "demoTemplate \<noteq> []"
  by (simp add: demoTemplate_def)

lemma demo_scan_key: "scan ''{{ .Key }}'' = Some [Field [''Key'']]"
  by code_simp

definition renderedRun :: unstructured where
  "renderedRun = [(''apiVersion'', JStr ''batch/v1''), (''kind'', JStr ''Job''),
     (''spec'', JObj [(''key'', JStr ''artifacts/client'')])]"

lemma demo_render:
  "RenderTemplate (GetAPIVersion refLib) (GetKind refLib) ext demoTemplate
     ((passInput a c ''artifacts/client'')\<lparr>inAttempt := n\<rparr>) = Inr renderedRun"
  by (simp add: RenderTemplate_def demo_unmarshal renderString_def template_render_def demo_scan_key
      input_field_def scalar_def passInput_def map_res.simps refLib_def renderedRun_def jstr_def Let_def demo_template)

definition createdRun :: "int \<Rightarrow> unstructured" where
  "createdRun n = projr (ownedRun refLib demoArtifact (Canonical (Identity (Spec demoArtifact)))
     (runName demoArtifact (Canonical (Identity (Spec demoArtifact))) n) renderedRun)"

lemma demo_owned:
  "Meta b = Meta demoArtifact \<Longrightarrow> ownedRun refLib b (Canonical (Identity (Spec demoArtifact)))
     (runName demoArtifact (Canonical (Identity (Spec demoArtifact))) n) renderedRun = Inr (createdRun n)"
  by (simp add: createdRun_def ownedRun_def refLib_def Let_def)

lemma demo_creation:
  assumes "Attempts st = 0"
  shows "creation (clusterR now) (withStatus st) demoClass
    \<lparr>Template = demoTemplate, SucceededWhen = ''succeeded'', FailedWhen = ''failed'', InProgressWhen = ''running'',
     gsProgressDeadline = Some (10 * minute)\<rparr> ''artifacts/client'' w (createdRun 1) (clusterCreate w (createdRun 1))"
  using assms demo_owned demo_render
  by (simp add: creation_def clusterR_def clusterClient_def demo_frame wrap32_id runName_frame [of "withStatus st" demoArtifact])

lemma demo_budget: "FailedAttempts st = 0 \<Longrightarrow> budget_left (clusterR now) (withStatus st) demoClass"
  by (simp add: budget_left_def demo_failures demo_backoff split: option.split)

lemma empty_simps:
  "Attempts emptyStatus = 0" "FailedAttempts emptyStatus = 0" "GeneratorRef emptyStatus = None"
  by (simp_all add: emptyStatus_def)

definition storedRun :: unstructured where
  "storedRun = setMeta ''creationTimestamp'' (JInt 0) (createdRun 1)"

theorem run_started_witness:
  "Attempts (stat (snd (reconcileBody (clusterR minute) (startAt (withStatus emptyStatus) demoCluster)))) = 1
   \<and> GeneratorRef (stat (snd (reconcileBody (clusterR minute) (startAt (withStatus emptyStatus) demoCluster))))
     = Some (generatorRefFor refLib storedRun)"
proof -
  have "clusterCreate demoCluster (createdRun 1) =
      (Inr storedRun, demoCluster\<lparr>runs := [(generatorRefFor refLib (createdRun 1), storedRun)]\<rparr>)"
    by (simp add: clusterCreate_def demoCluster_def storedRun_def Let_def)
  then show ?thesis
    using run_started [OF clusterR_lib_ok absent_at_store [where w = demoCluster and st = emptyStatus and now = minute]
        _ _ demo_generator_spec, of "createdRun 1"] demo_creation [of emptyStatus minute demoCluster]
    by (simp add: absent_def demo_not_observed demo_frame empty_simps demo_budget Let_def wrap32_id clusterR_lib)
qed

text \<open>The run of an attempt whose status update was lost.\<close>

definition lostCluster :: cluster where
  "lostCluster = demoCluster\<lparr>runs := [(generatorRefFor refLib (createdRun 1), createdRun 1)]\<rparr>"

lemma createdRun_meta:
  "GetName refLib (createdRun n) = runName demoArtifact (Canonical (Identity (Spec demoArtifact))) n"
  "GetNamespace refLib (createdRun n) = ''team''" "IsControlledBy refLib (createdRun n) demoArtifact"
  using ownedRun_ok [OF lib_okD(3) [OF refLib_ok] demo_owned [of demoArtifact n]] by (simp_all add: demoArtifact_def)

lemma createdRun_type: "GetAPIVersion refLib (createdRun n) = ''batch/v1''" "GetKind refLib (createdRun n) = ''Job''"
  by (simp_all add: createdRun_def ownedRun_def refLib_def renderedRun_def Let_def map_of_setMeta jstr_def)

lemma lost_creation: "clusterCreate lostCluster (createdRun 1) = (Inl AlreadyExists, lostCluster)"
  by (simp add: clusterCreate_def lostCluster_def Let_def)

lemma lost_lookup:
  "clGetRun (rClient (clusterR now)) lostCluster
     \<lparr>refAPIVersion = ToAPIVersion (rLib (clusterR now)) (GroupVersionKind (rLib (clusterR now)) (createdRun 1)),
      refKind = gvKind (GroupVersionKind (rLib (clusterR now)) (createdRun 1)),
      refName = runName (withStatus st) (Canonical (Identity (Spec (withStatus st)))) 1,
      refNamespace = Namespace (Meta (withStatus st))\<rparr> = Inr (createdRun 1)"
proof -
  have "generatorRefFor refLib (createdRun 1) = \<lparr>refAPIVersion = ''batch/v1'', refKind = ''Job'',
      refName = runName demoArtifact (Canonical (Identity (Spec demoArtifact))) 1, refNamespace = ''team''\<rparr>"
    by (simp add: generatorRefFor_def createdRun_meta createdRun_type)
  moreover have "ToAPIVersion refLib (GroupVersionKind refLib (createdRun 1)) = GetAPIVersion refLib (createdRun 1)"
    "gvKind (GroupVersionKind refLib (createdRun 1)) = GetKind refLib (createdRun 1)"
    by (simp_all add: refLib_def)
  ultimately show ?thesis
    by (simp add: clusterR_client clusterR_lib clusterClient_def find_in_def lostCluster_def createdRun_type demo_frame
        runName_frame [of "withStatus st" demoArtifact]) (simp add: demoArtifact_def)
qed

lemma lost_controlled: "IsControlledBy (rLib (clusterR now)) (createdRun 1) (withStatus st)"
  using createdRun_meta(3) [of 1] IsControlledBy_UID [OF lib_okD(3) [OF refLib_ok], of "withStatus st" demoArtifact]
  by (simp add: clusterR_lib demo_frame)

lemma lostCluster_simps: "classes lostCluster = [(''builds'', demoClass)]" "fstore lostCluster = fake_New"
  by (simp_all add: lostCluster_def)

theorem lost_run_recovered_witness:
  "GeneratorRef (stat (snd (reconcileBody (clusterR minute) (startAt (withStatus emptyStatus) lostCluster))))
     = Some (generatorRefFor refLib (createdRun 1))"
  using lost_run_recovered [OF clusterR_lib_ok absent_at_store [where w = lostCluster and st = emptyStatus and now = minute]
      _ _ demo_generator_spec, of "createdRun 1" lostCluster "createdRun 1"]
    demo_creation [of emptyStatus minute lostCluster] lost_creation lost_lookup [of minute emptyStatus] lost_controlled
  by (simp add: absent_def demo_not_observed demo_frame empty_simps demo_budget Let_def wrap32_id clusterR_lib lostCluster_simps)

definition staleReady :: ArtifactStatus where
  "staleReady = emptyStatus\<lparr>Conditions := setCond CondTrue [] ReadyCondition ReasonArtifactAvailable (Msg [] [])\<rparr>"

theorem recovery_keeps_stale_ready_witness:
  "readyTrue (stat (snd (reconcileBody (clusterR minute) (startAt (withStatus staleReady) lostCluster))))"
proof -
  have "readyTrue staleReady" "Attempts staleReady = 0" "FailedAttempts staleReady = 0" "GeneratorRef staleReady = None"
    by (simp_all add: staleReady_def readyTrue_def cond_of_setCond emptyStatus_def)
  then show ?thesis
    using recovery_keeps_stale_ready [OF clusterR_lib_ok absent_at_store [where w = lostCluster and st = staleReady and now = minute]
        _ _ demo_generator_spec, of "createdRun 1" lostCluster "createdRun 1"]
      demo_creation [of staleReady minute lostCluster] lost_creation lost_lookup [of minute staleReady] lost_controlled
    by (simp add: absent_def demo_not_observed demo_frame demo_budget Let_def wrap32_id lostCluster_simps)
qed


section \<open>Deletion on the cluster\<close>

definition doomedArtifact :: Artifact where
  "doomedArtifact = demoArtifact\<lparr>Meta := (Meta demoArtifact)\<lparr>DeletionTimestamp := Some 0\<rparr>,
     Status := emptyStatus\<lparr>Key := ''artifacts/client'', SpecHash := ''sha256:mine''\<rparr>\<rparr>"

lemma doomed_deleting: "deleting (clusterR now) doomedArtifact"
  by (simp add: deleting_def doomedArtifact_def clusterR_def refLib_def demoArtifact_def)

lemma doomed_owns: "owns_object doomedArtifact"
  by (simp add: owns_object_def doomedArtifact_def demoArtifact_def ObserveOnly_def ManagementPolicyFull_def
      ManagementPolicyObserve_def emptyStatus_def)

lemma doomed_class:
  "classes w = [(''builds'', demoClass)] \<Longrightarrow>
   clGetClass (rClient (clusterR now)) w (ClassRef (Spec doomedArtifact)) = Inr demoClass"
  by (simp add: clusterR_client clusterClient_def find_in_def doomedArtifact_def demoArtifact_def)

lemma demo_driver: "DriverFor (rRegistry (clusterR now)) w demoClass = Inr clusterDriver"
  by (simp add: DriverFor_def clusterR_def fake_Register_def Register_def NewRegistry_def demoClass_def clusterDriver_def)

lemma doomed_status: "Key (Status doomedArtifact) = ''artifacts/client''" "SpecHash (Status doomedArtifact) = ''sha256:mine''"
  by (simp_all add: doomedArtifact_def)

lemma stored_observed:
  "Observe clusterDriver storedCluster ''artifacts/client'' = Inr \<lparr>Exists = True, obsDigest = ''d1'', Metadata = []\<rparr>"
  by (simp add: clusterDriver_def fake_driver_def storedCluster_def putStore_def fake_Observe_Put)

lemma storedCluster_classes: "classes storedCluster = [(''builds'', demoClass)]"
  by (simp add: storedCluster_def putStore_def)

lemma unstamped_deletable: "deletable c h \<lparr>Exists = True, obsDigest = d, Metadata = []\<rparr>"
  by (simp add: deletable_def)

theorem finalizer_released_witness:
  "\<exists>c d. clGetClass (rClient (clusterR minute)) storedCluster (ClassRef (Spec doomedArtifact)) = Inr c
     \<and> DriverFor (rRegistry (clusterR minute)) storedCluster c = Inr d
     \<and> (\<forall>obs. Observe d (world (snd (reconcileBody (clusterR minute) (startAt doomedArtifact storedCluster))))
            ''artifacts/client'' = Inr obs \<longrightarrow> Exists obs \<longrightarrow> \<not> deletable c ''sha256:mine'' obs)"
proof -
  have ex: "store_driver (Observe d) (Delete d)"
    if "DriverFor (rRegistry (clusterR minute)) w c = Inr d" for w c d
    using clusterR_DriverFor [OF that] clusterDriver_exclusive by (simp add: exclusive_store.axioms(1))
  have "fst (fake_Delete (fstore storedCluster) ''artifacts/client'') = None"
    by (simp add: fake_Delete_def storedCluster_def putStore_def fake_Put_def fake_New_def)
  then obtain w where w: "Delete clusterDriver storedCluster ''artifacts/client'' = (None, w)"
    by (cases "fake_Delete (fstore storedCluster) ''artifacts/client''")
      (simp add: clusterDriver_def fake_driver_def)
  have f: "finalizers_ok (rLib (clusterR minute))" using clusterR_lib_ok by (rule lib_okD)
  have "ArtifactFinalizer \<notin> set (Finalizers (Meta (obj (snd
      (reconcileBody (clusterR minute) (startAt doomedArtifact storedCluster))))))"
    using doomed_deleting [of minute] doomed_owns w f
    by (simp add: reconcileBody_def reconcileDelete_def deleteFromStore_def deleting_def owns_object_def
        doomed_class storedCluster_classes demo_driver doomed_status stored_observed unstamped_deletable
        removeFinalizer_def finalizers_ok_def Let_def)
  then show ?thesis
    using finalizer_released [where s = "startAt doomedArtifact storedCluster", OF clusterR_lib_ok _ _ ex]
      doomed_deleting doomed_owns doomed_class [OF storedCluster_classes]
    by (simp add: doomed_status)
qed

text \<open>A store that refuses to delete.\<close>

definition refusal :: goerr where
  "refusal = Errorf ''delete refused'' []"

definition stubbornCluster :: cluster where
  "stubbornCluster = putStore (fake_FailDeletes (Some refusal) (fstore storedCluster)) storedCluster"

lemma stubborn_simps:
  "classes stubbornCluster = [(''builds'', demoClass)]"
  "Observe clusterDriver stubbornCluster ''artifacts/client'' = Inr \<lparr>Exists = True, obsDigest = ''d1'', Metadata = []\<rparr>"
  "Delete clusterDriver stubbornCluster k = (Some refusal, stubbornCluster)"
  by (simp_all add: stubbornCluster_def clusterDriver_def fake_driver_def storedCluster_def putStore_def
      demoCluster_def fake_FailDeletes_def fake_Delete_def fake_Observe_def fake_Put_def)

theorem refused_delete_kept_witness:
  "fst (reconcileBody (clusterR minute) (startAt doomedArtifact stubbornCluster)) = fail refusal
   \<and> Finalizers (Meta (obj (snd (reconcileBody (clusterR minute) (startAt doomedArtifact stubbornCluster)))))
     = [ArtifactFinalizer]"
proof -
  have "Finalizers (Meta doomedArtifact) = [ArtifactFinalizer]" by (simp add: doomedArtifact_def demoArtifact_def)
  then show ?thesis
    using refused_delete_kept [where s = "startAt doomedArtifact stubbornCluster" and R = "clusterR minute",
        OF clusterR_lib_ok _ _ _ demo_driver] doomed_deleting [of minute] doomed_owns
      doomed_class [OF stubborn_simps(1), of minute]
    by (simp add: stubborn_simps doomed_status unstamped_deletable Let_def)
qed

theorem orphan_policy_releases_witness:
  "ArtifactFinalizer \<notin> set (Finalizers (Meta (obj (snd (reconcileBody (clusterR minute)
     (startAt (doomedArtifact\<lparr>Status := emptyStatus\<rparr>) storedCluster))))))"
proof -
  have "deleting (clusterR minute) (doomedArtifact\<lparr>Status := emptyStatus\<rparr>)"
    using doomed_deleting [of minute] by (simp add: deleting_def)
  then show ?thesis
    using orphan_policy_releases [where s = "startAt (doomedArtifact\<lparr>Status := emptyStatus\<rparr>) storedCluster",
        OF clusterR_lib_ok]
    by (simp add: owns_object_def emptyStatus_def Let_def)
qed

section \<open>Suspension, retries and policy flips on the cluster\<close>

definition withSpec :: "(ArtifactSpec \<Rightarrow> ArtifactSpec) \<Rightarrow> Artifact \<Rightarrow> Artifact" where
  "withSpec f a = a\<lparr>Spec := f (Spec a)\<rparr>"

lemma demo_live:
  "DeletionTimestamp (Meta demoArtifact) = None"
  "ContainsFinalizer (rLib (clusterR now)) (Finalizers (Meta demoArtifact)) ArtifactFinalizer"
  by (simp_all add: demoArtifact_def clusterR_lib refLib_def)

theorem suspended_is_inert_witness:
  "State (stat (snd (reconcileBody (clusterR minute)
     (startAt (withSpec (\<lambda>p. p\<lparr>Suspend := True\<rparr>) demoArtifact) demoCluster)))) = StateSuspended"
  using suspended_is_inert [where s = "startAt (withSpec (\<lambda>p. p\<lparr>Suspend := True\<rparr>) demoArtifact) demoCluster",
      OF clusterR_lib_ok] demo_live(1) demo_live(2) [of minute]
  by (simp add: withSpec_def Let_def)


definition denied :: apierr where
  "denied = OtherStatus ''denied''"

definition deniedR :: "gotime \<Rightarrow> (cluster, string) Reconciler" where
  "deniedR now = (clusterR now)\<lparr>rClient := clusterClient\<lparr>clDeleteRun := (\<lambda>w ref. (Some denied, w))\<rparr>\<rparr>"

theorem failed_cancellation_retried_witness:
  "GeneratorRef (stat (snd (reconcileBody (deniedR minute)
     (startAt (withSpec (\<lambda>p. p\<lparr>ManagementPolicy := ManagementPolicyObserve\<rparr>) (withStatus inFlightStatus))
        (runCluster ''running''))))) = Some demoRef"
  using failed_cancellation_retried [where R = "deniedR minute" and e = denied and ref = demoRef and
      s = "startAt (withSpec (\<lambda>p. p\<lparr>ManagementPolicy := ManagementPolicyObserve\<rparr>) (withStatus inFlightStatus))
        (runCluster ''running'')"] demo_live(1) demo_live(2) [of minute]
  by (simp add: withSpec_def Let_def deniedR_def denied_def demo_frame inFlight_simps ObserveOnly_def
      ManagementPolicyObserve_def demoArtifact_def)

theorem never_forgotten_witness:
  "wakes (reconcileBody (clusterR minute) (startAt demoArtifact storedCluster))
   \<or> may_sleep (clusterR minute) demoArtifact
       (stat (snd (reconcileBody (clusterR minute) (startAt demoArtifact storedCluster))))"
proof -
  have g: "GeneratorRef (Status demoArtifact) = None" by (simp add: demoArtifact_def emptyStatus_def)
  have "clGetClass (rClient (clusterR minute)) storedCluster (ClassRef (Spec demoArtifact)) = Inr demoClass"
    using storedCluster_classes by (simp add: clusterR_client clusterClient_def find_in_def demoArtifact_def)
  moreover have "timing_ok (clusterR minute) demoArtifact demoClass"
    unfolding timing_ok_def demo_backoff
    by (simp add: GracePeriod_def GetInterval_def clusterR_def demoArtifact_def demoClass_def emptyStatus_def)
  ultimately show ?thesis
    using never_forgotten [where s = "startAt demoArtifact storedCluster" and R = "clusterR minute",
        OF clusterR_lib_ok] g demo_live(1) by simp
qed

end
