(* ===== verification/GoHttp.thy ===== *)
theory GoHttp
  imports Hash
begin

text \<open>
  What the drivers use of Go's \<^verbatim>\<open>net/http\<close>, \<^verbatim>\<open>net/url\<close>, \<^verbatim>\<open>io\<close> and \<^verbatim>\<open>encoding/base64\<close>: byte streams
  with a read limit, headers under canonical names, requests and responses, form and path escaping
  and the standard base 64 alphabet. The network is a parameter: \<open>transport\<close> is the client's round
  trip, redirects included, on a world \<open>'w\<close>, and \<open>urlParse\<close> the verdict of the URL parser.
\<close>

section \<open>Streams\<close>

text \<open>The bytes a reader delivers, and the error it ends with (\<open>None\<close> for end of file).\<close>

record stream =
  content :: string
  failure :: "goerr option"

definition ReadAll :: "stream \<Rightarrow> goerr + string" where
  "ReadAll s = (case failure s of None \<Rightarrow> Inr (content s) | Some e \<Rightarrow> Inl e)"

definition LimitReader :: "stream \<Rightarrow> nat \<Rightarrow> stream" where
  "LimitReader s n = (if n \<le> length (content s) then \<lparr>content = take n (content s), failure = None\<rparr> else s)"

definition NewReader :: "string \<Rightarrow> stream" where
  "NewReader s = \<lparr>content = s, failure = None\<rparr>"

lemma ReadAll_Limit_length: "ReadAll (LimitReader s n) = Inr b \<Longrightarrow> length b \<le> n"
  by (auto simp: ReadAll_def LimitReader_def split: option.splits if_splits)

lemma ReadAll_Limit_prefix: "ReadAll (LimitReader s n) = Inr b \<Longrightarrow> \<exists>t. content s = b @ t"
  by (auto simp: ReadAll_def LimitReader_def split: option.splits if_splits)
    (metis append_take_drop_id)

lemma ReadAll_NewReader [simp]: "ReadAll (NewReader s) = Inr s"
  by (simp add: ReadAll_def NewReader_def)

lemma ReadAll_again: "ReadAll s = Inr b \<Longrightarrow> NewReader b = s"
  by (cases s) (auto simp: ReadAll_def NewReader_def split: option.splits)

lemma NewReader_inj [simp]: "NewReader a = NewReader b \<longleftrightarrow> a = b"
  by (simp add: NewReader_def)

section \<open>Headers\<close>

type_synonym header = "(string \<times> string list) list"

definition tokenByte :: "char \<Rightarrow> bool" where
  "tokenByte c \<longleftrightarrow>
     (let n = byte c
      in 48 \<le> n \<and> n \<le> 57 \<or> 65 \<le> n \<and> n \<le> 90 \<or> 97 \<le> n \<and> n \<le> 122 \<or> c \<in> set ''!#$%&*+-.^_|~'' \<or> n = 39 \<or> n = 96)"

definition ToUpperByte :: "char \<Rightarrow> char" where
  "ToUpperByte c = (let n = byte c in if 97 \<le> n \<and> n \<le> 122 then char_of (n - 32) else c)"

fun canon_from :: "bool \<Rightarrow> string \<Rightarrow> string" where
  "canon_from up [] = []"
| "canon_from up (c # s) = (if up then ToUpperByte c else ToLowerByte c) # canon_from (c = CHR ''-'') s"

definition CanonicalHeaderKey :: "string \<Rightarrow> string" where
  "CanonicalHeaderKey s = (if list_all tokenByte s then canon_from True s else s)"

definition Header_Set :: "string \<Rightarrow> string \<Rightarrow> header \<Rightarrow> header" where
  "Header_Set k v h = mput (CanonicalHeaderKey k) [v] h"

definition Header_Get :: "header \<Rightarrow> string \<Rightarrow> string" where
  "Header_Get h k = (case map_of h (CanonicalHeaderKey k) of Some (v # _) \<Rightarrow> v | _ \<Rightarrow> [])"

lemma Header_Get_Set [simp]: "Header_Get (Header_Set k v h) k = v"
  by (simp add: Header_Get_def Header_Set_def)

section \<open>Requests\<close>

record Request =
  rqMethod :: string
  rqURL :: string
  rqHeader :: header
  rqBody :: "stream option"
  rqContentLength :: int

record Response =
  respStatus :: int
  respHeader :: header
  respBody :: stream

record 'w httpc =
  urlParse :: "string \<Rightarrow> goerr option"
  transport :: "duration \<Rightarrow> Request \<Rightarrow> 'w \<Rightarrow> (goerr + Response) \<times> 'w"

definition NewRequest :: "'w httpc \<Rightarrow> string \<Rightarrow> string \<Rightarrow> string option \<Rightarrow> goerr + Request" where
  "NewRequest H method url body =
     (let m = (if method = [] then ''GET'' else method)
      in if \<not> list_all tokenByte m then Inl (Errorf ''net/http: invalid method %q'' [AStr m])
         else case urlParse H url of
           Some e \<Rightarrow> Inl e
         | None \<Rightarrow>
             Inr \<lparr>rqMethod = m, rqURL = url, rqHeader = [], rqBody = map_option NewReader body,
                  rqContentLength = (case body of None \<Rightarrow> 0 | Some b \<Rightarrow> int (length b))\<rparr>)"

definition setHeader :: "string \<Rightarrow> string \<Rightarrow> Request \<Rightarrow> Request" where
  "setHeader k v rq = rq\<lparr>rqHeader := Header_Set k v (rqHeader rq)\<rparr>"

lemma setHeader_simps [simp]:
  "rqMethod (setHeader k v rq) = rqMethod rq" "rqURL (setHeader k v rq) = rqURL rq"
  "rqBody (setHeader k v rq) = rqBody rq" "rqContentLength (setHeader k v rq) = rqContentLength rq"
  by (simp_all add: setHeader_def)

lemma NewRequest_Inr:
  assumes "NewRequest H m u b = Inr rq"
  shows "rqMethod rq = (if m = [] then ''GET'' else m)" "rqURL rq = u" "rqBody rq = map_option NewReader b"
    "rqContentLength rq = (case b of None \<Rightarrow> 0 | Some s \<Rightarrow> int (length s))" "rqHeader rq = []"
  using assms by (auto simp: NewRequest_def Let_def split: if_splits option.splits)

text \<open>
  Methods that RFC 9110 calls safe ask the server for nothing but an answer; \<open>safe_methods\<close> is the
  reading of that rule for a server.
\<close>

definition safe_methods :: "'w httpc \<Rightarrow> bool" where
  "safe_methods H \<longleftrightarrow>
     (\<forall>t rq w. rqMethod rq \<in> {''GET'', ''HEAD''} \<longrightarrow> snd (transport H t rq w) = w)"

definition success :: "int \<Rightarrow> bool" where
  "success code \<longleftrightarrow> 200 \<le> code \<and> code < 300"

text \<open>A plain answer, for concrete servers.\<close>

definition reply :: "int \<Rightarrow> string \<Rightarrow> Response" where
  "reply code body = \<lparr>respStatus = code, respHeader = [], respBody = NewReader body\<rparr>"

lemma reply_simps [simp]:
  "respStatus (reply c b) = c"
  "length b < n \<Longrightarrow> ReadAll (LimitReader (respBody (reply c b)) n) = Inr b"
  by (simp_all add: reply_def LimitReader_def ReadAll_def NewReader_def)

section \<open>Escaping\<close>

definition unreserved :: "char \<Rightarrow> bool" where
  "unreserved c \<longleftrightarrow>
     (let n = byte c in 48 \<le> n \<and> n \<le> 57 \<or> 65 \<le> n \<and> n \<le> 90 \<or> 97 \<le> n \<and> n \<le> 122 \<or> c \<in> set ''-_.~'')"

definition upperhex :: "nat \<Rightarrow> char" where
  "upperhex n = ''0123456789ABCDEF'' ! n"

definition percent :: "char \<Rightarrow> string" where
  "percent c = [CHR ''%'', upperhex (byte c div 16), upperhex (byte c mod 16)]"

fun QueryEscape :: "string \<Rightarrow> string" where
  "QueryEscape [] = []"
| "QueryEscape (c # s) =
     (if unreserved c then [c] else if c = CHR '' '' then ''+'' else percent c) @ QueryEscape s"

fun PathEscape :: "string \<Rightarrow> string" where
  "PathEscape [] = []"
| "PathEscape (c # s) =
     (if unreserved c \<or> c \<in> set ''$&+:=@'' then [c] else percent c) @ PathEscape s"

text \<open>\<open>url.Values\<close> with one value for each name.\<close>

type_synonym form = "(string \<times> string) list"

definition Values_Encode :: "form \<Rightarrow> string" where
  "Values_Encode vs =
     Join (map (\<lambda>(k, v). QueryEscape k @ ''='' @ QueryEscape v) (sort_key fst vs)) ''&''"

text \<open>Escaping loses nothing.\<close>

lemma upperhex_inj: "m < 16 \<Longrightarrow> n < 16 \<Longrightarrow> upperhex m = upperhex n \<Longrightarrow> m = n"
proof -
  assume mn: "m < 16" "n < 16" and eq: "upperhex m = upperhex n"
  have "distinct ''0123456789ABCDEF''" "length ''0123456789ABCDEF'' = 16" by simp_all
  then show "m = n" using mn eq nth_eq_iff_index_eq unfolding upperhex_def by metis
qed

lemma byte_div:
  "byte c div 4 < 64" "byte c div 16 < 16" "byte c div 64 < 4"
  using byte_lt [of c] by (simp_all add: less_mult_imp_div_less)

lemma percent_inj: "percent c = percent d \<Longrightarrow> c = d"
proof -
  assume eq: "percent c = percent d"
  have "byte c div 16 = byte d div 16" using eq byte_div(2) upperhex_inj by (simp add: percent_def)
  moreover have "byte c mod 16 = byte d mod 16" using eq upperhex_inj by (simp add: percent_def)
  ultimately show "c = d" by (metis byte_inj div_mult_mod_eq)
qed

lemma percent_not_unreserved: "\<not> unreserved (CHR ''%'')" "\<not> unreserved (CHR ''+'')" "\<not> unreserved (CHR '' '')"
  by (simp_all add: unreserved_def byte_def)

lemma QueryEscape_inj: "QueryEscape s = QueryEscape t \<Longrightarrow> s = t"
proof (induction s arbitrary: t)
  case Nil
  then show ?case by (cases t) (auto simp: percent_def split: if_splits)
next
  case (Cons c s)
  then obtain d u where t: "t = d # u" by (cases t) (auto simp: percent_def split: if_splits)
  have "c = d \<and> QueryEscape s = QueryEscape u"
    using Cons.prems percent_inj [of c d] percent_not_unreserved unfolding t
    by (auto simp: percent_def split: if_splits)
  then show ?case using Cons.IH t by simp
qed

lemma PathEscape_inj: "PathEscape s = PathEscape t \<Longrightarrow> s = t"
proof (induction s arbitrary: t)
  case Nil
  then show ?case by (cases t) (auto simp: percent_def split: if_splits)
next
  case (Cons c s)
  then obtain d u where t: "t = d # u" by (cases t) (auto simp: percent_def split: if_splits)
  have "c = d \<and> PathEscape s = PathEscape u"
    using Cons.prems percent_inj [of c d] percent_not_unreserved unfolding t
    by (auto simp: percent_def split: if_splits)
  then show ?case using Cons.IH t by simp
qed

text \<open>The delimiters of a query do not occur in an escaped value.\<close>

lemma upperhex_unreserved: "n < 16 \<Longrightarrow> unreserved (upperhex n)"
proof -
  assume "n < 16"
  then have "upperhex n \<in> set ''0123456789ABCDEF''" unfolding upperhex_def by (intro nth_mem) simp
  then show ?thesis by (auto simp: unreserved_def byte_def)
qed

lemma QueryEscape_chars: "c \<in> set (QueryEscape s) \<Longrightarrow> unreserved c \<or> c = CHR ''+'' \<or> c = CHR ''%''"
proof (induction s)
  case (Cons d s)
  then show ?case using byte_div(2) [of d] upperhex_unreserved by (auto simp: percent_def split: if_splits)
qed simp

section \<open>Base 64\<close>

definition b64char :: "nat \<Rightarrow> char" where
  "b64char n =
     (if n < 26 then char_of (65 + n) else if n < 52 then char_of (71 + n)
      else if n < 62 then char_of (n - 4) else if n = 62 then CHR ''+'' else CHR ''/'')"

fun base64 :: "string \<Rightarrow> string" where
  "base64 [] = []"
| "base64 [a] = [b64char (byte a div 4), b64char (byte a mod 4 * 16), CHR ''='', CHR ''='']"
| "base64 [a, b] =
     [b64char (byte a div 4), b64char (byte a mod 4 * 16 + byte b div 16), b64char (byte b mod 16 * 4), CHR ''='']"
| "base64 (a # b # c # s) =
     [b64char (byte a div 4), b64char (byte a mod 4 * 16 + byte b div 16),
      b64char (byte b mod 16 * 4 + byte c div 64), b64char (byte c mod 64)] @ base64 s"

text \<open>The decoder a server runs, after RFC 4648.\<close>

definition b64val :: "char \<Rightarrow> nat option" where
  "b64val c =
     (let n = byte c
      in if 65 \<le> n \<and> n \<le> 90 then Some (n - 65)
         else if 97 \<le> n \<and> n \<le> 122 then Some (n - 71)
         else if 48 \<le> n \<and> n \<le> 57 then Some (n + 4)
         else if n = 43 then Some 62
         else if n = 47 then Some 63
         else None)"

fun base64_decode :: "string \<Rightarrow> string option" where
  "base64_decode [] = Some []"
| "base64_decode (p # q # r # s # t) =
     (case (b64val p, b64val q) of
        (Some i, Some j) \<Rightarrow>
          if r = CHR ''='' then (if s = CHR ''='' \<and> t = [] then Some [char_of (i * 4 + j div 16)] else None)
          else (case b64val r of
            None \<Rightarrow> None
          | Some k \<Rightarrow>
              if s = CHR ''='' then
                (if t = [] then Some [char_of (i * 4 + j div 16), char_of (j mod 16 * 16 + k div 4)] else None)
              else (case b64val s of
                None \<Rightarrow> None
              | Some l \<Rightarrow>
                  map_option (\<lambda>u. [char_of (i * 4 + j div 16), char_of (j mod 16 * 16 + k div 4),
                                   char_of (k mod 4 * 64 + l)] @ u) (base64_decode t)))
      | _ \<Rightarrow> None)"
| "base64_decode _ = None"

lemma byte_char_of: "n < 256 \<Longrightarrow> byte (char_of n) = n"
  by (simp add: byte_def)

lemma b64val_b64char [simp]: "n < 64 \<Longrightarrow> b64val (b64char n) = Some n"
proof -
  assume "n < 64"
  then consider "n < 26" | "26 \<le> n" "n < 52" | "52 \<le> n" "n < 62" | "n = 62" | "n = 63" by linarith
  then show ?thesis
  proof cases
    case 1
    then have "byte (b64char n) = 65 + n" by (simp add: b64char_def byte_char_of)
    then show ?thesis using 1 by (simp add: b64val_def)
  next
    case 2
    then have "byte (b64char n) = 71 + n" by (simp add: b64char_def byte_char_of)
    then show ?thesis using 2 by (simp add: b64val_def)
  next
    case 3
    then have "byte (b64char n) = n - 4" by (simp add: b64char_def byte_char_of)
    then show ?thesis using 3 by (simp add: b64val_def Let_def) linarith
  qed (simp_all add: b64char_def b64val_def byte_def)
qed

lemma b64char_pad [simp]: "n < 64 \<Longrightarrow> b64char n \<noteq> CHR ''=''"
proof
  assume "n < 64" "b64char n = CHR ''=''"
  then have "b64val (CHR ''='') = Some n" by (metis b64val_b64char)
  then show False by (simp add: b64val_def byte_def)
qed

lemma char_of_byte [simp]: "char_of (byte c) = c"
  by (simp add: byte_def)

lemma sextets:
  "byte a mod 4 * 16 < 64" "byte a mod 4 * 16 + byte b div 16 < 64"
  "byte b mod 16 * 4 < 64" "byte b mod 16 * 4 + byte c div 64 < 64" "byte c mod 64 < 64"
proof -
  have "byte a mod 4 < 4" "byte b mod 16 < 16" "byte c mod 64 < 64" by simp_all
  then show "byte a mod 4 * 16 < 64" "byte a mod 4 * 16 + byte b div 16 < 64"
    "byte b mod 16 * 4 < 64" "byte b mod 16 * 4 + byte c div 64 < 64" "byte c mod 64 < 64"
    using byte_div [of b] byte_div [of c] by linarith+
qed

lemma octets:
  "byte b div 16 div 16 = 0" "byte b div 16 mod 16 = byte b div 16"
  "byte c div 64 div 4 = 0" "byte c div 64 mod 4 = byte c div 64"
  using byte_div [of b] byte_div [of c] by simp_all

lemma base64_roundtrip: "base64_decode (base64 s) = Some s"
  by (induction s rule: base64.induct) (simp_all add: byte_div sextets octets)

lemma base64_inj: "base64 s = base64 t \<Longrightarrow> s = t"
  using base64_roundtrip by (metis option.inject)

end
