(* ===== verification/AwsAuth.thy ===== *)
theory AwsAuth
  imports GoHttp
begin

text \<open>
  Package \<^verbatim>\<open>internal/awsauth\<close>: signing a request with the controller's ambient AWS identity. The
  AWS SDK is a parameter: the default configuration chain, its credentials and the SigV4 signer.
\<close>

record ('w, 'c, 'k) awslib =
  LoadDefaultConfig :: "'w \<Rightarrow> string option \<Rightarrow> goerr + 'c"
  Retrieve :: "'w \<Rightarrow> 'c \<Rightarrow> goerr + 'k"
  SignHTTP :: "'k \<Rightarrow> Request \<Rightarrow> string \<Rightarrow> string \<Rightarrow> string \<Rightarrow> gotime \<Rightarrow> goerr + Request"

definition EmptyBodySHA256 :: string where
  "EmptyBodySHA256 = ''e3b0c44298fc1c149afbf4c8996fb92427ae41e4649b934ca495991b7852b855''"

definition wrapErr :: "string \<Rightarrow> goerr + 'a \<Rightarrow> goerr + 'a" where
  "wrapErr f r = (case r of Inl e \<Rightarrow> Inl (Errorf f [AErr e]) | Inr x \<Rightarrow> Inr x)"

text \<open>
  The body is read, hashed and put back. The reader put back delivers the same bytes; for a
  request built by the program it is the same reader.
\<close>

definition Sign ::
  "('w, 'c, 'k) awslib \<Rightarrow> gotime \<Rightarrow> 'w \<Rightarrow> Request \<Rightarrow> string \<Rightarrow> string \<Rightarrow> goerr + Request" where
  "Sign A now w rq region service =
     (if region = [] then Inl (Errorf ''sigv4 needs a region'' [])
      else if service = [] then Inl (Errorf ''sigv4 needs a service name'' [])
      else case LoadDefaultConfig A w (Some region) of
        Inl e \<Rightarrow> Inl (Errorf ''load aws config: %w'' [AErr e])
      | Inr cfg \<Rightarrow>
          (case Retrieve A w cfg of
             Inl e \<Rightarrow> Inl (Errorf ''retrieve aws credentials: %w'' [AErr e])
           | Inr creds \<Rightarrow>
               (case rqBody rq of
                  None \<Rightarrow> wrapErr ''sign request: %w'' (SignHTTP A creds rq EmptyBodySHA256 service region now)
                | Some b \<Rightarrow>
                    (case ReadAll b of
                       Inl e \<Rightarrow> Inl (Errorf ''read body for signing: %w'' [AErr e])
                     | Inr body \<Rightarrow>
                         wrapErr ''sign request: %w''
                           (SignHTTP A creds (rq\<lparr>rqBody := Some (NewReader body), rqContentLength := int (length body)\<rparr>)
                              (EncodeToString (sha256 body)) service region now)))))"

text \<open>Documented behaviour of the signer: it adds headers and leaves the rest of the request alone.\<close>

definition signer_ok :: "('w, 'c, 'k) awslib \<Rightarrow> bool" where
  "signer_ok A \<longleftrightarrow>
     (\<forall>k rq h sv rg t rq'. SignHTTP A k rq h sv rg t = Inr rq' \<longrightarrow>
        rqMethod rq' = rqMethod rq \<and> rqURL rq' = rqURL rq \<and> rqBody rq' = rqBody rq)"

lemma wrapErr_Inr [simp]: "wrapErr f r = Inr x \<longleftrightarrow> r = Inr x"
  by (cases r) (simp_all add: wrapErr_def)

lemma Sign_keeps:
  assumes "signer_ok A" "Sign A now w rq region service = Inr rq'"
  shows "rqMethod rq' = rqMethod rq \<and> rqURL rq' = rqURL rq \<and> rqBody rq' = rqBody rq"
proof -
  obtain k rq1 h where s: "SignHTTP A k rq1 h service region now = Inr rq'"
    and q: "rqMethod rq1 = rqMethod rq" "rqURL rq1 = rqURL rq" "rqBody rq1 = rqBody rq"
    using assms(2) by (fastforce simp: Sign_def ReadAll_again split: if_splits sum.splits option.splits)
  then show ?thesis using assms(1) unfolding signer_ok_def by metis
qed

lemma EmptyBodySHA256_sha256: "EmptyBodySHA256 = EncodeToString (sha256 [])"
  by code_simp

text \<open>
  The hash given to the signer is the SHA-256 of the body that is sent, in hexadecimal, the fixed
  constant for a request without a body included.
\<close>

theorem Sign_payload:
  assumes "region \<noteq> []" "service \<noteq> []" "LoadDefaultConfig A w (Some region) = Inr cfg" "Retrieve A w cfg = Inr creds"
    and "rqBody rq = map_option NewReader b" "rqContentLength rq = (case b of None \<Rightarrow> 0 | Some s \<Rightarrow> int (length s))"
  shows "Sign A now w rq region service =
    wrapErr ''sign request: %w''
      (SignHTTP A creds rq (EncodeToString (sha256 (case b of None \<Rightarrow> [] | Some s \<Rightarrow> s))) service region now)"
  using assms by (cases rq; cases b) (simp_all add: Sign_def EmptyBodySHA256_sha256)

text \<open>A signer that records what it was given, for concrete runs.\<close>

definition demoAws :: "('w, string, string) awslib" where
  "demoAws = \<lparr>LoadDefaultConfig = (\<lambda>w rg. Inr (case rg of None \<Rightarrow> [] | Some r \<Rightarrow> r)), Retrieve = (\<lambda>w c. Inr ''role''),
     SignHTTP = (\<lambda>k rq h sv rg t. Inr (setHeader ''Authorization'' (''AWS4 '' @ sv @ ''/'' @ rg @ '' '' @ h) rq))\<rparr>"

lemma demoAws_ok: "signer_ok demoAws"
  by (simp add: signer_ok_def demoAws_def)

theorem Sign_payload_witness:
  "let rq = \<lparr>rqMethod = ''POST'', rqURL = ''https://ec2'', rqHeader = [], rqBody = Some (NewReader ''a=b''), rqContentLength = 3\<rparr>
   in Sign demoAws 0 () rq ''eu-west-1'' ''ec2'' =
      Inr (setHeader ''Authorization'' (''AWS4 ec2/eu-west-1 '' @ EncodeToString (sha256 ''a=b'')) rq)"
  using Sign_payload [of "''eu-west-1''" "''ec2''" demoAws "()" "''eu-west-1''" "''role''"
      "\<lparr>rqMethod = ''POST'', rqURL = ''https://ec2'', rqHeader = [], rqBody = Some (NewReader ''a=b''), rqContentLength = 3\<rparr>"
      "Some ''a=b''" 0]
  by (simp add: demoAws_def Let_def wrapErr_def)

end
