(* ===== verification/S3.thy ===== *)
theory S3
  imports Store AwsAuth
begin

text \<open>
  The S3 driver (\<^verbatim>\<open>internal/store/s3\<close>). The SDK's client is a parameter: \<open>HeadObject\<close> reads the world
  and \<open>DeleteObject\<close> changes it. An SDK error is its text and the code \<open>errors.As\<close> finds in it, if
  there is a \<open>smithy.APIError\<close> in the chain.
\<close>

record sdkerr =
  sdkText :: string
  sdkCode :: "string option"

record HeadObjectOutput =
  ChecksumSHA256 :: "string option"
  ETag :: "string option"
  headMetadata :: gomap

record 'c s3client =
  cliConfig :: 'c
  BaseEndpoint :: "string option"
  UsePathStyle :: bool

record ('w, 'c) s3sdk =
  HeadObject :: "'c s3client \<Rightarrow> string \<Rightarrow> string \<Rightarrow> 'w \<Rightarrow> sdkerr + HeadObjectOutput"
  DeleteObject :: "'c s3client \<Rightarrow> string \<Rightarrow> string \<Rightarrow> 'w \<Rightarrow> sdkerr option \<times> 'w"

record 'c s3driver =
  s3client :: "'c s3client"
  s3bucket :: string

definition s3_isNotFound :: "sdkerr \<Rightarrow> bool" where
  "s3_isNotFound e = (case sdkCode e of Some c \<Rightarrow> c \<in> set [''NotFound'', ''NoSuchKey'', ''404''] | None \<Rightarrow> False)"

text \<open>\<open>strings.Trim(s, cutset)\<close>.\<close>

definition Trim :: "string \<Rightarrow> string \<Rightarrow> string" where
  "Trim s cs = TrimRight (dropWhile (\<lambda>c. c \<in> set cs) s) cs"

definition s3_digest :: "HeadObjectOutput \<Rightarrow> string" where
  "s3_digest head =
     (if ChecksumSHA256 head \<noteq> None \<and> ChecksumSHA256 head \<noteq> Some [] then ''sha256-b64:'' @ the (ChecksumSHA256 head)
      else case ETag head of Some e \<Rightarrow> ''etag:'' @ Trim e [CHR 0x22] | None \<Rightarrow> [])"

definition s3_Observe :: "('w, 'c) s3sdk \<Rightarrow> 'c s3driver \<Rightarrow> 'w \<Rightarrow> string \<Rightarrow> goerr + Observation" where
  "s3_Observe S d w key =
     (case HeadObject S (s3client d) (s3bucket d) key w of
        Inl e \<Rightarrow>
          if s3_isNotFound e then Inr absent
          else Inl (Errorf ''head s3://%s/%s: %w'' [AStr (s3bucket d), AStr key, AErr (ExtError (sdkText e))])
      | Inr head \<Rightarrow> Inr \<lparr>Exists = True, obsDigest = s3_digest head, Metadata = lowerKeys (headMetadata head)\<rparr>)"

definition s3_Delete :: "('w, 'c) s3sdk \<Rightarrow> 'c s3driver \<Rightarrow> 'w \<Rightarrow> string \<Rightarrow> goerr option \<times> 'w" where
  "s3_Delete S d w key =
     (case DeleteObject S (s3client d) (s3bucket d) key w of
        (None, w') \<Rightarrow> (None, w')
      | (Some e, w') \<Rightarrow>
          (if s3_isNotFound e then None
           else Some (Errorf ''delete s3://%s/%s: %w'' [AStr (s3bucket d), AStr key, AErr (ExtError (sdkText e))]), w'))"

definition s3_driver :: "('w, 'c) s3sdk \<Rightarrow> 'c s3driver \<Rightarrow> 'w StoreDriver" where
  "s3_driver S d = \<lparr>Observe = s3_Observe S d, Delete = s3_Delete S d\<rparr>"

definition s3_factory :: "('w, 'c, 'k) awslib \<Rightarrow> ('w, 'c) s3sdk \<Rightarrow> 'w Factory" where
  "s3_factory A S w class =
     (case S3 (Store (classSpec class)) of
        None \<Rightarrow> Inl (Errorf ''class %s: store.driver is s3 but store.s3 is not set'' [AStr (className class)])
      | Some cfg \<Rightarrow>
          (case LoadDefaultConfig A w (if s3Region cfg \<noteq> [] then Some (s3Region cfg) else None) of
             Inl e \<Rightarrow> Inl (Errorf ''class %s: load aws config: %w'' [AStr (className class), AErr e])
           | Inr awsCfg \<Rightarrow>
               Inr (s3_driver S
                 \<lparr>s3client = \<lparr>cliConfig = awsCfg,
                     BaseEndpoint = (if s3Endpoint cfg \<noteq> [] then Some (s3Endpoint cfg) else None),
                     UsePathStyle = s3UsePathStyle cfg\<rparr>,
                  s3bucket = s3Bucket cfg\<rparr>)))"

definition s3_Register :: "('w, 'c, 'k) awslib \<Rightarrow> ('w, 'c) s3sdk \<Rightarrow> 'w Registry \<Rightarrow> 'w Registry" where
  "s3_Register A S reg = Register reg ''s3'' (s3_factory A S)"

section \<open>The contract\<close>

text \<open>
  Documented behaviour of the service, on an unversioned bucket: reads follow writes, so after a
  deletion the key is reported missing; a deletion that answers \<open>NoSuchKey\<close> or 404 met no object;
  another key is not affected; a deletion that fails leaves the object as it was, or gone.
\<close>

definition no_such_key :: "sdkerr \<Rightarrow> bool" where
  "no_such_key e \<longleftrightarrow> sdkCode e \<in> {Some ''NotFound'', Some ''NoSuchKey'', Some ''404''}"

definition s3_missing :: "('w, 'c) s3sdk \<Rightarrow> 'c s3client \<Rightarrow> string \<Rightarrow> string \<Rightarrow> 'w \<Rightarrow> bool" where
  "s3_missing S c b k w \<longleftrightarrow> (\<exists>e. HeadObject S c b k w = Inl e \<and> no_such_key e)"

definition s3_api_ok :: "('w, 'c) s3sdk \<Rightarrow> bool" where
  "s3_api_ok S \<longleftrightarrow>
     (\<forall>c b k w w'. DeleteObject S c b k w = (None, w') \<longrightarrow> s3_missing S c b k w')
   \<and> (\<forall>c b k w w' e. DeleteObject S c b k w = (Some e, w') \<longrightarrow> no_such_key e \<longrightarrow> s3_missing S c b k w')
   \<and> (\<forall>c b k k' w. k' \<noteq> k \<longrightarrow> HeadObject S c b k' (snd (DeleteObject S c b k w)) = HeadObject S c b k' w)
   \<and> (\<forall>c b k w w' e out. DeleteObject S c b k w = (Some e, w') \<longrightarrow> HeadObject S c b k w' = Inr out \<longrightarrow>
        HeadObject S c b k w = Inr out)"

lemma s3_api_okD:
  assumes "s3_api_ok S"
  shows "DeleteObject S c b k w = (None, w') \<Longrightarrow> s3_missing S c b k w'"
    "DeleteObject S c b k w = (Some e, w') \<Longrightarrow> no_such_key e \<Longrightarrow> s3_missing S c b k w'"
    "k' \<noteq> k \<Longrightarrow> HeadObject S c b k' (snd (DeleteObject S c b k w)) = HeadObject S c b k' w"
    "DeleteObject S c b k w = (Some e, w') \<Longrightarrow> HeadObject S c b k w' = Inr out \<Longrightarrow> HeadObject S c b k w = Inr out"
  using assms unfolding s3_api_ok_def by metis+

lemma s3_isNotFound_iff: "s3_isNotFound e \<longleftrightarrow> no_such_key e"
  by (cases "sdkCode e") (simp_all add: s3_isNotFound_def no_such_key_def)

lemma s3_missing_observed: "s3_missing S (s3client d) (s3bucket d) k w \<Longrightarrow> s3_Observe S d w k = Inr absent"
  by (auto simp: s3_missing_def s3_Observe_def s3_isNotFound_iff)

text \<open>
  The driver reports absence exactly when the service says that the key is missing: every other
  failure is an error of the observation, never an absent artifact.
\<close>

theorem s3_absent_iff_missing:
  "(\<exists>ob. s3_Observe S d w k = Inr ob \<and> \<not> Exists ob) \<longleftrightarrow>
   (\<exists>e. HeadObject S (s3client d) (s3bucket d) k w = Inl e
      \<and> sdkCode e \<in> {Some ''NotFound'', Some ''NoSuchKey'', Some ''404''})"
  unfolding no_such_key_def [symmetric]
  by (cases "HeadObject S (s3client d) (s3bucket d) k w") (auto simp: s3_Observe_def s3_isNotFound_iff absent_def)

lemma s3_Delete_missing:
  assumes "s3_api_ok S" "s3_Delete S d w k = (None, w')"
  shows "s3_missing S (s3client d) (s3bucket d) k w'"
proof -
  obtain e x where de: "DeleteObject S (s3client d) (s3bucket d) k w = (e, x)" by fastforce
  show ?thesis
  proof (cases e)
    case None
    then show ?thesis using assms(2) de s3_api_okD(1) [OF assms(1)] by (simp add: s3_Delete_def)
  next
    case (Some y)
    then have "s3_isNotFound y \<and> x = w'" using assms(2) de by (simp add: s3_Delete_def split: if_splits)
    then show ?thesis using de Some s3_api_okD(2) [OF assms(1)] unfolding s3_isNotFound_iff by simp
  qed
qed

lemma s3_exclusive:
  assumes "s3_api_ok S"
  shows "exclusive_store (s3_Observe S d) (s3_Delete S d)"
proof unfold_locales
  let ?c = "s3client d" and ?b = "s3bucket d"
  note fr = s3_api_okD(3) [OF assms, of _ _ ?c ?b] and rf = s3_api_okD(4) [OF assms, of ?c ?b]
  {
    fix w k w' ob
    assume d: "s3_Delete S d w k = (None, w')" and o': "s3_Observe S d w' k = Inr ob"
    have "s3_Observe S d w' k = Inr absent" by (rule s3_missing_observed [OF s3_Delete_missing [OF assms d]])
    then show "\<not> Exists ob" using o' by (simp add: absent_def)
  next
    fix k' k :: string and w
    assume "k' \<noteq> k"
    moreover have "snd (s3_Delete S d w k) = snd (DeleteObject S ?c ?b k w)"
      by (auto simp: s3_Delete_def split: prod.split option.split)
    ultimately show "s3_Observe S d (snd (s3_Delete S d w k)) k' = s3_Observe S d w k'"
      using fr [of k' k w] by (simp add: s3_Observe_def)
  next
    fix w k e w' ob
    assume d: "s3_Delete S d w k = (Some e, w')" and o': "s3_Observe S d w' k = Inr ob" "Exists ob"
    obtain e' where "DeleteObject S ?c ?b k w = (Some e', w')"
      using d by (auto simp: s3_Delete_def split: prod.splits option.splits)
    moreover obtain out where "HeadObject S ?c ?b k w' = Inr out"
      using o' by (auto simp: s3_Observe_def absent_def split: sum.splits if_splits)
    ultimately show "s3_Observe S d w k = Inr ob" using rf [of k w e' w' out] o'(1) by (simp add: s3_Observe_def)
  }
qed

text \<open>
  C24: With a service that behaves as documented, the driver keeps the promise the reconciler rests
  on: after a deletion without error the key is not observed, other keys are observed as before,
  and an object still there after a failed deletion is the object that was there.
\<close>

theorem s3_driver_contract:
  assumes "s3_api_ok S"
  shows "(Delete (s3_driver S d) w k = (None, w') \<longrightarrow> Observe (s3_driver S d) w' k = Inr absent)
   \<and> (k' \<noteq> k \<longrightarrow> Observe (s3_driver S d) (snd (Delete (s3_driver S d) w k)) k' = Observe (s3_driver S d) w k')
   \<and> (Observe (s3_driver S d) (snd (Delete (s3_driver S d) w k)) k' = Inr ob \<longrightarrow> Exists ob \<longrightarrow>
       Observe (s3_driver S d) w k' = Inr ob)"
proof -
  have ex: "exclusive_store (s3_Observe S d) (s3_Delete S d)" using assms by (rule s3_exclusive)
  have "s3_Observe S d w' k = Inr absent" if "s3_Delete S d w k = (None, w')"
    by (rule s3_missing_observed [OF s3_Delete_missing [OF assms that]])
  then show ?thesis
    unfolding s3_driver_def
    by (simp add: exclusive_store.delete_frame [OF ex] del: Product_Type.prod.sel) (metis exclusive_store.delete_monotone [OF ex])
qed

section \<open>A bucket\<close>

definition missing_key :: sdkerr where
  "missing_key = \<lparr>sdkText = ''not found'', sdkCode = Some ''NotFound''\<rparr>"

text \<open>A service over one table of objects: deletion is idempotent, as the service documents it.\<close>

definition bucketSdk :: "((string \<times> string) \<Rightarrow> HeadObjectOutput option, string) s3sdk" where
  "bucketSdk = \<lparr>HeadObject = (\<lambda>c b k w. case w (b, k) of None \<Rightarrow> Inl missing_key | Some o' \<Rightarrow> Inr o'),
     DeleteObject = (\<lambda>c b k w. (None, w((b, k) := None)))\<rparr>"

lemma bucketSdk_ok: "s3_api_ok bucketSdk"
  by (auto simp: s3_api_ok_def s3_missing_def bucketSdk_def missing_key_def no_such_key_def)

definition demoBucket :: "(string \<times> string) \<Rightarrow> HeadObjectOutput option" where
  "demoBucket = Map.empty((''b'', ''k'') \<mapsto> \<lparr>ChecksumSHA256 = None, ETag = Some [CHR 0x22, CHR ''x'', CHR 0x22],
     headMetadata = [(''Artifact-Spec-Hash'', ''sha256:1'')]\<rparr>)"

definition demoS3 :: "string s3driver" where
  "demoS3 = \<lparr>s3client = \<lparr>cliConfig = [], BaseEndpoint = None, UsePathStyle = False\<rparr>, s3bucket = ''b''\<rparr>"

lemma demoS3_observed:
  "Observe (s3_driver bucketSdk demoS3) demoBucket ''k'' =
   Inr \<lparr>Exists = True, obsDigest = ''etag:x'', Metadata = [(DefaultStampMetadataKey, ''sha256:1'')]\<rparr>"
  by code_simp

theorem s3_driver_contract_witness:
  "Observe (s3_driver bucketSdk demoS3) (snd (Delete (s3_driver bucketSdk demoS3) demoBucket ''k'')) ''k'' = Inr absent
   \<and> Observe (s3_driver bucketSdk demoS3) (snd (Delete (s3_driver bucketSdk demoS3) demoBucket ''other'')) ''k'' =
     Observe (s3_driver bucketSdk demoS3) demoBucket ''k''"
proof -
  have "Delete (s3_driver bucketSdk demoS3) demoBucket ''k'' = (None, demoBucket((''b'', ''k'') := None))"
    by (simp add: s3_driver_def s3_Delete_def bucketSdk_def demoS3_def)
  note gone = s3_driver_contract [OF bucketSdk_ok, THEN conjunct1, THEN mp, OF this]
  have "''k'' \<noteq> ''other''" by simp
  note kept = s3_driver_contract [OF bucketSdk_ok, THEN conjunct2, THEN conjunct1, THEN mp, OF this, of demoS3 demoBucket]
  show ?thesis using gone kept \<open>Delete _ _ _ = _\<close> by simp
qed

end
