(* ===== verification/JsonStruct.thy ===== *)
theory JsonStruct
  imports JsonParse
begin

text \<open>
  Go's \<open>json.Unmarshal\<close> into structs, as the store drivers use it: fields are matched without
  regard to case, unknown members are skipped, \<open>null\<close> leaves scalars and structs as they are and
  empties maps and slices, a value of the wrong type is an error, and a member that occurs twice is
  decoded onto what the first left behind. The program discards the target whenever there is an
  error, so a decoder returns the new value or nothing.
\<close>

type_synonym 'a decoder = "json \<Rightarrow> 'a \<Rightarrow> 'a option"

text \<open>
  Folding of member names: ASCII letters, and the two runes outside ASCII (\<open>U+017F\<close>, \<open>U+212A\<close>)
  whose case orbit contains an ASCII letter. The field names of the program are ASCII.
\<close>

fun foldKey :: "string \<Rightarrow> string" where
  "foldKey [] = []"
| "foldKey (a # s) =
     (if a = CHR 0xC5 \<and> take 1 s = [CHR 0xBF] then CHR ''s'' # foldKey (drop 1 s)
      else if a = CHR 0xE2 \<and> take 2 s = [CHR 0x84, CHR 0xAA] then CHR ''k'' # foldKey (drop 2 s)
      else ToLowerByte a # foldKey s)"

fun dec_string :: "string decoder" where
  "dec_string (JStr s) x = Some s"
| "dec_string JNull x = Some x"
| "dec_string _ x = None"

text \<open>\<open>strconv.ParseInt(lit, 10, 64)\<close> on a JSON number literal.\<close>

definition ParseInt64 :: "string \<Rightarrow> int option" where
  "ParseInt64 lit =
     (let neg = (take 1 lit = ''-''); ds = (if neg then drop 1 lit else lit);
          n = (if neg then - int (dec ds) else int (dec ds))
      in if ds \<noteq> [] \<and> list_all isDigit ds \<and> minInt64 \<le> n \<and> n \<le> maxInt64 then Some n else None)"

fun dec_int64 :: "int decoder" where
  "dec_int64 (JNum lit) x = ParseInt64 lit"
| "dec_int64 JNull x = Some x"
| "dec_int64 _ x = None"

section \<open>Structs\<close>

text \<open>A field of a struct: where it lives in the target and how it is decoded.\<close>

definition field :: "('s \<Rightarrow> 'a) \<Rightarrow> (('a \<Rightarrow> 'a) \<Rightarrow> 's \<Rightarrow> 's) \<Rightarrow> 'a decoder \<Rightarrow> 's decoder" where
  "field get upd d v x = map_option (\<lambda>y. upd (\<lambda>_. y) x) (d v (get x))"

definition find_field :: "(string \<times> 's decoder) list \<Rightarrow> string \<Rightarrow> 's decoder option" where
  "find_field fs k = map_of (map (\<lambda>(n, d). (foldKey n, d)) fs) (foldKey k)"

fun dec_members :: "(string \<times> 's decoder) list \<Rightarrow> (string \<times> json) list \<Rightarrow> 's \<Rightarrow> 's option" where
  "dec_members fs [] x = Some x"
| "dec_members fs ((k, v) # m) x =
     (case find_field fs k of
        None \<Rightarrow> dec_members fs m x
      | Some d \<Rightarrow> Option.bind (d v x) (dec_members fs m))"

fun dec_struct :: "(string \<times> 's decoder) list \<Rightarrow> 's decoder" where
  "dec_struct fs (JObj m) x = dec_members fs m x"
| "dec_struct fs JNull x = Some x"
| "dec_struct fs _ x = None"

section \<open>Maps and slices\<close>

text \<open>A map element is always decoded from the zero value.\<close>

fun dec_entries :: "'a decoder \<Rightarrow> 'a \<Rightarrow> (string \<times> json) list \<Rightarrow> (string \<times> 'a) list \<Rightarrow> (string \<times> 'a) list option" where
  "dec_entries d z [] x = Some x"
| "dec_entries d z ((k, v) # m) x =
     Option.bind (d v z) (\<lambda>y. dec_entries d z m (mput k y x))"

fun dec_map :: "'a decoder \<Rightarrow> 'a \<Rightarrow> (string \<times> 'a) list decoder" where
  "dec_map d z (JObj m) x = dec_entries d z m x"
| "dec_map d z JNull x = Some []"
| "dec_map d z _ x = None"

text \<open>
  A slice is its backing array up to the last element ever written, and its length: decoding onto
  a slice decodes onto the elements of the backing array.
\<close>

type_synonym 'a slice = "'a list \<times> nat"

definition elems :: "'a slice \<Rightarrow> 'a list" where
  "elems sl = take (snd sl) (fst sl)"

fun dec_over :: "'a decoder \<Rightarrow> 'a \<Rightarrow> json list \<Rightarrow> 'a list \<Rightarrow> 'a list option" where
  "dec_over d z [] bs = Some bs"
| "dec_over d z (v # vs) bs =
     Option.bind (d v (case bs of [] \<Rightarrow> z | b # _ \<Rightarrow> b))
       (\<lambda>y. map_option ((#) y) (dec_over d z vs (drop 1 bs)))"

fun dec_slice :: "'a decoder \<Rightarrow> 'a \<Rightarrow> 'a slice decoder" where
  "dec_slice d z (JArr vs) (bs, n) =
     (if vs = [] then Some ([], 0) else map_option (\<lambda>bs'. (bs', length vs)) (dec_over d z vs bs))"
| "dec_slice d z JNull sl = Some ([], 0)"
| "dec_slice d z _ sl = None"

definition UnmarshalInto :: "'a decoder \<Rightarrow> string \<Rightarrow> 'a \<Rightarrow> 'a option" where
  "UnmarshalInto d s x = Option.bind (Parse s) (\<lambda>v. d v x)"

section \<open>Facts\<close>

lemma foldKey_ascii: "(\<forall>c \<in> set s. (of_char c :: nat) < 0x80) \<Longrightarrow> foldKey s = ToLower s"
  by (induction s) (auto simp: ToLower_def)

lemma dec_over_length: "dec_over d z vs bs = Some bs' \<Longrightarrow> length bs' = length vs + (length bs - length vs)"
  by (induction vs arbitrary: bs bs') (auto simp: bind_eq_Some_conv)

lemma dec_slice_length: "dec_slice d z (JArr vs) sl = Some sl' \<Longrightarrow> length (elems sl') = length vs"
  by (cases sl) (auto simp: elems_def dest: dec_over_length split: if_splits)

lemma dec_members_append:
  "dec_members fs (m @ m') x = Option.bind (dec_members fs m x) (dec_members fs m')"
proof (induction m arbitrary: x)
  case (Cons kv m)
  have "dec_members fs (m @ m') = (\<lambda>y. Option.bind (dec_members fs m y) (dec_members fs m'))"
    using Cons.IH by (rule ext)
  then show ?case by (cases kv) (simp split: option.split)
qed simp

lemma dec_members_unknown:
  "\<forall>kv \<in> set m. find_field fs (fst kv) = None \<Longrightarrow> dec_members fs m x = Some x"
  by (induction m) auto

end
