(* ===== verification/Oci.thy ===== *)
theory Oci
  imports Store JsonStruct
begin

text \<open>
  The OCI registry driver (\<^verbatim>\<open>internal/store/oci\<close>). The library \<^verbatim>\<open>go-containerregistry\<close> is a parameter:
  name parsing (a parsed reference is its full name), keychains, and the remote operations, of which
  only deletion changes the world. A remote error is its text and, if \<open>errors.As\<close> finds a
  \<open>transport.Error\<close> in it, the status code and the diagnostic codes.
\<close>

record rerr =
  rerrText :: string
  rerrTransport :: "(int \<times> string list) option"

record Descriptor =
  descDigest :: string
  descMediaType :: string
  descManifest :: string

record ('w, 'k, 'i) ocisdk =
  NewRepository :: "bool \<Rightarrow> string \<Rightarrow> goerr + string"
  NewTag :: "bool \<Rightarrow> string \<Rightarrow> goerr + string"
  NewDigest :: "bool \<Rightarrow> string \<Rightarrow> goerr + string"
  ecrKeychain :: 'k
  defaultKeychain :: 'k
  NewMultiKeychain :: "'k list \<Rightarrow> 'k"
  remoteGet :: "'k \<Rightarrow> string \<Rightarrow> 'w \<Rightarrow> rerr + Descriptor"
  remoteHead :: "'k \<Rightarrow> string \<Rightarrow> 'w \<Rightarrow> rerr + string"
  remoteDelete :: "'k \<Rightarrow> string \<Rightarrow> 'w \<Rightarrow> rerr option \<times> 'w"
  descImage :: "'k \<Rightarrow> Descriptor \<Rightarrow> 'w \<Rightarrow> goerr + 'i"
  ConfigLabels :: "'i \<Rightarrow> 'w \<Rightarrow> goerr + gomap"

record 'k ocidriver =
  ociRepo :: string
  ociNameInsecure :: bool
  ociStampAnno :: string
  ociKeychain :: 'k

definition oci_keychain :: "('w, 'k, 'i) ocisdk \<Rightarrow> 'k" where
  "oci_keychain G = NewMultiKeychain G [ecrKeychain G, defaultKeychain G]"

definition oci_isNotFound :: "rerr \<Rightarrow> bool" where
  "oci_isNotFound e =
     (case rerrTransport e of
        None \<Rightarrow> False
      | Some (code, ds) \<Rightarrow> code = 404 \<or> list_ex (\<lambda>c. c = ''MANIFEST_UNKNOWN'' \<or> c = ''NAME_UNKNOWN'') ds)"

definition oci_isUnsupported :: "rerr \<Rightarrow> bool" where
  "oci_isUnsupported e =
     (case rerrTransport e of
        None \<Rightarrow> False
      | Some (code, ds) \<Rightarrow> code = 405 \<or> code = 400 \<or> list_ex (\<lambda>c. c = ''UNSUPPORTED'') ds)"

definition isImageManifest :: "string \<Rightarrow> bool" where
  "isImageManifest mt \<longleftrightarrow>
     mt = ''application/vnd.oci.image.manifest.v1+json''
   \<or> mt = ''application/vnd.docker.distribution.manifest.v2+json''"

definition oci_tag :: "('w, 'k, 'i) ocisdk \<Rightarrow> 'k ocidriver \<Rightarrow> string \<Rightarrow> goerr + string" where
  "oci_tag G d key =
     (case NewTag G (ociNameInsecure d) (ociRepo d @ '':'' @ key) of
        Inl e \<Rightarrow> Inl (Errorf ''invalid tag %q in %s: %w'' [AStr key, AStr (ociRepo d), AErr e])
      | Inr ref \<Rightarrow> Inr ref)"

text \<open>The \<open>annotations\<close> of a manifest, and image labels where the manifest is silent.\<close>

definition manifestAnnotations :: "gomap decoder" where
  "manifestAnnotations = dec_struct [(''annotations'', dec_map dec_string [])]"

definition addLabels :: "gomap \<Rightarrow> gomap \<Rightarrow> gomap" where
  "addLabels labels md =
     foldl (\<lambda>acc kv. if map_of acc (ToLower (fst kv)) = None then mput (ToLower (fst kv)) (snd kv) acc else acc) md labels"

definition oci_Observe :: "('w, 'k, 'i) ocisdk \<Rightarrow> 'k ocidriver \<Rightarrow> 'w \<Rightarrow> string \<Rightarrow> goerr + Observation" where
  "oci_Observe G d w key =
     (case oci_tag G d key of
        Inl e \<Rightarrow> Inl e
      | Inr ref \<Rightarrow>
          (case remoteGet G (ociKeychain d) ref w of
             Inl e \<Rightarrow>
               if oci_isNotFound e then Inr absent
               else Inl (Errorf ''get manifest %s: %w'' [AStr ref, AErr (ExtError (rerrText e))])
           | Inr desc \<Rightarrow>
               (case UnmarshalInto manifestAnnotations (descManifest desc) [] of
                  None \<Rightarrow> Inl (Errorf ''parse manifest %s: %w'' [AStr ref])
                | Some annotations \<Rightarrow>
                    (let md = lowerKeys annotations
                     in if map_of md (ociStampAnno d) = None \<and> isImageManifest (descMediaType desc) then
                          (case descImage G (ociKeychain d) desc w of
                             Inl e \<Rightarrow> Inl (Errorf ''read image %s: %w'' [AStr ref, AErr e])
                           | Inr img \<Rightarrow>
                               (case ConfigLabels G img w of
                                  Inl e \<Rightarrow> Inl (Errorf ''read image config %s: %w'' [AStr ref, AErr e])
                                | Inr labels \<Rightarrow>
                                    Inr \<lparr>Exists = True, obsDigest = descDigest desc, Metadata = addLabels labels md\<rparr>))
                        else Inr \<lparr>Exists = True, obsDigest = descDigest desc, Metadata = md\<rparr>))))"

text \<open>The manifest goes by digest, then the tag, whose deletion a registry may decline.\<close>

definition oci_Delete :: "('w, 'k, 'i) ocisdk \<Rightarrow> 'k ocidriver \<Rightarrow> 'w \<Rightarrow> string \<Rightarrow> goerr option \<times> 'w" where
  "oci_Delete G d w key =
     (case oci_tag G d key of
        Inl e \<Rightarrow> (Some e, w)
      | Inr ref \<Rightarrow>
          (case remoteHead G (ociKeychain d) ref w of
             Inl e \<Rightarrow>
               (if oci_isNotFound e then None else Some (Errorf ''head %s: %w'' [AStr ref, AErr (ExtError (rerrText e))]), w)
           | Inr digest \<Rightarrow>
               (case NewDigest G (ociNameInsecure d) (ociRepo d @ ''@'' @ digest) of
                  Inl e \<Rightarrow> (Some (Errorf ''build digest reference for %s: %w'' [AStr ref, AErr e]), w)
                | Inr digestRef \<Rightarrow>
                    (case remoteDelete G (ociKeychain d) digestRef w of
                       (e, w1) \<Rightarrow>
                         if e \<noteq> None \<and> \<not> oci_isNotFound (the e)
                         then (Some (Errorf ''delete %s: %w'' [AStr digestRef, AErr (ExtError (rerrText (the e)))]), w1)
                         else (case remoteDelete G (ociKeychain d) ref w1 of
                           (e', w2) \<Rightarrow>
                             if e' \<noteq> None \<and> \<not> oci_isNotFound (the e') \<and> \<not> oci_isUnsupported (the e')
                             then (Some (Errorf ''delete tag %s: %w'' [AStr ref, AErr (ExtError (rerrText (the e')))]), w2)
                             else (None, w2))))))"

definition oci_driver :: "('w, 'k, 'i) ocisdk \<Rightarrow> 'k ocidriver \<Rightarrow> 'w StoreDriver" where
  "oci_driver G d = \<lparr>Observe = oci_Observe G d, Delete = oci_Delete G d\<rparr>"

definition oci_factory :: "('w, 'k, 'i) ocisdk \<Rightarrow> 'w Factory" where
  "oci_factory G w class =
     (case OCI (Store (classSpec class)) of
        None \<Rightarrow> Inl (Errorf ''class %s: store.driver is oci but store.oci is not set'' [AStr (className class)])
      | Some cfg \<Rightarrow>
          (case NewRepository G (ociInsecure cfg) (ociRepository cfg) of
             Inl e \<Rightarrow>
               Inl (Errorf ''class %s: invalid repository %q: %w''
                 [AStr (className class), AStr (ociRepository cfg), AErr e])
           | Inr repo \<Rightarrow>
               Inr (oci_driver G \<lparr>ociRepo = repo, ociNameInsecure = ociInsecure cfg,
                 ociStampAnno = StampMetadataKey class, ociKeychain = oci_keychain G\<rparr>)))"

definition oci_Register :: "('w, 'k, 'i) ocisdk \<Rightarrow> 'w Registry \<Rightarrow> 'w Registry" where
  "oci_Register G reg = Register reg ''oci'' (oci_factory G)"

section \<open>Observations\<close>

lemma addLabels_keeps: "map_of md k = Some v \<Longrightarrow> map_of (addLabels labels md) k = Some v"
proof (induction labels arbitrary: md)
  case (Cons kv labels)
  have "addLabels (kv # labels) md = addLabels labels
      (if map_of md (ToLower (fst kv)) = None then mput (ToLower (fst kv)) (snd kv) md else md)"
    by (simp add: addLabels_def)
  then show ?case using Cons.IH Cons.prems by (cases "ToLower (fst kv) = k") auto
qed (simp add: addLabels_def)

text \<open>
  C31: What a manifest says about itself is what is observed: every annotation, the stamp in
  particular, keeps its value whatever the labels of the image say, and the digest is the
  registry's.
\<close>

theorem oci_annotations_win:
  assumes "oci_tag G d key = Inr ref" "remoteGet G (ociKeychain d) ref w = Inr desc"
    and "UnmarshalInto manifestAnnotations (descManifest desc) [] = Some annotations"
    and "oci_Observe G d w key = Inr ob"
  shows "Exists ob \<and> obsDigest ob = descDigest desc
    \<and> (map_of (lowerKeys annotations) k = Some v \<longrightarrow> map_of (Metadata ob) k = Some v)"
  using assms by (auto simp: oci_Observe_def Let_def addLabels_keeps split: if_splits sum.splits)

text \<open>
  The registry driver reports absence exactly when the registry says that the manifest or the
  repository is unknown.
\<close>

theorem oci_absent_iff_unknown:
  "(\<exists>ob. oci_Observe G d w key = Inr ob \<and> \<not> Exists ob) \<longleftrightarrow>
   (\<exists>ref e. oci_tag G d key = Inr ref \<and> remoteGet G (ociKeychain d) ref w = Inl e \<and> oci_isNotFound e)"
  by (auto simp: oci_Observe_def absent_def Let_def split: sum.splits option.splits if_splits)

section \<open>Deletion\<close>

text \<open>
  Documented behaviour of a registry: \<open>HEAD\<close> and \<open>GET\<close> agree on what is unknown; a tag that was
  deleted, or that the registry says is not there, is unknown; and a registry that declines to
  delete tags drops a tag with the manifest it points to.
\<close>

definition unknown_ref :: "('w, 'k, 'i) ocisdk \<Rightarrow> 'k \<Rightarrow> string \<Rightarrow> 'w \<Rightarrow> bool" where
  "unknown_ref G kc ref w \<longleftrightarrow> (\<exists>e. remoteGet G kc ref w = Inl e \<and> oci_isNotFound e)"

definition registry_ok :: "('w, 'k, 'i) ocisdk \<Rightarrow> 'k ocidriver \<Rightarrow> bool" where
  "registry_ok G d \<longleftrightarrow>
     (\<forall>ref w e. remoteHead G (ociKeychain d) ref w = Inl e \<longrightarrow> oci_isNotFound e \<longrightarrow> unknown_ref G (ociKeychain d) ref w)
   \<and> (\<forall>ref w w'. remoteDelete G (ociKeychain d) ref w = (None, w') \<longrightarrow> unknown_ref G (ociKeychain d) ref w')
   \<and> (\<forall>ref w w' e. remoteDelete G (ociKeychain d) ref w = (Some e, w') \<longrightarrow> oci_isNotFound e \<longrightarrow>
        unknown_ref G (ociKeychain d) ref w')
   \<and> (\<forall>ref w digest dref e w1 e' w2.
        remoteHead G (ociKeychain d) ref w = Inr digest \<longrightarrow>
        NewDigest G (ociNameInsecure d) (ociRepo d @ ''@'' @ digest) = Inr dref \<longrightarrow>
        remoteDelete G (ociKeychain d) dref w = (e, w1) \<longrightarrow> (e = None \<or> oci_isNotFound (the e)) \<longrightarrow>
        remoteDelete G (ociKeychain d) ref w1 = (Some e', w2) \<longrightarrow> oci_isUnsupported e' \<longrightarrow>
        unknown_ref G (ociKeychain d) ref w2)"

lemma registry_okD:
  assumes "registry_ok G d"
  shows "remoteHead G (ociKeychain d) ref w = Inl e \<Longrightarrow> oci_isNotFound e \<Longrightarrow> unknown_ref G (ociKeychain d) ref w"
    and "remoteDelete G (ociKeychain d) ref w = (None, w') \<Longrightarrow> unknown_ref G (ociKeychain d) ref w'"
    and "remoteDelete G (ociKeychain d) ref w = (Some e, w') \<Longrightarrow> oci_isNotFound e \<Longrightarrow>
      unknown_ref G (ociKeychain d) ref w'"
    and "remoteHead G (ociKeychain d) ref w = Inr digest \<Longrightarrow>
      NewDigest G (ociNameInsecure d) (ociRepo d @ ''@'' @ digest) = Inr dref \<Longrightarrow>
      remoteDelete G (ociKeychain d) dref w = (e2, w1) \<Longrightarrow> e2 = None \<or> oci_isNotFound (the e2) \<Longrightarrow>
      remoteDelete G (ociKeychain d) ref w1 = (Some e', w2) \<Longrightarrow> oci_isUnsupported e' \<Longrightarrow>
      unknown_ref G (ociKeychain d) ref w2"
  using assms unfolding registry_ok_def by metis+

lemma oci_Delete_unknown:
  assumes "registry_ok G d" "oci_Delete G d w key = (None, w')"
  shows "\<exists>ref. oci_tag G d key = Inr ref \<and> unknown_ref G (ociKeychain d) ref w'"
proof -
  obtain ref where t: "oci_tag G d key = Inr ref"
    using assms(2) by (auto simp: oci_Delete_def split: sum.splits)
  show ?thesis
  proof (cases "remoteHead G (ociKeychain d) ref w")
    case (Inl e)
    then show ?thesis using assms t registry_okD(1) [OF assms(1)] by (auto simp: oci_Delete_def split: if_splits)
  next
    case (Inr digest)
    obtain dref e w1 e' w2 where
      nd: "NewDigest G (ociNameInsecure d) (ociRepo d @ ''@'' @ digest) = Inr dref"
      and d1: "remoteDelete G (ociKeychain d) dref w = (e, w1)" and d2: "remoteDelete G (ociKeychain d) ref w1 = (e', w2)"
      and ok1: "e = None \<or> oci_isNotFound (the e)" and w2: "w2 = w'"
      and ok2: "e' = None \<or> oci_isNotFound (the e') \<or> oci_isUnsupported (the e')"
      using assms(2) t Inr by (auto simp: oci_Delete_def split: sum.splits prod.splits if_splits)
    have "unknown_ref G (ociKeychain d) ref w2"
      using d2 ok2 registry_okD(2,3) [OF assms(1)] registry_okD(4) [OF assms(1) Inr nd d1 ok1]
      by (cases e') auto
    then show ?thesis using t w2 by blast
  qed
qed

lemma unknown_ref_absent:
  "oci_tag G d key = Inr ref \<Longrightarrow> unknown_ref G (ociKeychain d) ref w \<Longrightarrow> oci_Observe G d w key = Inr absent"
  by (auto simp: oci_Observe_def unknown_ref_def)


lemma oci_store:
  assumes "registry_ok G d"
  shows "store_driver (oci_Observe G d) (oci_Delete G d)"
proof
  fix w k w' ob
  assume d: "oci_Delete G d w k = (None, w')" and o': "oci_Observe G d w' k = Inr ob"
  obtain ref where "oci_tag G d k = Inr ref" "unknown_ref G (ociKeychain d) ref w'"
    using oci_Delete_unknown [OF assms d] by blast
  then show "\<not> Exists ob" using unknown_ref_absent [of G d k ref w'] o' by (simp add: absent_def)
qed

section \<open>A registry\<close>

text \<open>
  A registry in the manner of distribution 2.x: tags point to digests, a manifest is deleted by
  digest, and deleting a tag is declined with 405.
\<close>

record demoRegistry =
  tags :: "string \<Rightarrow> string option"
  manifests :: "string \<Rightarrow> Descriptor option"

definition refDigest :: "demoRegistry \<Rightarrow> string \<Rightarrow> string option" where
  "refDigest w ref = (if CHR ''@'' \<in> set ref then Some (drop 1 (dropWhile (\<lambda>c. c \<noteq> CHR ''@'') ref)) else tags w ref)"

definition refManifest :: "demoRegistry \<Rightarrow> string \<Rightarrow> Descriptor option" where
  "refManifest w ref = Option.bind (refDigest w ref) (manifests w)"

definition unknownManifest :: rerr where
  "unknownManifest = \<lparr>rerrText = ''manifest unknown'', rerrTransport = Some (404, [''MANIFEST_UNKNOWN''])\<rparr>"

definition declined :: rerr where
  "declined = \<lparr>rerrText = ''unsupported'', rerrTransport = Some (405, [''UNSUPPORTED''])\<rparr>"

definition demoDelete :: "string \<Rightarrow> demoRegistry \<Rightarrow> rerr option \<times> demoRegistry" where
  "demoDelete ref w =
     (if CHR ''@'' \<notin> set ref then (Some declined, w)
      else if refManifest w ref = None then (Some unknownManifest, w)
      else (None, w\<lparr>manifests := (manifests w)(the (refDigest w ref) := None)\<rparr>))"

definition demoOci :: "(demoRegistry, unit, gomap) ocisdk" where
  "demoOci = \<lparr>NewRepository = (\<lambda>_. Inr), NewTag = (\<lambda>_. Inr), NewDigest = (\<lambda>_. Inr),
     ecrKeychain = (), defaultKeychain = (), NewMultiKeychain = (\<lambda>_. ()),
     remoteGet = (\<lambda>_ ref w. case refManifest w ref of None \<Rightarrow> Inl unknownManifest | Some x \<Rightarrow> Inr x),
     remoteHead = (\<lambda>_ ref w. case refManifest w ref of None \<Rightarrow> Inl unknownManifest | Some x \<Rightarrow> Inr (the (refDigest w ref))),
     remoteDelete = (\<lambda>_. demoDelete),
     descImage = (\<lambda>_ _ _. Inr [(''Dev.Kargops.Artifacts.Spec-Hash'', ''label'')]), ConfigLabels = (\<lambda>i _. Inr i)\<rparr>"

definition demoOciDriver :: "unit ocidriver" where
  "demoOciDriver = \<lparr>ociRepo = ''r'', ociNameInsecure = False, ociStampAnno = DefaultOCIStampAnnotation, ociKeychain = ()\<rparr>"

lemma demo_unknown: "oci_isNotFound unknownManifest" "oci_isUnsupported declined" "\<not> oci_isNotFound declined"
  by (simp_all add: oci_isNotFound_def oci_isUnsupported_def unknownManifest_def declined_def)

lemma demo_unknown_ref: "unknown_ref demoOci kc ref w \<longleftrightarrow> refManifest w ref = None"
  by (simp add: unknown_ref_def demoOci_def demo_unknown split: option.split)

lemma demoDelete_digest:
  "demoDelete ref w = (e, w') \<Longrightarrow> CHR ''@'' \<in> set ref \<Longrightarrow> refManifest w' ref = None \<and> refDigest w' = refDigest w"
  by (auto simp: demoDelete_def refManifest_def refDigest_def fun_eq_iff split: if_splits)

lemma demo_registry_ok: "registry_ok demoOci demoOciDriver"
proof -
  have drop: "refDigest w (''r'' @ ''@'' @ dg) = Some dg" for w dg by (simp add: refDigest_def)
  have "refManifest w2 ref = None"
    if "demoDelete (''r'' @ ''@'' @ the (refDigest w ref)) w = (e, w1)" "demoDelete ref w1 = (Some e', w2)"
      "refManifest w ref \<noteq> None" for ref w e w1 e' w2
  proof (cases "CHR ''@'' \<in> set ref")
    case True
    then show ?thesis using demoDelete_digest [OF that(2)] by blast
  next
    case False
    then have "w2 = w1" using that(2) by (simp add: demoDelete_def)
    then show ?thesis
      using demoDelete_digest [OF that(1)] that(3) drop
      by (auto simp: refManifest_def bind_eq_None_conv)
  qed
  moreover have "refManifest w' ref = None" if "demoDelete ref w = (e, w')" "e = None \<or> oci_isNotFound (the e)" for ref w e w'
    using that demoDelete_digest [OF that(1)] by (auto simp: demoDelete_def demo_unknown split: if_splits)
  ultimately show ?thesis
    unfolding registry_ok_def demo_unknown_ref
    by (auto simp: demoOci_def demoOciDriver_def split: option.splits)
qed

definition demoImage :: demoRegistry where
  "demoImage = \<lparr>tags = Map.empty(''r:k'' \<mapsto> ''sha256:1'', ''r:l'' \<mapsto> ''sha256:1''),
     manifests = Map.empty(''sha256:1'' \<mapsto> \<lparr>descDigest = ''sha256:1'',
       descMediaType = ''application/vnd.oci.image.manifest.v1+json'',
       descManifest = ''{\"annotations\":{\"vendor\":\"kargops\"}}''\<rparr>)\<rparr>"

text \<open>The stamp of this image is a label, found because the manifest has no stamp.\<close>

lemma demo_oci_observed:
  "oci_Observe demoOci demoOciDriver demoImage ''k'' =
   Inr \<lparr>Exists = True, obsDigest = ''sha256:1'', Metadata = [(''vendor'', ''kargops''), (DefaultOCIStampAnnotation, ''label'')]\<rparr>"
  by code_simp

theorem oci_annotations_win_witness:
  "\<exists>ob. oci_Observe demoOci demoOciDriver demoImage ''k'' = Inr ob \<and> map_of (Metadata ob) ''vendor'' = Some ''kargops''"
proof -
  have t: "oci_tag demoOci demoOciDriver ''k'' = Inr ''r:k''" by (simp add: oci_tag_def demoOci_def demoOciDriver_def)
  let ?x = "\<lparr>descDigest = ''sha256:1'', descMediaType = ''application/vnd.oci.image.manifest.v1+json'',
      descManifest = ''{\"annotations\":{\"vendor\":\"kargops\"}}''\<rparr>"
  have g: "remoteGet demoOci (ociKeychain demoOciDriver) ''r:k'' demoImage = Inr ?x"
    by (simp add: demoOci_def refManifest_def refDigest_def demoImage_def)
  have u: "UnmarshalInto manifestAnnotations (descManifest ?x) [] = Some [(''vendor'', ''kargops'')]" by code_simp
  have l: "map_of (lowerKeys [(''vendor'', ''kargops'')]) ''vendor'' = Some ''kargops''" by code_simp
  show ?thesis using oci_annotations_win [OF t g u demo_oci_observed] l demo_oci_observed by blast
qed


text \<open>
  Deleting by digest retires every tag of the manifest: the driver is not an \<open>exclusive_store\<close>. Tags
  of one manifest carry the same stamp, so they belong to Artifacts of the same identity.
\<close>

lemma oci_retires_other_tags:
  "oci_Observe demoOci demoOciDriver (snd (oci_Delete demoOci demoOciDriver demoImage ''k'')) ''l'' = Inr absent
   \<and> (\<exists>ob. oci_Observe demoOci demoOciDriver demoImage ''l'' = Inr ob \<and> Exists ob)"
proof -
  have "oci_Observe demoOci demoOciDriver demoImage ''l'' =
   Inr \<lparr>Exists = True, obsDigest = ''sha256:1'', Metadata = [(''vendor'', ''kargops''), (DefaultOCIStampAnnotation, ''label'')]\<rparr>"
    by code_simp
  then show ?thesis by (simp only: sum.inject) (simp, code_simp)
qed

end
