(* ===== verification/Ami.thy ===== *)
theory Ami
  imports Store AwsAuth
begin

text \<open>
  The machine image driver (\<^verbatim>\<open>internal/store/ami\<close>), which speaks the EC2 Query API over HTTP. The
  network and the signer are parameters, and so is the XML decoder, which turns a response into the
  structs of the source. Every operation threads the world; the driver the registry hands out
  exposes the answer of an observation, and \<open>ami_Observe_reads\<close> shows that nothing else happens.
\<close>

record ec2Image =
  ImageID :: string
  imgName :: string
  imgState :: string
  imgTags :: gomap
  imgSnapshots :: "string list"

record amixml =
  xmlImages :: "string \<Rightarrow> goerr + ec2Image list"
  xmlErrors :: "string \<Rightarrow> (string \<times> string) list option"

record 'w amidriver =
  amiEndpoint :: string
  amiSignRegion :: string
  amiOwnerID :: string
  amiPurge :: bool
  amiTimeout :: duration
  amiSign :: "'w \<Rightarrow> Request \<Rightarrow> string \<Rightarrow> string \<Rightarrow> goerr + Request"

definition ec2APIVersion :: string where
  "ec2APIVersion = ''2016-11-15''"

definition ami_maxBody :: nat where
  "ami_maxBody = 2 ^ 20"

definition ownerOr :: "string \<Rightarrow> string" where
  "ownerOr v = (if v \<noteq> [] then v else ''self'')"

definition actionOf :: "form \<Rightarrow> fmt_arg" where
  "actionOf params = AStr (mget params ''Action'')"

definition ami_call ::
  "'w httpc \<Rightarrow> amixml \<Rightarrow> 'w amidriver \<Rightarrow> form \<Rightarrow> (string \<Rightarrow> goerr + 'a) \<Rightarrow> 'w \<Rightarrow> (goerr + 'a) \<times> 'w" where
  "ami_call H X d params0 out w =
     (let params = mput ''Version'' ec2APIVersion params0
      in case NewRequest H ''POST'' (amiEndpoint d) (Some (Values_Encode params)) of
        Inl e \<Rightarrow> (Inl (Errorf ''build request: %w'' [AErr e]), w)
      | Inr rq \<Rightarrow>
          (case amiSign d w (setHeader ''Content-Type'' ''application/x-www-form-urlencoded; charset=utf-8'' rq)
                  (amiSignRegion d) ''ec2'' of
             Inl e \<Rightarrow> (Inl e, w)
           | Inr sent \<Rightarrow>
               (case transport H (amiTimeout d) sent w of
                  (Inl e, w') \<Rightarrow> (Inl (Errorf ''ec2 %s: %w'' [actionOf params, AErr e]), w')
                | (Inr resp, w') \<Rightarrow>
                    (case ReadAll (LimitReader (respBody resp) ami_maxBody) of
                       Inl e \<Rightarrow> (Inl (Errorf ''read ec2 response: %w'' [AErr e]), w')
                     | Inr raw \<Rightarrow>
                         if respStatus resp < 200 \<or> 300 \<le> respStatus resp then
                           (case xmlErrors X raw of
                              Some ((code, msg) # _) \<Rightarrow>
                                (Inl (Errorf ''ec2 %s: %s: %s'' [actionOf params, AStr code, AStr msg]), w')
                            | _ \<Rightarrow> (Inl (Errorf ''ec2 %s returned %d'' [actionOf params, AInt (respStatus resp)]), w'))
                         else (wrapErr ''decode ec2 response: %w'' (out raw), w')))))"

definition describeForm :: "'w amidriver \<Rightarrow> string \<Rightarrow> form" where
  "describeForm d key =
     [(''Action'', ''DescribeImages''), (''Owner.1'', amiOwnerID d), (''Filter.1.Name'', ''name''),
      (''Filter.1.Value.1'', key)]"

definition ami_describe ::
  "'w httpc \<Rightarrow> amixml \<Rightarrow> 'w amidriver \<Rightarrow> string \<Rightarrow> 'w \<Rightarrow> (goerr + ec2Image option) \<times> 'w" where
  "ami_describe H X d key w =
     (case ami_call H X d (describeForm d key) (xmlImages X) w of
        (Inl e, w') \<Rightarrow> (Inl e, w')
      | (Inr images, w') \<Rightarrow> (Inr (case images of [] \<Rightarrow> None | img # _ \<Rightarrow> Some img), w'))"

definition ami_Observe ::
  "'w httpc \<Rightarrow> amixml \<Rightarrow> 'w amidriver \<Rightarrow> 'w \<Rightarrow> string \<Rightarrow> (goerr + Observation) \<times> 'w" where
  "ami_Observe H X d w key =
     (case ami_describe H X d key w of
        (Inl e, w') \<Rightarrow> (Inl e, w')
      | (Inr None, w') \<Rightarrow> (Inr absent, w')
      | (Inr (Some img), w') \<Rightarrow>
          (Inr \<lparr>Exists = (imgState img = ''available''), obsDigest = ImageID img, Metadata = lowerKeys (imgTags img)\<rparr>, w'))"

definition deregisterForm :: "string \<Rightarrow> form" where
  "deregisterForm ami = [(''Action'', ''DeregisterImage''), (''ImageId'', ami)]"

definition snapshotForm :: "string \<Rightarrow> form" where
  "snapshotForm i = [(''Action'', ''DeleteSnapshot''), (''SnapshotId'', i)]"

fun ami_deleteSnapshots ::
  "'w httpc \<Rightarrow> amixml \<Rightarrow> 'w amidriver \<Rightarrow> string \<Rightarrow> string list \<Rightarrow> 'w \<Rightarrow> goerr option \<times> 'w" where
  "ami_deleteSnapshots H X d ami [] w = (None, w)"
| "ami_deleteSnapshots H X d ami (i # ids) w =
     (case ami_call H X d (snapshotForm i) (\<lambda>_. Inr ()) w of
        (Inl e, w') \<Rightarrow>
          (Some (Errorf ''image %s deregistered but snapshot %s remains: %w'' [AStr ami, AStr i, AErr e]), w')
      | (Inr _, w') \<Rightarrow> ami_deleteSnapshots H X d ami ids w')"

definition ami_Delete ::
  "'w httpc \<Rightarrow> amixml \<Rightarrow> 'w amidriver \<Rightarrow> 'w \<Rightarrow> string \<Rightarrow> goerr option \<times> 'w" where
  "ami_Delete H X d w key =
     (case ami_describe H X d key w of
        (Inl e, w') \<Rightarrow> (Some e, w')
      | (Inr None, w') \<Rightarrow> (None, w')
      | (Inr (Some img), w') \<Rightarrow>
          (let snapshots = (if amiPurge d then filter (\<lambda>i. i \<noteq> []) (imgSnapshots img) else [])
           in case ami_call H X d (deregisterForm (ImageID img)) (\<lambda>_. Inr ()) w' of
                (Inl e, w1) \<Rightarrow> (Some e, w1)
              | (Inr _, w1) \<Rightarrow> ami_deleteSnapshots H X d (ImageID img) snapshots w1))"

definition ami_driver :: "'w httpc \<Rightarrow> amixml \<Rightarrow> 'w amidriver \<Rightarrow> 'w StoreDriver" where
  "ami_driver H X d = \<lparr>Observe = (\<lambda>w key. fst (ami_Observe H X d w key)), Delete = ami_Delete H X d\<rparr>"

definition ami_new :: "('w, 'c, 'k) awslib \<Rightarrow> gotime \<Rightarrow> AMIStoreSpec \<Rightarrow> 'w amidriver" where
  "ami_new A now cfg =
     \<lparr>amiEndpoint = ''https://ec2.'' @ amiRegion cfg @ ''.amazonaws.com/'', amiSignRegion = amiRegion cfg,
      amiOwnerID = ownerOr (amiOwner cfg), amiPurge = amiDeleteSnapshots cfg, amiTimeout = 30 * second,
      amiSign = Sign A now\<rparr>"

definition ami_factory :: "'w httpc \<Rightarrow> amixml \<Rightarrow> ('w, 'c, 'k) awslib \<Rightarrow> gotime \<Rightarrow> 'w Factory" where
  "ami_factory H X A now w class =
     (case AMI (Store (classSpec class)) of
        None \<Rightarrow> Inl (Errorf ''class %s: store.driver is ami but store.ami is not set'' [AStr (className class)])
      | Some cfg \<Rightarrow>
          if amiRegion cfg = [] then Inl (Errorf ''class %s: store.ami.region is required'' [AStr (className class)])
          else Inr (ami_driver H X (ami_new A now cfg)))"

definition ami_Register ::
  "'w httpc \<Rightarrow> amixml \<Rightarrow> ('w, 'c, 'k) awslib \<Rightarrow> gotime \<Rightarrow> 'w Registry \<Rightarrow> 'w Registry" where
  "ami_Register H X A now reg = Register reg ''ami'' (ami_factory H X A now)"

section \<open>The contract\<close>

text \<open>
  Documented behaviour of EC2, on the images \<open>imgs w\<close> the owner can see: a description changes
  nothing and lists the images of the name asked for; deregistering with a 2xx answer removes the
  image of that id, deleting a snapshot no image; names are unique. The signer leaves the form
  alone.
\<close>

definition ec2_request :: "'w amidriver \<Rightarrow> form \<Rightarrow> Request \<Rightarrow> bool" where
  "ec2_request d params rq \<longleftrightarrow> rqMethod rq = ''POST'' \<and> rqURL rq = amiEndpoint d
     \<and> rqBody rq = Some (NewReader (Values_Encode (mput ''Version'' ec2APIVersion params)))"

definition ec2_ok :: "'w httpc \<Rightarrow> amixml \<Rightarrow> 'w amidriver \<Rightarrow> ('w \<Rightarrow> ec2Image list) \<Rightarrow> bool" where
  "ec2_ok H X d imgs \<longleftrightarrow>
     (\<forall>key rq w. ec2_request d (describeForm d key) rq \<longrightarrow> snd (transport H (amiTimeout d) rq w) = w)
   \<and> (\<forall>key rq w resp w' raw xs. ec2_request d (describeForm d key) rq \<longrightarrow>
        transport H (amiTimeout d) rq w = (Inr resp, w') \<longrightarrow> success (respStatus resp) \<longrightarrow>
        ReadAll (LimitReader (respBody resp) ami_maxBody) = Inr raw \<longrightarrow> xmlImages X raw = Inr xs \<longrightarrow>
        xs = filter (\<lambda>i. imgName i = key) (imgs w))
   \<and> (\<forall>ami rq w resp w'. ec2_request d (deregisterForm ami) rq \<longrightarrow>
        transport H (amiTimeout d) rq w = (Inr resp, w') \<longrightarrow> success (respStatus resp) \<longrightarrow>
        imgs w' = filter (\<lambda>i. ImageID i \<noteq> ami) (imgs w))
   \<and> (\<forall>i rq w. ec2_request d (snapshotForm i) rq \<longrightarrow> imgs (snd (transport H (amiTimeout d) rq w)) = imgs w)
   \<and> (\<forall>w. distinct (map imgName (imgs w)))
   \<and> (\<forall>w rq rg sv rq'. amiSign d w rq rg sv = Inr rq' \<longrightarrow>
        rqMethod rq' = rqMethod rq \<and> rqURL rq' = rqURL rq \<and> rqBody rq' = rqBody rq)"

lemma ec2_okD:
  assumes "ec2_ok H X d imgs"
  shows "ec2_request d (describeForm d key) rq \<Longrightarrow> snd (transport H (amiTimeout d) rq w) = w"
    and "ec2_request d (describeForm d key) rq \<Longrightarrow> transport H (amiTimeout d) rq w = (Inr resp, w') \<Longrightarrow>
      success (respStatus resp) \<Longrightarrow> ReadAll (LimitReader (respBody resp) ami_maxBody) = Inr raw \<Longrightarrow>
      xmlImages X raw = Inr xs \<Longrightarrow> xs = filter (\<lambda>i. imgName i = key) (imgs w)"
    and "ec2_request d (deregisterForm ami) rq \<Longrightarrow> transport H (amiTimeout d) rq w = (Inr resp, w') \<Longrightarrow>
      success (respStatus resp) \<Longrightarrow> imgs w' = filter (\<lambda>i. ImageID i \<noteq> ami) (imgs w)"
    and "ec2_request d (snapshotForm i) rq \<Longrightarrow> imgs (snd (transport H (amiTimeout d) rq w)) = imgs w"
    and "distinct (map imgName (imgs w))"
    and "amiSign d w rq rg sv = Inr rq' \<Longrightarrow>
      rqMethod rq' = rqMethod rq \<and> rqURL rq' = rqURL rq \<and> rqBody rq' = rqBody rq"
  using assms unfolding ec2_ok_def by metis+

text \<open>A call either never reaches the network, or sends the signed form and reports its answer.\<close>

lemma ami_call_cases:
  assumes "ec2_ok H X d imgs"
  obtains e where "ami_call H X d params out w = (Inl e, w)"
  | rq r w' where "ec2_request d params rq" "transport H (amiTimeout d) rq w = (r, w')"
      "snd (ami_call H X d params out w) = w'"
      "\<And>x. fst (ami_call H X d params out w) = Inr x \<Longrightarrow> \<exists>resp raw. r = Inr resp \<and> success (respStatus resp)
         \<and> ReadAll (LimitReader (respBody resp) ami_maxBody) = Inr raw \<and> out raw = Inr x"
proof -
  let ?ps = "mput ''Version'' ec2APIVersion params"
  let ?h = "setHeader ''Content-Type'' ''application/x-www-form-urlencoded; charset=utf-8''"
  show thesis
  proof (cases "NewRequest H ''POST'' (amiEndpoint d) (Some (Values_Encode ?ps))")
    case (Inl e)
    then show thesis by (intro that(1)) (simp add: ami_call_def)
  next
    case (Inr rq)
    note nr = NewRequest_Inr [OF Inr]
    show thesis
    proof (cases "amiSign d w (?h rq) (amiSignRegion d) ''ec2''")
      case (Inl e)
      then show thesis using Inr by (intro that(1)) (simp add: ami_call_def)
    next
      case signed: (Inr rq')
      obtain r w' where t: "transport H (amiTimeout d) rq' w = (r, w')" by fastforce
      have a: "ec2_request d params rq'"
        using nr ec2_okD(6) [OF assms signed] by (simp add: ec2_request_def)
      have b: "snd (ami_call H X d params out w) = w'"
        using Inr signed t
        by (auto simp: ami_call_def Let_def split: sum.splits option.splits list.splits)
      have c: "\<exists>resp raw. r = Inr resp \<and> success (respStatus resp)
         \<and> ReadAll (LimitReader (respBody resp) ami_maxBody) = Inr raw \<and> out raw = Inr x"
        if "fst (ami_call H X d params out w) = Inr x" for x
        using that Inr signed t
        by (cases r) (auto simp: ami_call_def success_def Let_def split: sum.splits option.splits list.splits if_splits)
      show thesis by (rule that(2) [OF a t b c])
    qed
  qed
qed

lemma ami_describe_reads:
  assumes "ec2_ok H X d imgs"
  shows "snd (ami_describe H X d key w) = w"
proof -
  have "snd (ami_call H X d (describeForm d key) (xmlImages X) w) = w"
  proof (rule ami_call_cases [OF assms, of "describeForm d key" "xmlImages X" w])
    show "ami_call H X d (describeForm d key) (xmlImages X) w = (Inl e, w) \<Longrightarrow> ?thesis" for e by simp
  next
    fix rq r w'
    assume "ec2_request d (describeForm d key) rq" "transport H (amiTimeout d) rq w = (r, w')"
      "snd (ami_call H X d (describeForm d key) (xmlImages X) w) = w'"
    then show ?thesis using ec2_okD(1) [OF assms, of key rq w] by simp
  qed
  then show ?thesis by (auto simp: ami_describe_def split: prod.splits sum.splits)
qed

lemma ami_describe_finds:
  assumes "ec2_ok H X d imgs" "ami_describe H X d key w = (Inr found, w')"
  shows "found = List.find (\<lambda>i. imgName i = key) (imgs w)"
proof -
  have hd: "(case filter P xs of [] \<Rightarrow> None | i # _ \<Rightarrow> Some i) = List.find P xs" for P and xs :: "ec2Image list"
    by (induction xs) auto
  obtain xs where c: "fst (ami_call H X d (describeForm d key) (xmlImages X) w) = Inr xs"
    and f: "found = (case xs of [] \<Rightarrow> None | i # _ \<Rightarrow> Some i)"
    using assms(2) by (auto simp: ami_describe_def split: prod.splits sum.splits)
  have "xs = filter (\<lambda>i. imgName i = key) (imgs w)"
  proof (rule ami_call_cases [OF assms(1), of "describeForm d key" "xmlImages X" w])
    show "ami_call H X d (describeForm d key) (xmlImages X) w = (Inl e, w) \<Longrightarrow> ?thesis" for e using c by simp
  next
    fix rq r w'
    assume a: "ec2_request d (describeForm d key) rq" "transport H (amiTimeout d) rq w = (r, w')"
      and "\<And>x. fst (ami_call H X d (describeForm d key) (xmlImages X) w) = Inr x \<Longrightarrow>
         \<exists>resp raw. r = Inr resp \<and> success (respStatus resp)
           \<and> ReadAll (LimitReader (respBody resp) ami_maxBody) = Inr raw \<and> xmlImages X raw = Inr x"
    from this(3) [OF c] obtain resp raw where "r = Inr resp" "success (respStatus resp)"
      "ReadAll (LimitReader (respBody resp) ami_maxBody) = Inr raw" "xmlImages X raw = Inr xs" by blast
    then show ?thesis using ec2_okD(2) [OF assms(1) a(1)] a(2) by simp
  qed
  then show ?thesis using f hd by simp
qed

text \<open>Observing an image sends a description and changes nothing.\<close>

lemma ami_Observe_reads:
  assumes "ec2_ok H X d imgs"
  shows "snd (ami_Observe H X d w key) = w"
  using ami_describe_reads [OF assms, of key w]
  by (auto simp: ami_Observe_def split: prod.splits sum.splits option.splits)

lemma ami_deregister:
  assumes "ec2_ok H X d imgs" "ami_call H X d (deregisterForm ami) (\<lambda>_. Inr ()) w = (Inr u, w')"
  shows "imgs w' = filter (\<lambda>i. ImageID i \<noteq> ami) (imgs w)"
proof (rule ami_call_cases [OF assms(1), of "deregisterForm ami" "\<lambda>_. Inr ()" w])
  show "ami_call H X d (deregisterForm ami) (\<lambda>_. Inr ()) w = (Inl e, w) \<Longrightarrow> ?thesis" for e using assms(2) by simp
next
  fix rq r w1
  assume a: "ec2_request d (deregisterForm ami) rq" "transport H (amiTimeout d) rq w = (r, w1)"
    and w: "snd (ami_call H X d (deregisterForm ami) (\<lambda>_. Inr ()) w) = w1"
    and ok: "\<And>x. fst (ami_call H X d (deregisterForm ami) (\<lambda>_. Inr ()) w) = Inr x \<Longrightarrow>
       \<exists>resp raw. r = Inr resp \<and> success (respStatus resp)
         \<and> ReadAll (LimitReader (respBody resp) ami_maxBody) = Inr raw \<and> (Inr () :: goerr + unit) = Inr x"
  obtain resp where "r = Inr resp" "success (respStatus resp)" using ok [of u] assms(2) by auto
  then show ?thesis using ec2_okD(3) [OF assms(1) a(1), of w resp w1] a(2) w assms(2) by simp
qed

lemma ami_deleteSnapshots_images:
  assumes "ec2_ok H X d imgs"
  shows "imgs (snd (ami_deleteSnapshots H X d ami ids w)) = imgs w"
proof (induction ids arbitrary: w)
  case (Cons i ids)
  have step: "imgs (snd (ami_call H X d (snapshotForm i) (\<lambda>_. Inr ()) w)) = imgs w"
  proof (rule ami_call_cases [OF assms, of "snapshotForm i" "\<lambda>_. Inr ()" w])
    show "ami_call H X d (snapshotForm i) (\<lambda>_. Inr ()) w = (Inl e, w) \<Longrightarrow> ?thesis" for e by simp
  next
    fix rq r w'
    assume "ec2_request d (snapshotForm i) rq" "transport H (amiTimeout d) rq w = (r, w')"
      "snd (ami_call H X d (snapshotForm i) (\<lambda>_. Inr ()) w) = w'"
    then show ?thesis using ec2_okD(4) [OF assms, of i rq w] by simp
  qed
  obtain r w' where c: "ami_call H X d (snapshotForm i) (\<lambda>_. Inr ()) w = (r, w')" by fastforce
  then show ?case using step Cons.IH [of w'] by (cases r) simp_all
qed simp

lemma find_unique:
  assumes "distinct (map imgName xs)" "List.find (\<lambda>i. imgName i = key) xs = Some img"
  shows "List.find (\<lambda>i. imgName i = key) (filter (\<lambda>i. ImageID i \<noteq> ImageID img) xs) = None"
  using assms
proof (induction xs)
  case (Cons x xs)
  then show ?case
  proof (cases "imgName x = key")
    case True
    then have "\<forall>y \<in> set xs. imgName y \<noteq> key" using Cons.prems(1) by (simp add: image_iff) metis
    then show ?thesis using True Cons.prems(2) by (simp add: find_None_iff)
  qed auto
qed simp

lemma ami_Delete_absent:
  assumes "ec2_ok H X d imgs" "ami_Delete H X d w key = (None, w')"
    and "fst (ami_Observe H X d w' key) = Inr ob"
  shows "\<not> Exists ob"
proof -
  obtain found where df: "ami_describe H X d key w = (Inr found, w)"
    using assms(2) ami_describe_reads [OF assms(1), of key w]
    by (auto simp: ami_Delete_def split: prod.splits sum.splits option.splits)
  note f = ami_describe_finds [OF assms(1) df]
  have none: "List.find (\<lambda>i. imgName i = key) (imgs w') = None"
  proof (cases found)
    case None
    then show ?thesis using assms(2) df f by (simp add: ami_Delete_def)
  next
    case (Some img)
    obtain w1 ids where d1: "ami_call H X d (deregisterForm (ImageID img)) (\<lambda>_. Inr ()) w = (Inr (), w1)"
      and sn: "ami_deleteSnapshots H X d (ImageID img) ids w1 = (None, w')"
      using assms(2) df Some by (auto simp: ami_Delete_def Let_def split: prod.splits sum.splits)
    have "imgs w' = filter (\<lambda>i. ImageID i \<noteq> ImageID img) (imgs w)"
      using ami_deregister [OF assms(1) d1] ami_deleteSnapshots_images [OF assms(1), of "ImageID img" ids w1] sn by simp
    then show ?thesis using find_unique [OF ec2_okD(5) [OF assms(1)], of key w img] f Some by simp
  qed
  obtain r w2 where d2: "ami_describe H X d key w' = (r, w2)" by fastforce
  then show ?thesis
    using assms(3) ami_describe_finds [OF assms(1), of key w'] none
    by (cases r) (auto simp: ami_Observe_def absent_def)
qed


lemma ami_store:
  assumes "ec2_ok H X d imgs"
  shows "store_driver (Observe (ami_driver H X d)) (Delete (ami_driver H X d))"
  by unfold_locales (simp add: ami_driver_def ami_Delete_absent [OF assms])

section \<open>An account\<close>

text \<open>An account whose only image, while the world is \<open>True\<close>, is \<open>ami-1\<close> under the name \<open>k\<close>.\<close>

definition demoImg :: ec2Image where
  "demoImg = \<lparr>ImageID = ''ami-1'', imgName = ''k'', imgState = ''available'', imgTags = [], imgSnapshots = []\<rparr>"

definition demoAmi :: "bool amidriver" where
  "demoAmi = ami_new demoAws 0 \<lparr>amiRegion = ''eu'', amiOwner = [], amiStampTagKey = [], amiDeleteSnapshots = True\<rparr>"

definition sends :: "form \<Rightarrow> Request \<Rightarrow> bool" where
  "sends params rq \<longleftrightarrow> rqBody rq = Some (NewReader (Values_Encode (mput ''Version'' ec2APIVersion params)))"

definition demoEc2 :: "bool httpc" where
  "demoEc2 = \<lparr>urlParse = (\<lambda>_. None),
     transport = (\<lambda>t rq w.
       if sends (describeForm demoAmi ''k'') rq then (Inr (reply 200 (if w then ''one'' else ''none'')), w)
       else if sends (deregisterForm ''ami-1'') rq then (Inr (reply 200 ''ok''), False)
       else (Inr (reply 500 []), w))\<rparr>"

definition demoXml :: amixml where
  "demoXml = \<lparr>xmlImages = (\<lambda>raw. Inr (if raw = ''one'' then [demoImg] else [])), xmlErrors = (\<lambda>_. None)\<rparr>"

lemma demo_encode:
  "Values_Encode (mput ''Version'' ec2APIVersion (describeForm demoAmi key)) =
   ''Action=DescribeImages&Filter.1.Name=name&Filter.1.Value.1='' @ QueryEscape key @ ''&Owner.1=self&Version=2016-11-15''"
  "Values_Encode (mput ''Version'' ec2APIVersion (deregisterForm i)) =
   ''Action=DeregisterImage&ImageId='' @ QueryEscape i @ ''&Version=2016-11-15''"
  "Values_Encode (mput ''Version'' ec2APIVersion (snapshotForm i)) =
   ''Action=DeleteSnapshot&SnapshotId='' @ QueryEscape i @ ''&Version=2016-11-15''"
  by (simp_all add: Values_Encode_def describeForm_def deregisterForm_def snapshotForm_def ec2APIVersion_def
      demoAmi_def ami_new_def ownerOr_def unreserved_def byte_def)

lemma demo_sends:
  "sends (describeForm demoAmi k') rq \<Longrightarrow> sends (describeForm demoAmi k) rq \<longleftrightarrow> k' = k"
  "sends (deregisterForm i) rq \<Longrightarrow> \<not> sends (describeForm demoAmi k) rq"
  "sends (deregisterForm i) rq \<Longrightarrow> sends (deregisterForm j) rq \<longleftrightarrow> i = j"
  "sends (snapshotForm i) rq \<Longrightarrow> \<not> sends (describeForm demoAmi k) rq"
  "sends (snapshotForm i) rq \<Longrightarrow> \<not> sends (deregisterForm j) rq"
  "sends (describeForm demoAmi k) rq \<Longrightarrow> \<not> sends (deregisterForm j) rq"
  by (auto simp: sends_def demo_encode dest: QueryEscape_inj)

definition demoImages :: "bool \<Rightarrow> ec2Image list" where
  "demoImages w = (if w then [demoImg] else [])"

lemma request_sends: "ec2_request d params rq \<Longrightarrow> sends params rq"
  by (simp add: ec2_request_def sends_def)

lemma demo_transport:
  "sends (describeForm demoAmi ''k'') rq \<Longrightarrow>
     transport demoEc2 t rq w = (Inr (reply 200 (if w then ''one'' else ''none'')), w)"
  "sends (deregisterForm ''ami-1'') rq \<Longrightarrow> transport demoEc2 t rq w = (Inr (reply 200 ''ok''), False)"
  "\<not> sends (describeForm demoAmi ''k'') rq \<Longrightarrow> \<not> sends (deregisterForm ''ami-1'') rq \<Longrightarrow>
     transport demoEc2 t rq w = (Inr (reply 500 []), w)"
  using demo_sends(2) by (auto simp: demoEc2_def)

lemma demo_describe_answer:
  assumes "sends (describeForm demoAmi key) rq" "transport demoEc2 t rq w = (Inr resp, w')" "success (respStatus resp)"
    and "ReadAll (LimitReader (respBody resp) ami_maxBody) = Inr raw" "xmlImages demoXml raw = Inr xs"
  shows "xs = filter (\<lambda>i. imgName i = key) (demoImages w)"
proof (cases "key = ''k''")
  case True
  then have "raw = (if w then ''one'' else ''none'')"
    using assms(2,4) demo_transport(1) [of rq t w] assms(1) by (auto simp: ami_maxBody_def)
  then show ?thesis using assms(5) True by (auto simp: demoXml_def demoImages_def demoImg_def)
next
  case False
  then have "resp = reply 500 []"
    using assms(1,2) demo_transport(3) [of rq t w] demo_sends(1,6) [OF assms(1)] by auto
  then show ?thesis using assms(3) by (simp add: success_def)
qed

lemma demo_ec2_ok: "ec2_ok demoEc2 demoXml demoAmi demoImages"
proof -
  have rd: "snd (transport demoEc2 t rq w) = w" if "sends (describeForm demoAmi key) rq" for t rq w key
    using demo_sends(6) [OF that] demo_transport(1,3) [of rq t w] by fastforce
  have dr: "demoImages w' = filter (\<lambda>i. ImageID i \<noteq> ami) (demoImages w)"
    if "sends (deregisterForm ami) rq" "transport demoEc2 t rq w = (Inr resp, w')" "success (respStatus resp)"
    for ami rq w resp w' t
  proof (cases "ami = ''ami-1''")
    case True
    then show ?thesis using that demo_transport(2) [of rq t w] by (auto simp: demoImages_def demoImg_def)
  next
    case False
    then have "resp = reply 500 []" using that(1,2) demo_transport(3) [of rq t w] demo_sends(2,3) [OF that(1)] by auto
    then show ?thesis using that(3) by (simp add: success_def)
  qed
  have sn: "transport demoEc2 t rq w = (Inr (reply 500 []), w)" if "sends (snapshotForm i) rq" for i rq t w
    using demo_transport(3) demo_sends(4,5) [OF that] by blast
  have sg: "rqMethod rq' = rqMethod rq \<and> rqURL rq' = rqURL rq \<and> rqBody rq' = rqBody rq"
    if "amiSign demoAmi w rq rg sv = Inr rq'" for w rq rg sv rq'
    using that by (intro Sign_keeps [OF demoAws_ok]) (simp add: demoAmi_def ami_new_def)
  show ?thesis
    unfolding ec2_ok_def
  proof (intro conjI allI)
    fix key rq w resp w' raw xs
    show "ec2_request demoAmi (describeForm demoAmi key) rq \<longrightarrow> snd (transport demoEc2 (amiTimeout demoAmi) rq w) = w"
      using rd request_sends by metis
    show "ec2_request demoAmi (describeForm demoAmi key) rq \<longrightarrow>
        transport demoEc2 (amiTimeout demoAmi) rq w = (Inr resp, w') \<longrightarrow> success (respStatus resp) \<longrightarrow>
        ReadAll (LimitReader (respBody resp) ami_maxBody) = Inr raw \<longrightarrow> xmlImages demoXml raw = Inr xs \<longrightarrow>
        xs = filter (\<lambda>i. imgName i = key) (demoImages w)"
      using demo_describe_answer request_sends by metis
  next
    fix ami rq w resp w'
    show "ec2_request demoAmi (deregisterForm ami) rq \<longrightarrow> transport demoEc2 (amiTimeout demoAmi) rq w = (Inr resp, w') \<longrightarrow>
        success (respStatus resp) \<longrightarrow> demoImages w' = filter (\<lambda>i. ImageID i \<noteq> ami) (demoImages w)"
      using dr request_sends by metis
  next
    fix i rq w
    show "ec2_request demoAmi (snapshotForm i) rq \<longrightarrow>
        demoImages (snd (transport demoEc2 (amiTimeout demoAmi) rq w)) = demoImages w"
      using sn request_sends by (metis snd_conv)
  next
    fix w rq rg sv rq'
    show "distinct (map imgName (demoImages w))" by (simp add: demoImages_def)
    show "amiSign demoAmi w rq rg sv = Inr rq' \<longrightarrow>
        rqMethod rq' = rqMethod rq \<and> rqURL rq' = rqURL rq \<and> rqBody rq' = rqBody rq" using sg by blast
  qed
qed

lemma demo_call:
  assumes "\<And>rq. sends params rq \<Longrightarrow> transport demoEc2 (amiTimeout demoAmi) rq w = (Inr (reply 200 raw), w')"
    and "length raw < ami_maxBody"
  shows "ami_call demoEc2 demoXml demoAmi params out w = (wrapErr ''decode ec2 response: %w'' (out raw), w')"
  using assms
  by (simp add: ami_call_def NewRequest_def demoEc2_def tokenByte_def byte_def demoAmi_def ami_new_def Sign_def demoAws_def
      wrapErr_def sends_def Let_def)

lemma demo_requests:
  "ami_call demoEc2 demoXml demoAmi (describeForm demoAmi ''k'') (xmlImages demoXml) w = (Inr (demoImages w), w)"
  "ami_call demoEc2 demoXml demoAmi (deregisterForm ''ami-1'') (\<lambda>_. Inr ()) w = (Inr (), False)"
proof -
  have "ami_call demoEc2 demoXml demoAmi (describeForm demoAmi ''k'') (xmlImages demoXml) w =
      (wrapErr ''decode ec2 response: %w'' (xmlImages demoXml (if w then ''one'' else ''none'')), w)"
    by (rule demo_call) (simp_all add: demo_transport ami_maxBody_def)
  then show "ami_call demoEc2 demoXml demoAmi (describeForm demoAmi ''k'') (xmlImages demoXml) w = (Inr (demoImages w), w)"
    by (simp add: wrapErr_def demoXml_def demoImages_def)
  have "ami_call demoEc2 demoXml demoAmi (deregisterForm ''ami-1'') (\<lambda>_. Inr ()) w =
      (wrapErr ''decode ec2 response: %w'' (Inr ()), False)"
    by (rule demo_call [where raw = "''ok''"]) (simp_all add: demo_transport ami_maxBody_def)
  then show "ami_call demoEc2 demoXml demoAmi (deregisterForm ''ami-1'') (\<lambda>_. Inr ()) w = (Inr (), False)"
    by (simp add: wrapErr_def)
qed


end
