(* ===== verification/RepoManager.thy ===== *)
theory RepoManager
  imports Store GoHttp JsonStruct
begin

text \<open>
  The drivers for Artifactory and Nexus (\<^verbatim>\<open>internal/store/repomanager\<close>). The network and the
  resolver of credential secrets are parameters. Operations thread the world; the driver the
  registry hands out exposes the answer of an observation, which only sends \<open>GET\<close> requests
  (\<open>rm_Observe_reads\<close>).
\<close>

type_synonym 'w SecretResolver = "'w \<Rightarrow> string \<Rightarrow> goerr + gomap"

datatype flavour = flavourArtifactory | flavourNexus

record rmdriver =
  rmFlavour :: flavour
  rmCfg :: RepoManagerStoreSpec
  rmClientTimeout :: duration
  rmAuth :: "Request \<Rightarrow> Request"
  rmStampKey :: string

definition rm_maxBody :: nat where
  "rm_maxBody = 64 * 2 ^ 10"

definition timeoutOr :: "duration option \<Rightarrow> duration" where
  "timeoutOr d = (case d of Some t \<Rightarrow> if 0 < t then t else 30 * second | None \<Rightarrow> 30 * second)"

definition secretValue :: "gomap \<Rightarrow> string \<Rightarrow> string" where
  "secretValue data k = TrimRight (mget data k) [CHR 0x0D, CHR 0x0A]"

definition authFrom :: "gomap \<Rightarrow> goerr + (Request \<Rightarrow> Request)" where
  "authFrom data =
     (if secretValue data ''apiKey'' \<noteq> [] then
        Inr (setHeader ''X-JFrog-Art-Api'' (secretValue data ''apiKey''))
      else if secretValue data ''token'' \<noteq> [] then
        Inr (setHeader ''Authorization'' (''Bearer '' @ secretValue data ''token''))
      else if secretValue data ''username'' \<noteq> [] \<and> secretValue data ''password'' \<noteq> [] then
        Inr (setHeader ''Authorization''
          (''Basic '' @ base64 (secretValue data ''username'' @ '':'' @ secretValue data ''password'')))
      else Inl (Errorf ''secret carries none of apiKey, token, or username+password'' []))"

definition rm_do :: "'w httpc \<Rightarrow> rmdriver \<Rightarrow> string \<Rightarrow> string \<Rightarrow> 'w \<Rightarrow> (goerr + int \<times> string) \<times> 'w" where
  "rm_do H d method url w =
     (case NewRequest H method url None of
        Inl e \<Rightarrow> (Inl (Errorf ''build request: %w'' [AErr e]), w)
      | Inr rq \<Rightarrow>
          (case transport H (rmClientTimeout d) (rmAuth d (setHeader ''Accept'' ''application/json'' rq)) w of
             (Inl e, w') \<Rightarrow> (Inl (Errorf ''%s %s: %w'' [AStr method, AStr url, AErr e]), w')
           | (Inr resp, w') \<Rightarrow>
               (case ReadAll (LimitReader (respBody resp) rm_maxBody) of
                  Inl e \<Rightarrow> (Inl (Errorf ''read response: %w'' [AErr e]), w')
                | Inr body \<Rightarrow> (Inr (respStatus resp, body), w'))))"

definition rm_base :: "rmdriver \<Rightarrow> string" where
  "rm_base d = TrimRight (rmBaseURL (rmCfg d)) ''/''"

section \<open>Artifactory\<close>

record artifactoryInfo =
  artSHA256 :: string
  artProperties :: "(string \<times> string slice) list"

definition artifactoryDecoder :: "artifactoryInfo decoder" where
  "artifactoryDecoder = dec_struct
     [(''checksums'', field artSHA256 artSHA256_update (dec_struct [(''sha256'', dec_string)])),
      (''properties'', field artProperties artProperties_update (dec_map (dec_slice dec_string []) ([], 0)))]"

definition firstValues :: "(string \<times> string slice) list \<Rightarrow> gomap" where
  "firstValues ps = map (\<lambda>kv. (fst kv, hd (elems (snd kv)))) (filter (\<lambda>kv. elems (snd kv) \<noteq> []) ps)"

definition sha256Digest :: "string \<Rightarrow> string" where
  "sha256Digest h = (if h \<noteq> [] then ''sha256:'' @ h else [])"

definition storageURL :: "rmdriver \<Rightarrow> string \<Rightarrow> string" where
  "storageURL d key = rm_base d @ ''/api/storage/'' @ rmRepository (rmCfg d) @ ''/'' @ key @ ''?properties''"

definition contentURL :: "rmdriver \<Rightarrow> string \<Rightarrow> string" where
  "contentURL d key = rm_base d @ ''/'' @ rmRepository (rmCfg d) @ ''/'' @ key"

definition observeArtifactory :: "'w httpc \<Rightarrow> rmdriver \<Rightarrow> 'w \<Rightarrow> string \<Rightarrow> (goerr + Observation) \<times> 'w" where
  "observeArtifactory H d w key =
     (case rm_do H d ''GET'' (storageURL d key) w of
        (Inl e, w') \<Rightarrow> (Inl e, w')
      | (Inr (code, body), w') \<Rightarrow>
          if code = 404 then (Inr absent, w')
          else if code \<noteq> 200 then (Inl (Errorf ''artifactory returned %d for %s'' [AInt code, AStr key]), w')
          else case UnmarshalInto artifactoryDecoder body \<lparr>artSHA256 = [], artProperties = []\<rparr> of
            None \<Rightarrow> (Inl (Errorf ''decode artifactory response: %w'' []), w')
          | Some out \<Rightarrow>
              (Inr \<lparr>Exists = True, obsDigest = sha256Digest (artSHA256 out),
                    Metadata = lowerKeys (firstValues (artProperties out))\<rparr>, w'))"

definition deleteArtifactory :: "'w httpc \<Rightarrow> rmdriver \<Rightarrow> 'w \<Rightarrow> string \<Rightarrow> goerr option \<times> 'w" where
  "deleteArtifactory H d w key =
     (case rm_do H d ''DELETE'' (contentURL d key) w of
        (Inl e, w') \<Rightarrow> (Some e, w')
      | (Inr (code, body), w') \<Rightarrow>
          if code = 404 \<or> success code then (None, w')
          else (Some (Errorf ''artifactory delete returned %d'' [AInt code]), w'))"

section \<open>Nexus\<close>

record nexusItem =
  nxID :: string
  nxPath :: string
  nxSHA256 :: string

definition nexusItemDecoder :: "nexusItem decoder" where
  "nexusItemDecoder = dec_struct
     [(''id'', field nxID nxID_update dec_string), (''path'', field nxPath nxPath_update dec_string),
      (''checksum'', field nxSHA256 nxSHA256_update (dec_struct [(''sha256'', dec_string)]))]"

definition nexusAssets :: "nexusItem slice decoder" where
  "nexusAssets = dec_struct [(''items'', dec_slice nexusItemDecoder \<lparr>nxID = [], nxPath = [], nxSHA256 = []\<rparr>)]"

definition searchURL :: "rmdriver \<Rightarrow> string \<Rightarrow> string" where
  "searchURL d key =
     rm_base d @ ''/service/rest/v1/search/assets?repository='' @ QueryEscape (rmRepository (rmCfg d)) @
     ''&name='' @ QueryEscape key"

definition assetURL :: "rmdriver \<Rightarrow> string \<Rightarrow> string" where
  "assetURL d i = rm_base d @ ''/service/rest/v1/assets/'' @ PathEscape i"

definition observeNexus :: "'w httpc \<Rightarrow> rmdriver \<Rightarrow> 'w \<Rightarrow> string \<Rightarrow> (goerr + Observation) \<times> 'w" where
  "observeNexus H d w key =
     (case rm_do H d ''GET'' (searchURL d key) w of
        (Inl e, w') \<Rightarrow> (Inl e, w')
      | (Inr (code, body), w') \<Rightarrow>
          if code = 404 then (Inr absent, w')
          else if code \<noteq> 200 then (Inl (Errorf ''nexus returned %d for %s'' [AInt code, AStr key]), w')
          else case UnmarshalInto nexusAssets body ([], 0) of
            None \<Rightarrow> (Inl (Errorf ''decode nexus response: %w'' []), w')
          | Some out \<Rightarrow>
              (case elems out of
                 [] \<Rightarrow> (Inr absent, w')
               | item # _ \<Rightarrow> (Inr \<lparr>Exists = True, obsDigest = sha256Digest (nxSHA256 item), Metadata = []\<rparr>, w')))"

definition deleteNexus :: "'w httpc \<Rightarrow> rmdriver \<Rightarrow> 'w \<Rightarrow> string \<Rightarrow> goerr option \<times> 'w" where
  "deleteNexus H d w key =
     (case rm_do H d ''GET'' (searchURL d key) w of
        (Inl e, w') \<Rightarrow> (Some e, w')
      | (Inr (code, body), w') \<Rightarrow>
          if code = 404 then (None, w')
          else if code \<noteq> 200 then (Some (Errorf ''nexus search returned %d'' [AInt code]), w')
          else case UnmarshalInto nexusAssets body ([], 0) of
            None \<Rightarrow> (Some (Errorf ''decode nexus response: %w'' []), w')
          | Some out \<Rightarrow>
              (case elems out of
                 [] \<Rightarrow> (None, w')
               | item # _ \<Rightarrow>
                   (case rm_do H d ''DELETE'' (assetURL d (nxID item)) w' of
                      (Inl e, w1) \<Rightarrow> (Some e, w1)
                    | (Inr (code', body'), w1) \<Rightarrow>
                        if code' = 404 \<or> success code' then (None, w1)
                        else (Some (Errorf ''nexus delete returned %d'' [AInt code']), w1))))"

section \<open>The driver\<close>

definition rm_Observe :: "'w httpc \<Rightarrow> rmdriver \<Rightarrow> 'w \<Rightarrow> string \<Rightarrow> (goerr + Observation) \<times> 'w" where
  "rm_Observe H d w key =
     (if rmFlavour d = flavourArtifactory then observeArtifactory H d w key else observeNexus H d w key)"

definition rm_Delete :: "'w httpc \<Rightarrow> rmdriver \<Rightarrow> 'w \<Rightarrow> string \<Rightarrow> goerr option \<times> 'w" where
  "rm_Delete H d w key =
     (if rmFlavour d = flavourArtifactory then deleteArtifactory H d w key else deleteNexus H d w key)"

definition rm_driver :: "'w httpc \<Rightarrow> rmdriver \<Rightarrow> 'w StoreDriver" where
  "rm_driver H d = \<lparr>Observe = (\<lambda>w key. fst (rm_Observe H d w key)), Delete = rm_Delete H d\<rparr>"

definition rm_newDriver :: "'w httpc \<Rightarrow> 'w SecretResolver option \<Rightarrow> flavour \<Rightarrow> 'w \<Rightarrow> ArtifactClass \<Rightarrow> goerr + rmdriver" where
  "rm_newDriver H secrets f w class =
     (case RepoManager (Store (classSpec class)) of
        None \<Rightarrow>
          Inl (Errorf ''class %s: store.driver is %s but store.repoManager is not set''
            [AStr (className class), AStr (Driver (Store (classSpec class)))])
      | Some cfg \<Rightarrow>
          if rmBaseURL cfg = [] \<or> rmRepository cfg = [] then
            Inl (Errorf ''class %s: store.repoManager needs both baseURL and repository'' [AStr (className class)])
          else
            let d = \<lparr>rmFlavour = f, rmCfg = cfg, rmClientTimeout = timeoutOr (rmTimeout cfg), rmAuth = (\<lambda>rq. rq),
                     rmStampKey = StampMetadataKey class\<rparr>
            in case rmSecretRef cfg of
                 None \<Rightarrow> Inr d
               | Some ref \<Rightarrow>
                   (case secrets of
                      None \<Rightarrow>
                        Inl (Errorf ''class %s: secretRef set but no secret resolver is available'' [AStr (className class)])
                    | Some resolve \<Rightarrow>
                        (case resolve w ref of
                           Inl e \<Rightarrow> Inl (Errorf ''class %s: read secret %q: %w'' [AStr (className class), AStr ref, AErr e])
                         | Inr data \<Rightarrow>
                             (case authFrom data of
                                Inl e \<Rightarrow> Inl (Errorf ''class %s: %w'' [AStr (className class), AErr e])
                              | Inr auth \<Rightarrow> Inr (d\<lparr>rmAuth := auth\<rparr>)))))"

definition rm_Register :: "'w httpc \<Rightarrow> 'w SecretResolver option \<Rightarrow> 'w Registry \<Rightarrow> 'w Registry" where
  "rm_Register H secrets reg =
     Register (Register reg ''artifactory''
         (\<lambda>w class. map_res (rm_driver H) (rm_newDriver H secrets flavourArtifactory w class)))
       ''nexus'' (\<lambda>w class. map_res (rm_driver H) (rm_newDriver H secrets flavourNexus w class))"

section \<open>Requests\<close>

text \<open>Credentials go into headers and change nothing else of a request.\<close>

definition headers_only :: "(Request \<Rightarrow> Request) \<Rightarrow> bool" where
  "headers_only auth \<longleftrightarrow> (\<forall>rq. rqMethod (auth rq) = rqMethod rq \<and> rqURL (auth rq) = rqURL rq \<and> rqBody (auth rq) = rqBody rq)"

lemma authFrom_headers: "authFrom data = Inr auth \<Longrightarrow> headers_only auth"
  by (auto simp: authFrom_def headers_only_def split: if_splits)

lemma rm_newDriver_auth: "rm_newDriver H secrets f w class = Inr d \<Longrightarrow> headers_only (rmAuth d) \<and> rmFlavour d = f"
  by (auto simp: rm_newDriver_def Let_def headers_only_def split: option.splits sum.splits if_splits
      dest: authFrom_headers [unfolded headers_only_def])

definition asks :: "string \<Rightarrow> string \<Rightarrow> Request \<Rightarrow> bool" where
  "asks method url rq \<longleftrightarrow> rqMethod rq = method \<and> rqURL rq = url"

lemma rm_do_cases:
  assumes "headers_only (rmAuth d)" "method \<noteq> []"
  obtains e where "rm_do H d method url w = (Inl e, w)"
  | rq r w' where "asks method url rq" "transport H (rmClientTimeout d) rq w = (r, w')"
      "snd (rm_do H d method url w) = w'"
      "\<And>code body. fst (rm_do H d method url w) = Inr (code, body) \<Longrightarrow>
         \<exists>resp. r = Inr resp \<and> respStatus resp = code \<and> ReadAll (LimitReader (respBody resp) rm_maxBody) = Inr body"
proof (cases "NewRequest H method url None")
  case (Inl e)
  then show thesis by (intro that(1)) (simp add: rm_do_def)
next
  case (Inr rq)
  let ?rq = "rmAuth d (setHeader ''Accept'' ''application/json'' rq)"
  obtain r w' where t: "transport H (rmClientTimeout d) ?rq w = (r, w')" by fastforce
  have a: "asks method url ?rq"
    using assms NewRequest_Inr [OF Inr] by (simp add: asks_def headers_only_def)
  have b: "snd (rm_do H d method url w) = w'"
    using Inr t by (auto simp: rm_do_def split: sum.splits)
  have c: "\<exists>resp. r = Inr resp \<and> respStatus resp = code \<and> ReadAll (LimitReader (respBody resp) rm_maxBody) = Inr body"
    if "fst (rm_do H d method url w) = Inr (code, body)" for code body
    using that Inr t by (cases r) (auto simp: rm_do_def split: sum.splits)
  show thesis by (rule that(2) [OF a t b c])
qed

lemma rm_do_answer:
  assumes "headers_only (rmAuth d)" "method \<noteq> []" "rm_do H d method url w = (Inr (code, body), w')"
  shows "\<exists>rq resp. asks method url rq \<and> transport H (rmClientTimeout d) rq w = (Inr resp, w')
    \<and> respStatus resp = code \<and> ReadAll (LimitReader (respBody resp) rm_maxBody) = Inr body"
proof (rule rm_do_cases [OF assms(1,2), of H url w])
  show "rm_do H d method url w = (Inl e, w) \<Longrightarrow> ?thesis" for e using assms(3) by simp
next
  fix rq r w1
  assume a: "asks method url rq" "transport H (rmClientTimeout d) rq w = (r, w1)" "snd (rm_do H d method url w) = w1"
    and ok: "\<And>code body. fst (rm_do H d method url w) = Inr (code, body) \<Longrightarrow>
       \<exists>resp. r = Inr resp \<and> respStatus resp = code \<and> ReadAll (LimitReader (respBody resp) rm_maxBody) = Inr body"
  obtain resp where "r = Inr resp" "respStatus resp = code" "ReadAll (LimitReader (respBody resp) rm_maxBody) = Inr body"
    using ok [of code body] assms(3) by auto
  then show ?thesis using a assms(3) by (intro exI [of _ rq] exI [of _ resp]) simp
qed

lemma rm_get_reads:
  assumes "headers_only (rmAuth d)" "safe_methods H"
  shows "snd (rm_do H d ''GET'' url w) = w"
proof (rule rm_do_cases [OF assms(1), of "''GET''" H url w])
  fix rq r w'
  assume "asks ''GET'' url rq" "transport H (rmClientTimeout d) rq w = (r, w')" "snd (rm_do H d ''GET'' url w) = w'"
  moreover have "snd (transport H (rmClientTimeout d) rq w) = w"
    using assms(2) \<open>asks ''GET'' url rq\<close> unfolding safe_methods_def asks_def by simp
  ultimately show ?thesis by simp
qed simp_all

lemma rm_Observe_reads:
  assumes "headers_only (rmAuth d)" "safe_methods H"
  shows "snd (rm_Observe H d w key) = w"
proof -
  obtain r1 r2 where "rm_do H d ''GET'' (storageURL d key) w = (r1, w)" "rm_do H d ''GET'' (searchURL d key) w = (r2, w)"
    using rm_get_reads [OF assms] by (metis prod.collapse)
  then show ?thesis
    by (auto simp: rm_Observe_def observeArtifactory_def observeNexus_def split: sum.split option.split list.split)
qed

section \<open>The contract\<close>

text \<open>
  Documented behaviour of Artifactory: once a \<open>DELETE\<close> was answered with 2xx or 404, the storage API
  answers 404 for the path. Of Nexus, on the assets \<open>assets w name\<close> of the repository: the search
  lists the assets of the name, deleting an asset id (or finding it gone) leaves the others, and a
  name has one asset.
\<close>

definition artifactory_ok :: "'w httpc \<Rightarrow> rmdriver \<Rightarrow> bool" where
  "artifactory_ok H d \<longleftrightarrow>
     (\<forall>key rq w resp w' rq' resp'.
        asks ''DELETE'' (contentURL d key) rq \<longrightarrow> transport H (rmClientTimeout d) rq w = (Inr resp, w') \<longrightarrow>
        respStatus resp = 404 \<or> success (respStatus resp) \<longrightarrow>
        asks ''GET'' (storageURL d key) rq' \<longrightarrow> fst (transport H (rmClientTimeout d) rq' w') = Inr resp' \<longrightarrow>
        respStatus resp' = 404)"

definition nexus_ok :: "'w httpc \<Rightarrow> rmdriver \<Rightarrow> ('w \<Rightarrow> string \<Rightarrow> nexusItem list) \<Rightarrow> bool" where
  "nexus_ok H d assets \<longleftrightarrow>
     safe_methods H
   \<and> (\<forall>key rq w resp w' body out. asks ''GET'' (searchURL d key) rq \<longrightarrow>
        transport H (rmClientTimeout d) rq w = (Inr resp, w') \<longrightarrow> respStatus resp = 200 \<longrightarrow>
        ReadAll (LimitReader (respBody resp) rm_maxBody) = Inr body \<longrightarrow>
        UnmarshalInto nexusAssets body ([], 0) = Some out \<longrightarrow> elems out = assets w key)
   \<and> (\<forall>key rq w resp w'. asks ''GET'' (searchURL d key) rq \<longrightarrow>
        transport H (rmClientTimeout d) rq w = (Inr resp, w') \<longrightarrow> respStatus resp = 404 \<longrightarrow> assets w key = [])
   \<and> (\<forall>i rq w resp w' key. asks ''DELETE'' (assetURL d i) rq \<longrightarrow>
        transport H (rmClientTimeout d) rq w = (Inr resp, w') \<longrightarrow> respStatus resp = 404 \<or> success (respStatus resp) \<longrightarrow>
        assets w' key = filter (\<lambda>a. nxID a \<noteq> i) (assets w key))
   \<and> (\<forall>w key. length (assets w key) \<le> 1)"

lemma nexus_okD:
  assumes "nexus_ok H d assets"
  shows "safe_methods H"
    and "asks ''GET'' (searchURL d key) rq \<Longrightarrow> transport H (rmClientTimeout d) rq w = (Inr resp, w') \<Longrightarrow>
      respStatus resp = 200 \<Longrightarrow> ReadAll (LimitReader (respBody resp) rm_maxBody) = Inr body \<Longrightarrow>
      UnmarshalInto nexusAssets body ([], 0) = Some out \<Longrightarrow> elems out = assets w key"
    and "asks ''GET'' (searchURL d key) rq \<Longrightarrow> transport H (rmClientTimeout d) rq w = (Inr resp, w') \<Longrightarrow>
      respStatus resp = 404 \<Longrightarrow> assets w key = []"
    and "asks ''DELETE'' (assetURL d i) rq \<Longrightarrow> transport H (rmClientTimeout d) rq w = (Inr resp, w') \<Longrightarrow>
      respStatus resp = 404 \<or> success (respStatus resp) \<Longrightarrow>
      assets w' key = filter (\<lambda>a. nxID a \<noteq> i) (assets w key)"
    and "length (assets w key) \<le> 1"
  using assms unfolding nexus_ok_def by metis+

lemma artifactory_deleted:
  assumes ok: "artifactory_ok H d" and h: "headers_only (rmAuth d)"
    and del: "deleteArtifactory H d w key = (None, w')" and ob: "fst (observeArtifactory H d w' key) = Inr ob"
  shows "\<not> Exists ob"
proof -
  obtain code body where c: "rm_do H d ''DELETE'' (contentURL d key) w = (Inr (code, body), w')" "code = 404 \<or> success code"
    using del by (auto simp: deleteArtifactory_def split: prod.splits sum.splits if_splits)
  obtain rq resp where t: "asks ''DELETE'' (contentURL d key) rq" "transport H (rmClientTimeout d) rq w = (Inr resp, w')"
      "respStatus resp = code"
    using rm_do_answer [OF h _ c(1)] by auto
  have "code' = 404" if g: "rm_do H d ''GET'' (storageURL d key) w' = (Inr (code', body'), w1)" for code' body' w1
  proof -
    obtain rq' resp' where "asks ''GET'' (storageURL d key) rq'" "transport H (rmClientTimeout d) rq' w' = (Inr resp', w1)"
        "respStatus resp' = code'"
      using rm_do_answer [OF h _ g] by auto
    then show ?thesis using ok t c(2) unfolding artifactory_ok_def by (metis fst_conv)
  qed
  then show ?thesis using ob by (auto simp: observeArtifactory_def absent_def split: prod.splits sum.splits if_splits)
qed

lemma nexus_search:
  assumes ok: "nexus_ok H d assets" and h: "headers_only (rmAuth d)"
    and g: "rm_do H d ''GET'' (searchURL d key) w = (Inr (code, body), w')"
  shows "w' = w" "code = 404 \<Longrightarrow> assets w key = []"
    "code = 200 \<Longrightarrow> UnmarshalInto nexusAssets body ([], 0) = Some out \<Longrightarrow> elems out = assets w key"
proof -
  show "w' = w" using rm_get_reads [OF h nexus_okD(1) [OF ok], of "searchURL d key" w] g by simp
  obtain rq resp where t: "asks ''GET'' (searchURL d key) rq" "transport H (rmClientTimeout d) rq w = (Inr resp, w')"
      "respStatus resp = code" "ReadAll (LimitReader (respBody resp) rm_maxBody) = Inr body"
    using rm_do_answer [OF h _ g] by auto
  show "code = 404 \<Longrightarrow> assets w key = []" using nexus_okD(3) [OF ok t(1,2)] t(3) by simp
  show "code = 200 \<Longrightarrow> UnmarshalInto nexusAssets body ([], 0) = Some out \<Longrightarrow> elems out = assets w key"
    using nexus_okD(2) [OF ok t(1,2)] t(3,4) by simp
qed

lemma nexus_observed:
  assumes "nexus_ok H d assets" "headers_only (rmAuth d)" "fst (observeNexus H d w key) = Inr ob"
  shows "Exists ob \<longleftrightarrow> assets w key \<noteq> []"
proof -
  obtain code body w' where g: "rm_do H d ''GET'' (searchURL d key) w = (Inr (code, body), w')"
    using assms(3) by (auto simp: observeNexus_def split: prod.splits sum.splits)
  show ?thesis
    using assms(3) g nexus_search(2,3) [OF assms(1,2) g]
    by (auto simp: observeNexus_def absent_def split: if_splits option.splits list.splits)
qed

lemma nexus_deleted:
  assumes ok: "nexus_ok H d assets" and h: "headers_only (rmAuth d)" and del: "deleteNexus H d w key = (None, w')"
  shows "assets w' key = []"
proof -
  obtain code body where g: "rm_do H d ''GET'' (searchURL d key) w = (Inr (code, body), w)"
    using del nexus_search(1) [OF ok h] by (auto simp: deleteNexus_def split: prod.splits sum.splits)
  note s = nexus_search(2,3) [OF ok h g]
  show ?thesis
  proof (cases "assets w key")
    case Nil
    then show ?thesis using del g s by (auto simp: deleteNexus_def split: if_splits option.splits list.splits)
  next
    case (Cons item rest)
    then have rest: "rest = []" using nexus_okD(5) [OF ok, of w key] by simp
    obtain code' body' where "rm_do H d ''DELETE'' (assetURL d (nxID item)) w = (Inr (code', body'), w')"
      and c: "code' = 404 \<or> success code'"
      using del g s Cons
      by (auto simp: deleteNexus_def split: if_splits option.splits list.splits prod.splits sum.splits)
    from rm_do_answer [OF h _ this(1)] obtain rq resp where
      "asks ''DELETE'' (assetURL d (nxID item)) rq" "transport H (rmClientTimeout d) rq w = (Inr resp, w')" "respStatus resp = code'"
      by auto
    then show ?thesis using nexus_okD(4) [OF ok] c Cons rest by simp
  qed
qed

lemma rm_store:
  assumes "headers_only (rmAuth d)" "rmFlavour d = flavourArtifactory \<Longrightarrow> artifactory_ok H d"
    and "rmFlavour d = flavourNexus \<Longrightarrow> nexus_ok H d assets"
  shows "store_driver (Observe (rm_driver H d)) (Delete (rm_driver H d))"
proof
  fix w k w' ob
  assume "Delete (rm_driver H d) w k = (None, w')" "Observe (rm_driver H d) w' k = Inr ob"
  then show "\<not> Exists ob"
    using artifactory_deleted [OF assms(2) assms(1)] nexus_deleted [OF assms(3) assms(1)] nexus_observed [OF assms(3) assms(1)]
    by (cases "rmFlavour d") (auto simp: rm_driver_def rm_Observe_def rm_Delete_def)
qed


text \<open>
  With a user name and a password in the secret (and no key or token), the header sent decodes on
  the other side to exactly that pair; trailing line breaks of the secret are gone.
\<close>

theorem basic_credentials_roundtrip:
  assumes "secretValue data ''apiKey'' = []" "secretValue data ''token'' = []"
    and "secretValue data ''username'' \<noteq> []" "secretValue data ''password'' \<noteq> []"
  shows "\<exists>auth enc. authFrom data = Inr auth \<and> Header_Get (rqHeader (auth rq)) ''authorization'' = ''Basic '' @ enc
    \<and> base64_decode enc = Some (secretValue data ''username'' @ '':'' @ secretValue data ''password'')
    \<and> last (secretValue data ''password'') \<notin> {CHR 0x0D, CHR 0x0A}"
proof -
  have "CanonicalHeaderKey ''authorization'' = CanonicalHeaderKey ''Authorization''" by code_simp
  then have "Header_Get (rqHeader (setHeader ''Authorization'' v rq)) ''authorization'' = v" for v
    using Header_Get_Set [of "''Authorization''" v "rqHeader rq"] by (simp add: setHeader_def Header_Get_def)
  moreover have "last (secretValue data ''password'') \<notin> {CHR 0x0D, CHR 0x0A}"
    using TrimRight_last assms(4) unfolding secretValue_def by fastforce
  ultimately show ?thesis
    using assms by (intro exI [of _ "setHeader ''Authorization''
      (''Basic '' @ base64 (secretValue data ''username'' @ '':'' @ secretValue data ''password''))"]
        exI [of _ "base64 (secretValue data ''username'' @ '':'' @ secretValue data ''password'')"])
      (simp add: authFrom_def base64_roundtrip)
qed

theorem basic_credentials_roundtrip_witness:
  "\<exists>auth enc. authFrom [(''username'', ''bob''), (''password'', ''pw'' @ [CHR 0x0A])] = Inr auth
    \<and> Header_Get (rqHeader (auth \<lparr>rqMethod = ''GET'', rqURL = [], rqHeader = [], rqBody = None, rqContentLength = 0\<rparr>))
        ''authorization'' = ''Basic '' @ enc
    \<and> base64_decode enc = Some ''bob:pw''"
proof -
  have "secretValue [(''username'', ''bob''), (''password'', ''pw'' @ [CHR 0x0A])] ''username'' = ''bob''"
    "secretValue [(''username'', ''bob''), (''password'', ''pw'' @ [CHR 0x0A])] ''password'' = ''pw''"
    "secretValue [(''username'', ''bob''), (''password'', ''pw'' @ [CHR 0x0A])] ''apiKey'' = []"
    "secretValue [(''username'', ''bob''), (''password'', ''pw'' @ [CHR 0x0A])] ''token'' = []"
    by (simp_all add: secretValue_def mget_def TrimRight_def)
  then show ?thesis
    using basic_credentials_roundtrip [of "[(''username'', ''bob''), (''password'', ''pw'' @ [CHR 0x0A])]"
        "\<lparr>rqMethod = ''GET'', rqURL = [], rqHeader = [], rqBody = None, rqContentLength = 0\<rparr>"]
    by fastforce
qed

section \<open>A Nexus\<close>

text \<open>A server with at most one asset, \<open>a1\<close> under the name \<open>k\<close>, there while the world is \<open>True\<close>.\<close>

definition demoNexusClass :: ArtifactClass where
  "demoNexusClass = \<lparr>className = ''nx'', classSpec = \<lparr>
     Store = \<lparr>Driver = ''nexus'', spKeyTemplate = [], S3 = None, OCI = None, HTTP = None, AMI = None,
        RepoManager = Some \<lparr>rmBaseURL = ''https://nx/'', rmRepository = ''raw'', rmSecretRef = None, rmStampPropertyKey = [],
          rmTimeout = None\<rparr>, Fake = None\<rparr>,
     Generator = None, Backoff = None, Drift = None, VerificationGracePeriod = 0\<rparr>\<rparr>"

definition demoNexusDriver :: rmdriver where
  "demoNexusDriver = \<lparr>rmFlavour = flavourNexus,
     rmCfg = \<lparr>rmBaseURL = ''https://nx/'', rmRepository = ''raw'', rmSecretRef = None, rmStampPropertyKey = [], rmTimeout = None\<rparr>,
     rmClientTimeout = 30 * second, rmAuth = (\<lambda>rq. rq), rmStampKey = DefaultStampMetadataKey\<rparr>"

definition demoListing :: "bool \<Rightarrow> string" where
  "demoListing w = (if w then ''{\"items\":[{\"id\":\"a1\",\"path\":\"k\",\"checksum\":{\"sha256\":\"ff\"}}]}''
                    else ''{\"items\":[]}'')"

definition demoNexus :: "bool httpc" where
  "demoNexus = \<lparr>urlParse = (\<lambda>_. None),
     transport = (\<lambda>t rq w.
       if asks ''GET'' (searchURL demoNexusDriver ''k'') rq then (Inr (reply 200 (demoListing w)), w)
       else if asks ''DELETE'' (assetURL demoNexusDriver ''a1'') rq then (Inr (reply 204 []), False)
       else (Inr (reply 500 []), w))\<rparr>"

definition demoAssets :: "bool \<Rightarrow> string \<Rightarrow> nexusItem list" where
  "demoAssets w key = (if w \<and> key = ''k'' then [\<lparr>nxID = ''a1'', nxPath = ''k'', nxSHA256 = ''ff''\<rparr>] else [])"

lemma demo_listing:
  "UnmarshalInto nexusAssets (demoListing True) ([], 0) = Some ([\<lparr>nxID = ''a1'', nxPath = ''k'', nxSHA256 = ''ff''\<rparr>], 1)"
  "UnmarshalInto nexusAssets (demoListing False) ([], 0) = Some ([], 0)"
  by code_simp+

lemma demo_new: "rm_newDriver H None flavourNexus w demoNexusClass = Inr demoNexusDriver"
  by (simp add: rm_newDriver_def demoNexusClass_def demoNexusDriver_def timeoutOr_def StampMetadataKey_def set_in_def Let_def
      DefaultStampMetadataKey_def)

lemma searchURL_inj: "searchURL d k = searchURL d k' \<longleftrightarrow> k = k'"
  by (auto simp: searchURL_def dest: QueryEscape_inj)

lemma assetURL_inj: "assetURL d i = assetURL d j \<longleftrightarrow> i = j"
  by (auto simp: assetURL_def dest: PathEscape_inj)

lemma demo_urls:
  "asks ''GET'' (searchURL demoNexusDriver key) rq \<Longrightarrow> asks ''GET'' (searchURL demoNexusDriver ''k'') rq \<longleftrightarrow> key = ''k''"
  "asks ''DELETE'' (assetURL demoNexusDriver i) rq \<Longrightarrow> asks ''DELETE'' (assetURL demoNexusDriver ''a1'') rq \<longleftrightarrow> i = ''a1''"
  "asks ''GET'' u rq \<Longrightarrow> \<not> asks ''DELETE'' v rq" "asks ''DELETE'' u rq \<Longrightarrow> \<not> asks ''GET'' v rq"
  by (auto simp: asks_def searchURL_inj assetURL_inj)

lemma demo_search:
  assumes "asks ''GET'' (searchURL demoNexusDriver key) rq" "transport demoNexus t rq w = (Inr resp, w')"
  shows "if key = ''k'' then resp = reply 200 (demoListing w) else resp = reply 500 []"
  using assms(2) demo_urls(1,3) [OF assms(1)] by (auto simp: demoNexus_def split: if_splits)

lemma demoListing_length: "length (demoListing w) < rm_maxBody"
  by (simp add: demoListing_def rm_maxBody_def)

lemma demo_nexus_safe: "safe_methods demoNexus"
  by (auto simp: safe_methods_def demoNexus_def asks_def)

lemma demo_nexus_ok: "nexus_ok demoNexus demoNexusDriver demoAssets"
  unfolding nexus_ok_def
proof (intro conjI allI impI)
  show "safe_methods demoNexus" by (rule demo_nexus_safe)
next
  fix key rq w resp w' body out
  assume a: "asks ''GET'' (searchURL demoNexusDriver key) rq"
    "transport demoNexus (rmClientTimeout demoNexusDriver) rq w = (Inr resp, w')" "respStatus resp = 200"
    "ReadAll (LimitReader (respBody resp) rm_maxBody) = Inr body" "UnmarshalInto nexusAssets body ([], 0) = Some out"
  have "key = ''k''" "resp = reply 200 (demoListing w)" using demo_search [OF a(1,2)] a(3) by (auto split: if_splits)
  then show "elems out = demoAssets w key"
    using a(4,5) demoListing_length [of w] demo_listing by (cases w) (auto simp: demoAssets_def elems_def)
next
  fix key rq w resp w'
  assume "asks ''GET'' (searchURL demoNexusDriver key) rq"
    "transport demoNexus (rmClientTimeout demoNexusDriver) rq w = (Inr resp, w')" "respStatus resp = 404"
  then show "demoAssets w key = []" using demo_search by (fastforce split: if_splits)
next
  fix i rq w resp w' key
  assume a: "asks ''DELETE'' (assetURL demoNexusDriver i) rq"
    "transport demoNexus (rmClientTimeout demoNexusDriver) rq w = (Inr resp, w')"
    "respStatus resp = 404 \<or> success (respStatus resp)"
  have "i = ''a1'' \<and> \<not> w'"
    using a(2,3) demo_urls(2,4) [OF a(1)] by (auto simp: demoNexus_def success_def split: if_splits)
  then show "demoAssets w' key = filter (\<lambda>x. nxID x \<noteq> i) (demoAssets w key)" by (simp add: demoAssets_def)
next
  show "length (demoAssets w key) \<le> 1" for w key by (simp add: demoAssets_def)
qed

lemma demo_answers:
  "rm_do demoNexus demoNexusDriver ''GET'' (searchURL demoNexusDriver ''k'') w = (Inr (200, demoListing w), w)"
  "rm_do demoNexus demoNexusDriver ''DELETE'' (assetURL demoNexusDriver ''a1'') w = (Inr (204, []), False)"
  using demoListing_length [of w]
  by (simp_all add: rm_do_def NewRequest_def tokenByte_def byte_def demoNexus_def asks_def rm_maxBody_def Let_def)
    (simp_all add: demoNexusDriver_def)


end
