(* ===== verification/HttpStore.thy ===== *)
theory HttpStore
  imports Store Generator AwsAuth JsonStruct
begin

text \<open>
  The generic HTTP driver (\<^verbatim>\<open>internal/store/httpstore\<close>): requests and their interpretation come from
  the class. The network, the CEL library, the AWS SDK, the resolver of secrets and the part of the
  template engine outside theory \<open>Template\<close> are parameters. A request may exchange client
  credentials for a token, so operations thread the driver's token cache beside the world.
\<close>

definition http_maxBody :: nat where
  "http_maxBody = 64 * 2 ^ 10"

definition HTTPAuthNone :: string where "HTTPAuthNone = ''none''"
definition HTTPAuthBearer :: string where "HTTPAuthBearer = ''bearer''"
definition HTTPAuthBasic :: string where "HTTPAuthBasic = ''basic''"
definition HTTPAuthHeader :: string where "HTTPAuthHeader = ''header''"
definition HTTPAuthSigV4 :: string where "HTTPAuthSigV4 = ''sigv4''"
definition HTTPAuthClientCredentials :: string where "HTTPAuthClientCredentials = ''clientCredentials''"

section \<open>URLs and expressions\<close>

definition key_field :: "string \<Rightarrow> string list \<Rightarrow> goerr + string" where
  "key_field key fs = (case fs of f # r \<Rightarrow> if f = ''Key'' then scalar key r else Inl (no_field f) | [] \<Rightarrow> Inl (no_field []))"

definition renderTemplate :: "(string \<Rightarrow> string \<Rightarrow> goerr + string) \<Rightarrow> string \<Rightarrow> string \<Rightarrow> goerr + string" where
  "renderTemplate ext tmpl key =
     (case scan tmpl of
        None \<Rightarrow> ext tmpl key
      | Some segs \<Rightarrow>
          (case exec (key_field key) segs of
             Inl e \<Rightarrow> Inl (Errorf ''execute url template %q: %w'' [AStr tmpl, AErr e])
           | Inr out \<Rightarrow> Inr out))"

text \<open>A nil \<open>interface{}\<close> is \<open>JNull\<close>.\<close>

definition parseJSON :: "string \<Rightarrow> json" where
  "parseJSON body =
     (if body = [] then JNull
      else case Unmarshal body of None \<Rightarrow> JNull | Some v \<Rightarrow> v)"

record response =
  rCode :: int
  rHeaders :: gomap
  rBody :: string
  rJson :: json

record activation =
  actCode :: int
  actHeaders :: gomap
  actBody :: string
  actJson :: json

definition activation_of :: "response \<Rightarrow> activation" where
  "activation_of r =
     \<lparr>actCode = wrap64 (rCode r), actHeaders = rHeaders r, actBody = rBody r,
      actJson = (if rJson r = JNull then JObj [] else rJson r)\<rparr>"

text \<open>What \<open>val.Value()\<close> can be for the driver; \<open>CText\<close> carries what \<open>%v\<close> prints.\<close>

datatype celout = CBool bool | CString string | CNil | CText string

record 'p httpcel =
  hcEnv :: "goerr option"
  hcCompile :: "string \<Rightarrow> goerr + 'p"
  hcProgram :: "'p \<Rightarrow> goerr + 'p"
  hcEval :: "'p \<Rightarrow> activation \<Rightarrow> goerr + celout"

definition http_eval :: "'p httpcel \<Rightarrow> string \<Rightarrow> response \<Rightarrow> goerr + celout" where
  "http_eval C expr r =
     (case hcCompile C expr of
        Inl e \<Rightarrow> Inl (Errorf ''compile %q: %w'' [AStr expr, AErr e])
      | Inr ast \<Rightarrow>
          (case hcProgram C ast of
             Inl e \<Rightarrow> Inl (Errorf ''program %q: %w'' [AStr expr, AErr e])
           | Inr prg \<Rightarrow>
               (case hcEval C prg (activation_of r) of
                  Inl e \<Rightarrow> Inl (Errorf ''evaluate %q: %w'' [AStr expr, AErr e])
                | Inr v \<Rightarrow> Inr v)))"

definition http_evalBool :: "'p httpcel \<Rightarrow> string \<Rightarrow> response \<Rightarrow> (response \<Rightarrow> bool) \<Rightarrow> goerr + bool" where
  "http_evalBool C expr r fallback =
     (if expr = [] then Inr (fallback r)
      else case http_eval C expr r of
        Inl e \<Rightarrow> Inl e
      | Inr (CBool b) \<Rightarrow> Inr b
      | Inr _ \<Rightarrow> Inl (Errorf ''expression %q returned %T, want bool'' [AStr expr]))"

definition http_evalString :: "'p httpcel \<Rightarrow> string \<Rightarrow> response \<Rightarrow> goerr + string" where
  "http_evalString C expr r =
     (case http_eval C expr r of
        Inl e \<Rightarrow> Inr []
      | Inr (CString v) \<Rightarrow> Inr v
      | Inr CNil \<Rightarrow> Inr []
      | Inr (CBool b) \<Rightarrow> Inr (if b then ''true'' else ''false'')
      | Inr (CText v) \<Rightarrow> Inr v)"

section \<open>Tokens\<close>

record tokenCache =
  tcToken :: string
  tcExpiresAt :: gotime

definition earlyExpiry :: duration where
  "earlyExpiry = 60 * second"

definition tokens_get :: "gotime \<Rightarrow> tokenCache \<Rightarrow> string option" where
  "tokens_get now c = (if tcToken c \<noteq> [] \<and> now < tcExpiresAt c then Some (tcToken c) else None)"

definition tokens_put :: "gotime \<Rightarrow> string \<Rightarrow> duration \<Rightarrow> tokenCache \<Rightarrow> tokenCache" where
  "tokens_put now tok ttl c = c\<lparr>tcToken := tok, tcExpiresAt := now + wrap64 (ttl - earlyExpiry)\<rparr>"

text \<open>The zero value: no token, the zero time.\<close>

definition noToken :: tokenCache where
  "noToken = \<lparr>tcToken = [], tcExpiresAt = 0\<rparr>"

definition keyOr :: "string \<Rightarrow> string \<Rightarrow> string" where
  "keyOr v fallback = (if v \<noteq> [] then v else fallback)"

definition requireKey :: "gomap \<Rightarrow> string \<Rightarrow> goerr + string" where
  "requireKey data key =
     (case map_of data key of
        None \<Rightarrow> Inl (Errorf ''secret has no non-empty key %q'' [AStr key])
      | Some v \<Rightarrow>
          if v = [] then Inl (Errorf ''secret has no non-empty key %q'' [AStr key])
          else Inr (TrimRight v [CHR 0x0D, CHR 0x0A]))"

record tokenResponse =
  AccessToken :: string
  TokenType :: string
  ExpiresIn :: int

definition tokenDecoder :: "tokenResponse decoder" where
  "tokenDecoder = dec_struct
     [(''access_token'', field AccessToken AccessToken_update dec_string),
      (''token_type'', field TokenType TokenType_update dec_string),
      (''expires_in'', field ExpiresIn ExpiresIn_update dec_int64)]"

definition tokenTTL :: "int \<Rightarrow> duration" where
  "tokenTTL n = (let ttl = wrap64 (n * second) in if ttl \<le> earlyExpiry then 2 * earlyExpiry else ttl)"

definition credentialsForm :: "HTTPAuthSpec \<Rightarrow> string \<Rightarrow> string \<Rightarrow> form" where
  "credentialsForm auth clientID clientSecret =
     (let form = [(''grant_type'', ''client_credentials''), (''client_id'', clientID), (''client_secret'', clientSecret)]
      in if Scopes auth \<noteq> [] then mput ''scope'' (Join (Scopes auth) '' '') form else form)"

type_synonym 'w httpst = "tokenCache \<times> 'w"

definition exchange ::
  "'w httpc \<Rightarrow> duration \<Rightarrow> gotime \<Rightarrow> HTTPAuthSpec \<Rightarrow> string \<Rightarrow> string \<Rightarrow> 'w httpst \<Rightarrow> (goerr + string) \<times> 'w httpst" where
  "exchange H timeout now auth clientID clientSecret st =
     (case NewRequest H ''POST'' (TokenURL auth) (Some (Values_Encode (credentialsForm auth clientID clientSecret))) of
        Inl e \<Rightarrow> (Inl (Errorf ''build token request: %w'' [AErr e]), st)
      | Inr rq \<Rightarrow>
          (case transport H timeout (setHeader ''Content-Type'' ''application/x-www-form-urlencoded'' rq) (snd st) of
             (Inl e, w') \<Rightarrow> (Inl (Errorf ''token endpoint: %w'' [AErr e]), (fst st, w'))
           | (Inr resp, w') \<Rightarrow>
               (case ReadAll (LimitReader (respBody resp) http_maxBody) of
                  Inl e \<Rightarrow> (Inl (Errorf ''read token response: %w'' [AErr e]), (fst st, w'))
                | Inr body \<Rightarrow>
                    if respStatus resp \<noteq> 200
                    then (Inl (Errorf ''token endpoint returned %d'' [AInt (respStatus resp)]), (fst st, w'))
                    else case UnmarshalInto tokenDecoder body \<lparr>AccessToken = [], TokenType = [], ExpiresIn = 0\<rparr> of
                      None \<Rightarrow> (Inl (Errorf ''decode token response: %w'' []), (fst st, w'))
                    | Some out \<Rightarrow>
                        if AccessToken out = []
                        then (Inl (Errorf ''token response carried no access_token'' []), (fst st, w'))
                        else (Inr (AccessToken out),
                              (tokens_put now (AccessToken out) (tokenTTL (ExpiresIn out)) (fst st), w')))))"

definition clientCredentialsToken ::
  "'w httpc \<Rightarrow> duration \<Rightarrow> gotime \<Rightarrow> HTTPAuthSpec \<Rightarrow> gomap \<Rightarrow> 'w httpst \<Rightarrow> (goerr + string) \<times> 'w httpst" where
  "clientCredentialsToken H timeout now auth data st =
     (case tokens_get now (fst st) of
        Some tok \<Rightarrow> (Inr tok, st)
      | None \<Rightarrow>
          if TokenURL auth = []
          then (Inl (Errorf ''auth type clientCredentials requires store.http.auth.tokenURL'' []), st)
          else case requireKey data (keyOr (ClientIDKey auth) ''clientId'') of
            Inl e \<Rightarrow> (Inl e, st)
          | Inr clientID \<Rightarrow>
              (case requireKey data (keyOr (ClientSecretKey auth) ''clientSecret'') of
                 Inl e \<Rightarrow> (Inl e, st)
               | Inr clientSecret \<Rightarrow> exchange H timeout now auth clientID clientSecret st))"

section \<open>Authorization\<close>

definition signSigV4 :: "('w, 'c, 'k) awslib \<Rightarrow> gotime \<Rightarrow> 'w \<Rightarrow> Request \<Rightarrow> HTTPAuthSpec \<Rightarrow> goerr + Request" where
  "signSigV4 A now w rq auth =
     (if authRegion auth = [] then Inl (Errorf ''auth type sigv4 requires store.http.auth.region'' [])
      else if authService auth = []
        then Inl (Errorf ''auth type sigv4 requires store.http.auth.service (e.g. s3, execute-api, es)'' [])
      else case LoadDefaultConfig A w (Some (authRegion auth)) of
        Inl e \<Rightarrow> Inl (Errorf ''load aws config: %w'' [AErr e])
      | Inr cfg \<Rightarrow>
          (case Retrieve A w cfg of
             Inl e \<Rightarrow> Inl (Errorf ''retrieve aws credentials: %w'' [AErr e])
           | Inr creds \<Rightarrow>
               (case rqBody rq of
                  None \<Rightarrow>
                    wrapErr ''sign request: %w''
                      (SignHTTP A creds rq EmptyBodySHA256 (authService auth) (authRegion auth) now)
                | Some b \<Rightarrow>
                    (case ReadAll b of
                       Inl e \<Rightarrow> Inl (Errorf ''read body for signing: %w'' [AErr e])
                     | Inr body \<Rightarrow>
                         wrapErr ''sign request: %w''
                           (SignHTTP A creds (rq\<lparr>rqBody := Some (NewReader body)\<rparr>) (EncodeToString (sha256 body))
                              (authService auth) (authRegion auth) now)))))"

type_synonym 'w SecretResolver = "'w \<Rightarrow> string \<Rightarrow> goerr + gomap"

record 'w httpdriver =
  hdCfg :: HTTPStoreSpec
  hdTimeout :: duration
  hdSecrets :: "'w SecretResolver option"

definition setAuth :: "string \<Rightarrow> (goerr + string) \<Rightarrow> Request \<Rightarrow> goerr + Request" where
  "setAuth scheme v rq = map_res (\<lambda>t. setHeader ''Authorization'' (scheme @ t) rq) v"

definition basicValue :: "HTTPAuthSpec \<Rightarrow> gomap \<Rightarrow> goerr + string" where
  "basicValue auth data =
     (case requireKey data (keyOr (UsernameKey auth) ''username'') of
        Inl e \<Rightarrow> Inl e
      | Inr user \<Rightarrow>
          map_res (\<lambda>pass. base64 (user @ '':'' @ pass)) (requireKey data (keyOr (PasswordKey auth) ''password'')))"

definition authorize ::
  "'w httpc \<Rightarrow> ('w, 'c, 'k) awslib \<Rightarrow> gotime \<Rightarrow> 'w httpdriver \<Rightarrow> Request \<Rightarrow> 'w httpst \<Rightarrow> (goerr + Request) \<times> 'w httpst" where
  "authorize H A now d rq st =
     (case httpAuth (hdCfg d) of
        None \<Rightarrow> (Inr rq, st)
      | Some auth \<Rightarrow>
          if authType auth = [] \<or> authType auth = HTTPAuthNone then (Inr rq, st)
          else if authType auth = HTTPAuthSigV4 then (signSigV4 A now (snd st) rq auth, st)
          else case authSecretRef auth of
            None \<Rightarrow> (Inl (Errorf ''auth type %q requires store.http.auth.secretRef'' [AStr (authType auth)]), st)
          | Some ref \<Rightarrow>
              (case hdSecrets d of
                 None \<Rightarrow>
                   (Inl (Errorf ''auth type %q configured but no secret resolver is available'' [AStr (authType auth)]), st)
               | Some resolve \<Rightarrow>
                   (case resolve (snd st) ref of
                      Inl e \<Rightarrow> (Inl (Errorf ''read secret %q: %w'' [AStr ref, AErr e]), st)
                    | Inr data \<Rightarrow>
                        if authType auth = HTTPAuthBearer then
                          (setAuth ''Bearer '' (requireKey data (keyOr (TokenKey auth) ''token'')) rq, st)
                        else if authType auth = HTTPAuthBasic then (setAuth ''Basic '' (basicValue auth data) rq, st)
                        else if authType auth = HTTPAuthClientCredentials then
                          (case clientCredentialsToken H (hdTimeout d) now auth data st of
                             (tok, st') \<Rightarrow> (setAuth ''Bearer '' tok rq, st'))
                        else if authType auth = HTTPAuthHeader then
                          (map_res (\<lambda>v. setHeader (keyOr (HeaderName auth) ''Authorization'') v rq)
                             (requireKey data (keyOr (TokenKey auth) ''token'')), st)
                        else (Inl (Errorf ''unsupported auth type %q'' [AStr (authType auth)]), st))))"

section \<open>The driver\<close>

definition lowerHeaders :: "header \<Rightarrow> gomap" where
  "lowerHeaders h = foldl (\<lambda>acc kv. mput (ToLower (fst kv)) (Header_Get h (fst kv)) acc) [] h"

record ('w, 'p, 'c, 'k) httpenv =
  envHttp :: "'w httpc"
  envCel :: "'p httpcel"
  envAws :: "('w, 'c, 'k) awslib"
  envNow :: gotime
  envTmpl :: "string \<Rightarrow> string \<Rightarrow> goerr + string"

definition http_do ::
  "('w, 'p, 'c, 'k) httpenv \<Rightarrow> 'w httpdriver \<Rightarrow> HTTPRequestSpec \<Rightarrow> string \<Rightarrow> 'w httpst \<Rightarrow> (goerr + response) \<times> 'w httpst" where
  "http_do V d req key st =
     (case renderTemplate (envTmpl V) (reqURL req) key of
        Inl e \<Rightarrow> (Inl e, st)
      | Inr url \<Rightarrow>
          (let method = (if reqMethod req = [] then ''HEAD'' else reqMethod req)
           in case NewRequest (envHttp V) method url None of
             Inl e \<Rightarrow> (Inl (Errorf ''build request: %w'' [AErr e]), st)
           | Inr rq0 \<Rightarrow>
               (case authorize (envHttp V) (envAws V) (envNow V) d
                       (foldl (\<lambda>q kv. setHeader (fst kv) (snd kv) q) rq0 (reqHeaders req)) st of
                  (Inl e, st') \<Rightarrow> (Inl e, st')
                | (Inr rq, (tc, w)) \<Rightarrow>
                    (case transport (envHttp V) (hdTimeout d) rq w of
                       (Inl e, w') \<Rightarrow> (Inl (Errorf ''%s %s: %w'' [AStr method, AStr url, AErr e]), (tc, w'))
                     | (Inr resp, w') \<Rightarrow>
                         (case ReadAll (LimitReader (respBody resp) http_maxBody) of
                            Inl e \<Rightarrow> (Inl (Errorf ''read response: %w'' [AErr e]), (tc, w'))
                          | Inr body \<Rightarrow>
                              (Inr \<lparr>rCode = respStatus resp, rHeaders = lowerHeaders (respHeader resp), rBody = body,
                                    rJson = parseJSON body\<rparr>, (tc, w')))))))"

definition defaultExists :: "response \<Rightarrow> bool" where
  "defaultExists r \<longleftrightarrow> 200 \<le> rCode r \<and> rCode r < 300"

definition http_stampKey :: "'w httpdriver \<Rightarrow> string" where
  "http_stampKey d = (if httpStampKey (hdCfg d) \<noteq> [] then httpStampKey (hdCfg d) else DefaultStampMetadataKey)"

text \<open>The interpretation of a response, once it is there.\<close>

definition readResponse :: "'p httpcel \<Rightarrow> 'w httpdriver \<Rightarrow> response \<Rightarrow> goerr + Observation" where
  "readResponse C d r =
     (case http_evalBool C (httpExists (hdCfg d)) r defaultExists of
        Inl e \<Rightarrow> Inl (Errorf ''evaluate exists: %w'' [AErr e])
      | Inr False \<Rightarrow> Inr absent
      | Inr True \<Rightarrow>
          (case (if httpDigest (hdCfg d) \<noteq> [] then http_evalString C (httpDigest (hdCfg d)) r else Inr []) of
             Inl e \<Rightarrow> Inl (Errorf ''evaluate digest: %w'' [AErr e])
           | Inr digest \<Rightarrow>
               if httpStamp (hdCfg d) = [] then Inr \<lparr>Exists = True, obsDigest = digest, Metadata = []\<rparr>
               else case http_evalString C (httpStamp (hdCfg d)) r of
                 Inl e \<Rightarrow> Inl (Errorf ''evaluate stamp: %w'' [AErr e])
               | Inr v \<Rightarrow> Inr \<lparr>Exists = True, obsDigest = digest, Metadata = [(ToLower (http_stampKey d), v)]\<rparr>))"

definition http_Observe ::
  "('w, 'p, 'c, 'k) httpenv \<Rightarrow> 'w httpdriver \<Rightarrow> 'w httpst \<Rightarrow> string \<Rightarrow> (goerr + Observation) \<times> 'w httpst" where
  "http_Observe V d st key =
     (case http_do V d (httpObserve (hdCfg d)) key st of
        (Inl e, st') \<Rightarrow> (Inl e, st')
      | (Inr resp, st') \<Rightarrow> (readResponse (envCel V) d resp, st'))"

definition http_Delete ::
  "('w, 'p, 'c, 'k) httpenv \<Rightarrow> 'w httpdriver \<Rightarrow> 'w httpst \<Rightarrow> string \<Rightarrow> goerr option \<times> 'w httpst" where
  "http_Delete V d st key =
     (case httpDelete (hdCfg d) of
        None \<Rightarrow> (Some (Errorf ''store.http.delete is not configured; this class cannot delete artifacts'' []), st)
      | Some req \<Rightarrow>
          (case http_do V d req key st of
             (Inl e, st') \<Rightarrow> (Some e, st')
           | (Inr resp, st') \<Rightarrow>
               if rCode resp = 404 \<or> 200 \<le> rCode resp \<and> rCode resp < 300 then (None, st')
               else (Some (Errorf ''delete returned %d'' [AInt (rCode resp)]), st')))"

definition http_newDriver ::
  "('w, 'p, 'c, 'k) httpenv \<Rightarrow> 'w SecretResolver option \<Rightarrow> ArtifactClass \<Rightarrow> goerr + 'w httpdriver" where
  "http_newDriver V secrets class =
     (case HTTP (Store (classSpec class)) of
        None \<Rightarrow> Inl (Errorf ''class %s: store.driver is http but store.http is not set'' [AStr (className class)])
      | Some cfg \<Rightarrow>
          if reqURL (httpObserve cfg) = []
          then Inl (Errorf ''class %s: store.http.observe.url is required'' [AStr (className class)])
          else case hcEnv (envCel V) of
            Some e \<Rightarrow> Inl (Errorf ''class %s: build CEL env: %w'' [AStr (className class), AErr e])
          | None \<Rightarrow>
              Inr \<lparr>hdCfg = cfg,
                   hdTimeout = (case httpTimeout cfg of Some t \<Rightarrow> if 0 < t then t else 30 * second | None \<Rightarrow> 30 * second),
                   hdSecrets = secrets\<rparr>)"

text \<open>
  As a driver of the registry. A driver is built for every lookup with an empty token cache; within
  the pass that built it the cache can save a second exchange, which the interface does not show.
\<close>

definition http_driver :: "('w, 'p, 'c, 'k) httpenv \<Rightarrow> 'w httpdriver \<Rightarrow> 'w StoreDriver" where
  "http_driver V d =
     \<lparr>Observe = (\<lambda>w key. fst (http_Observe V d (noToken, w) key)),
      Delete = (\<lambda>w key. case http_Delete V d (noToken, w) key of (e, (_, w')) \<Rightarrow> (e, w'))\<rparr>"

definition http_Register ::
  "('w, 'p, 'c, 'k) httpenv \<Rightarrow> 'w SecretResolver option \<Rightarrow> 'w Registry \<Rightarrow> 'w Registry" where
  "http_Register V secrets reg = Register reg ''http'' (\<lambda>w class. map_res (http_driver V) (http_newDriver V secrets class))"

section \<open>Properties\<close>

text \<open>
  The driver's own signing routine agrees with package \<^verbatim>\<open>awsauth\<close>: on a request with a consistent
  length, a region and a service, the two produce the same signed request or the same error.
\<close>

theorem signSigV4_agrees:
  assumes "authRegion auth \<noteq> []" "authService auth \<noteq> []"
    and "\<And>b. rqBody rq = Some b \<Longrightarrow> rqContentLength rq = int (length (content b))"
  shows "signSigV4 A now w rq auth = Sign A now w rq (authRegion auth) (authService auth)"
proof -
  have "rq\<lparr>rqBody := Some (NewReader body)\<rparr> = rq\<lparr>rqBody := Some (NewReader body), rqContentLength := int (length body)\<rparr>"
    if "rqBody rq = Some b" "ReadAll b = Inr body" for b body
    using assms(3) [OF that(1)] ReadAll_again [OF that(2)] by (cases rq) (auto simp: NewReader_def)
  then show ?thesis using assms(1,2) by (simp add: signSigV4_def Sign_def split: sum.split option.split)
qed

definition demoAuth :: HTTPAuthSpec where
  "demoAuth = \<lparr>authType = HTTPAuthSigV4, authSecretRef = None, TokenKey = [], UsernameKey = [], PasswordKey = [],
     HeaderName = [], authRegion = ''eu'', authService = ''s3'', TokenURL = [], ClientIDKey = [], ClientSecretKey = [],
     Scopes = []\<rparr>"

theorem signSigV4_agrees_witness:
  "signSigV4 demoAws 0 () \<lparr>rqMethod = ''HEAD'', rqURL = ''https://s3/k'', rqHeader = [], rqBody = None, rqContentLength = 0\<rparr> demoAuth
   = Sign demoAws 0 () \<lparr>rqMethod = ''HEAD'', rqURL = ''https://s3/k'', rqHeader = [], rqBody = None, rqContentLength = 0\<rparr> ''eu'' ''s3''"
  using signSigV4_agrees [of demoAuth "\<lparr>rqMethod = ''HEAD'', rqURL = ''https://s3/k'', rqHeader = [], rqBody = None,
    rqContentLength = 0\<rparr>" demoAws 0 "()"]
  by (simp add: demoAuth_def)

lemma wrap_seconds: "0 \<le> n \<Longrightarrow> n < 2 ^ 33 \<Longrightarrow> wrap64 (n * second) = n * second"
  by (intro wrap64_id) auto



lemma evalString_total: "\<exists>v. http_evalString C expr r = Inr v"
  by (auto simp: http_evalString_def split: sum.split celout.split)

lemma readResponse_decided:
  "http_evalBool C (httpExists (hdCfg d)) r defaultExists = Inr b \<Longrightarrow> \<exists>ob. readResponse C d r = Inr ob \<and> Exists ob = b"
  using evalString_total [of C "httpDigest (hdCfg d)" r] evalString_total [of C "httpStamp (hdCfg d)" r]
  by (cases b) (auto simp: readResponse_def absent_def)

lemma readResponse_failed:
  "http_evalBool C (httpExists (hdCfg d)) r defaultExists = Inl e \<Longrightarrow> \<exists>e'. readResponse C d r = Inl e'"
  by (simp add: readResponse_def)

text \<open>
  C29: The store's answer decides and nothing else: an observation fails exactly when the request or
  the existence expression fails, and reports absence exactly when that expression is false on a
  response. Expressions for digest and stamp that fail leave an empty value.
\<close>

theorem http_observation:
  "case http_do V d (httpObserve (hdCfg d)) key st of
     (Inl e, st') \<Rightarrow> http_Observe V d st key = (Inl e, st')
   | (Inr r, st') \<Rightarrow>
       (case http_evalBool (envCel V) (httpExists (hdCfg d)) r defaultExists of
          Inl e \<Rightarrow> \<exists>e'. http_Observe V d st key = (Inl e', st')
        | Inr b \<Rightarrow> \<exists>ob. http_Observe V d st key = (Inr ob, st') \<and> Exists ob = b)"
  using readResponse_decided [of "envCel V" d] readResponse_failed [of "envCel V" d]
  by (simp add: http_Observe_def split: prod.split sum.split)

text \<open>Where an authorized request goes.\<close>

lemma signSigV4_keeps:
  assumes "signer_ok A" "signSigV4 A now w rq auth = Inr rq'"
  shows "rqMethod rq' = rqMethod rq \<and> rqURL rq' = rqURL rq \<and> rqBody rq' = rqBody rq"
proof -
  obtain k rq1 h where s: "SignHTTP A k rq1 h (authService auth) (authRegion auth) now = Inr rq'"
    and q: "rqMethod rq1 = rqMethod rq" "rqURL rq1 = rqURL rq" "rqBody rq1 = rqBody rq"
    using assms(2) by (fastforce simp: signSigV4_def ReadAll_again split: if_splits sum.splits option.splits)
  then show ?thesis using assms(1) unfolding signer_ok_def by metis
qed

lemma setAuth_keeps:
  "setAuth p v rq = Inr rq' \<Longrightarrow> rqMethod rq' = rqMethod rq \<and> rqURL rq' = rqURL rq \<and> rqBody rq' = rqBody rq"
  by (cases v) (auto simp: setAuth_def)


definition demoHttpSpec :: "HTTPAuthSpec option \<Rightarrow> HTTPStoreSpec" where
  "demoHttpSpec auth = \<lparr>httpObserve = \<lparr>reqMethod = [], reqURL = ''https://s/{{ .Key }}'', reqHeaders = []\<rparr>,
     httpDelete = None, httpExists = [], httpDigest = [], httpStamp = [], httpStampKey = [], httpAuth = auth, httpTimeout = None\<rparr>"


end
