(* ===== verification/Flags.thy ===== *)
theory Flags
  imports Prelude
begin

text \<open>
  The command line of the controller (\<^verbatim>\<open>src/cmd/main.go\<close>): the five flags it declares and what it
  uses of Go's \<^verbatim>\<open>flag\<close> and \<^verbatim>\<open>strconv\<close> to read them. The flags that other packages register on the
  same command line (\<open>zap.Options.BindFlags\<close>, controller-runtime's \<open>kubeconfig\<close>) are a parameter:
  whether a name is theirs, whether it is a boolean flag, and which values it takes.
\<close>

section \<open>Numbers and booleans\<close>

definition digitVal :: "char \<Rightarrow> int option" where
  "digitVal c =
     (let n = of_char c :: int
      in if 48 \<le> n \<and> n \<le> 57 then Some (n - 48)
         else if 97 \<le> n \<and> n \<le> 122 then Some (n - 87)
         else if 65 \<le> n \<and> n \<le> 90 then Some (n - 55)
         else None)"

text \<open>
  The digit loop of \<open>strconv.ParseUint\<close> with base 0. Go stops as soon as the value leaves the range;
  here the range is checked at the end, with the same result: an error.
\<close>

fun uintLoop :: "int \<Rightarrow> string \<Rightarrow> int \<Rightarrow> int option" where
  "uintLoop base [] n = Some n"
| "uintLoop base (c # cs) n =
     (if c = CHR ''_'' then uintLoop base cs n
      else case digitVal c of
             None \<Rightarrow> None
           | Some d \<Rightarrow> if base \<le> d then None else uintLoop base cs (n * base + d))"

text \<open>The prefix that selects the base.\<close>

definition basePrefix :: "string \<Rightarrow> int \<times> string" where
  "basePrefix s =
     (case s of
        c # t \<Rightarrow>
          if c = CHR ''0'' then
            (case t of
               x # y # r \<Rightarrow>
                 if x \<in> set ''bB'' then (2, y # r)
                 else if x \<in> set ''oO'' then (8, y # r)
                 else if x \<in> set ''xX'' then (16, y # r)
                 else (8, t)
             | _ \<Rightarrow> (8, t))
          else (10, s)
      | [] \<Rightarrow> (10, s))"

text \<open>\<open>underscoreOK\<close>: underscores only between digits, or between a base prefix and a digit.\<close>

fun underscoreLoop :: "bool \<Rightarrow> string \<Rightarrow> char \<Rightarrow> bool" where
  "underscoreLoop hex [] i = (i \<noteq> CHR ''_'')"
| "underscoreLoop hex (c # cs) i =
     (let n = of_char c :: nat
      in if 48 \<le> n \<and> n \<le> 57 \<or> hex \<and> (97 \<le> n \<and> n \<le> 102 \<or> 65 \<le> n \<and> n \<le> 70) then underscoreLoop hex cs (CHR ''0'')
         else if c = CHR ''_'' then i = CHR ''0'' \<and> underscoreLoop hex cs (CHR ''_'')
         else i \<noteq> CHR ''_'' \<and> underscoreLoop hex cs (CHR ''!''))"

definition underscoreOK :: "string \<Rightarrow> bool" where
  "underscoreOK s =
     (case s of
        c # x # r \<Rightarrow>
          if c = CHR ''0'' \<and> x \<in> set ''bBoOxX'' then underscoreLoop (x \<in> set ''xX'') r (CHR ''0'')
          else underscoreLoop False s (CHR ''^'')
      | _ \<Rightarrow> underscoreLoop False s (CHR ''^''))"

definition ParseUint0 :: "string \<Rightarrow> int option" where
  "ParseUint0 s =
     (if s = [] then None
      else case basePrefix s of (base, r) \<Rightarrow>
        (case uintLoop base r 0 of
           None \<Rightarrow> None
         | Some n \<Rightarrow> if CHR ''_'' \<in> set r \<and> \<not> underscoreOK s \<or> 2 ^ 64 \<le> n then None else Some n))"

text \<open>\<open>strconv.ParseInt(s, 0, 64)\<close>.\<close>

definition ParseInt0 :: "string \<Rightarrow> int option" where
  "ParseInt0 s =
     (let neg = (take 1 s = ''-''); r = (if take 1 s = ''-'' \<or> take 1 s = ''+'' then drop 1 s else s)
      in case ParseUint0 r of
           None \<Rightarrow> None
         | Some un \<Rightarrow>
             if \<not> neg \<and> 2 ^ 63 \<le> un \<or> neg \<and> 2 ^ 63 < un then None
             else Some (if neg then - un else un))"

definition ParseBool :: "string \<Rightarrow> bool option" where
  "ParseBool s =
     (if s \<in> set [''1'', ''t'', ''T'', ''true'', ''TRUE'', ''True''] then Some True
      else if s \<in> set [''0'', ''f'', ''F'', ''false'', ''FALSE'', ''False''] then Some False
      else None)"

section \<open>The flags\<close>

record flags =
  metricsAddr :: string
  probeAddr :: string
  leaderElect :: bool
  concurrent :: int
  enableFake :: bool

definition defaultFlags :: flags where
  "defaultFlags = \<lparr>metricsAddr = ''0'', probeAddr = '':8081'', leaderElect = False, concurrent = 4, enableFake = False\<rparr>"

record extflag =
  extIsBool :: bool
  extSet :: "string \<Rightarrow> bool"

text \<open>The kind of a flag: none, boolean, or one that needs a value.\<close>

definition isBoolFlag :: "(string \<Rightarrow> extflag option) \<Rightarrow> string \<Rightarrow> bool option" where
  "isBoolFlag ext name =
     (if name \<in> set [''leader-elect'', ''enable-fake-store''] then Some True
      else if name \<in> set [''metrics-bind-address'', ''health-probe-bind-address'', ''concurrent''] then Some False
      else map_option extIsBool (ext name))"

text \<open>\<open>flag.Value.Set\<close>; \<open>None\<close> is its error.\<close>

definition setFlag :: "(string \<Rightarrow> extflag option) \<Rightarrow> string \<Rightarrow> string \<Rightarrow> flags \<Rightarrow> flags option" where
  "setFlag ext name v f =
     (if name = ''metrics-bind-address'' then Some (f\<lparr>metricsAddr := v\<rparr>)
      else if name = ''health-probe-bind-address'' then Some (f\<lparr>probeAddr := v\<rparr>)
      else if name = ''leader-elect'' then map_option (\<lambda>b. f\<lparr>leaderElect := b\<rparr>) (ParseBool v)
      else if name = ''concurrent'' then map_option (\<lambda>i. f\<lparr>concurrent := i\<rparr>) (ParseInt0 v)
      else if name = ''enable-fake-store'' then map_option (\<lambda>b. f\<lparr>enableFake := b\<rparr>) (ParseBool v)
      else case ext name of
             Some x \<Rightarrow> if extSet x v then Some f else None
           | None \<Rightarrow> None)"

text \<open>\<open>name=value\<close>, split at the first equals sign after the first character.\<close>

definition splitEq :: "string \<Rightarrow> string \<times> string option" where
  "splitEq s =
     (case dropWhile (\<lambda>c. c \<noteq> CHR ''='') (tl s) of
        [] \<Rightarrow> (s, None)
      | _ # v \<Rightarrow> (hd s # takeWhile (\<lambda>c. c \<noteq> CHR ''='') (tl s), Some v))"

datatype flagerr = ErrHelp | BadSyntax string | NotDefined string | NeedsArgument string | InvalidValue string string

text \<open>\<open>FlagSet.Parse\<close>: arguments are consumed up to the first that is not a flag.\<close>

fun parseFlags :: "(string \<Rightarrow> extflag option) \<Rightarrow> string list \<Rightarrow> flags \<Rightarrow> flagerr + flags" where
  "parseFlags ext [] f = Inr f"
| "parseFlags ext (s # args) f =
     (if length s < 2 \<or> hd s \<noteq> CHR ''-'' \<or> s = ''--'' then Inr f
      else
        let name = (if s ! 1 = CHR ''-'' then drop 2 s else drop 1 s)
        in if name = [] \<or> hd name = CHR ''-'' \<or> hd name = CHR ''='' then Inl (BadSyntax s)
           else case splitEq name of (name, val) \<Rightarrow>
             (case isBoolFlag ext name of
                None \<Rightarrow> Inl (if name = ''help'' \<or> name = ''h'' then ErrHelp else NotDefined name)
              | Some True \<Rightarrow>
                  (case setFlag ext name (case val of Some v \<Rightarrow> v | None \<Rightarrow> ''true'') f of
                     None \<Rightarrow> Inl (InvalidValue name (case val of Some v \<Rightarrow> v | None \<Rightarrow> ''true''))
                   | Some f \<Rightarrow> parseFlags ext args f)
              | Some False \<Rightarrow>
                  (case val of
                     Some v \<Rightarrow>
                       (case setFlag ext name v f of
                          None \<Rightarrow> Inl (InvalidValue name v)
                        | Some f \<Rightarrow> parseFlags ext args f)
                   | None \<Rightarrow>
                       (case args of
                          [] \<Rightarrow> Inl (NeedsArgument name)
                        | v # args \<Rightarrow>
                            (case setFlag ext name v f of
                               None \<Rightarrow> Inl (InvalidValue name v)
                             | Some f \<Rightarrow> parseFlags ext args f)))))"

section \<open>Reading back\<close>

lemma digitVal_digit: "d < 10 \<Longrightarrow> digitVal (digit d) = Some (int d)"
proof -
  assume d: "d < 10"
  then have "(of_char (digit d) :: nat) = 48 + d" by (rule of_char_digit)
  then have "(of_char (digit d) :: int) = 48 + int d" by (metis of_nat_add of_nat_numeral of_nat_of_char)
  then show ?thesis using d by (simp add: digitVal_def)
qed

lemma digit_not_underscore: "d < 10 \<Longrightarrow> digit d \<noteq> CHR ''_''"
  using of_char_digit [of d] by auto

lemma uintLoop_append:
  "uintLoop base (xs @ ys) n = (case uintLoop base xs n of None \<Rightarrow> None | Some m \<Rightarrow> uintLoop base ys m)"
  by (induction xs arbitrary: n) (auto split: option.split)

lemma uintLoop_utoa: "uintLoop 10 (utoa n) 0 = Some (int n)"
proof (induction n rule: less_induct)
  case (less n)
  show ?case
  proof (cases "n < 10")
    case True
    then show ?thesis by (simp add: utoa.simps [of n] digitVal_digit digit_not_underscore)
  next
    case False
    then have "uintLoop 10 (utoa (n div 10)) 0 = Some (int (n div 10))" using less by simp
    moreover have "n mod 10 < 10" "int (n div 10) * 10 + int (n mod 10) = int n" by presburger+
    ultimately show ?thesis using False
      by (simp add: utoa.simps [of n] uintLoop_append digitVal_digit digit_not_underscore del: of_nat_div of_nat_mod)
  qed
qed

lemma utoa_no_underscore: "CHR ''_'' \<notin> set (utoa n)"
  using utoa_digits [of "CHR ''_''" n] digit_not_underscore by metis

lemma utoa_hd_pos: "0 < n \<Longrightarrow> hd (utoa n) \<noteq> CHR ''0''"
proof (induction n rule: less_induct)
  case (less n)
  show ?case
  proof (cases "n < 10")
    case True
    then have "digit n \<noteq> CHR ''0''" using less.prems of_char_digit [of n] by auto
    then show ?thesis using True by (simp add: utoa.simps [of n])
  next
    case False
    then show ?thesis using less.IH [of "n div 10"] by (simp add: utoa.simps [of n])
  qed
qed

lemma ParseUint0_utoa: "int n < 2 ^ 64 \<Longrightarrow> ParseUint0 (utoa n) = Some (int n)"
proof (cases "n = 0")
  case True
  have "utoa 0 = ''0''" by code_simp
  then show ?thesis using True by (simp add: ParseUint0_def basePrefix_def)
next
  case False
  assume n: "int n < 2 ^ 64"
  have "basePrefix (utoa n) = (10, utoa n)"
    using utoa_hd_pos [of n] False by (cases "utoa n") (simp_all add: basePrefix_def)
  then show ?thesis using n by (simp add: ParseUint0_def uintLoop_utoa utoa_no_underscore)
qed

lemma digit_not_plus: "d < 10 \<Longrightarrow> digit d \<noteq> CHR ''+''"
  using of_char_digit [of d] by auto

lemma take1_utoa: "take 1 (utoa n) \<noteq> ''-''" "take 1 (utoa n) \<noteq> ''+''"
proof -
  obtain d where "d < 10" "hd (utoa n) = digit d" using utoa_digits [of "hd (utoa n)" n] by auto
  then show "take 1 (utoa n) \<noteq> ''-''" "take 1 (utoa n) \<noteq> ''+''"
    using digit_not_minus digit_not_plus by (cases "utoa n", auto)+
qed

text \<open>Every \<open>int\<close> is read back from its decimal form.\<close>

lemma ParseInt0_itoa: "minInt64 \<le> i \<Longrightarrow> i \<le> maxInt64 \<Longrightarrow> ParseInt0 (itoa i) = Some i"
  using ParseUint0_utoa [of "nat i"] ParseUint0_utoa [of "nat (- i)"] take1_utoa [of "nat i"]
  by (auto simp: ParseInt0_def itoa_def Let_def)

text \<open>A command line for every setting of the flags, in two of the forms a flag can be written in.\<close>

definition boolArg :: "bool \<Rightarrow> string" where
  "boolArg b = (if b then ''true'' else ''false'')"

definition commandLine :: "flags \<Rightarrow> string list" where
  "commandLine f =
     [''--metrics-bind-address='' @ metricsAddr f, ''-health-probe-bind-address'', probeAddr f,
      ''--leader-elect='' @ boolArg (leaderElect f), ''-concurrent='' @ itoa (concurrent f),
      ''--enable-fake-store='' @ boolArg (enableFake f)]"

lemma splitEq_append:
  assumes "CHR ''='' \<notin> set n" "n \<noteq> []"
  shows "splitEq (n @ CHR ''='' # v) = (n, Some v)"
proof -
  obtain c t where n: "n = c # t" using assms(2) by (cases n) auto
  have "\<And>x. x \<in> set t \<Longrightarrow> x \<noteq> CHR ''=''" using assms(1) n by auto
  then have "dropWhile (\<lambda>c. c \<noteq> CHR ''='') (t @ CHR ''='' # v) = CHR ''='' # v"
    "takeWhile (\<lambda>c. c \<noteq> CHR ''='') (t @ CHR ''='' # v) = t"
    using dropWhile_append2 [of t "\<lambda>c. c \<noteq> CHR ''=''"] takeWhile_append2 [of t "\<lambda>c. c \<noteq> CHR ''=''"] by simp_all
  then show ?thesis by (simp add: splitEq_def n del: dropWhile_append dropWhile_append2)
qed

lemma splitEq_bare: "CHR ''='' \<notin> set n \<Longrightarrow> splitEq n = (n, None)"
proof -
  assume "CHR ''='' \<notin> set n"
  then have "dropWhile (\<lambda>c. c \<noteq> CHR ''='') (tl n) = []" by (cases n) auto
  then show ?thesis by (simp only: splitEq_def list.case)
qed

lemma ParseBool_boolArg: "ParseBool (boolArg b) = Some b"
  by (simp add: ParseBool_def boolArg_def)

text \<open>
  Whatever the flags are set to, there is a command line that sets them so: addresses with any
  characters in them, equals signs included, and any 64-bit number of workers are read back
  exactly, whatever flags other packages register.
\<close>

theorem parseFlags_commandLine:
  assumes "minInt64 \<le> concurrent f" "concurrent f \<le> maxInt64"
  shows "parseFlags ext (commandLine f) defaultFlags = Inr f"
proof -
  have sp: "splitEq (''metrics-bind-address='' @ v) = (''metrics-bind-address'', Some v)"
    "splitEq ''health-probe-bind-address'' = (''health-probe-bind-address'', None)"
    "splitEq (''leader-elect='' @ v) = (''leader-elect'', Some v)"
    "splitEq (''concurrent='' @ v) = (''concurrent'', Some v)"
    "splitEq (''enable-fake-store='' @ v) = (''enable-fake-store'', Some v)" for v
    using splitEq_append [of "''metrics-bind-address''" v] splitEq_bare [of "''health-probe-bind-address''"]
      splitEq_append [of "''leader-elect''" v] splitEq_append [of "''concurrent''" v] splitEq_append [of "''enable-fake-store''" v]
    by simp_all
  show ?thesis
    using ParseInt0_itoa [OF assms] sp [simplified]
    by (simp add: commandLine_def isBoolFlag_def setFlag_def ParseBool_boolArg defaultFlags_def Let_def)
qed

definition demoFlags :: flags where
  "demoFlags = \<lparr>metricsAddr = '':8080'', probeAddr = '':1=2'', leaderElect = True, concurrent = 16, enableFake = False\<rparr>"

theorem parseFlags_commandLine_witness:
  "parseFlags (\<lambda>_. None) (commandLine demoFlags) defaultFlags = Inr demoFlags"
  by (rule parseFlags_commandLine) (simp_all add: demoFlags_def)

text \<open>Flags end at the first argument that is not one; a bare boolean flag is set; a later flag wins.\<close>

lemma parseFlags_stops: "length s < 2 \<or> hd s \<noteq> CHR ''-'' \<Longrightarrow> parseFlags ext (s # args) f = Inr f"
  by auto

lemma parseFlags_examples:
  "parseFlags (\<lambda>_. None) [''-leader-elect'', ''--concurrent=0x10'', ''--concurrent'', ''1_000'', ''--'', ''--no''] defaultFlags
     = Inr (defaultFlags\<lparr>leaderElect := True, concurrent := 1000\<rparr>)"
  "parseFlags (\<lambda>_. None) [''--concurrent=1__0''] defaultFlags = Inl (InvalidValue ''concurrent'' ''1__0'')"
  "parseFlags (\<lambda>_. None) [''--concurrent''] defaultFlags = Inl (NeedsArgument ''concurrent'')"
  "parseFlags (\<lambda>_. None) [''-h''] defaultFlags = Inl ErrHelp"
  "parseFlags (\<lambda>_. None) [''--leader-elect=maybe''] defaultFlags = Inl (InvalidValue ''leader-elect'' ''maybe'')"
  by code_simp+

end
