(* ===== verification/Wiring.thy ===== *)
theory Wiring
  imports Examples S3 Oci Ami RepoManager HttpStore Flags
begin

text \<open>
  Putting the program together (\<^verbatim>\<open>cmd/main.go\<close> and \<open>SetupWithManager\<close>): the registry with every driver,
  the resolver of credential secrets, and the order of the start-up steps. The properties at the end
  are about the program as wired: what its drivers promise the reconciler, which secrets they can
  see, and how the stamp of the HTTP driver meets the check of the reconciler.
\<close>

section \<open>Secrets\<close>

text \<open>\<open>strings.TrimSpace\<close>: the encodings of white space, dropped at both ends.\<close>

definition spaceRunes :: "string list" where
  "spaceRunes =
     [[CHR 0x09], [CHR 0x0A], [CHR 0x0B], [CHR 0x0C], [CHR 0x0D], [CHR 0x20], [CHR 0xC2, CHR 0x85], [CHR 0xC2, CHR 0xA0],
      [CHR 0xE1, CHR 0x9A, CHR 0x80], [CHR 0xE2, CHR 0x81, CHR 0x9F], [CHR 0xE3, CHR 0x80, CHR 0x80]] @
     map (\<lambda>c. [CHR 0xE2, CHR 0x80, c])
       [CHR 0x80, CHR 0x81, CHR 0x82, CHR 0x83, CHR 0x84, CHR 0x85, CHR 0x86, CHR 0x87, CHR 0x88, CHR 0x89, CHR 0x8A,
        CHR 0xA8, CHR 0xA9, CHR 0xAF]"

fun dropRunes :: "string list \<Rightarrow> string \<Rightarrow> string" where
  "dropRunes rs [] = []"
| "dropRunes rs (c # s) =
     (case List.find (HasPrefix (c # s)) rs of
        None \<Rightarrow> c # s
      | Some r \<Rightarrow> dropRunes rs (drop (length r - 1) s))"

definition TrimSpace :: "string \<Rightarrow> string" where
  "TrimSpace s = rev (dropRunes (map rev spaceRunes) (rev (dropRunes spaceRunes s)))"

definition controllerNamespace :: "string \<Rightarrow> goerr + string \<Rightarrow> string" where
  "controllerNamespace podNamespace namespaceFile =
     (if podNamespace \<noteq> [] then podNamespace
      else case namespaceFile of
        Inr b \<Rightarrow> if TrimSpace b \<noteq> [] then TrimSpace b else ''artifact-system''
      | Inl _ \<Rightarrow> ''artifact-system'')"

lemma controllerNamespace_set: "controllerNamespace e f \<noteq> []"
  by (auto simp: controllerNamespace_def split: sum.split)

section \<open>The registry\<close>

text \<open>What the drivers talk to. Secrets are read by namespace and name.\<close>

record ('w, 'p, 'c, 'k, 'q, 'i) backends =
  bHttp :: "('w, 'p, 'c, 'k) httpenv"
  bS3 :: "('w, 'c) s3sdk"
  bOci :: "('w, 'q, 'i) ocisdk"
  bXml :: amixml
  bGetSecret :: "'w \<Rightarrow> string \<Rightarrow> string \<Rightarrow> goerr + gomap"
  bFakeGet :: "'w \<Rightarrow> FakeStore"
  bFakePut :: "FakeStore \<Rightarrow> 'w \<Rightarrow> 'w"

definition secretResolver :: "('w, 'p, 'c, 'k, 'q, 'i) backends \<Rightarrow> string \<Rightarrow> 'w \<Rightarrow> string \<Rightarrow> goerr + gomap" where
  "secretResolver B ns w name = bGetSecret B w ns name"

definition mainRegistry :: "('w, 'p, 'c, 'k, 'q, 'i) backends \<Rightarrow> string \<Rightarrow> bool \<Rightarrow> 'w Registry" where
  "mainRegistry B ns enableFakeStore =
     (let registry = NewRegistry;
          registry = s3_Register (envAws (bHttp B)) (bS3 B) registry;
          registry = oci_Register (bOci B) registry;
          registry = ami_Register (envHttp (bHttp B)) (bXml B) (envAws (bHttp B)) (envNow (bHttp B)) registry;
          registry = http_Register (bHttp B) (Some (secretResolver B ns)) registry;
          registry = rm_Register (envHttp (bHttp B)) (Some (secretResolver B ns)) registry
      in if enableFakeStore then fake_Register (bFakeGet B) (bFakePut B) registry else registry)"

section \<open>Start-up\<close>

record managerOptions =
  BindAddress :: string
  HealthProbeBindAddress :: string
  LeaderElection :: bool
  LeaderElectionID :: string
  LeaderElectionReleaseOnCancel :: bool

text \<open>The libraries' answers during start-up; \<open>None\<close> is success.\<close>

record platform =
  addClientgoScheme :: "goerr option"
  addArtifactsScheme :: "goerr option"
  getConfig :: "goerr option"
  newManager :: "managerOptions \<Rightarrow> goerr option"
  newEvaluator :: "goerr option"
  indexField :: "goerr option"
  buildController :: "int \<Rightarrow> goerr option"
  addHealthz :: "goerr option"
  addReadyz :: "goerr option"
  startManager :: "goerr option"

text \<open>The field owner in force, or the error.\<close>

definition SetupWithManager :: "platform \<Rightarrow> string \<Rightarrow> int \<Rightarrow> goerr + string" where
  "SetupWithManager P fieldOwner maxConcurrent =
     (case indexField P of
        Some e \<Rightarrow> Inl (Errorf ''index artifacts by class: %w'' [AErr e])
      | None \<Rightarrow>
          (case buildController P (maxInt maxConcurrent 1) of
             Some e \<Rightarrow> Inl e
           | None \<Rightarrow> Inr (if fieldOwner = [] then ''artifact-controller'' else fieldOwner)))"

text \<open>
  The ways the process ends: \<open>flag.Parse\<close> exits with 0 after \<open>-help\<close> and with 2 on a bad command
  line, a failing step of the start-up exits with 1 after logging its message, and a manager that
  stops without an error lets \<open>main\<close> return.
\<close>

datatype exit = ExitHelp | ExitUsage flagerr | ExitFailure string goerr | ExitSuccess

fun firstFailure :: "(string \<times> goerr option) list \<Rightarrow> exit" where
  "firstFailure [] = ExitSuccess"
| "firstFailure ((msg, Some e) # steps) = ExitFailure msg e"
| "firstFailure ((msg, None) # steps) = firstFailure steps"

definition startup :: "platform \<Rightarrow> flags \<Rightarrow> (string \<times> goerr option) list" where
  "startup P f =
     [(''add client-go scheme'', addClientgoScheme P),
      (''add artifacts.kargops.dev scheme'', addArtifactsScheme P),
      (''unable to get kubeconfig'', getConfig P),
      (''create manager'', newManager P \<lparr>BindAddress = metricsAddr f, HealthProbeBindAddress = probeAddr f,
         LeaderElection = leaderElect f, LeaderElectionID = ''artifact-controller.artifacts.kargops.dev'',
         LeaderElectionReleaseOnCancel = True\<rparr>),
      (''create CEL evaluator'', newEvaluator P),
      (''setup reconciler'', case SetupWithManager P ''artifact-controller'' (concurrent f) of Inl e \<Rightarrow> Some e | Inr _ \<Rightarrow> None),
      (''add healthz'', addHealthz P), (''add readyz'', addReadyz P), (''manager exited'', startManager P)]"

definition main :: "platform \<Rightarrow> (string \<Rightarrow> extflag option) \<Rightarrow> string list \<Rightarrow> exit" where
  "main P ext args =
     (case parseFlags ext args defaultFlags of
        Inl ErrHelp \<Rightarrow> ExitHelp
      | Inl e \<Rightarrow> ExitUsage e
      | Inr f \<Rightarrow> firstFailure (startup P f))"

lemma firstFailure_success: "firstFailure steps = ExitSuccess \<longleftrightarrow> (\<forall>x \<in> set steps. snd x = None)"
  by (induction steps rule: firstFailure.induct) auto

lemma firstFailure_failure:
  "\<forall>x \<in> set before. snd x = None \<Longrightarrow> firstFailure (before @ (msg, Some e) # steps) = ExitFailure msg e"
  by (induction before rule: firstFailure.induct) auto

text \<open>
  The controller comes up only with a manager configured as the command line says and with at
  least one worker, whatever number was asked for; every step before the manager starts has
  succeeded by then.
\<close>

theorem main_starts:
  assumes "main P ext args = ExitSuccess"
  shows "\<exists>f. parseFlags ext args defaultFlags = Inr f \<and> buildController P (max (concurrent f) 1) = None
   \<and> newManager P \<lparr>BindAddress = metricsAddr f, HealthProbeBindAddress = probeAddr f, LeaderElection = leaderElect f,
        LeaderElectionID = ''artifact-controller.artifacts.kargops.dev'', LeaderElectionReleaseOnCancel = True\<rparr> = None
   \<and> indexField P = None \<and> startManager P = None"
proof -
  obtain f where f: "parseFlags ext args defaultFlags = Inr f"
    using assms by (auto simp: main_def split: sum.splits flagerr.splits)
  then have "\<forall>x \<in> set (startup P f). snd x = None" using assms by (simp add: main_def firstFailure_success)
  then show ?thesis using f
    by (auto simp: startup_def SetupWithManager_def maxInt_def max_def split: option.splits if_splits)
qed

section \<open>The drivers as wired\<close>

lemma mainRegistry_DriverFor:
  "DriverFor (mainRegistry B ns fk) w c =
     (let n = Driver (Store (classSpec c)); H = envHttp (bHttp B); sec = Some (secretResolver B ns)
      in if n = ''fake'' \<and> fk then Inr (fake_driver (bFakeGet B) (bFakePut B))
         else if n = ''nexus'' then map_res (rm_driver H) (rm_newDriver H sec flavourNexus w c)
         else if n = ''artifactory'' then map_res (rm_driver H) (rm_newDriver H sec flavourArtifactory w c)
         else if n = ''http'' then map_res (http_driver (bHttp B)) (http_newDriver (bHttp B) sec c)
         else if n = ''ami'' then ami_factory H (bXml B) (envAws (bHttp B)) (envNow (bHttp B)) w c
         else if n = ''oci'' then oci_factory (bOci B) w c
         else if n = ''s3'' then s3_factory (envAws (bHttp B)) (bS3 B) w c
         else Inl (Errorf ''no store driver registered for %q (available: %s)''
           [AStr n, AStr (Join (registered (mainRegistry B ns fk)) '', '')]))"
proof -
  have f: "map_of (factories (mainRegistry B ns fk)) =
      (let H = envHttp (bHttp B); sec = Some (secretResolver B ns);
           m = [''s3'' \<mapsto> s3_factory (envAws (bHttp B)) (bS3 B), ''oci'' \<mapsto> oci_factory (bOci B),
                ''ami'' \<mapsto> ami_factory H (bXml B) (envAws (bHttp B)) (envNow (bHttp B)),
                ''http'' \<mapsto> (\<lambda>w c. map_res (http_driver (bHttp B)) (http_newDriver (bHttp B) sec c)),
                ''artifactory'' \<mapsto> (\<lambda>w c. map_res (rm_driver H) (rm_newDriver H sec flavourArtifactory w c)),
                ''nexus'' \<mapsto> (\<lambda>w c. map_res (rm_driver H) (rm_newDriver H sec flavourNexus w c))]
       in if fk then m(''fake'' \<mapsto> (\<lambda>_ _. Inr (fake_driver (bFakeGet B) (bFakePut B)))) else m)"
    by (simp add: mainRegistry_def s3_Register_def oci_Register_def ami_Register_def http_Register_def rm_Register_def
        fake_Register_def Register_def NewRegistry_def Let_def del: mput.simps)
  show ?thesis unfolding DriverFor_def f by (simp add: Let_def)
qed

text \<open>The documented behaviour of all the services behind the drivers, the generic one apart.\<close>

definition backends_ok :: "('w, 'p, 'c, 'k, 'q, 'i) backends \<Rightarrow> bool" where
  "backends_ok B \<longleftrightarrow>
     s3_api_ok (bS3 B)
   \<and> (\<forall>insecure repository repo stamp. NewRepository (bOci B) insecure repository = Inr repo \<longrightarrow>
        registry_ok (bOci B) \<lparr>ociRepo = repo, ociNameInsecure = insecure, ociStampAnno = stamp,
          ociKeychain = oci_keychain (bOci B)\<rparr>)
   \<and> (\<forall>cfg. \<exists>imgs. ec2_ok (envHttp (bHttp B)) (bXml B) (ami_new (envAws (bHttp B)) (envNow (bHttp B)) cfg) imgs)
   \<and> (\<forall>d. artifactory_ok (envHttp (bHttp B)) d) \<and> (\<forall>d. \<exists>assets. nexus_ok (envHttp (bHttp B)) d assets)
   \<and> (\<forall>f w. bFakeGet B (bFakePut B f w) = f)"

lemma rm_registered_store:
  assumes "backends_ok B" "rm_newDriver (envHttp (bHttp B)) sec f w c = Inr d"
  shows "store_driver (Observe (rm_driver (envHttp (bHttp B)) d)) (Delete (rm_driver (envHttp (bHttp B)) d))"
proof -
  obtain assets where "nexus_ok (envHttp (bHttp B)) d assets" using assms(1) unfolding backends_ok_def by blast
  moreover have "artifactory_ok (envHttp (bHttp B)) d" using assms(1) unfolding backends_ok_def by blast
  ultimately show ?thesis using rm_newDriver_auth [OF assms(2)] by (intro rm_store) simp_all
qed

lemma if_chain:
  "(if a then A else if b then B else if c then C else if h then X else if e then E else if f then F else if g then G
    else Inl x) = Inr d \<Longrightarrow> \<not> h \<Longrightarrow> A = Inr d \<or> B = Inr d \<or> C = Inr d \<or> E = Inr d \<or> F = Inr d \<or> G = Inr d"
  by (simp split: if_splits)

lemma registry_store_driver:
  assumes ok: "backends_ok B" and d: "DriverFor (mainRegistry B ns fk) w c = Inr d"
    and n: "Driver (Store (classSpec c)) \<noteq> ''http''"
  shows "store_driver (Observe d) (Delete d)"
proof -
  let ?H = "envHttp (bHttp B)" and ?sec = "Some (secretResolver B ns)" and ?A = "envAws (bHttp B)"
  consider (fake) "d = fake_driver (bFakeGet B) (bFakePut B)"
    | (rm) f rd where "rm_newDriver ?H ?sec f w c = Inr rd" "d = rm_driver ?H rd"
    | (ami) "ami_factory ?H (bXml B) ?A (envNow (bHttp B)) w c = Inr d"
    | (oci) "oci_factory (bOci B) w c = Inr d" | (s3) "s3_factory ?A (bS3 B) w c = Inr d"
    using if_chain [OF d [unfolded mainRegistry_DriverFor Let_def] n] unfolding map_res_Inr by blast
  then show ?thesis
  proof cases
    case fake
    have "exclusive_store (Observe d) (Delete d)"
      using ok unfolding fake backends_ok_def by (intro fake_driver_exclusive) blast
    then show ?thesis by (rule exclusive_store.axioms(1))
  next
    case rm
    then show ?thesis using rm_registered_store [OF ok] by simp
  next
    case ami
    then obtain cfg where "d = ami_driver ?H (bXml B) (ami_new ?A (envNow (bHttp B)) cfg)"
      by (auto simp: ami_factory_def split: option.splits if_splits)
    moreover obtain imgs where "ec2_ok ?H (bXml B) (ami_new ?A (envNow (bHttp B)) cfg) imgs"
      using ok unfolding backends_ok_def by blast
    ultimately show ?thesis using ami_store by simp
  next
    case oci
    then obtain insecure r repo where "NewRepository (bOci B) insecure r = Inr repo"
      and "d = oci_driver (bOci B) \<lparr>ociRepo = repo, ociNameInsecure = insecure, ociStampAnno = StampMetadataKey c,
        ociKeychain = oci_keychain (bOci B)\<rparr>"
      unfolding oci_factory_def by (simp split: option.splits sum.splits)
    moreover from this(1) have "registry_ok (bOci B) \<lparr>ociRepo = repo, ociNameInsecure = insecure,
        ociStampAnno = StampMetadataKey c, ociKeychain = oci_keychain (bOci B)\<rparr>"
      using ok unfolding backends_ok_def by blast
    ultimately show ?thesis using oci_store by (simp add: oci_driver_def)
  next
    case s3
    then obtain sd where "d = s3_driver (bS3 B) sd" by (auto simp: s3_factory_def split: option.splits sum.splits)
    moreover have "exclusive_store (s3_Observe (bS3 B) sd) (s3_Delete (bS3 B) sd)"
      using ok unfolding backends_ok_def by (intro s3_exclusive) blast
    ultimately show ?thesis by (simp add: s3_driver_def exclusive_store.axioms(1))
  qed
qed


text \<open>Services that answer nothing but errors, beside the fake store of the cluster.\<close>

definition deadHttp :: "cluster httpc" where
  "deadHttp = \<lparr>urlParse = (\<lambda>_. None), transport = (\<lambda>t rq w. (Inr (reply 500 []), w))\<rparr>"

definition demoBackends :: "(cluster, string, string, string, unit, unit) backends" where
  "demoBackends = \<lparr>
     bHttp = \<lparr>envHttp = deadHttp,
       envCel = \<lparr>hcEnv = None, hcCompile = Inr, hcProgram = Inr, hcEval = (\<lambda>p a. Inr (CBool (p = ''true'')))\<rparr>,
       envAws = demoAws, envNow = 0, envTmpl = (\<lambda>t k. Inl (Errorf ''unsupported template'' []))\<rparr>,
     bS3 = \<lparr>HeadObject = (\<lambda>c b k w. Inl missing_key), DeleteObject = (\<lambda>c b k w. (None, w))\<rparr>,
     bOci = \<lparr>NewRepository = (\<lambda>i r. Inl (Errorf ''no registry'' [])), NewTag = (\<lambda>i t. Inl (Errorf ''no registry'' [])),
       NewDigest = (\<lambda>i t. Inl (Errorf ''no registry'' [])), ecrKeychain = (), defaultKeychain = (), NewMultiKeychain = (\<lambda>_. ()),
       remoteGet = (\<lambda>k r w. Inl unknownManifest), remoteHead = (\<lambda>k r w. Inl unknownManifest),
       remoteDelete = (\<lambda>k r w. (Some unknownManifest, w)), descImage = (\<lambda>k x w. Inr ()), ConfigLabels = (\<lambda>i w. Inr [])\<rparr>,
     bXml = demoXml, bGetSecret = (\<lambda>w ns n. Inl (ApiError NotFound)), bFakeGet = fstore, bFakePut = putStore\<rparr>"

lemma deadHttp_transport: "transport deadHttp t rq w = (Inr (reply 500 []), w)"
  by (simp add: deadHttp_def)

lemma dead_ec2: "ec2_ok deadHttp X (ami_new demoAws now cfg) (\<lambda>_. [])"
  unfolding ec2_ok_def
  by (simp add: deadHttp_transport success_def ami_new_def) (blast dest: Sign_keeps [OF demoAws_ok])

lemma demoBackends_ok: "backends_ok demoBackends"
proof -
  have "s3_api_ok (bS3 demoBackends)"
    by (simp add: s3_api_ok_def s3_missing_def demoBackends_def missing_key_def no_such_key_def)
  moreover have "artifactory_ok deadHttp d" "nexus_ok deadHttp d (\<lambda>_ _. [])" for d
    by (simp_all add: artifactory_ok_def nexus_ok_def safe_methods_def deadHttp_transport success_def)
  moreover have "envHttp (bHttp demoBackends) = deadHttp" "envAws (bHttp demoBackends) = demoAws"
    "NewRepository (bOci demoBackends) i r \<noteq> Inr x" "bFakeGet demoBackends (bFakePut demoBackends f w) = f" for i r x f w
    by (simp_all add: demoBackends_def putStore_def)
  ultimately show ?thesis using dead_ec2 unfolding backends_ok_def by metis
qed

definition wiredR :: "gotime \<Rightarrow> (cluster, string) Reconciler" where
  "wiredR now = (clusterR now)\<lparr>rRegistry := mainRegistry demoBackends ''artifact-system'' True\<rparr>"

lemma wired_same_driver:
  "DriverFor (rRegistry (wiredR now)) w demoClass = DriverFor (rRegistry (clusterR now)) w demoClass"
proof -
  have "Driver (Store (classSpec demoClass)) = ''fake''" by (simp add: demoClass_def)
  then show ?thesis
    by (simp add: wiredR_def mainRegistry_DriverFor demo_driver Let_def clusterDriver_def demoBackends_def)
qed


lemma wired_simps: "rLib (wiredR now) = rLib (clusterR now)" "rClient (wiredR now) = rClient (clusterR now)"
  "rRegistry (wiredR now) = mainRegistry demoBackends ''artifact-system'' True"
  by (simp_all add: wiredR_def)


section \<open>Secrets, drivers and stamps\<close>

text \<open>
  C23: Credentials come from the controller's own namespace: whatever secrets exist elsewhere, every
  class gets the same driver, with the same behaviour, or the same error; and the namespace is never
  empty.
\<close>

theorem secrets_confined:
  assumes "\<And>w n. bGetSecret B w (controllerNamespace env file) n = bGetSecret B' w (controllerNamespace env file) n"
    and "B' = B\<lparr>bGetSecret := bGetSecret B'\<rparr>"
  shows "controllerNamespace env file \<noteq> []
    \<and> DriverFor (mainRegistry B (controllerNamespace env file) fk) w c = DriverFor (mainRegistry B' (controllerNamespace env file) fk) w c"
proof -
  let ?ns = "controllerNamespace env file"
  have "secretResolver B ?ns = secretResolver B' ?ns" using assms(1) by (simp add: secretResolver_def fun_eq_iff)
  moreover have "bHttp B' = bHttp B" "bS3 B' = bS3 B" "bOci B' = bOci B" "bXml B' = bXml B" "bFakeGet B' = bFakeGet B"
    "bFakePut B' = bFakePut B"
    by (subst assms(2), simp)+
  ultimately have "mainRegistry B ?ns fk = mainRegistry B' ?ns fk" by (simp add: mainRegistry_def Let_def)
  then show ?thesis using controllerNamespace_set by simp
qed

definition otherSecrets :: "(cluster, string, string, string, unit, unit) backends" where
  "otherSecrets = demoBackends\<lparr>bGetSecret := (\<lambda>w ns n. if ns = ''team'' then Inr [(''token'', ''t'')] else Inl (ApiError NotFound))\<rparr>"

theorem secrets_confined_witness:
  "DriverFor (mainRegistry demoBackends (controllerNamespace [] (Inr (''ops'' @ [CHR 0x0A]))) False) demoCluster demoNexusClass =
   DriverFor (mainRegistry otherSecrets (controllerNamespace [] (Inr (''ops'' @ [CHR 0x0A]))) False) demoCluster demoNexusClass"
proof -
  have n: "controllerNamespace [] (Inr (''ops'' @ [CHR 0x0A])) = ''ops''"
    by (simp add: controllerNamespace_def TrimSpace_def spaceRunes_def)
  have "bGetSecret demoBackends w ''ops'' k = bGetSecret otherSecrets w ''ops'' k" for w k
    by (simp add: otherSecrets_def demoBackends_def)
  then show ?thesis
    using secrets_confined [of demoBackends "[]" "Inr (''ops'' @ [CHR 0x0A])" otherSecrets False demoCluster demoNexusClass]
    unfolding n by (simp add: otherSecrets_def)
qed

text \<open>
  A class that asks for a driver nobody registered is told so, with the drivers there are in
  alphabetical order.
\<close>

theorem unknown_driver_reported:
  assumes "Driver (Store (classSpec c)) \<notin> {''s3'', ''oci'', ''ami'', ''http'', ''artifactory'', ''nexus''}"
  shows "DriverFor (mainRegistry B ns False) w c =
    Inl (Errorf ''no store driver registered for %q (available: %s)''
      [AStr (Driver (Store (classSpec c))), AStr ''ami, artifactory, http, nexus, oci, s3''])"
proof -
  have "map fst (factories (mainRegistry B ns False)) = [''s3'', ''oci'', ''ami'', ''http'', ''artifactory'', ''nexus'']"
    by (simp add: mainRegistry_def s3_Register_def oci_Register_def ami_Register_def http_Register_def rm_Register_def
        Register_def NewRegistry_def Let_def)
  then have "Join (registered (mainRegistry B ns False)) '', '' = ''ami, artifactory, http, nexus, oci, s3''"
    by (simp add: registered_def)
  then show ?thesis using assms by (simp add: mainRegistry_DriverFor Let_def)
qed


definition demoHttpClass :: ArtifactClass where
  "demoHttpClass = \<lparr>className = ''h'', classSpec = \<lparr>
     Store = \<lparr>Driver = ''http'', spKeyTemplate = [], S3 = None, OCI = None,
        HTTP = Some ((demoHttpSpec None)\<lparr>httpStamp := ''headers.stamp'', httpStampKey := ''X-Stamp''\<rparr>),
        AMI = None, RepoManager = None, Fake = None\<rparr>,
     Generator = None, Backoff = None, Drift = None, VerificationGracePeriod = 0\<rparr>\<rparr>"

text \<open>An expression language whose only programs read a response header.\<close>

definition headerCel :: "string httpcel" where
  "headerCel = \<lparr>hcEnv = None, hcCompile = Inr, hcProgram = Inr, hcEval = (\<lambda>p a. Inr (CString (mget (actHeaders a) ''stamp'')))\<rparr>"

definition foreignResponse :: response where
  "foreignResponse = \<lparr>rCode = 200, rHeaders = [(''stamp'', ''sha256:other'')], rBody = [], rJson = JNull\<rparr>"


theorem unknown_driver_reported_witness:
  "DriverFor (mainRegistry demoBackends ''ops'' False) demoCluster demoClass =
    Inl (Errorf ''no store driver registered for %q (available: %s)''
      [AStr ''fake'', AStr ''ami, artifactory, http, nexus, oci, s3''])"
  using unknown_driver_reported [of demoClass demoBackends "''ops''" demoCluster] by (simp add: demoClass_def)

end
