(* ===== verification/Address.thy ===== *)
theory Address
  imports Outcomes
begin

text \<open>
  What a pass does to the part of an Artifact that addresses its store object: the spec, the
  identity in it included, is never changed, and the recorded hash is left alone or set to the
  address of the identity.
\<close>

definition adr :: "('w, 'p) rst \<Rightarrow> ArtifactSpec \<times> string" where
  "adr s = (Spec (obj s), SpecHash (stat s))"

lemma adr_simps [simp]:
  "adr (emit b ev m s) = adr s" "adr (s\<lparr>world := w\<rparr>) = adr s" "adr (setState x s) = adr s"
  "adr (markTrue R t r m s) = adr s" "adr (markFalse R t r m s) = adr s"
  "adr (markUnknown R t r m s) = adr s" "adr (condDelete R t s) = adr s"
  "adr (markStalled R r m s) = adr s" "adr (markReconciling R r m s) = adr s"
  "adr (snd (matched R e run s)) = adr s" "adr (snd (deleteAbandonedRun R ref why s)) = adr s"
  "adr (snd (ensureGeneratorWatch R gvk s)) = adr s"
  "adr (removeFinalizer R s) = adr s" "adr (addFinalizer R s) = adr s" "adr (forgetRun R s) = adr s"
  "adr (setStatus f s) = (fst (adr s), SpecHash (f (stat s)))"
  by (simp_all add: adr_def removeFinalizer_def addFinalizer_def ensureGeneratorWatch_frame)

lemma adr_stat: "SpecHash (stat s) = snd (adr s)" "Spec (obj s) = fst (adr s)"
  by (simp_all add: adr_def)

lemma recordAttemptFailure_adr [simp]: "adr (snd (recordAttemptFailure R r m b s)) = adr s"
  by (simp add: recordAttemptFailure_def Let_def case_prod_beta adr_stat)

lemma awaitArtifact_adr [simp]: "adr (snd (awaitArtifact R c run b s)) = adr s"
  by (simp add: awaitArtifact_def markSucceeded_def Let_def adr_stat)

lemma evaluateRun_adr [simp]: "adr (snd (evaluateRun R c g run b s)) = adr s"
  by (simp add: evaluateRun_def Let_def case_prod_beta)

lemma createRun_adr [simp]: "adr (snd (createRun R g i s)) = adr s"
  by (simp add: createRun_def Let_def adr_stat split: sum.split prod.split apierr.split)

lemma noGenerator_adr [simp]: "adr (snd (noGenerator R c i s)) = adr s"
proof (cases "GeneratorRef (stat s)")
  case (Some ref)
  let ?d = "deleteAbandonedRun R ref (AMsg ''class %q no longer defines a generator'' [AStr (className c)]) s"
  obtain e s' where d: "?d = (e, s')" by (cases ?d)
  then have "adr s' = adr s" using adr_simps(11) by (metis snd_conv)
  then show ?thesis using Some d by (cases e) (simp_all add: noGenerator_def Let_def)
qed (simp add: noGenerator_def Let_def)

lemma inFlight_adr [simp]: "adr (snd (inFlight R c g ref b s)) = adr s"
  by (simp add: inFlight_def adr_stat split: sum.split apierr.split)

lemma reconcileMissing_adr [simp]: "adr (snd (reconcileMissing R c i s)) = adr s"
proof -
  have "adr (markMissing R i s) = adr s" by (simp add: markMissing_def Let_def adr_stat)
  moreover have "adr (snd (budgetExhausted R x s)) = adr s" "adr (snd (backoffPending R t s)) = adr s" for x t s
    by (simp_all add: budgetExhausted_def backoffPending_def Let_def)
  ultimately show ?thesis
    by (simp add: reconcileMissing_def Let_def split: option.split prod.split)
qed

lemma markAvailable_adr [simp]: "adr (snd (markAvailable R key d b s)) = adr s"
  by (simp add: markAvailable_def Let_def adr_stat)

lemma recordDrift_adr [simp]: "adr (recordDrift R c key was new s) = adr s"
  by (simp add: recordDrift_def Let_def)

lemma reconcileExisting_adr [simp]: "adr (snd (reconcileExisting R c obs i s)) = adr s"
  by (simp add: reconcileExisting_def keyConflict_def Let_def adr_stat)

lemma reconcileExpired_adr [simp]: "adr (snd (reconcileExpired R c d key h s)) = adr s"
proof -
  have "adr (snd (parkExpired R s)) = adr s" for s
    by (simp add: parkExpired_def Let_def adr_stat split: option.split)
  then show ?thesis by (simp add: reconcileExpired_def split: sum.split prod.split option.split)
qed

lemma reconcileMissingObserved_adr [simp]: "adr (snd (reconcileMissingObserved R i s)) = adr s"
  by (simp add: reconcileMissingObserved_def Let_def adr_stat)

lemma reconcileKeyed_adr: "adr (snd (reconcileKeyed R c i s)) = (fst (adr s), inSpecHash i)"
  by (simp add: reconcileKeyed_def Let_def split: sum.split prod.split option.split apierr.split)

lemma reconcileClass_adr:
  "adr (snd (reconcileClass R s)) = adr s
   \<or> adr (snd (reconcileClass R s)) = (Spec (obj s), Canonical (Identity (Spec (obj s))))"
  by (simp add: reconcileClass_def Let_def reconcileKeyed_adr inputFor_def adr_stat split: sum.split apierr.split)

lemma reconcileDelete_adr [simp]: "adr (snd (reconcileDelete R s)) = adr s"
proof -
  have d: "adr (snd (deleteFromStore R c s)) = adr s" for c
    by (simp add: deleteFromStore_def Let_def split: sum.split prod.split option.split)
  have "adr (snd (case deleteFromStore R c s of (Some e, s) \<Rightarrow> (fail e, s)
     | (None, s) \<Rightarrow> (after 0, removeFinalizer R s))) = adr s" for c
    using d [of c] by (auto split: prod.split option.split)
  then show ?thesis by (simp add: reconcileDelete_def split: sum.split apierr.split)
qed

lemma startPass_adr [simp]: "adr (honorRetry R (startPass s)) = adr s" "adr (startPass s) = adr s"
  by (simp_all add: honorRetry_def startPass_def Let_def adr_stat)

lemma reconcile_adr:
  "adr (snd (reconcile R s)) = adr s
   \<or> adr (snd (reconcile R s)) = (Spec (obj s), Canonical (Identity (Spec (obj s))))"
proof -
  let ?s = "honorRetry R (startPass s)"
  have eq: "Spec (obj ?s) = Spec (obj s)" by (simp add: adr_stat)
  show ?thesis
  proof (cases "if ObserveOnly (obj ?s) then GeneratorRef (stat ?s) else None")
    case None
    then show ?thesis
      using reconcileClass_adr [of R ?s] eq by (simp add: reconcile_def suspendPass_def Let_def)
  next
    case (Some ref)
    obtain e s' where d: "deleteAbandonedRun R ref (AStr ''managementPolicy is Observe'') ?s = (e, s')" by fastforce
    then have a: "adr (forgetRun R s') = adr s"
      using adr_simps(11) [of R ref "AStr ''managementPolicy is Observe''" ?s] by simp
    then have "Spec (obj (forgetRun R s')) = Spec (obj s)" by (simp add: adr_def)
    then show ?thesis
      using reconcileClass_adr [of R "forgetRun R s'"] a d Some
      by (cases e) (simp_all add: reconcile_def suspendPass_def Let_def)
  qed
qed

lemma reconcileBody_adr:
  "Spec (obj (snd (reconcileBody R s))) = Spec (obj s)"
  "SpecHash (stat (snd (reconcileBody R s))) \<in> {SpecHash (stat s), Canonical (Identity (Spec (obj s)))}"
proof -
  have "adr (snd (reconcileBody R s)) = adr s
      \<or> adr (snd (reconcileBody R s)) = (Spec (obj s), Canonical (Identity (Spec (obj s))))"
    using reconcile_adr [of R s] by (simp add: reconcileBody_def)
  then show "Spec (obj (snd (reconcileBody R s))) = Spec (obj s)"
    "SpecHash (stat (snd (reconcileBody R s))) \<in> {SpecHash (stat s), Canonical (Identity (Spec (obj s)))}"
    by (auto simp: adr_def)
qed

end
