(* ===== verification/System.thy ===== *)
theory System
  imports Address Examples
begin

text \<open>
  The controller among the other parties: many Artifacts, many passes over them in any order, an
  API server and a store that all share, and users and generators in between. A pass is one step;
  what happens during a pass happens, for the others, at its end.
\<close>

text \<open>A pass over an Artifact that exists ends with the patch of what its body has left.\<close>

lemma Reconcile_world:
  assumes "clGetArtifact (rClient R) (world s) req = Inr a"
  shows "world (snd (Reconcile R req s)) =
    (let r = reconcileBody R (s\<lparr>obj := a\<rparr>)
     in snd (clPatch (rClient R) (world (snd r)) (patchOpts R) a (obj (snd r))))"
  using assms by (simp add: Reconcile_def patchObj_def case_prod_beta Let_def split: option.split)

section \<open>What the API server promises about runs\<close>

text \<open>
  An object that was created can be read back under its name; the name is taken from then on, and a creation under a taken name changes nothing.
\<close>

locale run_api =
  fixes C :: "'w client" and L :: lib
  assumes stored: "clCreate C w run = (Inr v, w') \<Longrightarrow> clGetRun C w' (generatorRefFor L run) = Inr v"
    and accepted: "clCreate C w run = (Inr v, w') \<Longrightarrow> generatorRefFor L v = generatorRefFor L run"
    and taken: "clGetRun C w (generatorRefFor L run) = Inr v \<Longrightarrow> clCreate C w run = (Inl AlreadyExists, w)"
    and versions: "ToAPIVersion L (GroupVersionKind L u) = GetAPIVersion L u" "gvKind (GroupVersionKind L u) = GetKind L u"

context run_api
begin

lemma create_again: "clCreate C w run = (Inr v, w') \<Longrightarrow> clCreate C w' run = (Inl AlreadyExists, w')"
  using stored taken by blast

lemma ref_of_run:
  "GetName L run = n \<Longrightarrow> GetNamespace L run = ns \<Longrightarrow>
   \<lparr>refAPIVersion = ToAPIVersion L (GroupVersionKind L run), refKind = gvKind (GroupVersionKind L run), refName = n,
    refNamespace = ns\<rparr> = generatorRefFor L run"
  by (simp add: generatorRefFor_def versions)

end

interpretation cluster_runs: run_api clusterClient refLib
proof
  fix w run v w' u
  show "clGetRun clusterClient w' (generatorRefFor refLib run) = Inr v" if "clCreate clusterClient w run = (Inr v, w')"
    using that by (auto simp: clusterClient_def clusterCreate_def find_in_def Let_def split: option.splits)
  show "generatorRefFor refLib v = generatorRefFor refLib run" if "clCreate clusterClient w run = (Inr v, w')"
    using that by (auto simp: clusterClient_def clusterCreate_def Let_def generatorRefFor_def refLib_def metaOf_setMeta
        map_of_setMeta split: option.splits)
  show "clCreate clusterClient w run = (Inl AlreadyExists, w)" if "clGetRun clusterClient w (generatorRefFor refLib run) = Inr v"
    using that by (auto simp: clusterClient_def clusterCreate_def find_in_def Let_def split: option.splits)
qed (simp_all add: refLib_def)

section \<open>A crash between the creation and the patch\<close>

lemma creation_named:
  assumes "metadata_ok (rLib R)" "creation R a c g key w run answer"
  shows "GetName (rLib R) run = runName a (Canonical (Identity (Spec a))) (wrap32 (Attempts (Status a) + 1))"
    "GetNamespace (rLib R) run = Namespace (Meta a)" "IsControlledBy (rLib R) run a"
proof -
  from assms(2) obtain tmpl where "ownedRun (rLib R) a (Canonical (Identity (Spec a)))
      (runName a (Canonical (Identity (Spec a))) (wrap32 (Attempts (Status a) + 1))) tmpl = Inr run"
    unfolding creation_def by blast
  from ownedRun_ok(1-3) [OF assms(1) this]
  show "GetName (rLib R) run = runName a (Canonical (Identity (Spec a))) (wrap32 (Attempts (Status a) + 1))"
    "GetNamespace (rLib R) run = Namespace (Meta a)" "IsControlledBy (rLib R) run a" .
qed

text \<open>
  C17: The controller may die after it has created a run and before the reference to it is written
  to the status. The next pass over the unchanged Artifact, at whatever time and with whatever has
  happened to the run since, creates no second run: it records the same reference and the same
  attempt that were lost, and changes nothing else in the world.
\<close>

theorem crash_recovered:
  assumes L: "lib_ok (rLib R)" and api: "run_api (rClient R) (rLib R)"
    and first: "at_store R s c key driver obs" "\<not> Exists obs" "\<not> ObserveOnly (obj s)"
      "Generator (classSpec c) = Some g" "GeneratorRef (stat s) = None" "budget_left R (obj s) c"
      "creation R (obj s) c g key (world s) run (Inr v, w)"
    and R': "R' = R\<lparr>rNow := later\<rparr>" "budget_left R' (obj s) c"
    and again: "obj s' = obj s" "at_store R' s' c key driver' obs'" "\<not> Exists obs'"
      "\<And>gvk. snd (clWatch (rClient R) (world s') gvk) = world s'"
    and alive: "clGetRun (rClient R) (world s') (generatorRefFor (rLib R) run) = Inr v'"
      "generatorRefFor (rLib R) v' = generatorRefFor (rLib R) run"
      "IsControlledBy (rLib R) v' (obj s)"
  shows "let lost = stat (snd (reconcileBody R s)); r = reconcileBody R' s'; st = stat (snd r) in
    world (snd r) = world s' \<and> GeneratorRef st = GeneratorRef lost \<and> GeneratorRef st \<noteq> None
  \<and> Attempts st = Attempts lost \<and> FailedAttempts st = FailedAttempts lost"
proof -
  let ?n = "wrap32 (Attempts (stat s) + 1)"
  let ?p1 = "markMissing R (passInput (obj s) c key) (keyedState R key s)"
  let ?p2 = "markMissing R' (passInput (obj s) c key) (keyedState R' key s')"
  have M: "metadata_ok (rLib R)" using L by (rule lib_okD)
  have same: "rLib R' = rLib R" "rClient R' = rClient R" "rExt R' = rExt R" by (simp_all add: R'(1))
  note named = creation_named [OF M first(7)]
  have acc: "generatorRefFor (rLib R) v = generatorRefFor (rLib R) run"
    using run_api.accepted [OF api, of "world s" run v w] first(7) by (auto simp: creation_def)
  have cr: "creation R' (obj s) c g key (world s') run (Inl AlreadyExists, world s')"
    using first(7) again(4) run_api.taken [OF api alive(1)] by (auto simp: creation_def same)
  have ref: "\<lparr>refAPIVersion = ToAPIVersion (rLib R) (GroupVersionKind (rLib R) run),
      refKind = gvKind (GroupVersionKind (rLib R) run), refName = runName (obj s) (Canonical (Identity (Spec (obj s)))) ?n,
      refNamespace = Namespace (Meta (obj s))\<rparr> = generatorRefFor (rLib R) run"
    by (rule run_api.ref_of_run [OF api named(1,2)])
  have b1: "reconcileBody R s = createRun R g (passInput (obj s) c key) ?p1" by (rule pass_creates [OF first(1-6)])
  have b2: "reconcileBody R' s' = createRun R' g (passInput (obj s) c key) ?p2"
    using pass_creates [OF again(2,3)] first(3-5) R'(2) by (simp add: again(1))
  have cr1: "creation R (obj s) c g key (world ?p1) run (Inr v, w)" using first(7) by simp
  have cr2: "creation R' (obj s) c g key (world ?p2) run (Inl AlreadyExists, world s')" using cr by simp
  have ic: "IsControlledBy (rLib R) v' (obj (snd (ensureGeneratorWatch R' gvk ?p2)))" for gvk
    using IsControlledBy_UID [OF M, of "obj (snd (ensureGeneratorWatch R' gvk ?p2))" "obj s"] alive(3) again(1)
    by (simp add: ensureGeneratorWatch_frame)
  have C: "conditions_ok (rLib R)" using L by (rule lib_okD)
  have "GeneratorRef (stat (snd (reconcileBody R s))) = Some (generatorRefFor (rLib R) run)"
    "Attempts (stat (snd (reconcileBody R s))) = ?n" "FailedAttempts (stat (snd (reconcileBody R s))) = failures (obj s)"
    using createRun_answer [OF cr1] unfolding b1 Let_def
    by (simp_all add: ensureGeneratorWatch_frame acc)
  moreover have "GeneratorRef (stat (snd (reconcileBody R' s'))) = Some (generatorRefFor (rLib R) run)"
    "Attempts (stat (snd (reconcileBody R' s'))) = ?n" "FailedAttempts (stat (snd (reconcileBody R' s'))) = failures (obj s)"
    "world (snd (reconcileBody R' s')) = world s'"
    using createRun_answer [OF cr2] ic ref alive(1,2) unfolding b2 Let_def
    by (simp_all add: ensureGeneratorWatch_frame same again(1))
  ultimately show ?thesis by simp
qed

theorem crash_recovered_witness:
  "let lost = stat (snd (reconcileBody (clusterR minute) (startAt (withStatus emptyStatus) demoCluster)));
       r = reconcileBody (clusterR (2 * minute)) (startAt (withStatus emptyStatus) lostCluster); st = stat (snd r) in
    world (snd r) = lostCluster \<and> GeneratorRef st = GeneratorRef lost \<and> GeneratorRef st \<noteq> None
  \<and> Attempts st = Attempts lost \<and> FailedAttempts st = FailedAttempts lost"
proof -
  have cr: "clusterCreate demoCluster (createdRun 1) =
      (Inr storedRun, demoCluster\<lparr>runs := [(generatorRefFor refLib (createdRun 1), storedRun)]\<rparr>)"
    by (simp add: clusterCreate_def demoCluster_def storedRun_def Let_def)
  have api: "run_api (rClient (clusterR minute)) (rLib (clusterR minute))"
    unfolding clusterR_client clusterR_lib by (rule cluster_runs.run_api_axioms)
  have get: "clGetRun clusterClient lostCluster (generatorRefFor refLib (createdRun 1)) = Inr (createdRun 1)"
    by (simp add: clusterClient_def lostCluster_def find_in_def)
  have w: "snd (clWatch clusterClient w gvk) = w" for w gvk by (simp add: clusterClient_def)
  let ?a = "withStatus emptyStatus"
  let ?s = "startAt ?a demoCluster" and ?s' = "startAt ?a lostCluster"
  have "let lost = stat (snd (reconcileBody (clusterR minute) ?s)); r = reconcileBody (clusterR (2 * minute)) ?s'; st = stat (snd r) in
      world (snd r) = world ?s' \<and> GeneratorRef st = GeneratorRef lost \<and> GeneratorRef st \<noteq> None
    \<and> Attempts st = Attempts lost \<and> FailedAttempts st = FailedAttempts lost"
  proof (rule crash_recovered [OF clusterR_lib_ok api absent_at_store _ _ demo_generator_spec])
    show "creation (clusterR minute) (obj ?s) demoClass
        \<lparr>Template = demoTemplate, SucceededWhen = ''succeeded'', FailedWhen = ''failed'', InProgressWhen = ''running'',
         gsProgressDeadline = Some (10 * minute)\<rparr> ''artifacts/client'' (world ?s) (createdRun 1)
        (Inr storedRun, demoCluster\<lparr>runs := [(generatorRefFor refLib (createdRun 1), storedRun)]\<rparr>)"
      using demo_creation [of emptyStatus minute demoCluster] cr by (simp add: empty_simps)
    show "clusterR (2 * minute) = (clusterR minute)\<lparr>rNow := 2 * minute\<rparr>" by (simp add: clusterR_def)
    show "at_store (clusterR (2 * minute)) ?s' demoClass ''artifacts/client'' clusterDriver absent"
      by (rule absent_at_store) (simp_all add: lostCluster_simps)
    show "clGetRun (rClient (clusterR minute)) (world ?s') (generatorRefFor (rLib (clusterR minute)) (createdRun 1))
        = Inr (createdRun 1)"
      using get by (simp add: clusterR_client clusterR_lib)
  qed (simp_all add: absent_def demo_not_observed demo_frame empty_simps demo_budget clusterR_client lostCluster_simps w lost_controlled)
  then show ?thesis by simp
qed

section \<open>Many Artifacts on one store\<close>

text \<open>
  \<open>unrelated\<close>: a change of the world that shows neither in the store nor in the classes, and that
  changes no Artifact's spec or status.
\<close>

definition same_objects :: "'w client \<Rightarrow> 'w \<Rightarrow> 'w \<Rightarrow> bool" where
  "same_objects C w w' \<longleftrightarrow>
     (\<forall>req b. clGetArtifact C w' req = Inr b \<longrightarrow>
        (\<exists>a. clGetArtifact C w req = Inr a \<and> Spec b = Spec a \<and> Status b = Status a))"

definition unrelated :: "'w client \<Rightarrow> 'w StoreDriver \<Rightarrow> 'w \<Rightarrow> 'w \<Rightarrow> bool" where
  "unrelated C d w w' \<longleftrightarrow>
     (\<forall>k. Observe d w' k = Observe d w k) \<and> (\<forall>n. clGetClass C w' n = clGetClass C w n) \<and> same_objects C w w'"

text \<open>
  The API server and the store \<open>d\<close> side by side: calls on runs and the deletion of an Artifact,
  which marks it only, are unrelated to the store; a store deletion concerns its key alone; a patch
  changes what it is given of the object it names.
\<close>

locale shared_world = exclusive_store "Observe d" "Delete d" for d :: "'w StoreDriver" +
  fixes C :: "'w client"
  assumes create_call: "unrelated C d w (snd (clCreate C w run))"
    and cancel_call: "unrelated C d w (snd (clDeleteRun C w ref))"
    and delete_call: "unrelated C d w (snd (clDeleteArtifact C w a))"
    and watch_call: "unrelated C d w (snd (clWatch C w gvk))"
    and store_call: "clGetClass C (snd (Delete d w k)) n = clGetClass C w n" "same_objects C w (snd (Delete d w k))"
    and patch_call: "Observe d (snd (clPatch C w opts orig a)) k = Observe d w k"
      "clGetClass C (snd (clPatch C w opts orig a)) n = clGetClass C w n"
    and patch_object: "clGetArtifact C (snd (clPatch C w opts orig a)) req = Inr b \<Longrightarrow>
      \<exists>x y. {x, y} \<subseteq> insert a {z. clGetArtifact C w req = Inr z} \<and> Spec b = Spec x \<and> SpecHash (Status b) = SpecHash (Status y)"

text \<open>
  The object at key \<open>k\<close> carries the stamp \<open>h\<close> under every class there is, and \<open>h\<close> addresses none of
  the Artifacts there are.
\<close>

definition not_ours :: "string \<Rightarrow> Artifact \<Rightarrow> bool" where
  "not_ours h a \<longleftrightarrow> Canonical (Identity (Spec a)) \<noteq> h \<and> SpecHash (Status a) \<noteq> h"

definition protected :: "'w client \<Rightarrow> 'w StoreDriver \<Rightarrow> string \<Rightarrow> string \<Rightarrow> Observation \<Rightarrow> 'w \<Rightarrow> bool" where
  "protected C d h k obs w \<longleftrightarrow>
     Observe d w k = Inr obs
   \<and> (\<forall>n c. clGetClass C w n = Inr c \<longrightarrow> mget (Metadata obs) (StampMetadataKey c) = h)
   \<and> (\<forall>req a. clGetArtifact C w req = Inr a \<longrightarrow> not_ours h a)"

lemma unrelated_protected: "unrelated C d w w' \<Longrightarrow> protected C d h k obs w \<Longrightarrow> protected C d h k obs w'"
  unfolding protected_def unrelated_def same_objects_def not_ours_def by (metis (no_types, lifting))

text \<open>The reconciler \<open>R\<close> works with \<open>C\<close>, and reaches the store only through \<open>d\<close>.\<close>

definition works_with :: "'w client \<Rightarrow> 'w StoreDriver \<Rightarrow> ('w, 'p) Reconciler \<Rightarrow> bool" where
  "works_with C d R \<longleftrightarrow>
     lib_ok (rLib R) \<and> rClient R = C
   \<and> (\<forall>w c x. DriverFor (rRegistry R) w c = Inr x \<longrightarrow> x = d \<or> (\<forall>w' k. unrelated C d w' (snd (Delete x w' k))))"

context shared_world
begin

lemma delete_protected:
  assumes "protected C d h k obs w" "k' \<noteq> k"
  shows "protected C d h k obs (snd (Delete d w k'))"
  using assms delete_frame [of k k' w] store_call [of w k'] unfolding protected_def same_objects_def not_ours_def
  by (metis (no_types, lifting))

lemma driver_delete_protected:
  assumes "works_with C d R" "DriverFor (rRegistry R) w c = Inr x" "Observe x w k' = Inr ob" "deletable c h' ob"
    and "clGetClass C w n = Inr c" "h' \<noteq> h" "h \<noteq> []" "protected C d h k obs w"
  shows "protected C d h k obs (snd (Delete x w k'))"
proof (cases "x = d")
  case True
  have "k' \<noteq> k"
  proof
    assume "k' = k"
    then have "ob = obs" using True assms(3,8) by (simp add: protected_def)
    moreover have "mget (Metadata obs) (StampMetadataKey c) = h" using assms(5,8) by (auto simp: protected_def)
    ultimately show False using assms(4,6,7) by (simp add: deletable_def)
  qed
  then show ?thesis using delete_protected [OF assms(8)] True by simp
next
  case False
  then have "unrelated C d w (snd (Delete x w k'))" using assms(1,2) unfolding works_with_def by blast
  then show ?thesis using assms(8) by (rule unrelated_protected)
qed

lemma effect_protected:
  assumes W: "works_with C d R" and a: "not_ours h a" and "h \<noteq> []" and e: "effect R a w w'"
    and p: "protected C d h k obs w"
  shows "protected C d h k obs w'"
proof -
  have C: "rClient R = C" using W by (simp add: works_with_def)
  from e show ?thesis
  proof cases
    case (StartRun c key x ob run w1)
    then have "protected C d h k obs w1" using p unrelated_protected [OF watch_call p] C by auto
    then show ?thesis using unrelated_protected [OF create_call] StartRun C by auto
  next
    case (ExpireStored c key x ob)
    then show ?thesis using driver_delete_protected [OF W _ _ _ _ _ assms(3) p] a C
      by (auto simp: keyed_def not_ours_def)
  next
    case (DeleteStored c x ob)
    then show ?thesis using driver_delete_protected [OF W _ _ _ _ _ assms(3) p] a C by (auto simp: not_ours_def)
  qed (use p C unrelated_protected [OF cancel_call p] unrelated_protected [OF delete_call p] in auto)
qed

lemma pass_protected:
  assumes W: "works_with C d R" and h: "h \<noteq> []" and p: "protected C d h k obs (world s)"
  shows "protected C d h k obs (world (snd (Reconcile R req s)))"
proof -
  have C: "rClient R = C" and L: "lib_ok (rLib R)" using W by (simp_all add: works_with_def)
  show ?thesis
  proof (cases "clGetArtifact C (world s) req")
    case (Inl e)
    then show ?thesis using p C by (cases e) (simp_all add: Reconcile_def)
  next
    case (Inr a)
    then have a: "not_ours h a" using p unfolding protected_def by blast
    let ?r = "reconcileBody R (s\<lparr>obj := a\<rparr>)"
    have b: "protected C d h k obs (world (snd ?r))"
      by (rule pass_preserves [OF L]) (use p effect_protected [OF W _ h] a in auto)
    have o: "not_ours h (obj (snd ?r))"
      using reconcileBody_adr [of R "s\<lparr>obj := a\<rparr>"] a by (auto simp: not_ours_def)
    let ?w = "snd (clPatch C (world (snd ?r)) (patchOpts R) a (obj (snd ?r)))"
    have "not_ours h y" if "clGetArtifact C ?w q = Inr y" for q y
      using patch_object [OF that] b o unfolding protected_def not_ours_def by fastforce
    then have "protected C d h k obs ?w"
      using b patch_call unfolding protected_def by metis
    then show ?thesis using Reconcile_world [of R s req a] Inr C by (simp add: Let_def)
  qed
qed

end

text \<open>
  The worlds that passes over any Artifacts, in any order, and steps of anybody else lead to.
\<close>

inductive served :: "('w, 'p) Reconciler set \<Rightarrow> ('w \<Rightarrow> 'w \<Rightarrow> bool) \<Rightarrow> 'w \<Rightarrow> 'w \<Rightarrow> bool" for RS others w0 where
  Begin: "served RS others w0 w0"
| Pass: "served RS others w0 (world s) \<Longrightarrow> R \<in> RS \<Longrightarrow> served RS others w0 (world (snd (Reconcile R req s)))"
| Others: "served RS others w0 w \<Longrightarrow> others w w' \<Longrightarrow> served RS others w0 w'"

text \<open>
  C3: Provenance protects an artifact for good: an object whose stamp addresses none of the
  Artifacts in the cluster is still there, unchanged, after any number of complete passes over any
  of them, interleaved with anything other parties do that does not itself touch it.
\<close>

theorem provenance_protects:
  assumes "shared_world d C" "\<And>R. R \<in> RS \<Longrightarrow> works_with C d R" "h \<noteq> []"
    and "\<And>w w'. others w w' \<Longrightarrow> protected C d h k obs w \<Longrightarrow> protected C d h k obs w'"
    and "served RS others w0 w" "protected C d h k obs w0"
  shows "Observe d w k = Inr obs"
proof -
  from assms(5) have "protected C d h k obs w"
  proof induction
    case (Pass s R req)
    then show ?case using shared_world.pass_protected [OF assms(1) assms(2) assms(3)] by blast
  qed (use assms(4,6) in auto)
  then show ?thesis by (simp add: protected_def)
qed

section \<open>Two Artifacts on the cluster\<close>

lemma map_of_drop_in: "map_of (drop_in k m) = (map_of m)(k := None)"
  by (induction m) (auto simp: drop_in_def fun_eq_iff)

interpretation cluster_world: shared_world clusterDriver clusterClient
proof (intro shared_world.intro clusterDriver_exclusive, unfold_locales)
  fix w k n opts orig a req b
  show "unrelated clusterClient clusterDriver w (snd (clCreate clusterClient w run))" for run
    by (simp add: unrelated_def same_objects_def clusterClient_def clusterCreate_def clusterDriver_def fake_driver_def Let_def
        split: option.split)
  show "unrelated clusterClient clusterDriver w (snd (clDeleteRun clusterClient w ref))" for ref
    by (simp add: unrelated_def same_objects_def clusterClient_def clusterDeleteRun_def clusterDriver_def fake_driver_def
        split: option.split)
  show "unrelated clusterClient clusterDriver w (snd (clDeleteArtifact clusterClient w a))"
    by (auto simp: unrelated_def same_objects_def clusterClient_def clusterDeleteArtifact_def clusterDriver_def fake_driver_def
        find_in_def map_of_drop_in split: option.splits if_splits)
  show "unrelated clusterClient clusterDriver w (snd (clWatch clusterClient w gvk))" for gvk
    by (simp add: unrelated_def same_objects_def clusterClient_def)
  show "clGetClass clusterClient (snd (Delete clusterDriver w k)) n = clGetClass clusterClient w n"
    "same_objects clusterClient w (snd (Delete clusterDriver w k))"
    by (auto simp: same_objects_def clusterClient_def clusterDriver_def fake_driver_def putStore_def split: prod.splits)
  show "Observe clusterDriver (snd (clPatch clusterClient w opts orig a)) k = Observe clusterDriver w k"
    "clGetClass clusterClient (snd (clPatch clusterClient w opts orig a)) n = clGetClass clusterClient w n"
    by (simp_all add: clusterClient_def clusterPatch_def clusterDriver_def fake_driver_def Let_def)
  show "\<exists>x y. {x, y} \<subseteq> insert a {z. clGetArtifact clusterClient w req = Inr z} \<and> Spec b = Spec x
      \<and> SpecHash (Status b) = SpecHash (Status y)"
    if "clGetArtifact clusterClient (snd (clPatch clusterClient w opts orig a)) req = Inr b"
  proof -
    have "b = a \<or> clGetArtifact clusterClient w req = Inr b"
      using that by (auto simp: clusterClient_def clusterPatch_def Let_def find_in_def map_of_drop_in
          split: option.splits if_splits)
    then show ?thesis by blast
  qed
qed

lemma clusterR_works: "works_with clusterClient clusterDriver (clusterR now)"
  using clusterR_lib_ok clusterR_DriverFor by (auto simp: works_with_def clusterR_client)

definition secondArtifact :: Artifact where
  "secondArtifact = demoArtifact\<lparr>Meta := (Meta demoArtifact)\<lparr>Name := ''server'', UID := ''u2''\<rparr>,
     Spec := (Spec demoArtifact)\<lparr>Identity := [(''gitRef'', ''v2'')], DeleteAfter := Some second\<rparr>\<rparr>"

definition busyCluster :: cluster where
  "busyCluster = ownedElsewhere\<lparr>artifacts := [((''team'', ''client''), demoArtifact), ((''team'', ''server''), secondArtifact)]\<rparr>"

theorem provenance_protects_witness:
  "let pass = (\<lambda>now req w. world (snd (Reconcile (clusterR now) req (startAt demoArtifact w))))
   in Observe clusterDriver (pass (3 * minute) (''team'', ''client'') (pass minute (''team'', ''server'')
        (pass second (''team'', ''client'') busyCluster))) ''artifacts/client''
      = Inr \<lparr>Exists = True, obsDigest = ''d1'', Metadata = [(DefaultStampMetadataKey, ''sha256:other'')]\<rparr>"
proof -
  let ?pass = "\<lambda>now req w. world (snd (Reconcile (clusterR now) req (startAt demoArtifact w)))"
  let ?sv = "served (range clusterR) (\<lambda>_ _. False) busyCluster"
  let ?obs = "\<lparr>Exists = True, obsDigest = ''d1'', Metadata = [(DefaultStampMetadataKey, ''sha256:other'')]\<rparr>"
  have step: "?sv (?pass now req w)" if "?sv w" for now req w
    using served.Pass [of "range clusterR" "\<lambda>_ _. False" busyCluster "startAt demoArtifact w"] that by simp
  have nc: "Canonical m \<noteq> ''sha256:other''" for m using Canonical_length_ne [of "''sha256:other''" m] by simp
  have "protected clusterClient clusterDriver ''sha256:other'' ''artifacts/client'' ?obs busyCluster"
    by (auto simp: nc protected_def not_ours_def busyCluster_def clusterClient_def clusterDriver_def fake_driver_def ownedElsewhere_def
        putStore_def fake_Observe_Put find_in_def demoCluster_def secondArtifact_def demoArtifact_def emptyStatus_def demoClass_stamp
        mget_def split: option.splits if_splits)
  then show ?thesis
    unfolding Let_def
    by (rule provenance_protects [OF cluster_world.shared_world_axioms _ _ _ step [OF step [OF step [OF served.Begin]]], rotated -1])
      (auto intro: clusterR_works)
qed

end
