(* ===== verification/Convergence.thy ===== *)
theory Convergence
  imports System
begin

text \<open>
  From a missing artifact to a Ready one, through the API server: two complete passes with
  everything in between left to the other parties.
\<close>

text \<open>A patch that is answered without an error is what the next reader sees.\<close>

locale object_api =
  fixes C :: "'w client"
  assumes patch_get: "clPatch C w opts orig a = (None, w') \<Longrightarrow> DeletionTimestamp (Meta a) = None \<Longrightarrow>
    clGetArtifact C w' (nsName a) = Inr a"

context object_api
begin

lemma Reconcile_stored:
  assumes "rClient R = C" "clGetArtifact C (world s) req = Inr a" "reconcileBody R (s\<lparr>obj := a\<rparr>) = (r, t)"
    and "nsName (obj t) = req" "DeletionTimestamp (Meta (obj t)) = None"
    and "fst (clPatch C (world t) (patchOpts R) a (obj t)) = None"
  shows "clGetArtifact C (world (snd (Reconcile R req s))) req = Inr (obj t)"
proof -
  have "clPatch C (world t) (patchOpts R) a (obj t) = (None, world (snd (Reconcile R req s)))"
    using Reconcile_world [of R s req a] assms(1-3,6)
    by (simp add: Let_def) (metis prod.collapse)
  then show ?thesis using patch_get [of "world t" "patchOpts R" a "obj t"] assms(4,5) by simp
qed

end

interpretation cluster_objects: object_api clusterClient
  by unfold_locales (auto simp: clusterClient_def clusterPatch_def find_in_def Let_def)

lemma at_store_frame:
  assumes "at_store R s c key driver obs" "world t = world s" "Meta (obj t) = Meta (obj s)" "Spec (obj t) = Spec (obj s)"
    and "\<not> ObserveOnly (obj s)"
  shows "at_store R t c key driver obs"
proof -
  have "inputFor (obj t) c = inputFor (obj s) c" "ObserveOnly (obj t) = ObserveOnly (obj s)"
    using assms(3,4) by (simp_all add: inputFor_def ObserveOnly_def)
  then show ?thesis using assms by (simp add: at_store_def keyed_def age_reached_def)
qed

lemma keyedState_counts: "Attempts (stat (keyedState R key s)) = Attempts (stat s)"
  by (simp add: keyedState_def honorRetry_def startPass_def Let_def)


section \<open>On the cluster\<close>

text \<open>The run is created, fails to be noticed, and its output appears in the store.\<close>

definition afterFirst :: cluster where
  "afterFirst = world (snd (Reconcile (clusterR minute) (nsName demoArtifact) (startAt demoArtifact demoCluster)))"

definition outputArrived :: cluster where
  "outputArrived = putStore (fstore storedCluster) afterFirst"

lemma outputArrived_same:
  "clGetArtifact clusterClient outputArrived k = clGetArtifact clusterClient afterFirst k"
  "classes outputArrived = classes afterFirst" "fstore outputArrived = fstore storedCluster"
  by (simp_all add: outputArrived_def clusterClient_def putStore_def)

lemma clusterR_classes: "classes (world (snd (Reconcile (clusterR now) req s))) = classes (world s)"
proof (cases "clGetArtifact clusterClient (world s) req")
  case (Inl e)
  then show ?thesis by (cases e) (simp_all add: Reconcile_def clusterR_client)
next
  case (Inr a)
  have d: "classes (snd (Delete x w k)) = classes w" if "DriverFor (rRegistry (clusterR now)) w c = Inr x" for w c x k
    using clusterR_DriverFor [OF that] by (simp add: clusterDriver_def fake_driver_def putStore_def split: prod.split)
  have e: "classes (snd (clCreate clusterClient w r)) = classes w" "classes (snd (clDeleteRun clusterClient w ref)) = classes w"
    "classes (snd (clDeleteArtifact clusterClient w x)) = classes w" "snd (clWatch clusterClient w gvk) = w"
    "classes (snd (clPatch clusterClient w opts x y)) = classes w" for w r ref x y gvk opts
    by (simp_all add: clusterClient_def clusterCreate_def clusterDeleteRun_def clusterDeleteArtifact_def clusterPatch_def Let_def
        split: option.split)
  have "classes (world (snd (reconcileBody (clusterR now) (s\<lparr>obj := a\<rparr>)))) = classes (world s)"
    by (rule pass_preserves [OF clusterR_lib_ok, where P = "\<lambda>w. classes w = classes (world s)"])
      (auto elim!: effect.cases simp: clusterR_client d e)
  then show ?thesis using Reconcile_world [of "clusterR now" s req a] Inr e(5) by (simp add: clusterR_client Let_def)
qed


end
