(* ===== verification/GoMemory.thy ===== *)
theory GoMemory
  imports ApiTypes "HOL-Library.Sublist" "HOL-Library.Monad_Syntax"
begin

text \<open>
  An explicit memory for the API objects, and the contract of a deep copy. Everywhere else in the
  development an API object is a value; informer caches, patch helpers and typed clients share
  objects by pointer. Here pointers, maps and slices are addresses, as in the structs of
  \<^verbatim>\<open>src/api/v1alpha1\<close>, so that what two objects share can be told.
\<close>

section \<open>Objects in memory\<close>

type_synonym addr = nat
type_synonym TypeMeta = "string \<times> string"

record mObjectMeta =
  mName :: string
  mNamespace :: string
  mUID :: string
  mGeneration :: int
  mCreationTimestamp :: gotime
  mDeletionTimestamp :: "addr option"
  mFinalizers :: "addr option"
  mAnnotations :: "addr option"

record mListMeta =
  mResourceVersion :: string
  mContinue :: string
  mRemainingItemCount :: "addr option"

record mArtifactSpec =
  mClassRef :: string
  mIdentity :: "addr option"
  mParams :: "addr option"
  mInterval :: duration
  mSuspend :: bool
  mTTL :: "addr option"
  mDeleteAfter :: "addr option"
  mDeletionPolicy :: string
  mManagementPolicy :: string

record mArtifactStatus =
  mObservedGeneration :: int
  mSpecHash :: string
  mKey :: string
  mDigest :: string
  mState :: State
  mAttempts :: int
  mFailedAttempts :: int
  mLastFailureTime :: "addr option"
  mLastFailureMessage :: "message option"
  mGeneratorRef :: "addr option"
  mGeneratorSucceededAt :: "addr option"
  mLastVerifiedTime :: "addr option"
  mRetryToken :: string
  mConditions :: "addr option"

record mArtifact =
  maTypeMeta :: TypeMeta
  maObjectMeta :: mObjectMeta
  maSpec :: mArtifactSpec
  maStatus :: mArtifactStatus

record mHTTPRequestSpec =
  mMethod :: string
  mURL :: string
  mHeaders :: "addr option"

record mHTTPAuthSpec =
  mAuthType :: string
  mAuthSecretRef :: "addr option"
  mTokenKey :: string
  mUsernameKey :: string
  mPasswordKey :: string
  mHeaderName :: string
  mAuthRegion :: string
  mAuthService :: string
  mTokenURL :: string
  mClientIDKey :: string
  mClientSecretKey :: string
  mScopes :: "addr option"

record mHTTPStoreSpec =
  mObserve :: mHTTPRequestSpec
  mDelete :: "addr option"
  mExists :: string
  mHttpDigest :: string
  mStamp :: string
  mStampKey :: string
  mAuth :: "addr option"
  mTimeout :: "addr option"

record mRepoManagerStoreSpec =
  mBaseURL :: string
  mRepository :: string
  mRmSecretRef :: "addr option"
  mStampPropertyKey :: string
  mRmTimeout :: "addr option"

record mStoreSpec =
  mDriver :: string
  mKeyTemplate :: string
  mS3 :: "addr option"
  mOCI :: "addr option"
  mHTTP :: "addr option"
  mAMI :: "addr option"
  mRepoManager :: "addr option"
  mFake :: "addr option"

record mGeneratorSpec =
  mTemplate :: "addr option"
  mSucceededWhen :: string
  mFailedWhen :: string
  mInProgressWhen :: string
  mProgressDeadline :: "addr option"

record mArtifactClassSpec =
  mStore :: mStoreSpec
  mGenerator :: "addr option"
  mBackoff :: "addr option"
  mDrift :: "addr option"
  mVerificationGracePeriod :: duration

record mArtifactClass =
  mcTypeMeta :: TypeMeta
  mcObjectMeta :: mObjectMeta
  mcSpec :: mArtifactClassSpec

record mArtifactList =
  mlTypeMeta :: TypeMeta
  mlListMeta :: mListMeta
  mlItems :: "addr option"

text \<open>
  What an address can hold. The two list types have the same fields; their items are arrays of
  different types.
\<close>

datatype cell =
    is_Map: CMap (unMap: gomap) | is_Strs: CStrs (unStrs: "string list") | is_Bytes: CBytes (unBytes: string)
  | is_Int: CInt (unInt: int) | is_Dur: CDur (unDur: duration) | is_Time: CTime (unTime: gotime)
  | is_LocalRef: CLocalRef (unLocalRef: string) | is_GenRef: CGenRef (unGenRef: GeneratorReference)
  | is_Conds: CConds (unConds: "Condition list") | is_S3: CS3 (unS3: S3StoreSpec) | is_OCI: COCI (unOCI: OCIStoreSpec)
  | is_AMI: CAMI (unAMI: AMIStoreSpec) | is_Fake: CFake (unFake: unit) | is_Backoff: CBackoff (unBackoff: BackoffSpec)
  | is_Drift: CDrift (unDrift: string) | is_Req: CReq (unReq: mHTTPRequestSpec) | is_Auth: CAuth (unAuth: mHTTPAuthSpec)
  | is_HTTP: CHTTP (unHTTP: mHTTPStoreSpec) | is_Repo: CRepo (unRepo: mRepoManagerStoreSpec)
  | is_Store: CStore (unStore: mStoreSpec) | is_Gen: CGen (unGen: mGeneratorSpec)
  | is_ClassSpec: CClassSpec (unClassSpec: mArtifactClassSpec) | is_Class: CClass (unClass: mArtifactClass)
  | is_Spec: CSpec (unSpec: mArtifactSpec) | is_Status: CStatus (unStatus: mArtifactStatus)
  | is_Artifact: CArtifact (unArtifact: mArtifact) | is_Artifacts: CArtifacts (unArtifacts: "mArtifact list")
  | is_Classes: CClasses (unClasses: "mArtifactClass list") | is_List: CList (unList: mArtifactList)

text \<open>
  Memory grows by appending and nothing is freed while it can be reached; a heap is any state the
  addresses may be in, with everything that has been written since.
\<close>

type_synonym mem = "cell list"
type_synonym heap = "addr \<rightharpoonup> cell"

definition look :: "mem \<Rightarrow> heap" where
  "look m a = (if a < length m then Some (m ! a) else None)"

text \<open>The part of \<open>n\<close> that was allocated after \<open>m\<close>.\<close>

definition fresh :: "mem \<Rightarrow> mem \<Rightarrow> heap" where
  "fresh m n a = (if length m \<le> a then look n a else None)"

definition deref :: "(cell \<Rightarrow> bool) \<Rightarrow> (cell \<Rightarrow> 'a) \<Rightarrow> heap \<Rightarrow> addr \<Rightarrow> 'a option" where
  "deref is un h a = (case h a of None \<Rightarrow> None | Some c \<Rightarrow> if is c then Some (un c) else None)"

section \<open>The contract of a deep copy\<close>

text \<open>
  \<open>rd h a\<close> is the value that the in-memory object \<open>a\<close> stands for in heap \<open>h\<close>. A reading depends only on
  what it finds; and a copy stands for the same value on the newly allocated part alone.
\<close>

locale deep_copier =
  fixes rd :: "heap \<Rightarrow> 'a \<Rightarrow> 'b option"
    and copy :: "'a \<Rightarrow> mem \<Rightarrow> ('a \<times> mem) option"
  assumes rd_mono: "rd h a = Some x \<Longrightarrow> h \<subseteq>\<^sub>m h' \<Longrightarrow> rd h' a = Some x"
    and copy_ok: "rd (look m) a = Some x \<Longrightarrow> \<exists>b n. copy a m = Some (b, n) \<and> prefix m n \<and> rd (fresh m n) b = Some x"

text \<open>What the clients of a copy rely on: neither side sees what is written through the other.\<close>

definition isolating :: "(heap \<Rightarrow> 'a \<Rightarrow> 'b option) \<Rightarrow> ('a \<Rightarrow> mem \<Rightarrow> ('a \<times> mem) option) \<Rightarrow> bool" where
  "isolating rd copy \<longleftrightarrow>
     (\<forall>m a x. rd (look m) a = Some x \<longrightarrow>
        (\<exists>b n. copy a m = Some (b, n) \<and> rd (look n) b = Some x
           \<and> (\<forall>h. (\<forall>i < length m. h i = look n i) \<longrightarrow> rd h a = Some x)
           \<and> (\<forall>h. (\<forall>i \<ge> length m. h i = look n i) \<longrightarrow> rd h b = Some x)))"

lemma look_prefix: "prefix m n \<Longrightarrow> look m \<subseteq>\<^sub>m look n"
  by (auto simp: map_le_def look_def prefix_def nth_append)

lemma fresh_look: "fresh m n \<subseteq>\<^sub>m look n"
  by (auto simp: map_le_def fresh_def)

lemma fresh_mono: "prefix n k \<Longrightarrow> prefix m m' \<Longrightarrow> fresh m' n \<subseteq>\<^sub>m fresh m k"
  using look_prefix [of n k] prefix_length_le [of m m'] by (auto simp: map_le_def fresh_def dom_def)

context deep_copier
begin

lemma isolates: "isolating rd copy"
  unfolding isolating_def
proof (intro allI impI)
  fix m a x assume r: "rd (look m) a = Some x"
  from copy_ok [OF r] obtain b n
    where c: "copy a m = Some (b, n)" "prefix m n" "rd (fresh m n) b = Some x" by blast
  have "rd h a = Some x" if "\<forall>i < length m. h i = look n i" for h
  proof (rule rd_mono [OF r])
    show "look m \<subseteq>\<^sub>m h" using look_prefix [OF c(2)] that by (auto simp: map_le_def look_def split: if_splits)
  qed
  moreover have "rd h b = Some x" if "\<forall>i \<ge> length m. h i = look n i" for h
  proof (rule rd_mono [OF c(3)])
    show "fresh m n \<subseteq>\<^sub>m h" using that by (auto simp: map_le_def fresh_def split: if_splits)
  qed
  ultimately show "\<exists>b n. copy a m = Some (b, n) \<and> rd (look n) b = Some x
      \<and> (\<forall>h. (\<forall>i < length m. h i = look n i) \<longrightarrow> rd h a = Some x)
      \<and> (\<forall>h. (\<forall>i \<ge> length m. h i = look n i) \<longrightarrow> rd h b = Some x)"
    using c rd_mono [OF c(3) fresh_look] by blast
qed

end

section \<open>Reasoning about a sequence of copies\<close>

text \<open>
  \<open>yields m0 Q m r\<close>: the program that was started in \<open>m0\<close> and has got to \<open>m\<close> ends with \<open>r\<close>, a result that
  satisfies \<open>Q\<close> on what has been allocated since \<open>m0\<close>, now and later.
\<close>

definition yields :: "mem \<Rightarrow> (heap \<Rightarrow> 'a \<Rightarrow> bool) \<Rightarrow> mem \<Rightarrow> ('a \<times> mem) option \<Rightarrow> bool" where
  "yields m0 Q m r \<longleftrightarrow> (\<exists>b n. r = Some (b, n) \<and> prefix m n \<and> (\<forall>k. prefix n k \<longrightarrow> Q (fresh m0 k) b))"

text \<open>What is known at \<open>m\<close> of the copies made since \<open>m0\<close>; it stays true as memory grows.\<close>

definition since :: "mem \<Rightarrow> mem \<Rightarrow> (mem \<Rightarrow> bool) \<Rightarrow> bool" where
  "since m0 m I \<longleftrightarrow> prefix m0 m \<and> (\<forall>k. prefix m k \<longrightarrow> I k)"

lemma yields_return: "since m0 m I \<Longrightarrow> (\<And>k. I k \<Longrightarrow> Q (fresh m0 k) b) \<Longrightarrow> yields m0 Q m (Some (b, m))"
  by (auto simp: yields_def since_def)

lemma yields_step:
  assumes D: "deep_copier rd copy" and r: "rd (look m0) a = Some x" and s: "since m0 m I"
    and g: "\<And>b n. since m0 n (\<lambda>k. I k \<and> rd (fresh m0 k) b = Some x) \<Longrightarrow> yields m0 Q n (g b n)"
  shows "yields m0 Q m (Option.bind (copy a m) (case_prod g))"
proof -
  note mono = deep_copier.rd_mono [OF D]
  have p: "prefix m0 m" using s by (simp add: since_def)
  from deep_copier.copy_ok [OF D mono [OF r look_prefix [OF p]]]
  obtain b n where c: "copy a m = Some (b, n)" "prefix m n" "rd (fresh m n) b = Some x" by blast
  have "I k \<and> rd (fresh m0 k) b = Some x" if "prefix n k" for k
    using mono [OF c(3) fresh_mono [OF that p]] s prefix_order.trans [OF c(2) that] by (simp add: since_def)
  then have "since m0 n (\<lambda>k. I k \<and> rd (fresh m0 k) b = Some x)"
    using prefix_order.trans [OF p c(2)] by (simp add: since_def)
  from g [OF this] show ?thesis using c by (auto simp: yields_def intro: prefix_order.trans)
qed

text \<open>A struct is copied deeply when its reading is monotone and its fields are copied in sequence.\<close>

lemma deep_copierI:
  assumes "\<And>h h' a x. rd h a = Some x \<Longrightarrow> h \<subseteq>\<^sub>m h' \<Longrightarrow> rd h' a = Some x"
    and "\<And>m a x. rd (look m) a = Some x \<Longrightarrow> since m m (\<lambda>_. True) \<Longrightarrow> yields m (\<lambda>h b. rd h b = Some x) m (copy a m)"
  shows "deep_copier rd copy"
proof
  show "\<exists>b n. copy a m = Some (b, n) \<and> prefix m n \<and> rd (fresh m n) b = Some x"
    if "rd (look m) a = Some x" for m a x
    using assms(2) [OF that] by (auto simp: yields_def since_def)
qed (rule assms(1))

section \<open>Pointers, maps and slices\<close>

text \<open>
  \<open>if in.F != nil { in, out := &in.F, &out.F; *out = new(T); ... }\<close>, and \<open>DeepCopy\<close>, with the same shape:
  nil stays nil, anything else is copied into a new cell.
\<close>

definition copyPtr ::
  "(cell \<Rightarrow> bool) \<Rightarrow> (cell \<Rightarrow> 'a) \<Rightarrow> ('a \<Rightarrow> cell) \<Rightarrow> ('a \<Rightarrow> mem \<Rightarrow> ('a \<times> mem) option) \<Rightarrow> addr option \<Rightarrow> mem
     \<Rightarrow> (addr option \<times> mem) option" where
  "copyPtr is un mk copyInto p m =
     (case p of
        None \<Rightarrow> Some (None, m)
      | Some a \<Rightarrow> do {
          v \<leftarrow> deref is un (look m) a;
          (v, m) \<leftarrow> copyInto v m;
          Some (Some (length m), m @ [mk v])
        })"

definition rdPtr ::
  "(cell \<Rightarrow> bool) \<Rightarrow> (cell \<Rightarrow> 'a) \<Rightarrow> (heap \<Rightarrow> 'a \<Rightarrow> 'b option) \<Rightarrow> heap \<Rightarrow> addr option \<Rightarrow> 'b option option" where
  "rdPtr is un rd h p =
     (case p of
        None \<Rightarrow> Some None
      | Some a \<Rightarrow> do { v \<leftarrow> deref is un h a; x \<leftarrow> rd h v; Some (Some x) })"

text \<open>\<open>**out = **in\<close>, and \<open>copy(*out, *in)\<close> of a slice of plain values.\<close>

definition copyVal :: "'a \<Rightarrow> mem \<Rightarrow> ('a \<times> mem) option" where
  "copyVal v m = Some (v, m)"

definition rdVal :: "heap \<Rightarrow> 'a \<Rightarrow> 'a option" where
  "rdVal h v = Some v"

text \<open>\<open>for key, val := range *in { (*out)[key] = val }\<close> into a new map; a Go map has each key once.\<close>

definition copyMap :: "gomap \<Rightarrow> mem \<Rightarrow> (gomap \<times> mem) option" where
  "copyMap g m = Some (foldl (\<lambda>out (key, val). mput key val out) [] g, m)"

definition rdMap :: "heap \<Rightarrow> gomap \<Rightarrow> gomap option" where
  "rdMap h g = (if distinct (map fst g) then Some g else None)"

text \<open>\<open>for i := range *in { (*in)[i].DeepCopyInto(&(*out)[i]) }\<close>.\<close>

fun copyAll :: "('a \<Rightarrow> mem \<Rightarrow> ('a \<times> mem) option) \<Rightarrow> 'a list \<Rightarrow> mem \<Rightarrow> ('a list \<times> mem) option" where
  "copyAll copyInto [] m = Some ([], m)"
| "copyAll copyInto (v # vs) m = do {
     (w, m) \<leftarrow> copyInto v m;
     (ws, m) \<leftarrow> copyAll copyInto vs m;
     Some (w # ws, m)
   }"

fun rdAll :: "(heap \<Rightarrow> 'a \<Rightarrow> 'b option) \<Rightarrow> heap \<Rightarrow> 'a list \<Rightarrow> 'b list option" where
  "rdAll rd h [] = Some []"
| "rdAll rd h (v # vs) = do { x \<leftarrow> rd h v; xs \<leftarrow> rdAll rd h vs; Some (x # xs) }"

lemma copyVal_deep: "deep_copier rdVal copyVal"
  by unfold_locales (simp_all add: rdVal_def copyVal_def)

lemma mput_append: "key \<notin> fst ` set g \<Longrightarrow> mput key val g = g @ [(key, val)]"
  by (induction key val g rule: mput.induct) auto

lemma copyMap_id: "distinct (map fst (acc @ g)) \<Longrightarrow> foldl (\<lambda>out (key, val). mput key val out) acc g = acc @ g"
proof (induction g arbitrary: acc)
  case (Cons kv g)
  then show ?case by (cases kv) (simp add: mput_append)
qed simp

lemma copyMap_deep: "deep_copier rdMap copyMap"
  by unfold_locales (auto simp: rdMap_def copyMap_def copyMap_id [of "[]", simplified] split: if_splits)

lemma copyAll_deep:
  assumes D: "deep_copier rd copy"
  shows "deep_copier (rdAll rd) (copyAll copy)"
proof (rule deep_copierI)
  show "rdAll rd h' vs = Some xs" if "rdAll rd h vs = Some xs" "h \<subseteq>\<^sub>m h'" for h h' vs xs
    using that deep_copier.rd_mono [OF D _ that(2)]
    by (induction vs arbitrary: xs) (auto simp: bind_eq_Some_conv)
  have "yields m0 (\<lambda>h b. rdAll rd h b = Some xs) m (copyAll copy vs m)"
    if "rdAll rd (look m0) vs = Some xs" "prefix m0 m" for m0 m vs xs
    using that
  proof (induction vs arbitrary: m xs)
    case Nil
    then show ?case by (simp add: yields_def)
  next
    case (Cons v vs)
    then obtain y ys where r: "rd (look m0) v = Some y" "rdAll rd (look m0) vs = Some ys" "xs = y # ys"
      by (auto simp: bind_eq_Some_conv)
    have "since m0 m (\<lambda>_. True)" using Cons.prems(2) by (simp add: since_def)
    then show ?case
      unfolding copyAll.simps
    proof (rule yields_step [OF D r(1)])
      fix w n assume n: "since m0 n (\<lambda>k. True \<and> rd (fresh m0 k) w = Some y)"
      then have "prefix m0 n" by (simp add: since_def)
      from Cons.IH [OF r(2) this] n r(3)
      show "yields m0 (\<lambda>h b. rdAll rd h b = Some xs) n (copyAll copy vs n \<bind> (\<lambda>(ws, m). Some (w # ws, m)))"
        by (fastforce simp: yields_def since_def intro: prefix_order.trans)
    qed
  qed
  then show "yields m (\<lambda>h b. rdAll rd h b = Some xs) m (copyAll copy vs m)" if "rdAll rd (look m) vs = Some xs" for m vs xs
    using that by simp
qed

lemma deref_mono: "deref is un h a = Some v \<Longrightarrow> h \<subseteq>\<^sub>m h' \<Longrightarrow> deref is un h' a = Some v"
  by (auto simp: deref_def map_le_def dom_def split: option.splits)

lemma copyPtr_deep:
  assumes D: "deep_copier rd copy" and mk: "\<And>v. is (mk v)" "\<And>v. un (mk v) = v"
  shows "deep_copier (rdPtr is un rd) (copyPtr is un mk copy)"
proof (rule deep_copierI)
  show "rdPtr is un rd h' p = Some x" if "rdPtr is un rd h p = Some x" "h \<subseteq>\<^sub>m h'" for h h' p x
    using that deep_copier.rd_mono [OF D _ that(2)] deref_mono [OF _ that(2)]
    by (fastforce simp: rdPtr_def bind_eq_Some_conv split: option.splits)
  show "yields m (\<lambda>h b. rdPtr is un rd h b = Some x) m (copyPtr is un mk copy p m)"
    if p: "rdPtr is un rd (look m) p = Some x" for m p x
  proof (cases p)
    case None
    then show ?thesis using p by (simp add: rdPtr_def copyPtr_def yields_def)
  next
    case (Some a)
    then obtain v y where v: "deref is un (look m) a = Some v" "rd (look m) v = Some y" "x = Some y"
      using p by (auto simp: rdPtr_def bind_eq_Some_conv)
    from deep_copier.copy_ok [OF D v(2)] obtain b n
      where c: "copy v m = Some (b, n)" "prefix m n" "rd (fresh m n) b = Some y" by blast
    have "rdPtr is un rd (fresh m k) (Some (length n)) = Some x" if k: "prefix (n @ [mk b]) k" for k
    proof -
      have "prefix n k" using k by (metis append_prefixD)
      then have "rd (fresh m k) b = Some y"
        using deep_copier.rd_mono [OF D c(3) fresh_mono] by blast
      moreover have "fresh m k (length n) = Some (mk b)"
        using k prefix_length_le [OF c(2)] by (auto simp: prefix_def fresh_def look_def nth_append)
      ultimately show ?thesis using mk v(3) by (simp add: rdPtr_def deref_def)
    qed
    then show ?thesis
      using c v(1) Some by (auto simp: copyPtr_def yields_def intro: prefix_order.trans)
  qed
qed

end
