(* ===== verification/DeepCopy.thy ===== *)
theory DeepCopy
  imports GoMemory
begin

text \<open>
  The generated deep copies (\<^verbatim>\<open>src/api/v1alpha1/zz_generated.deepcopy.go\<close>) over an explicit memory:
  \<open>*out = *in\<close> copies the addresses, and a field that is not copied afterwards stays shared. The
  methods of other packages (\<open>ObjectMeta\<close>, \<open>ListMeta\<close>, \<open>RawExtension\<close>, \<open>Time\<close>, \<open>Condition\<close>) are
  parameters, with the contract that they copy deeply too.
\<close>

section \<open>The methods\<close>

record copylib =
  metaCopyInto :: "mObjectMeta \<Rightarrow> mem \<Rightarrow> (mObjectMeta \<times> mem) option"
  listMetaCopyInto :: "mListMeta \<Rightarrow> mem \<Rightarrow> (mListMeta \<times> mem) option"
  rawCopyInto :: "addr option \<Rightarrow> mem \<Rightarrow> (addr option \<times> mem) option"
  timeCopy :: "addr option \<Rightarrow> mem \<Rightarrow> (addr option \<times> mem) option"
  condCopyInto :: "Condition \<Rightarrow> mem \<Rightarrow> (Condition \<times> mem) option"

definition AMIStoreSpec_DeepCopyInto :: "AMIStoreSpec \<Rightarrow> mem \<Rightarrow> (AMIStoreSpec \<times> mem) option" where
  "AMIStoreSpec_DeepCopyInto i m = Some (i, m)"
definition AMIStoreSpec_DeepCopy :: "addr option \<Rightarrow> mem \<Rightarrow> (addr option \<times> mem) option" where
  "AMIStoreSpec_DeepCopy = copyPtr is_AMI unAMI CAMI AMIStoreSpec_DeepCopyInto"

definition BackoffSpec_DeepCopyInto :: "BackoffSpec \<Rightarrow> mem \<Rightarrow> (BackoffSpec \<times> mem) option" where
  "BackoffSpec_DeepCopyInto i m =
     (let out = i;
          out = out\<lparr>InitialDelay := InitialDelay i\<rparr>;
          out = out\<lparr>MaxDelay := MaxDelay i\<rparr>
      in Some (out, m))"
definition BackoffSpec_DeepCopy :: "addr option \<Rightarrow> mem \<Rightarrow> (addr option \<times> mem) option" where
  "BackoffSpec_DeepCopy = copyPtr is_Backoff unBackoff CBackoff BackoffSpec_DeepCopyInto"

definition DriftSpec_DeepCopyInto :: "string \<Rightarrow> mem \<Rightarrow> (string \<times> mem) option" where
  "DriftSpec_DeepCopyInto i m = Some (i, m)"
definition DriftSpec_DeepCopy :: "addr option \<Rightarrow> mem \<Rightarrow> (addr option \<times> mem) option" where
  "DriftSpec_DeepCopy = copyPtr is_Drift unDrift CDrift DriftSpec_DeepCopyInto"

definition FakeStoreSpec_DeepCopyInto :: "unit \<Rightarrow> mem \<Rightarrow> (unit \<times> mem) option" where
  "FakeStoreSpec_DeepCopyInto i m = Some (i, m)"
definition FakeStoreSpec_DeepCopy :: "addr option \<Rightarrow> mem \<Rightarrow> (addr option \<times> mem) option" where
  "FakeStoreSpec_DeepCopy = copyPtr is_Fake unFake CFake FakeStoreSpec_DeepCopyInto"

definition GeneratorReference_DeepCopyInto :: "GeneratorReference \<Rightarrow> mem \<Rightarrow> (GeneratorReference \<times> mem) option" where
  "GeneratorReference_DeepCopyInto i m = Some (i, m)"
definition GeneratorReference_DeepCopy :: "addr option \<Rightarrow> mem \<Rightarrow> (addr option \<times> mem) option" where
  "GeneratorReference_DeepCopy = copyPtr is_GenRef unGenRef CGenRef GeneratorReference_DeepCopyInto"

definition OCIStoreSpec_DeepCopyInto :: "OCIStoreSpec \<Rightarrow> mem \<Rightarrow> (OCIStoreSpec \<times> mem) option" where
  "OCIStoreSpec_DeepCopyInto i m = Some (i, m)"
definition OCIStoreSpec_DeepCopy :: "addr option \<Rightarrow> mem \<Rightarrow> (addr option \<times> mem) option" where
  "OCIStoreSpec_DeepCopy = copyPtr is_OCI unOCI COCI OCIStoreSpec_DeepCopyInto"

definition S3StoreSpec_DeepCopyInto :: "S3StoreSpec \<Rightarrow> mem \<Rightarrow> (S3StoreSpec \<times> mem) option" where
  "S3StoreSpec_DeepCopyInto i m = Some (i, m)"
definition S3StoreSpec_DeepCopy :: "addr option \<Rightarrow> mem \<Rightarrow> (addr option \<times> mem) option" where
  "S3StoreSpec_DeepCopy = copyPtr is_S3 unS3 CS3 S3StoreSpec_DeepCopyInto"

definition ArtifactSpec_DeepCopyInto :: "mArtifactSpec \<Rightarrow> mem \<Rightarrow> (mArtifactSpec \<times> mem) option" where
  "ArtifactSpec_DeepCopyInto i m = do {
     let out = i\<lparr>mClassRef := mClassRef i\<rparr>;
     (p, m) \<leftarrow> copyPtr is_Map unMap CMap copyMap (mIdentity i) m;
     let out = out\<lparr>mIdentity := p\<rparr>;
     (p, m) \<leftarrow> copyPtr is_Map unMap CMap copyMap (mParams i) m;
     let out = out\<lparr>mParams := p, mInterval := mInterval i\<rparr>;
     (p, m) \<leftarrow> copyPtr is_Dur unDur CDur copyVal (mTTL i) m;
     let out = out\<lparr>mTTL := p\<rparr>;
     (p, m) \<leftarrow> copyPtr is_Dur unDur CDur copyVal (mDeleteAfter i) m;
     let out = out\<lparr>mDeleteAfter := p\<rparr>;
     Some (out, m)
   }"
definition ArtifactSpec_DeepCopy :: "addr option \<Rightarrow> mem \<Rightarrow> (addr option \<times> mem) option" where
  "ArtifactSpec_DeepCopy = copyPtr is_Spec unSpec CSpec ArtifactSpec_DeepCopyInto"

text \<open>\<open>if in.F != nil { in, out := &in.F, &out.F; *out = (*in).DeepCopy() }\<close> for a time.\<close>

definition copyTime :: "copylib \<Rightarrow> addr option \<Rightarrow> mem \<Rightarrow> (addr option \<times> mem) option" where
  "copyTime L p m = (case p of None \<Rightarrow> Some (None, m) | Some _ \<Rightarrow> timeCopy L p m)"

definition ArtifactStatus_DeepCopyInto :: "copylib \<Rightarrow> mArtifactStatus \<Rightarrow> mem \<Rightarrow> (mArtifactStatus \<times> mem) option" where
  "ArtifactStatus_DeepCopyInto L i m = do {
     let out = i;
     (p, m) \<leftarrow> copyTime L (mLastFailureTime i) m;
     let out = out\<lparr>mLastFailureTime := p\<rparr>;
     (p, m) \<leftarrow> copyPtr is_GenRef unGenRef CGenRef copyVal (mGeneratorRef i) m;
     let out = out\<lparr>mGeneratorRef := p\<rparr>;
     (p, m) \<leftarrow> copyTime L (mGeneratorSucceededAt i) m;
     let out = out\<lparr>mGeneratorSucceededAt := p\<rparr>;
     (p, m) \<leftarrow> copyTime L (mLastVerifiedTime i) m;
     let out = out\<lparr>mLastVerifiedTime := p\<rparr>;
     (p, m) \<leftarrow> copyPtr is_Conds unConds CConds (copyAll (condCopyInto L)) (mConditions i) m;
     let out = out\<lparr>mConditions := p\<rparr>;
     Some (out, m)
   }"
definition ArtifactStatus_DeepCopy :: "copylib \<Rightarrow> addr option \<Rightarrow> mem \<Rightarrow> (addr option \<times> mem) option" where
  "ArtifactStatus_DeepCopy L = copyPtr is_Status unStatus CStatus (ArtifactStatus_DeepCopyInto L)"

definition Artifact_DeepCopyInto :: "copylib \<Rightarrow> mArtifact \<Rightarrow> mem \<Rightarrow> (mArtifact \<times> mem) option" where
  "Artifact_DeepCopyInto L i m = do {
     let out = i\<lparr>maTypeMeta := maTypeMeta i\<rparr>;
     (v, m) \<leftarrow> metaCopyInto L (maObjectMeta i) m;
     let out = out\<lparr>maObjectMeta := v\<rparr>;
     (v, m) \<leftarrow> ArtifactSpec_DeepCopyInto (maSpec i) m;
     let out = out\<lparr>maSpec := v\<rparr>;
     (v, m) \<leftarrow> ArtifactStatus_DeepCopyInto L (maStatus i) m;
     let out = out\<lparr>maStatus := v\<rparr>;
     Some (out, m)
   }"
definition Artifact_DeepCopy :: "copylib \<Rightarrow> addr option \<Rightarrow> mem \<Rightarrow> (addr option \<times> mem) option" where
  "Artifact_DeepCopy L = copyPtr is_Artifact unArtifact CArtifact (Artifact_DeepCopyInto L)"

definition HTTPRequestSpec_DeepCopyInto :: "mHTTPRequestSpec \<Rightarrow> mem \<Rightarrow> (mHTTPRequestSpec \<times> mem) option" where
  "HTTPRequestSpec_DeepCopyInto i m = do {
     let out = i;
     (p, m) \<leftarrow> copyPtr is_Map unMap CMap copyMap (mHeaders i) m;
     let out = out\<lparr>mHeaders := p\<rparr>;
     Some (out, m)
   }"
definition HTTPRequestSpec_DeepCopy :: "addr option \<Rightarrow> mem \<Rightarrow> (addr option \<times> mem) option" where
  "HTTPRequestSpec_DeepCopy = copyPtr is_Req unReq CReq HTTPRequestSpec_DeepCopyInto"

definition HTTPAuthSpec_DeepCopyInto :: "mHTTPAuthSpec \<Rightarrow> mem \<Rightarrow> (mHTTPAuthSpec \<times> mem) option" where
  "HTTPAuthSpec_DeepCopyInto i m = do {
     let out = i;
     (p, m) \<leftarrow> copyPtr is_LocalRef unLocalRef CLocalRef copyVal (mAuthSecretRef i) m;
     let out = out\<lparr>mAuthSecretRef := p\<rparr>;
     (p, m) \<leftarrow> copyPtr is_Strs unStrs CStrs copyVal (mScopes i) m;
     let out = out\<lparr>mScopes := p\<rparr>;
     Some (out, m)
   }"
definition HTTPAuthSpec_DeepCopy :: "addr option \<Rightarrow> mem \<Rightarrow> (addr option \<times> mem) option" where
  "HTTPAuthSpec_DeepCopy = copyPtr is_Auth unAuth CAuth HTTPAuthSpec_DeepCopyInto"

definition HTTPStoreSpec_DeepCopyInto :: "mHTTPStoreSpec \<Rightarrow> mem \<Rightarrow> (mHTTPStoreSpec \<times> mem) option" where
  "HTTPStoreSpec_DeepCopyInto i m = do {
     let out = i;
     (v, m) \<leftarrow> HTTPRequestSpec_DeepCopyInto (mObserve i) m;
     let out = out\<lparr>mObserve := v\<rparr>;
     (p, m) \<leftarrow> copyPtr is_Req unReq CReq HTTPRequestSpec_DeepCopyInto (mDelete i) m;
     let out = out\<lparr>mDelete := p\<rparr>;
     (p, m) \<leftarrow> copyPtr is_Auth unAuth CAuth HTTPAuthSpec_DeepCopyInto (mAuth i) m;
     let out = out\<lparr>mAuth := p\<rparr>;
     (p, m) \<leftarrow> copyPtr is_Dur unDur CDur copyVal (mTimeout i) m;
     let out = out\<lparr>mTimeout := p\<rparr>;
     Some (out, m)
   }"
definition HTTPStoreSpec_DeepCopy :: "addr option \<Rightarrow> mem \<Rightarrow> (addr option \<times> mem) option" where
  "HTTPStoreSpec_DeepCopy = copyPtr is_HTTP unHTTP CHTTP HTTPStoreSpec_DeepCopyInto"

definition RepoManagerStoreSpec_DeepCopyInto :: "mRepoManagerStoreSpec \<Rightarrow> mem \<Rightarrow> (mRepoManagerStoreSpec \<times> mem) option" where
  "RepoManagerStoreSpec_DeepCopyInto i m = do {
     let out = i;
     (p, m) \<leftarrow> copyPtr is_LocalRef unLocalRef CLocalRef copyVal (mRmSecretRef i) m;
     let out = out\<lparr>mRmSecretRef := p\<rparr>;
     (p, m) \<leftarrow> copyPtr is_Dur unDur CDur copyVal (mRmTimeout i) m;
     let out = out\<lparr>mRmTimeout := p\<rparr>;
     Some (out, m)
   }"
definition RepoManagerStoreSpec_DeepCopy :: "addr option \<Rightarrow> mem \<Rightarrow> (addr option \<times> mem) option" where
  "RepoManagerStoreSpec_DeepCopy = copyPtr is_Repo unRepo CRepo RepoManagerStoreSpec_DeepCopyInto"

definition StoreSpec_DeepCopyInto :: "mStoreSpec \<Rightarrow> mem \<Rightarrow> (mStoreSpec \<times> mem) option" where
  "StoreSpec_DeepCopyInto i m = do {
     let out = i;
     (p, m) \<leftarrow> copyPtr is_S3 unS3 CS3 copyVal (mS3 i) m;
     let out = out\<lparr>mS3 := p\<rparr>;
     (p, m) \<leftarrow> copyPtr is_OCI unOCI COCI copyVal (mOCI i) m;
     let out = out\<lparr>mOCI := p\<rparr>;
     (p, m) \<leftarrow> copyPtr is_HTTP unHTTP CHTTP HTTPStoreSpec_DeepCopyInto (mHTTP i) m;
     let out = out\<lparr>mHTTP := p\<rparr>;
     (p, m) \<leftarrow> copyPtr is_AMI unAMI CAMI copyVal (mAMI i) m;
     let out = out\<lparr>mAMI := p\<rparr>;
     (p, m) \<leftarrow> copyPtr is_Repo unRepo CRepo RepoManagerStoreSpec_DeepCopyInto (mRepoManager i) m;
     let out = out\<lparr>mRepoManager := p\<rparr>;
     (p, m) \<leftarrow> copyPtr is_Fake unFake CFake copyVal (mFake i) m;
     let out = out\<lparr>mFake := p\<rparr>;
     Some (out, m)
   }"
definition StoreSpec_DeepCopy :: "addr option \<Rightarrow> mem \<Rightarrow> (addr option \<times> mem) option" where
  "StoreSpec_DeepCopy = copyPtr is_Store unStore CStore StoreSpec_DeepCopyInto"

definition GeneratorSpec_DeepCopyInto :: "copylib \<Rightarrow> mGeneratorSpec \<Rightarrow> mem \<Rightarrow> (mGeneratorSpec \<times> mem) option" where
  "GeneratorSpec_DeepCopyInto L i m = do {
     let out = i;
     (p, m) \<leftarrow> rawCopyInto L (mTemplate i) m;
     let out = out\<lparr>mTemplate := p\<rparr>;
     (p, m) \<leftarrow> copyPtr is_Dur unDur CDur copyVal (mProgressDeadline i) m;
     let out = out\<lparr>mProgressDeadline := p\<rparr>;
     Some (out, m)
   }"
definition GeneratorSpec_DeepCopy :: "copylib \<Rightarrow> addr option \<Rightarrow> mem \<Rightarrow> (addr option \<times> mem) option" where
  "GeneratorSpec_DeepCopy L = copyPtr is_Gen unGen CGen (GeneratorSpec_DeepCopyInto L)"

definition ArtifactClassSpec_DeepCopyInto :: "copylib \<Rightarrow> mArtifactClassSpec \<Rightarrow> mem \<Rightarrow> (mArtifactClassSpec \<times> mem) option" where
  "ArtifactClassSpec_DeepCopyInto L i m = do {
     let out = i;
     (v, m) \<leftarrow> StoreSpec_DeepCopyInto (mStore i) m;
     let out = out\<lparr>mStore := v\<rparr>;
     (p, m) \<leftarrow> copyPtr is_Gen unGen CGen (GeneratorSpec_DeepCopyInto L) (mGenerator i) m;
     let out = out\<lparr>mGenerator := p\<rparr>;
     (p, m) \<leftarrow> copyPtr is_Backoff unBackoff CBackoff copyVal (mBackoff i) m;
     let out = out\<lparr>mBackoff := p\<rparr>;
     (p, m) \<leftarrow> copyPtr is_Drift unDrift CDrift copyVal (mDrift i) m;
     let out = out\<lparr>mDrift := p, mVerificationGracePeriod := mVerificationGracePeriod i\<rparr>;
     Some (out, m)
   }"
definition ArtifactClassSpec_DeepCopy :: "copylib \<Rightarrow> addr option \<Rightarrow> mem \<Rightarrow> (addr option \<times> mem) option" where
  "ArtifactClassSpec_DeepCopy L = copyPtr is_ClassSpec unClassSpec CClassSpec (ArtifactClassSpec_DeepCopyInto L)"

definition ArtifactClass_DeepCopyInto :: "copylib \<Rightarrow> mArtifactClass \<Rightarrow> mem \<Rightarrow> (mArtifactClass \<times> mem) option" where
  "ArtifactClass_DeepCopyInto L i m = do {
     let out = i\<lparr>mcTypeMeta := mcTypeMeta i\<rparr>;
     (v, m) \<leftarrow> metaCopyInto L (mcObjectMeta i) m;
     let out = out\<lparr>mcObjectMeta := v\<rparr>;
     (v, m) \<leftarrow> ArtifactClassSpec_DeepCopyInto L (mcSpec i) m;
     let out = out\<lparr>mcSpec := v\<rparr>;
     Some (out, m)
   }"
definition ArtifactClass_DeepCopy :: "copylib \<Rightarrow> addr option \<Rightarrow> mem \<Rightarrow> (addr option \<times> mem) option" where
  "ArtifactClass_DeepCopy L = copyPtr is_Class unClass CClass (ArtifactClass_DeepCopyInto L)"

definition ArtifactList_DeepCopyInto :: "copylib \<Rightarrow> mArtifactList \<Rightarrow> mem \<Rightarrow> (mArtifactList \<times> mem) option" where
  "ArtifactList_DeepCopyInto L i m = do {
     let out = i\<lparr>mlTypeMeta := mlTypeMeta i\<rparr>;
     (v, m) \<leftarrow> listMetaCopyInto L (mlListMeta i) m;
     let out = out\<lparr>mlListMeta := v\<rparr>;
     (p, m) \<leftarrow> copyPtr is_Artifacts unArtifacts CArtifacts (copyAll (Artifact_DeepCopyInto L)) (mlItems i) m;
     let out = out\<lparr>mlItems := p\<rparr>;
     Some (out, m)
   }"
definition ArtifactList_DeepCopy :: "copylib \<Rightarrow> addr option \<Rightarrow> mem \<Rightarrow> (addr option \<times> mem) option" where
  "ArtifactList_DeepCopy L = copyPtr is_List unList CList (ArtifactList_DeepCopyInto L)"

definition ArtifactClassList_DeepCopyInto :: "copylib \<Rightarrow> mArtifactList \<Rightarrow> mem \<Rightarrow> (mArtifactList \<times> mem) option" where
  "ArtifactClassList_DeepCopyInto L i m = do {
     let out = i\<lparr>mlTypeMeta := mlTypeMeta i\<rparr>;
     (v, m) \<leftarrow> listMetaCopyInto L (mlListMeta i) m;
     let out = out\<lparr>mlListMeta := v\<rparr>;
     (p, m) \<leftarrow> copyPtr is_Classes unClasses CClasses (copyAll (ArtifactClass_DeepCopyInto L)) (mlItems i) m;
     let out = out\<lparr>mlItems := p\<rparr>;
     Some (out, m)
   }"
definition ArtifactClassList_DeepCopy :: "copylib \<Rightarrow> addr option \<Rightarrow> mem \<Rightarrow> (addr option \<times> mem) option" where
  "ArtifactClassList_DeepCopy L = copyPtr is_List unList CList (ArtifactClassList_DeepCopyInto L)"

text \<open>
  A \<open>runtime.Object\<close> is an interface: a nil pointer becomes the nil interface, not an interface that
  holds a nil pointer.
\<close>

datatype Object = ObjArtifact addr | ObjArtifactClass addr | ObjArtifactList addr | ObjArtifactClassList addr

definition Artifact_DeepCopyObject :: "copylib \<Rightarrow> addr option \<Rightarrow> mem \<Rightarrow> (Object option \<times> mem) option" where
  "Artifact_DeepCopyObject L p m = do {
     (c, m) \<leftarrow> Artifact_DeepCopy L p m;
     Some (case c of Some a \<Rightarrow> Some (ObjArtifact a) | None \<Rightarrow> None, m)
   }"
definition ArtifactClass_DeepCopyObject :: "copylib \<Rightarrow> addr option \<Rightarrow> mem \<Rightarrow> (Object option \<times> mem) option" where
  "ArtifactClass_DeepCopyObject L p m = do {
     (c, m) \<leftarrow> ArtifactClass_DeepCopy L p m;
     Some (case c of Some a \<Rightarrow> Some (ObjArtifactClass a) | None \<Rightarrow> None, m)
   }"
definition ArtifactList_DeepCopyObject :: "copylib \<Rightarrow> addr option \<Rightarrow> mem \<Rightarrow> (Object option \<times> mem) option" where
  "ArtifactList_DeepCopyObject L p m = do {
     (c, m) \<leftarrow> ArtifactList_DeepCopy L p m;
     Some (case c of Some a \<Rightarrow> Some (ObjArtifactList a) | None \<Rightarrow> None, m)
   }"
definition ArtifactClassList_DeepCopyObject :: "copylib \<Rightarrow> addr option \<Rightarrow> mem \<Rightarrow> (Object option \<times> mem) option" where
  "ArtifactClassList_DeepCopyObject L p m = do {
     (c, m) \<leftarrow> ArtifactClassList_DeepCopy L p m;
     Some (case c of Some a \<Rightarrow> Some (ObjArtifactClassList a) | None \<Rightarrow> None, m)
   }"

section \<open>Reading the structs\<close>

text \<open>The value of the development's types an in-memory object stands for; a nil map or slice is empty.\<close>

abbreviation orNil :: "'a list option \<Rightarrow> 'a list" where
  "orNil v \<equiv> (case v of None \<Rightarrow> [] | Some xs \<Rightarrow> xs)"

definition rdObjectMeta :: "heap \<Rightarrow> mObjectMeta \<Rightarrow> ObjectMeta option" where
  "rdObjectMeta h om = do {
     d \<leftarrow> rdPtr is_Time unTime rdVal h (mDeletionTimestamp om);
     f \<leftarrow> rdPtr is_Strs unStrs rdVal h (mFinalizers om);
     a \<leftarrow> rdPtr is_Map unMap rdMap h (mAnnotations om);
     Some \<lparr>Name = mName om, Namespace = mNamespace om, UID = mUID om, Generation = mGeneration om,
       CreationTimestamp = mCreationTimestamp om, DeletionTimestamp = d, Finalizers = orNil f, Annotations = orNil a\<rparr>
   }"

definition rdListMeta :: "heap \<Rightarrow> mListMeta \<Rightarrow> (string \<times> string \<times> int option) option" where
  "rdListMeta h l = do {
     r \<leftarrow> rdPtr is_Int unInt rdVal h (mRemainingItemCount l);
     Some (mResourceVersion l, mContinue l, r)
   }"

definition rdArtifactSpec :: "heap \<Rightarrow> mArtifactSpec \<Rightarrow> ArtifactSpec option" where
  "rdArtifactSpec h s = do {
     i \<leftarrow> rdPtr is_Map unMap rdMap h (mIdentity s);
     p \<leftarrow> rdPtr is_Map unMap rdMap h (mParams s);
     t \<leftarrow> rdPtr is_Dur unDur rdVal h (mTTL s);
     d \<leftarrow> rdPtr is_Dur unDur rdVal h (mDeleteAfter s);
     Some \<lparr>ClassRef = mClassRef s, Identity = orNil i, Params = orNil p, Interval = mInterval s, Suspend = mSuspend s,
       TTL = t, DeleteAfter = d, DeletionPolicy = mDeletionPolicy s, ManagementPolicy = mManagementPolicy s\<rparr>
   }"

definition rdArtifactStatus :: "heap \<Rightarrow> mArtifactStatus \<Rightarrow> ArtifactStatus option" where
  "rdArtifactStatus h s = do {
     lf \<leftarrow> rdPtr is_Time unTime rdVal h (mLastFailureTime s);
     g \<leftarrow> rdPtr is_GenRef unGenRef rdVal h (mGeneratorRef s);
     sa \<leftarrow> rdPtr is_Time unTime rdVal h (mGeneratorSucceededAt s);
     lv \<leftarrow> rdPtr is_Time unTime rdVal h (mLastVerifiedTime s);
     c \<leftarrow> rdPtr is_Conds unConds (rdAll rdVal) h (mConditions s);
     Some \<lparr>ObservedGeneration = mObservedGeneration s, SpecHash = mSpecHash s, Key = mKey s, Digest = mDigest s,
       State = mState s, Attempts = mAttempts s, FailedAttempts = mFailedAttempts s, LastFailureTime = lf,
       LastFailureMessage = mLastFailureMessage s, GeneratorRef = g, GeneratorSucceededAt = sa,
       LastVerifiedTime = lv, RetryToken = mRetryToken s, Conditions = orNil c\<rparr>
   }"

definition rdArtifact :: "heap \<Rightarrow> mArtifact \<Rightarrow> (TypeMeta \<times> Artifact) option" where
  "rdArtifact h a = do {
     om \<leftarrow> rdObjectMeta h (maObjectMeta a);
     s \<leftarrow> rdArtifactSpec h (maSpec a);
     t \<leftarrow> rdArtifactStatus h (maStatus a);
     Some (maTypeMeta a, \<lparr>Meta = om, Spec = s, Status = t\<rparr>)
   }"

definition rdHTTPRequestSpec :: "heap \<Rightarrow> mHTTPRequestSpec \<Rightarrow> HTTPRequestSpec option" where
  "rdHTTPRequestSpec h r = do {
     d \<leftarrow> rdPtr is_Map unMap rdMap h (mHeaders r);
     Some \<lparr>reqMethod = mMethod r, reqURL = mURL r, reqHeaders = orNil d\<rparr>
   }"

definition rdHTTPAuthSpec :: "heap \<Rightarrow> mHTTPAuthSpec \<Rightarrow> HTTPAuthSpec option" where
  "rdHTTPAuthSpec h a = do {
     s \<leftarrow> rdPtr is_LocalRef unLocalRef rdVal h (mAuthSecretRef a);
     c \<leftarrow> rdPtr is_Strs unStrs rdVal h (mScopes a);
     Some \<lparr>authType = mAuthType a, authSecretRef = s, TokenKey = mTokenKey a, UsernameKey = mUsernameKey a,
       PasswordKey = mPasswordKey a, HeaderName = mHeaderName a, authRegion = mAuthRegion a, authService = mAuthService a,
       TokenURL = mTokenURL a, ClientIDKey = mClientIDKey a, ClientSecretKey = mClientSecretKey a, Scopes = orNil c\<rparr>
   }"

definition rdHTTPStoreSpec :: "heap \<Rightarrow> mHTTPStoreSpec \<Rightarrow> HTTPStoreSpec option" where
  "rdHTTPStoreSpec h s = do {
     ob \<leftarrow> rdHTTPRequestSpec h (mObserve s);
     d \<leftarrow> rdPtr is_Req unReq rdHTTPRequestSpec h (mDelete s);
     a \<leftarrow> rdPtr is_Auth unAuth rdHTTPAuthSpec h (mAuth s);
     t \<leftarrow> rdPtr is_Dur unDur rdVal h (mTimeout s);
     Some \<lparr>httpObserve = ob, httpDelete = d, httpExists = mExists s, httpDigest = mHttpDigest s, httpStamp = mStamp s,
       httpStampKey = mStampKey s, httpAuth = a, httpTimeout = t\<rparr>
   }"

definition rdRepoManagerStoreSpec :: "heap \<Rightarrow> mRepoManagerStoreSpec \<Rightarrow> RepoManagerStoreSpec option" where
  "rdRepoManagerStoreSpec h r = do {
     s \<leftarrow> rdPtr is_LocalRef unLocalRef rdVal h (mRmSecretRef r);
     t \<leftarrow> rdPtr is_Dur unDur rdVal h (mRmTimeout r);
     Some \<lparr>rmBaseURL = mBaseURL r, rmRepository = mRepository r, rmSecretRef = s,
       rmStampPropertyKey = mStampPropertyKey r, rmTimeout = t\<rparr>
   }"

definition rdStoreSpec :: "heap \<Rightarrow> mStoreSpec \<Rightarrow> StoreSpec option" where
  "rdStoreSpec h s = do {
     s3 \<leftarrow> rdPtr is_S3 unS3 rdVal h (mS3 s);
     oc \<leftarrow> rdPtr is_OCI unOCI rdVal h (mOCI s);
     ht \<leftarrow> rdPtr is_HTTP unHTTP rdHTTPStoreSpec h (mHTTP s);
     am \<leftarrow> rdPtr is_AMI unAMI rdVal h (mAMI s);
     rm \<leftarrow> rdPtr is_Repo unRepo rdRepoManagerStoreSpec h (mRepoManager s);
     fk \<leftarrow> rdPtr is_Fake unFake rdVal h (mFake s);
     Some \<lparr>Driver = mDriver s, spKeyTemplate = mKeyTemplate s, S3 = s3, OCI = oc, HTTP = ht, AMI = am,
       RepoManager = rm, Fake = fk\<rparr>
   }"

definition rdGeneratorSpec :: "heap \<Rightarrow> mGeneratorSpec \<Rightarrow> GeneratorSpec option" where
  "rdGeneratorSpec h g = do {
     t \<leftarrow> rdPtr is_Bytes unBytes rdVal h (mTemplate g);
     d \<leftarrow> rdPtr is_Dur unDur rdVal h (mProgressDeadline g);
     Some \<lparr>Template = orNil t, SucceededWhen = mSucceededWhen g, FailedWhen = mFailedWhen g,
       InProgressWhen = mInProgressWhen g, gsProgressDeadline = d\<rparr>
   }"

definition rdArtifactClassSpec :: "heap \<Rightarrow> mArtifactClassSpec \<Rightarrow> ArtifactClassSpec option" where
  "rdArtifactClassSpec h s = do {
     st \<leftarrow> rdStoreSpec h (mStore s);
     g \<leftarrow> rdPtr is_Gen unGen rdGeneratorSpec h (mGenerator s);
     b \<leftarrow> rdPtr is_Backoff unBackoff rdVal h (mBackoff s);
     d \<leftarrow> rdPtr is_Drift unDrift rdVal h (mDrift s);
     Some \<lparr>Store = st, Generator = g, Backoff = b, Drift = d, VerificationGracePeriod = mVerificationGracePeriod s\<rparr>
   }"

definition rdArtifactClass :: "heap \<Rightarrow> mArtifactClass \<Rightarrow> (TypeMeta \<times> ObjectMeta \<times> ArtifactClass) option" where
  "rdArtifactClass h c = do {
     om \<leftarrow> rdObjectMeta h (mcObjectMeta c);
     s \<leftarrow> rdArtifactClassSpec h (mcSpec c);
     Some (mcTypeMeta c, om, \<lparr>className = Name om, classSpec = s\<rparr>)
   }"

definition rdArtifactList ::
  "heap \<Rightarrow> mArtifactList \<Rightarrow> (TypeMeta \<times> (string \<times> string \<times> int option) \<times> (TypeMeta \<times> Artifact) list option) option" where
  "rdArtifactList h l = do {
     om \<leftarrow> rdListMeta h (mlListMeta l);
     s \<leftarrow> rdPtr is_Artifacts unArtifacts (rdAll rdArtifact) h (mlItems l);
     Some (mlTypeMeta l, om, s)
   }"

definition rdArtifactClassList ::
  "heap \<Rightarrow> mArtifactList \<Rightarrow>
     (TypeMeta \<times> (string \<times> string \<times> int option) \<times> (TypeMeta \<times> ObjectMeta \<times> ArtifactClass) list option) option" where
  "rdArtifactClassList h l = do {
     om \<leftarrow> rdListMeta h (mlListMeta l);
     s \<leftarrow> rdPtr is_Classes unClasses (rdAll rdArtifactClass) h (mlItems l);
     Some (mlTypeMeta l, om, s)
   }"

section \<open>The methods copy deeply\<close>

definition copylib_ok :: "copylib \<Rightarrow> bool" where
  "copylib_ok L \<longleftrightarrow>
     deep_copier rdObjectMeta (metaCopyInto L) \<and> deep_copier rdListMeta (listMetaCopyInto L)
   \<and> deep_copier (rdPtr is_Bytes unBytes rdVal) (rawCopyInto L) \<and> deep_copier (rdPtr is_Time unTime rdVal) (timeCopy L)
   \<and> deep_copier rdVal (condCopyInto L)"

lemma copylib_okD:
  assumes "copylib_ok L"
  shows "deep_copier rdObjectMeta (metaCopyInto L)" "deep_copier rdListMeta (listMetaCopyInto L)"
    "deep_copier (rdPtr is_Bytes unBytes rdVal) (rawCopyInto L)" "deep_copier (rdPtr is_Time unTime rdVal) (timeCopy L)"
    "deep_copier rdVal (condCopyInto L)"
  using assms by (simp_all add: copylib_ok_def)

text \<open>Every kind of pointer field that is copied, and the step its copy makes.\<close>

lemmas ptr_deep =
  copyPtr_deep [OF copyMap_deep, of is_Map CMap unMap, simplified]
  copyPtr_deep [OF copyVal_deep, of is_Dur CDur unDur, simplified]
  copyPtr_deep [OF copyVal_deep, of is_GenRef CGenRef unGenRef, simplified]
  copyPtr_deep [OF copyVal_deep, of is_LocalRef CLocalRef unLocalRef, simplified]
  copyPtr_deep [OF copyVal_deep, of is_Strs CStrs unStrs, simplified]
  copyPtr_deep [OF copyVal_deep, of is_S3 CS3 unS3, simplified]
  copyPtr_deep [OF copyVal_deep, of is_OCI COCI unOCI, simplified]
  copyPtr_deep [OF copyVal_deep, of is_AMI CAMI unAMI, simplified]
  copyPtr_deep [OF copyVal_deep, of is_Fake CFake unFake, simplified]
  copyPtr_deep [OF copyVal_deep, of is_Backoff CBackoff unBackoff, simplified]
  copyPtr_deep [OF copyVal_deep, of is_Drift CDrift unDrift, simplified]

lemma ArtifactSpec_deep: "deep_copier rdArtifactSpec ArtifactSpec_DeepCopyInto"
proof (rule deep_copierI)
  note D = ptr_deep
  show "rdArtifactSpec h' a = Some x" if "rdArtifactSpec h a = Some x" "h \<subseteq>\<^sub>m h'" for h h' a x
    using that(1) by (auto simp: rdArtifactSpec_def bind_eq_Some_conv dest!: D [THEN deep_copier.rd_mono, OF _ that(2)])
  show "yields m (\<lambda>h b. rdArtifactSpec h b = Some x) m (ArtifactSpec_DeepCopyInto a m)"
    if "rdArtifactSpec (look m) a = Some x" "since m m (\<lambda>_. True)" for m a x
    using that unfolding ArtifactSpec_DeepCopyInto_def rdArtifactSpec_def Let_def bind_eq_Some_conv
    by - (elim exE conjE, (rule D [THEN yields_step], assumption, assumption)+, rule yields_return, assumption, simp)
qed

lemma HTTPRequestSpec_deep: "deep_copier rdHTTPRequestSpec HTTPRequestSpec_DeepCopyInto"
proof (rule deep_copierI)
  note D = ptr_deep
  show "rdHTTPRequestSpec h' a = Some x" if "rdHTTPRequestSpec h a = Some x" "h \<subseteq>\<^sub>m h'" for h h' a x
    using that(1) by (auto simp: rdHTTPRequestSpec_def bind_eq_Some_conv dest!: D [THEN deep_copier.rd_mono, OF _ that(2)])
  show "yields m (\<lambda>h b. rdHTTPRequestSpec h b = Some x) m (HTTPRequestSpec_DeepCopyInto a m)"
    if "rdHTTPRequestSpec (look m) a = Some x" "since m m (\<lambda>_. True)" for m a x
    using that unfolding HTTPRequestSpec_DeepCopyInto_def rdHTTPRequestSpec_def Let_def bind_eq_Some_conv
    by - (elim exE conjE, (rule D [THEN yields_step], assumption, assumption)+, rule yields_return, assumption, simp)
qed

lemma HTTPAuthSpec_deep: "deep_copier rdHTTPAuthSpec HTTPAuthSpec_DeepCopyInto"
proof (rule deep_copierI)
  note D = ptr_deep
  show "rdHTTPAuthSpec h' a = Some x" if "rdHTTPAuthSpec h a = Some x" "h \<subseteq>\<^sub>m h'" for h h' a x
    using that(1) by (auto simp: rdHTTPAuthSpec_def bind_eq_Some_conv dest!: D [THEN deep_copier.rd_mono, OF _ that(2)])
  show "yields m (\<lambda>h b. rdHTTPAuthSpec h b = Some x) m (HTTPAuthSpec_DeepCopyInto a m)"
    if "rdHTTPAuthSpec (look m) a = Some x" "since m m (\<lambda>_. True)" for m a x
    using that unfolding HTTPAuthSpec_DeepCopyInto_def rdHTTPAuthSpec_def Let_def bind_eq_Some_conv
    by - (elim exE conjE, (rule D [THEN yields_step], assumption, assumption)+, rule yields_return, assumption, simp)
qed

lemma RepoManagerStoreSpec_deep: "deep_copier rdRepoManagerStoreSpec RepoManagerStoreSpec_DeepCopyInto"
proof (rule deep_copierI)
  note D = ptr_deep
  show "rdRepoManagerStoreSpec h' a = Some x" if "rdRepoManagerStoreSpec h a = Some x" "h \<subseteq>\<^sub>m h'" for h h' a x
    using that(1) by (auto simp: rdRepoManagerStoreSpec_def bind_eq_Some_conv dest!: D [THEN deep_copier.rd_mono, OF _ that(2)])
  show "yields m (\<lambda>h b. rdRepoManagerStoreSpec h b = Some x) m (RepoManagerStoreSpec_DeepCopyInto a m)"
    if "rdRepoManagerStoreSpec (look m) a = Some x" "since m m (\<lambda>_. True)" for m a x
    using that unfolding RepoManagerStoreSpec_DeepCopyInto_def rdRepoManagerStoreSpec_def Let_def bind_eq_Some_conv
    by - (elim exE conjE, (rule D [THEN yields_step], assumption, assumption)+, rule yields_return, assumption, simp)
qed

lemma HTTPStoreSpec_deep: "deep_copier rdHTTPStoreSpec HTTPStoreSpec_DeepCopyInto"
proof (rule deep_copierI)
  note D = ptr_deep HTTPRequestSpec_deep copyPtr_deep [OF HTTPRequestSpec_deep, of is_Req CReq unReq, simplified] copyPtr_deep [OF HTTPAuthSpec_deep, of is_Auth CAuth unAuth, simplified]
  show "rdHTTPStoreSpec h' a = Some x" if "rdHTTPStoreSpec h a = Some x" "h \<subseteq>\<^sub>m h'" for h h' a x
    using that(1) by (auto simp: rdHTTPStoreSpec_def bind_eq_Some_conv dest!: D [THEN deep_copier.rd_mono, OF _ that(2)])
  show "yields m (\<lambda>h b. rdHTTPStoreSpec h b = Some x) m (HTTPStoreSpec_DeepCopyInto a m)"
    if "rdHTTPStoreSpec (look m) a = Some x" "since m m (\<lambda>_. True)" for m a x
    using that unfolding HTTPStoreSpec_DeepCopyInto_def rdHTTPStoreSpec_def Let_def bind_eq_Some_conv
    by - (elim exE conjE, (rule D [THEN yields_step], assumption, assumption)+, rule yields_return, assumption, simp)
qed

lemma StoreSpec_deep: "deep_copier rdStoreSpec StoreSpec_DeepCopyInto"
proof (rule deep_copierI)
  note D = ptr_deep copyPtr_deep [OF HTTPStoreSpec_deep, of is_HTTP CHTTP unHTTP, simplified] copyPtr_deep [OF RepoManagerStoreSpec_deep, of is_Repo CRepo unRepo, simplified]
  show "rdStoreSpec h' a = Some x" if "rdStoreSpec h a = Some x" "h \<subseteq>\<^sub>m h'" for h h' a x
    using that(1) by (auto simp: rdStoreSpec_def bind_eq_Some_conv dest!: D [THEN deep_copier.rd_mono, OF _ that(2)])
  show "yields m (\<lambda>h b. rdStoreSpec h b = Some x) m (StoreSpec_DeepCopyInto a m)"
    if "rdStoreSpec (look m) a = Some x" "since m m (\<lambda>_. True)" for m a x
    using that unfolding StoreSpec_DeepCopyInto_def rdStoreSpec_def Let_def bind_eq_Some_conv
    by - (elim exE conjE, (rule D [THEN yields_step], assumption, assumption)+, rule yields_return, assumption, simp)
qed

lemma copyTime_deep:
  assumes L: "copylib_ok L"
  shows "deep_copier (rdPtr is_Time unTime rdVal) (copyTime L)"
proof
  note T = copylib_okD(4) [OF L]
  show "rdPtr is_Time unTime rdVal h' p = Some x" if "rdPtr is_Time unTime rdVal h p = Some x" "h \<subseteq>\<^sub>m h'" for h h' p x
    using deep_copier.rd_mono [OF T that] .
  show "\<exists>b n. copyTime L p m = Some (b, n) \<and> prefix m n \<and> rdPtr is_Time unTime rdVal (fresh m n) b = Some x"
    if "rdPtr is_Time unTime rdVal (look m) p = Some x" for m p x
    using deep_copier.copy_ok [OF T that] that by (cases p) (auto simp: copyTime_def rdPtr_def)
qed

lemma ArtifactStatus_deep:
  assumes L: "copylib_ok L"
  shows "deep_copier rdArtifactStatus (ArtifactStatus_DeepCopyInto L)"
proof (rule deep_copierI)
  note D = ptr_deep copyTime_deep [OF L] copyPtr_deep [OF copyAll_deep [OF copylib_okD(5) [OF L]], of is_Conds CConds unConds, simplified]
  show "rdArtifactStatus h' a = Some x" if "rdArtifactStatus h a = Some x" "h \<subseteq>\<^sub>m h'" for h h' a x
    using that(1) by (auto simp: rdArtifactStatus_def bind_eq_Some_conv dest!: D [THEN deep_copier.rd_mono, OF _ that(2)])
  show "yields m (\<lambda>h b. rdArtifactStatus h b = Some x) m (ArtifactStatus_DeepCopyInto L a m)"
    if "rdArtifactStatus (look m) a = Some x" "since m m (\<lambda>_. True)" for m a x
    using that unfolding ArtifactStatus_DeepCopyInto_def rdArtifactStatus_def Let_def bind_eq_Some_conv
    by - (elim exE conjE, (rule D [THEN yields_step], assumption, assumption)+, rule yields_return, assumption, simp)
qed

lemma GeneratorSpec_deep:
  assumes L: "copylib_ok L"
  shows "deep_copier rdGeneratorSpec (GeneratorSpec_DeepCopyInto L)"
proof (rule deep_copierI)
  note D = ptr_deep copylib_okD(3) [OF L]
  show "rdGeneratorSpec h' a = Some x" if "rdGeneratorSpec h a = Some x" "h \<subseteq>\<^sub>m h'" for h h' a x
    using that(1) by (auto simp: rdGeneratorSpec_def bind_eq_Some_conv dest!: D [THEN deep_copier.rd_mono, OF _ that(2)])
  show "yields m (\<lambda>h b. rdGeneratorSpec h b = Some x) m (GeneratorSpec_DeepCopyInto L a m)"
    if "rdGeneratorSpec (look m) a = Some x" "since m m (\<lambda>_. True)" for m a x
    using that unfolding GeneratorSpec_DeepCopyInto_def rdGeneratorSpec_def Let_def bind_eq_Some_conv
    by - (elim exE conjE, (rule D [THEN yields_step], assumption, assumption)+, rule yields_return, assumption, simp)
qed

lemma Artifact_deep:
  assumes L: "copylib_ok L"
  shows "deep_copier rdArtifact (Artifact_DeepCopyInto L)"
proof (rule deep_copierI)
  note D = ptr_deep copylib_okD(1) [OF L] ArtifactSpec_deep ArtifactStatus_deep [OF L]
  show "rdArtifact h' a = Some x" if "rdArtifact h a = Some x" "h \<subseteq>\<^sub>m h'" for h h' a x
    using that(1) by (auto simp: rdArtifact_def bind_eq_Some_conv dest!: D [THEN deep_copier.rd_mono, OF _ that(2)])
  show "yields m (\<lambda>h b. rdArtifact h b = Some x) m (Artifact_DeepCopyInto L a m)"
    if "rdArtifact (look m) a = Some x" "since m m (\<lambda>_. True)" for m a x
    using that unfolding Artifact_DeepCopyInto_def rdArtifact_def Let_def bind_eq_Some_conv
    by - (elim exE conjE, (rule D [THEN yields_step], assumption, assumption)+, rule yields_return, assumption, simp)
qed

lemma ArtifactClassSpec_deep:
  assumes L: "copylib_ok L"
  shows "deep_copier rdArtifactClassSpec (ArtifactClassSpec_DeepCopyInto L)"
proof (rule deep_copierI)
  note D = ptr_deep StoreSpec_deep copyPtr_deep [OF GeneratorSpec_deep [OF L], of is_Gen CGen unGen, simplified]
  show "rdArtifactClassSpec h' a = Some x" if "rdArtifactClassSpec h a = Some x" "h \<subseteq>\<^sub>m h'" for h h' a x
    using that(1) by (auto simp: rdArtifactClassSpec_def bind_eq_Some_conv dest!: D [THEN deep_copier.rd_mono, OF _ that(2)])
  show "yields m (\<lambda>h b. rdArtifactClassSpec h b = Some x) m (ArtifactClassSpec_DeepCopyInto L a m)"
    if "rdArtifactClassSpec (look m) a = Some x" "since m m (\<lambda>_. True)" for m a x
    using that unfolding ArtifactClassSpec_DeepCopyInto_def rdArtifactClassSpec_def Let_def bind_eq_Some_conv
    by - (elim exE conjE, (rule D [THEN yields_step], assumption, assumption)+, rule yields_return, assumption, simp)
qed

lemma ArtifactClass_deep:
  assumes L: "copylib_ok L"
  shows "deep_copier rdArtifactClass (ArtifactClass_DeepCopyInto L)"
proof (rule deep_copierI)
  note D = ptr_deep copylib_okD(1) [OF L] ArtifactClassSpec_deep [OF L]
  show "rdArtifactClass h' a = Some x" if "rdArtifactClass h a = Some x" "h \<subseteq>\<^sub>m h'" for h h' a x
    using that(1) by (auto simp: rdArtifactClass_def bind_eq_Some_conv dest!: D [THEN deep_copier.rd_mono, OF _ that(2)])
  show "yields m (\<lambda>h b. rdArtifactClass h b = Some x) m (ArtifactClass_DeepCopyInto L a m)"
    if "rdArtifactClass (look m) a = Some x" "since m m (\<lambda>_. True)" for m a x
    using that unfolding ArtifactClass_DeepCopyInto_def rdArtifactClass_def Let_def bind_eq_Some_conv
    by - (elim exE conjE, (rule D [THEN yields_step], assumption, assumption)+, rule yields_return, assumption, simp)
qed

lemma ArtifactList_deep:
  assumes L: "copylib_ok L"
  shows "deep_copier rdArtifactList (ArtifactList_DeepCopyInto L)"
proof (rule deep_copierI)
  note D = ptr_deep copylib_okD(2) [OF L] copyPtr_deep [OF copyAll_deep [OF Artifact_deep [OF L]], of is_Artifacts CArtifacts unArtifacts, simplified]
  show "rdArtifactList h' a = Some x" if "rdArtifactList h a = Some x" "h \<subseteq>\<^sub>m h'" for h h' a x
    using that(1) by (auto simp: rdArtifactList_def bind_eq_Some_conv dest!: D [THEN deep_copier.rd_mono, OF _ that(2)])
  show "yields m (\<lambda>h b. rdArtifactList h b = Some x) m (ArtifactList_DeepCopyInto L a m)"
    if "rdArtifactList (look m) a = Some x" "since m m (\<lambda>_. True)" for m a x
    using that unfolding ArtifactList_DeepCopyInto_def rdArtifactList_def Let_def bind_eq_Some_conv
    by - (elim exE conjE, (rule D [THEN yields_step], assumption, assumption)+, rule yields_return, assumption, simp)
qed

lemma ArtifactClassList_deep:
  assumes L: "copylib_ok L"
  shows "deep_copier rdArtifactClassList (ArtifactClassList_DeepCopyInto L)"
proof (rule deep_copierI)
  note D = ptr_deep copylib_okD(2) [OF L] copyPtr_deep [OF copyAll_deep [OF ArtifactClass_deep [OF L]], of is_Classes CClasses unClasses, simplified]
  show "rdArtifactClassList h' a = Some x" if "rdArtifactClassList h a = Some x" "h \<subseteq>\<^sub>m h'" for h h' a x
    using that(1) by (auto simp: rdArtifactClassList_def bind_eq_Some_conv dest!: D [THEN deep_copier.rd_mono, OF _ that(2)])
  show "yields m (\<lambda>h b. rdArtifactClassList h b = Some x) m (ArtifactClassList_DeepCopyInto L a m)"
    if "rdArtifactClassList (look m) a = Some x" "since m m (\<lambda>_. True)" for m a x
    using that unfolding ArtifactClassList_DeepCopyInto_def rdArtifactClassList_def Let_def bind_eq_Some_conv
    by - (elim exE conjE, (rule D [THEN yields_step], assumption, assumption)+, rule yields_return, assumption, simp)
qed

text \<open>The methods of the structs without pointers copy the value.\<close>

lemma plain_copies:
  "AMIStoreSpec_DeepCopyInto = copyVal" "BackoffSpec_DeepCopyInto = copyVal" "DriftSpec_DeepCopyInto = copyVal"
  "FakeStoreSpec_DeepCopyInto = copyVal" "GeneratorReference_DeepCopyInto = copyVal" "OCIStoreSpec_DeepCopyInto = copyVal"
  "S3StoreSpec_DeepCopyInto = copyVal"
  by (auto simp: fun_eq_iff copyVal_def AMIStoreSpec_DeepCopyInto_def BackoffSpec_DeepCopyInto_def DriftSpec_DeepCopyInto_def
      FakeStoreSpec_DeepCopyInto_def GeneratorReference_DeepCopyInto_def OCIStoreSpec_DeepCopyInto_def
      S3StoreSpec_DeepCopyInto_def)

interpretation spec_copy: deep_copier rdArtifactSpec ArtifactSpec_DeepCopyInto
  by (rule ArtifactSpec_deep)

interpretation store_copy: deep_copier rdStoreSpec StoreSpec_DeepCopyInto
  by (rule StoreSpec_deep)

lemma Artifact_ptr_deep:
  "copylib_ok L \<Longrightarrow> deep_copier (rdPtr is_Artifact unArtifact rdArtifact) (Artifact_DeepCopy L)"
  unfolding Artifact_DeepCopy_def by (rule copyPtr_deep [OF Artifact_deep]) simp_all

lemma ArtifactClass_ptr_deep:
  "copylib_ok L \<Longrightarrow> deep_copier (rdPtr is_Class unClass rdArtifactClass) (ArtifactClass_DeepCopy L)"
  unfolding ArtifactClass_DeepCopy_def by (rule copyPtr_deep [OF ArtifactClass_deep]) simp_all

lemma ArtifactList_ptr_deep:
  "copylib_ok L \<Longrightarrow> deep_copier (rdPtr is_List unList rdArtifactList) (ArtifactList_DeepCopy L)"
  unfolding ArtifactList_DeepCopy_def by (rule copyPtr_deep [OF ArtifactList_deep]) simp_all

lemma ArtifactClassList_ptr_deep:
  "copylib_ok L \<Longrightarrow> deep_copier (rdPtr is_List unList rdArtifactClassList) (ArtifactClassList_DeepCopy L)"
  unfolding ArtifactClassList_DeepCopy_def by (rule copyPtr_deep [OF ArtifactClassList_deep]) simp_all

section \<open>Properties\<close>

text \<open>
  C28: A deep copy of an Artifact, an ArtifactClass or a list of them always succeeds, stands for the
  same value as the original, and shares no memory with it: whatever is written through the copy
  afterwards, the original still reads the same, and whatever is written through the original, the
  copy does.
\<close>

theorem DeepCopy_isolates:
  assumes "copylib_ok L"
  shows "isolating (rdPtr is_Artifact unArtifact rdArtifact) (Artifact_DeepCopy L)
   \<and> isolating (rdPtr is_Class unClass rdArtifactClass) (ArtifactClass_DeepCopy L)
   \<and> isolating (rdPtr is_List unList rdArtifactList) (ArtifactList_DeepCopy L)
   \<and> isolating (rdPtr is_List unList rdArtifactClassList) (ArtifactClassList_DeepCopy L)"
  by (intro conjI Artifact_ptr_deep [OF assms, THEN deep_copier.isolates] ArtifactClass_ptr_deep [OF assms, THEN deep_copier.isolates]
      ArtifactList_ptr_deep [OF assms, THEN deep_copier.isolates] ArtifactClassList_ptr_deep [OF assms, THEN deep_copier.isolates])

text \<open>
  \<open>DeepCopyObject\<close> returns the nil interface exactly for a nil pointer, and otherwise an interface
  that holds the copy.
\<close>

lemma DeepCopyObject_nil:
  "Artifact_DeepCopyObject L p m = Some (ob, n) \<Longrightarrow> (ob = None \<longleftrightarrow> p = None)"
  "ArtifactClass_DeepCopyObject L p m = Some (ob, n) \<Longrightarrow> (ob = None \<longleftrightarrow> p = None)"
  "ArtifactList_DeepCopyObject L p m = Some (ob, n) \<Longrightarrow> (ob = None \<longleftrightarrow> p = None)"
  "ArtifactClassList_DeepCopyObject L p m = Some (ob, n) \<Longrightarrow> (ob = None \<longleftrightarrow> p = None)"
  by (auto simp: Artifact_DeepCopyObject_def ArtifactClass_DeepCopyObject_def ArtifactList_DeepCopyObject_def
      ArtifactClassList_DeepCopyObject_def Artifact_DeepCopy_def ArtifactClass_DeepCopy_def ArtifactList_DeepCopy_def
      ArtifactClassList_DeepCopy_def copyPtr_def bind_eq_Some_conv split: option.splits)

section \<open>An example\<close>

text \<open>Methods of the other packages that keep their contract, and an Artifact in memory.\<close>

definition demoMetaCopy :: "mObjectMeta \<Rightarrow> mem \<Rightarrow> (mObjectMeta \<times> mem) option" where
  "demoMetaCopy i m = do {
     (p, m) \<leftarrow> copyPtr is_Time unTime CTime copyVal (mDeletionTimestamp i) m;
     (q, m) \<leftarrow> copyPtr is_Strs unStrs CStrs copyVal (mFinalizers i) m;
     (r, m) \<leftarrow> copyPtr is_Map unMap CMap copyMap (mAnnotations i) m;
     Some (i\<lparr>mDeletionTimestamp := p, mFinalizers := q, mAnnotations := r\<rparr>, m)
   }"

definition demoListMetaCopy :: "mListMeta \<Rightarrow> mem \<Rightarrow> (mListMeta \<times> mem) option" where
  "demoListMetaCopy i m = do {
     (p, m) \<leftarrow> copyPtr is_Int unInt CInt copyVal (mRemainingItemCount i) m;
     Some (i\<lparr>mRemainingItemCount := p\<rparr>, m)
   }"

definition demoCopyLib :: copylib where
  "demoCopyLib = \<lparr>metaCopyInto = demoMetaCopy, listMetaCopyInto = demoListMetaCopy,
     rawCopyInto = copyPtr is_Bytes unBytes CBytes copyVal, timeCopy = copyPtr is_Time unTime CTime copyVal,
     condCopyInto = copyVal\<rparr>"

lemma demoMetaCopy_deep: "deep_copier rdObjectMeta demoMetaCopy"
proof (rule deep_copierI)
  note D = ptr_deep copyPtr_deep [OF copyVal_deep, of is_Time CTime unTime, simplified]
  show "rdObjectMeta h' a = Some x" if "rdObjectMeta h a = Some x" "h \<subseteq>\<^sub>m h'" for h h' a x
    using that(1) by (auto simp: rdObjectMeta_def bind_eq_Some_conv dest!: D [THEN deep_copier.rd_mono, OF _ that(2)])
  show "yields m (\<lambda>h b. rdObjectMeta h b = Some x) m (demoMetaCopy a m)"
    if "rdObjectMeta (look m) a = Some x" "since m m (\<lambda>_. True)" for m a x
    using that unfolding demoMetaCopy_def rdObjectMeta_def Let_def bind_eq_Some_conv
    by - (elim exE conjE, (rule D [THEN yields_step], assumption, assumption)+, rule yields_return, assumption, simp)
qed

lemma demoListMetaCopy_deep: "deep_copier rdListMeta demoListMetaCopy"
proof (rule deep_copierI)
  note D = copyPtr_deep [OF copyVal_deep, of is_Int CInt unInt, simplified]
  show "rdListMeta h' a = Some x" if "rdListMeta h a = Some x" "h \<subseteq>\<^sub>m h'" for h h' a x
    using that(1) by (auto simp: rdListMeta_def bind_eq_Some_conv dest!: D [THEN deep_copier.rd_mono, OF _ that(2)])
  show "yields m (\<lambda>h b. rdListMeta h b = Some x) m (demoListMetaCopy a m)"
    if "rdListMeta (look m) a = Some x" "since m m (\<lambda>_. True)" for m a x
    using that unfolding demoListMetaCopy_def rdListMeta_def Let_def bind_eq_Some_conv
    by - (elim exE conjE, (rule D [THEN yields_step], assumption, assumption)+, rule yields_return, assumption, simp)
qed

lemma demoCopyLib_ok: "copylib_ok demoCopyLib"
  unfolding copylib_ok_def demoCopyLib_def copylib.simps
  by (intro conjI demoMetaCopy_deep demoListMetaCopy_deep copyVal_deep copyPtr_deep) simp_all

interpretation artifact_copy: deep_copier "rdPtr is_Artifact unArtifact rdArtifact" "Artifact_DeepCopy demoCopyLib"
  by (rule Artifact_ptr_deep [OF demoCopyLib_ok])

definition demoMem :: mem where
  "demoMem = [CMap [(''gitRef'', ''v1'')], CDur 5, CArtifact \<lparr>maTypeMeta = (''Artifact'', ''v1alpha1''),
     maObjectMeta = \<lparr>mName = ''a'', mNamespace = ''n'', mUID = ''u'', mGeneration = 1, mCreationTimestamp = 0,
        mDeletionTimestamp = None, mFinalizers = None, mAnnotations = None\<rparr>,
     maSpec = \<lparr>mClassRef = ''c'', mIdentity = Some 0, mParams = None, mInterval = 0, mSuspend = False, mTTL = Some 1,
        mDeleteAfter = None, mDeletionPolicy = ''Orphan'', mManagementPolicy = ''Full''\<rparr>,
     maStatus = \<lparr>mObservedGeneration = 0, mSpecHash = [], mKey = [], mDigest = [], mState = StateUnset, mAttempts = 0,
        mFailedAttempts = 0, mLastFailureTime = None, mLastFailureMessage = None, mGeneratorRef = None,
        mGeneratorSucceededAt = None, mLastVerifiedTime = None, mRetryToken = [], mConditions = None\<rparr>\<rparr>]"

text \<open>After a copy, clearing the identity map through the copy does not touch the original's.\<close>

theorem DeepCopy_isolates_witness:
  "\<exists>q n x. Artifact_DeepCopy demoCopyLib (Some 2) demoMem = Some (q, n)
     \<and> rdPtr is_Artifact unArtifact rdArtifact (look n) (Some 2) = Some x
     \<and> rdPtr is_Artifact unArtifact rdArtifact ((look n)(3 \<mapsto> CMap [])) (Some 2) = Some x
     \<and> rdPtr is_Artifact unArtifact rdArtifact ((look n)(0 \<mapsto> CMap [])) q = Some x
     \<and> rdPtr is_Artifact unArtifact rdArtifact ((look n)(3 \<mapsto> CMap [])) q \<noteq> Some x"
proof -
  have "\<exists>x. rdPtr is_Artifact unArtifact rdArtifact (look demoMem) (Some 2) = Some x \<and> x \<noteq> None
      \<and> Identity (Spec (snd (the x))) = [(''gitRef'', ''v1'')]"
    by (simp add: rdPtr_def deref_def look_def demoMem_def rdArtifact_def rdObjectMeta_def rdArtifactSpec_def
        rdArtifactStatus_def rdMap_def rdVal_def)
  then obtain x where x: "rdPtr is_Artifact unArtifact rdArtifact (look demoMem) (Some 2) = Some x" "x \<noteq> None"
      "Identity (Spec (snd (the x))) = [(''gitRef'', ''v1'')]" by blast
  have iso: "isolating (rdPtr is_Artifact unArtifact rdArtifact) (Artifact_DeepCopy demoCopyLib)"
    using DeepCopy_isolates [OF demoCopyLib_ok] by (rule conjunct1)
  from iso [unfolded isolating_def, rule_format, OF x(1)]
  obtain q n where c: "Artifact_DeepCopy demoCopyLib (Some 2) demoMem = Some (q, n)"
      "\<And>h. (\<forall>i < length demoMem. h i = look n i) \<Longrightarrow> rdPtr is_Artifact unArtifact rdArtifact h (Some 2) = Some x"
      "\<And>h. (\<forall>i \<ge> length demoMem. h i = look n i) \<Longrightarrow> rdPtr is_Artifact unArtifact rdArtifact h q = Some x"
    by blast
  have len: "length demoMem = 3" by (simp add: demoMem_def)
  have "rdPtr is_Artifact unArtifact rdArtifact (look n) (Some 2) = Some x" by (rule c(2)) simp
  moreover have "rdPtr is_Artifact unArtifact rdArtifact ((look n)(3 \<mapsto> CMap [])) (Some 2) = Some x" by (rule c(2)) (simp add: len)
  moreover have "rdPtr is_Artifact unArtifact rdArtifact ((look n)(0 \<mapsto> CMap [])) q = Some x" by (rule c(3)) (simp add: len)
  moreover have "rdPtr is_Artifact unArtifact rdArtifact ((look n)(3 \<mapsto> CMap [])) q \<noteq> Some x"
    using c(1) x(2,3)
    by (auto simp: Artifact_DeepCopy_def copyPtr_def deref_def look_def demoMem_def Artifact_DeepCopyInto_def demoCopyLib_def
        demoMetaCopy_def ArtifactSpec_DeepCopyInto_def ArtifactStatus_DeepCopyInto_def copyTime_def copyMap_def copyVal_def rdPtr_def
        rdArtifact_def rdObjectMeta_def rdArtifactSpec_def rdArtifactStatus_def rdMap_def rdVal_def Let_def)
  ultimately show ?thesis using c(1) by blast
qed

end
