(* ===== verification/Spec2Isabelle.thy ===== *)
theory Spec2Isabelle
  imports Wiring Convergence DeepCopy
begin

text \<open>
  \<^bold>\<open>The artifact controller\<close>

  The program is a Kubernetes controller. An \<open>Artifact\<close> names, by a map of identity keys, something
  that must exist in an external store; its \<open>ArtifactClass\<close> says which store and how to produce the
  object when it is missing. The reconciler (\<^verbatim>\<open>src/internal/controller\<close>) looks the object up at a key
  rendered from a template, creates a generator run (any Kubernetes object, rendered from another
  template) when it is missing, follows the run through status expressions, retries within a budget
  and with backoff, and reports through conditions. Store drivers (\<^verbatim>\<open>src/internal/store\<close>) observe and
  delete objects in S3, OCI registries, EC2 images, Artifactory, Nexus or behind a generic HTTP
  API. The identity's hash (\<^verbatim>\<open>src/internal/hash\<close>) is stamped on the objects, so that the controller
  can tell its own from others'.

  \<^bold>\<open>The theories, from the ground up\<close>

  \<^item> \<open>Prelude\<close>: Go's strings, maps, \<open>int32\<close> and \<open>int64\<close> (integers with \<open>wrap32\<close>, \<open>wrap64\<close> after every
    operation), durations and times, errors with their format and arguments, messages.
  \<^item> \<open>ApiTypes\<close> (\<^verbatim>\<open>src/api/v1alpha1/*_types.go\<close>, \<^verbatim>\<open>conditions.go\<close>): one record per struct, the constants,
    defaulting accessors and admission rules.
  \<^item> \<open>GoMemory\<close>, \<open>DeepCopy\<close> (\<^verbatim>\<open>src/api/v1alpha1/zz_generated.deepcopy.go\<close>): the structs again with
    addresses in place of pointers, maps and slices, every \<open>DeepCopyInto\<close>, \<open>DeepCopy\<close> and
    \<open>DeepCopyObject\<close> over an explicit memory, and the locale \<open>deep_copier\<close>, the contract of a deep copy.
  \<^item> \<open>Json\<close>, \<open>JsonParse\<close>, \<open>JsonStruct\<close>: what is used of \<^verbatim>\<open>encoding/json\<close>: the encoding of string maps, the
    decoder into generic values, and the decoder into structs.
  \<^item> \<open>Hash\<close> (\<^verbatim>\<open>src/internal/hash\<close>): \<open>Canonical\<close> down to the rounds of SHA-256 on 32-bit words.
  \<^item> \<open>Template\<close>, \<open>Generator\<close> (\<^verbatim>\<open>src/internal/generator\<close>): text templates, \<open>RenderKey\<close>, \<open>RenderTemplate\<close>,
    and the status evaluator with its program cache (locale \<open>status_evaluator\<close>).
  \<^item> \<open>Store\<close> (\<^verbatim>\<open>src/internal/store/store.go\<close>, \<^verbatim>\<open>fake\<close>): observations, the driver interface (locale
    \<open>store_driver\<close>, and \<open>exclusive_store\<close> for drivers that touch only the key they are given), the
    registry and the fake store.
  \<^item> \<open>Kube\<close>: the libraries and the API server as parameters (records \<open>lib\<close>, \<open>client\<close>) with the laws
    their documentation states.
  \<^item> \<open>Timing\<close>: \<open>backoffDelay\<close> and \<open>jittered\<close>, the latter with \<open>float64\<close> rounding.
  \<^item> \<open>Controller\<close> (\<^verbatim>\<open>src/internal/controller/artifact_controller.go\<close>): one definition per function. The
    state \<open>rst\<close> of a pass holds the object being reconciled, the outside world, the events emitted
    and the two caches (compiled expressions, watched kinds); a handler returns the \<open>Result\<close> and the
    error with the state it leaves. \<open>reconcile\<close> is cut where the Go function has its sections
    (\<open>reconcileClass\<close>, \<open>reconcileKeyed\<close>); \<open>Reconcile\<close> adds the read and the deferred patch.
  \<^item> \<open>GoHttp\<close>, \<open>AwsAuth\<close> (\<^verbatim>\<open>src/internal/awsauth\<close>): requests, headers, escaping, base64, and signing.
  \<^item> \<open>S3\<close>, \<open>Oci\<close>, \<open>Ami\<close>, \<open>RepoManager\<close>, \<open>HttpStore\<close> (\<^verbatim>\<open>src/internal/store/...\<close>): the drivers.
  \<^item> \<open>Flags\<close>, \<open>Wiring\<close> (\<^verbatim>\<open>src/cmd/main.go\<close>): the command line, the registry with all drivers, the secret
    resolver, the order of start-up and the exit codes.

  \<^bold>\<open>What the theorems show\<close>

  \<^item> \<open>Effects\<close>, \<open>Safety\<close>: the specification \<open>effect\<close> lists what a pass may do to the world, each with
    its guard; every pass refines at most two of them. From this follow the safety properties:
    sensors are never written to, runs are created one at a time within budget and backoff, objects
    with a foreign stamp survive.
  \<^item> \<open>StatusInv\<close>, \<open>Counters\<close>, \<open>History\<close>: invariants of the status along any life of an Artifact, over
    any worlds, clocks and edits of the spec: the condition conventions, the accounting of attempts,
    run names that are not reused.
  \<^item> \<open>Passes\<close>, \<open>Outcomes\<close>, \<open>Deletion\<close>, \<open>Liveness\<close>: what each branch reports and records, errors included;
    Ready only after an observation of our own; the finalizer only after the object is gone; a
    wake-up after every pass that is not final. \<open>Liveness\<close> also holds behaviours the code probably
    does not intend.
  \<^item> \<open>Address\<close>, \<open>System\<close>, \<open>Convergence\<close>: many Artifacts, the API server and the store together (locales
    \<open>run_api\<close>, \<open>shared_world\<close>, \<open>object_api\<close>, interpreted on the cluster). Stamped objects are safe from
    every other Artifact for good; a crash between the creation of a run and the patch is made up
    for without a second run; a missing artifact ends up produced and Ready.
  \<^item> \<open>Hash\<close>, \<open>Generator\<close>, \<open>Timing\<close>: the address loses nothing but by a SHA-256 collision, and can be
    read back; rendering keeps the shape of a template; the expression cache is transparent; the
    backoff loop is the capped exponential; jitter stays within a tenth.
  \<^item> The driver theories: each driver keeps the store contract when its service behaves as
    documented, and the errors it tolerates are the right ones. \<open>Wiring\<close> composes them with the
    reconciler, and shows that secrets of other namespaces have no influence.
  \<^item> \<open>DeepCopy\<close>: a copy stands for the same value and shares no memory with the original.
  \<^item> \<open>Cluster\<close> is a concrete cluster with the fake store, the setting of the repository's controller
    tests; there and in \<open>Examples\<close> the handlers are evaluated and every theorem is applied.

  \<^bold>\<open>Parameters and their hypotheses\<close>

  Code outside the repository is a parameter, and what is relied on is a named hypothesis: \<open>lib_ok\<close>
  (flux conditions, finalizer helpers, unstructured accessors), \<open>s3_api_ok\<close>, \<open>registry_ok\<close>, \<open>ec2_ok\<close>,
  \<open>artifactory_ok\<close>, \<open>nexus_ok\<close> (the services), \<open>signer_ok\<close> (the AWS signer), \<open>copylib_ok\<close> (deep copies of
  other packages), and the laws of the locales of \<open>System\<close> and \<open>Convergence\<close>. Each is shown to hold of
  a concrete instance. The CEL language, the XML decoder, the HTTP transport, URL parsing, template
  constructs beyond field chains, and the flags of other packages are functions about which
  nothing is assumed.

  \<^bold>\<open>Bounds\<close>

  The JSON decoder runs on fuel \<open>2 * length + 1\<close>, which is shown to be enough: any larger fuel gives
  the same result. All other recursions are structural or have a measure. Statements about
  durations ask for values below \<open>2\<^sup>5\<^sup>8\<close> or \<open>2\<^sup>6\<^sup>2\<close> nanoseconds, where \<open>int64\<close> arithmetic does not wrap;
  statements about attempts ask for fewer than \<open>2\<^sup>3\<^sup>1\<close> passes.

  \<^bold>\<open>Abstractions\<close>

  A pass is one step: other parties act between passes, not between the calls of one pass, so a
  change made by somebody else between an observation and the deletion it leads to is outside the
  model. \<open>Observe\<close> reads the world without changing it. The order in which Go iterates over a map is
  the order of a list; results are shown not to depend on it where it matters. \<open>strings.ToLower\<close> is
  the ASCII one. Error texts are kept as format and arguments. The random number of a jitter and
  the clock are parameters of a pass. Mutexes are not modelled, since passes do not interleave, and
  a driver's token cache is as fresh as the driver, which the registry builds for every lookup.

  \<^bold>\<open>Not modelled\<close>

  Registration of the types with a scheme (\<^verbatim>\<open>groupversion_info.go\<close>, the \<open>init\<close> functions), logging, the
  signal handler, and the controller-runtime machinery around \<open>Reconcile\<close> (queue, workers, informer
  caches, leader election): library code that the sources only call.
\<close>

end
